(* ===== verification/Prelude.thy ===== *)
theory Prelude
  imports Main "HOL-Library.Word"
begin

text \<open>
  Shared vocabulary of the development: the machine integers of the Rust sources, the
  three ways a piece of the program can end (a value, a panic, a wait for input that
  never comes), the byte-level readers both halves of the daemon protocol are built from,
  UTF-8 validation as \<^verbatim>\<open>String::from_utf8\<close> performs it, and decimal
  formatting as \<^verbatim>\<open>format!\<close> performs it on unsigned integers.

  A Rust \<^verbatim>\<open>String\<close> is a HOL \<^typ>\<open>string\<close>, one 8-bit character per
  UTF-8 byte, so that \<open>length\<close> is \<^verbatim>\<open>str::len\<close>.
\<close>

named_theorems io_simps \<open>evaluation of the byte readers\<close>
named_theorems wire_defs \<open>definitions of the wire format\<close>

unbundle bit_operations_syntax

section \<open>Machine integers\<close>

type_synonym u8 = "8 word"
type_synonym u16 = "16 word"
type_synonym u32 = "32 word"

text \<open>Signed integers are mathematical integers; the casts say how they wrap.\<close>

type_synonym i16 = int
type_synonym i32 = int

text \<open>\<^verbatim>\<open>n as i16\<close> for a \<^verbatim>\<open>u16\<close>, and \<^verbatim>\<open>n as u16\<close> for an \<^verbatim>\<open>i16\<close>.\<close>

definition as_i16 :: "u16 \<Rightarrow> i16" where
  "as_i16 w = sint w"

definition as_u16 :: "i16 \<Rightarrow> u16" where
  "as_u16 n = word_of_int n"

text \<open>\<^verbatim>\<open>n as u8\<close> for a \<^verbatim>\<open>usize\<close>: the low eight bits.\<close>

definition as_u8 :: "nat \<Rightarrow> u8" where
  "as_u8 n = word_of_nat n"

lemma as_u16_as_i16 [simp]: "as_u16 (as_i16 w) = w"
  by (simp add: as_u16_def as_i16_def)

lemma as_i16_range: "- (2 ^ 15) \<le> as_i16 w \<and> as_i16 w < 2 ^ 15"
  using sint_range_size [of w] by (simp add: as_i16_def word_size)

lemma unat_as_u8: "unat (as_u8 n) = n mod 256"
  by (simp add: as_u8_def unat_of_nat)

lemma unat_as_u8_small [simp]: "n < 256 \<Longrightarrow> unat (as_u8 n) = n"
  by (simp add: unat_as_u8)

section \<open>Panics\<close>

text \<open>
  \<^verbatim>\<open>unwrap\<close>, \<^verbatim>\<open>expect\<close>, \<^verbatim>\<open>assert!\<close> and an
  index out of range end the current task: the value \<open>Panic\<close>. A panic raised by a
  destructor while another panic unwinds ends the whole process: the value \<open>Abort\<close>.
\<close>

datatype 'a outcome = Done 'a | Panic | Abort

fun bind_outcome :: "'a outcome \<Rightarrow> ('a \<Rightarrow> 'b outcome) \<Rightarrow> 'b outcome" where
  "bind_outcome (Done x) f = f x"
| "bind_outcome Panic f = Panic"
| "bind_outcome Abort f = Abort"

definition assert_that :: "bool \<Rightarrow> unit outcome" where
  "assert_that b = (if b then Done () else Panic)"

definition unwrap :: "'a option \<Rightarrow> 'a outcome" where
  "unwrap r = (case r of Some v \<Rightarrow> Done v | None \<Rightarrow> Panic)"

lemma assert_that_simps [simp]: "assert_that True = Done ()" "assert_that False = Panic"
  by (simp_all add: assert_that_def)

lemma unwrap_simps [simp]: "unwrap (Some v) = Done v" "unwrap None = Panic"
  by (simp_all add: unwrap_def)

lemma unwrap_eq_Done [simp]: "unwrap r = Done v \<longleftrightarrow> r = Some v"
  by (cases r) simp_all

lemma assert_that_eq_Done [simp]: "assert_that b = Done u \<longleftrightarrow> b"
  by (simp add: assert_that_def)

lemma bind_outcome_eq_Done:
  "bind_outcome r f = Done y \<longleftrightarrow> (\<exists>x. r = Done x \<and> f x = Done y)"
  by (cases r) auto

text \<open>\<^verbatim>\<open>into_iter().map(f).collect()\<close> with an \<open>f\<close> that may panic.\<close>

fun map_outcome :: "('a \<Rightarrow> 'b outcome) \<Rightarrow> 'a list \<Rightarrow> 'b list outcome" where
  "map_outcome f [] = Done []"
| "map_outcome f (x # xs) = bind_outcome (f x) (\<lambda>y. bind_outcome (map_outcome f xs) (\<lambda>ys. Done (y # ys)))"

lemma map_outcome_Done: "(\<And>x. x \<in> set xs \<Longrightarrow> f x = Done (g x)) \<Longrightarrow> map_outcome f xs = Done (map g xs)"
  by (induction xs) simp_all

section \<open>Programs that act on the world\<close>

text \<open>
  A step of the program that talks to its surroundings takes the world and returns how it
  ended and the world it leaves. A panic keeps the effects made before it.
\<close>

type_synonym ('w, 'a) prog = "'w \<Rightarrow> 'a outcome \<times> 'w"

definition ret :: "'a \<Rightarrow> ('w, 'a) prog" where
  "ret x w = (Done x, w)"

definition lift :: "'a outcome \<Rightarrow> ('w, 'a) prog" where
  "lift r w = (r, w)"

text \<open>An operation of the environment: it always returns, possibly an error value.\<close>

definition call :: "('w \<Rightarrow> 'a \<times> 'w) \<Rightarrow> ('w, 'a) prog" where
  "call f w = (Done (fst (f w)), snd (f w))"

definition bind_prog :: "('w, 'a) prog \<Rightarrow> ('a \<Rightarrow> ('w, 'b) prog) \<Rightarrow> ('w, 'b) prog" where
  "bind_prog p f w =
     (case p w of (Done x, w') \<Rightarrow> f x w' | (Panic, w') \<Rightarrow> (Panic, w') | (Abort, w') \<Rightarrow> (Abort, w'))"

lemma bind_prog_simps [simp]:
  "bind_prog (ret x) f w = f x w"
  "bind_prog (lift (Done x)) f w = f x w"
  "bind_prog (lift Panic) f w = (Panic, w)"
  "bind_prog (lift Abort) f w = (Abort, w)"
  by (simp_all add: bind_prog_def ret_def lift_def)

lemma bind_prog_call: "bind_prog (call g) f w = f (fst (g w)) (snd (g w))"
  by (simp add: bind_prog_def call_def)

lemma bind_prog_assoc: "bind_prog (bind_prog p f) g w = bind_prog p (\<lambda>x. bind_prog (f x) g) w"
  by (auto simp: bind_prog_def split: prod.splits outcome.splits)

lemmas prog_eval = bind_prog_call bind_prog_assoc

lemma bind_prog_Done:
  "bind_prog p f w = (Done y, w'') \<longleftrightarrow>
     (\<exists>x w'. p w = (Done x, w') \<and> f x w' = (Done y, w''))"
  by (auto simp: bind_prog_def split: prod.splits outcome.splits)

lemma lift_Done [simp]: "lift r w = (Done x, w') \<longleftrightarrow> r = Done x \<and> w' = w"
  by (auto simp: lift_def)

lemma ret_Done [simp]: "ret x w = (Done y, w') \<longleftrightarrow> y = x \<and> w' = w"
  by (auto simp: ret_def)

lemma call_Done: "call f w = (Done x, w') \<longleftrightarrow> f w = (x, w')"
  by (cases "f w") (auto simp: call_def)

lemmas prog_Done = bind_prog_Done call_Done

text \<open>\<open>keeps P p\<close>: whatever way \<open>p\<close> ends, it leaves a world with \<open>P\<close> if it got one.\<close>

definition keeps :: "('w \<Rightarrow> bool) \<Rightarrow> ('w, 'a) prog \<Rightarrow> bool" where
  "keeps P p \<longleftrightarrow> (\<forall>w. P w \<longrightarrow> P (snd (p w)))"

lemma keeps_ret [intro!]: "keeps P (ret x)"
  by (simp add: keeps_def ret_def)

lemma keeps_lift [intro!]: "keeps P (lift r)"
  by (simp add: keeps_def lift_def)

lemma keeps_bind [intro!]: "keeps P p \<Longrightarrow> (\<And>x. keeps P (f x)) \<Longrightarrow> keeps P (bind_prog p f)"
proof (unfold keeps_def, intro allI impI)
  fix w assume p: "\<forall>w. P w \<longrightarrow> P (snd (p w))" and f: "\<And>x. \<forall>w. P w \<longrightarrow> P (snd (f x w))" and "P w"
  then have "P (snd (p w))" by simp
  with f show "P (snd (bind_prog p f w))"
    by (cases "p w"; cases "fst (p w)") (simp_all add: bind_prog_def)
qed

lemma keeps_call: "(\<And>w r w'. P w \<Longrightarrow> f w = (r, w') \<Longrightarrow> P w') \<Longrightarrow> keeps P (call f)"
  unfolding keeps_def call_def by (metis prod.collapse snd_conv)

lemma keepsD: "keeps P p \<Longrightarrow> P w \<Longrightarrow> p w = (r, w') \<Longrightarrow> P w'"
  by (metis keeps_def snd_conv)

text \<open>\<open>returns Q p\<close>: every value \<open>p\<close> can end with satisfies \<open>Q\<close>.\<close>

definition returns :: "('a \<Rightarrow> bool) \<Rightarrow> ('w, 'a) prog \<Rightarrow> bool" where
  "returns Q p \<longleftrightarrow> (\<forall>w x w'. p w = (Done x, w') \<longrightarrow> Q x)"

lemma returns_ret [simp]: "returns Q (ret x) \<longleftrightarrow> Q x"
  by (simp add: returns_def)

lemma returns_bind: "(\<And>x. returns Q (f x)) \<Longrightarrow> returns Q (bind_prog p f)"
  unfolding returns_def bind_prog_Done by blast

lemma returnsD: "returns Q p \<Longrightarrow> p w = (Done x, w') \<Longrightarrow> Q x"
  unfolding returns_def by blast

text \<open>
  Destructors. \<open>with_drop p q\<close> runs the destructor \<open>q\<close> when \<open>p\<close> returns and
  when it panics; \<open>on_panic p q\<close> runs it only when \<open>p\<close> panics, for a value that
  outlives \<open>p\<close>. A destructor that panics during unwinding aborts the process.
\<close>

definition unwind :: "('w, unit) prog \<Rightarrow> 'w \<Rightarrow> 'a outcome \<times> 'w" where
  "unwind q w = (case q w of (Done _, w') \<Rightarrow> (Panic, w') | (_, w') \<Rightarrow> (Abort, w'))"

definition on_panic :: "('w, 'a) prog \<Rightarrow> ('w, unit) prog \<Rightarrow> ('w, 'a) prog" where
  "on_panic p q w = (case p w of (Panic, w') \<Rightarrow> unwind q w' | r \<Rightarrow> r)"

definition with_drop :: "('w, 'a) prog \<Rightarrow> ('w, unit) prog \<Rightarrow> ('w, 'a) prog" where
  "with_drop p q w =
     (case p w of
        (Done x, w') \<Rightarrow> bind_prog q (\<lambda>_. ret x) w'
      | (Panic, w') \<Rightarrow> unwind q w'
      | (Abort, w') \<Rightarrow> (Abort, w'))"

lemma on_panic_Done [simp]: "on_panic p q w = (Done x, w') \<longleftrightarrow> p w = (Done x, w')"
  by (auto simp: on_panic_def unwind_def split: prod.splits outcome.splits)

lemma bind_on_panic:
  "bind_prog (on_panic p q) f w =
     (case p w of (Done x, w') \<Rightarrow> f x w' | (Panic, w') \<Rightarrow> unwind q w' | (Abort, w') \<Rightarrow> (Abort, w'))"
  by (auto simp: bind_prog_def on_panic_def unwind_def split: prod.splits outcome.splits)

lemma keeps_on_panic: "keeps P p \<Longrightarrow> keeps P q \<Longrightarrow> keeps P (on_panic p q)"
  unfolding keeps_def on_panic_def unwind_def
  by (auto split: prod.split outcome.split)

section \<open>Reading from a stream\<close>

text \<open>
  A stream is the bytes the peer will ever send and whether it closes its sending side
  afterwards. Asking for more bytes than there are is an error at the end of a closed
  stream and a wait without end on an open one. An I/O operation is therefore
  \<open>Ready (Some v)\<close> (\<^verbatim>\<open>Ok(v)\<close>), \<open>Ready None\<close>
  (\<^verbatim>\<open>Err(_)\<close>) or \<open>Pending\<close>.
\<close>

type_synonym stream = "u8 list \<times> bool"

datatype 'a async = Ready 'a | Pending

type_synonym 'a io = "'a option async"

fun bind_io :: "'a io \<Rightarrow> ('a \<Rightarrow> 'b io) \<Rightarrow> 'b io" where
  "bind_io (Ready (Some x)) f = f x"
| "bind_io (Ready None) f = Ready None"
| "bind_io Pending f = Pending"

definition read_exact :: "nat \<Rightarrow> stream \<Rightarrow> (u8 list \<times> stream) io" where
  "read_exact n s =
     (if n \<le> length (fst s) then Ready (Some (take n (fst s), (drop n (fst s), snd s)))
      else if snd s then Ready None else Pending)"

fun read_u8 :: "stream \<Rightarrow> (u8 \<times> stream) io" where
  "read_u8 (b # bs, eof) = Ready (Some (b, (bs, eof)))"
| "read_u8 ([], eof) = (if eof then Ready None else Pending)"

section \<open>Little-endian integers\<close>

text \<open>
  \<^verbatim>\<open>to_le_bytes\<close> for a word of \<open>n\<close> bytes, and the value a little-endian
  byte sequence denotes.
\<close>

fun le_bytes :: "nat \<Rightarrow> 'a::len word \<Rightarrow> u8 list" where
  "le_bytes 0 w = []"
| "le_bytes (Suc n) w = ucast w # le_bytes n (drop_bit 8 w)"

fun from_le :: "u8 list \<Rightarrow> 'a::len word" where
  "from_le [] = 0"
| "from_le (b # bs) = ucast b OR push_bit 8 (from_le bs)"

definition le_bytes_u16 :: "u16 \<Rightarrow> u8 list" where
  "le_bytes_u16 w = le_bytes 2 w"

definition le_bytes_u32 :: "u32 \<Rightarrow> u8 list" where
  "le_bytes_u32 w = le_bytes 4 w"

definition read_u16_le :: "stream \<Rightarrow> (u16 \<times> stream) io" where
  "read_u16_le s =
     bind_io (read_exact 2 s) (\<lambda>(bs, s'). Ready (Some (from_le bs, s')))"

definition read_u32_le :: "stream \<Rightarrow> (u32 \<times> stream) io" where
  "read_u32_le s =
     bind_io (read_exact 4 s) (\<lambda>(bs, s'). Ready (Some (from_le bs, s')))"

lemma length_le_bytes [simp]: "length (le_bytes n w) = n"
  by (induction n arbitrary: w) auto

lemma length_le_bytes_u16 [simp]: "length (le_bytes_u16 w) = 2"
  and length_le_bytes_u32 [simp]: "length (le_bytes_u32 v) = 4"
  by (simp_all add: le_bytes_u16_def le_bytes_u32_def)

lemma from_le_le_bytes: "from_le (le_bytes n w) = take_bit (8 * n) w"
proof (induction n arbitrary: w)
  case (Suc n)
  show ?case
    by (rule bit_word_eqI) (auto simp: Suc bit_simps)
qed simp

lemma from_le_u16 [simp]: "from_le (le_bytes_u16 w) = w"
  by (simp add: le_bytes_u16_def from_le_le_bytes take_bit_word_eq_self)

lemma from_le_u32 [simp]: "from_le (le_bytes_u32 w) = w"
  by (simp add: le_bytes_u32_def from_le_le_bytes take_bit_word_eq_self)

subsection \<open>What the readers do on input that starts with an encoded value\<close>

lemma read_exact_append [io_simps]:
  "length bs = n \<Longrightarrow> read_exact n (bs @ rest, eof) = Ready (Some (bs, (rest, eof)))"
  by (simp add: read_exact_def)

lemma read_u8_Cons [io_simps]: "read_u8 (b # bs, eof) = Ready (Some (b, (bs, eof)))"
  by simp

lemma read_u16_le_append [io_simps]:
  "read_u16_le (le_bytes_u16 w @ rest, eof) = Ready (Some (w, (rest, eof)))"
  by (simp add: read_u16_le_def read_exact_append)

lemma read_u32_le_append [io_simps]:
  "read_u32_le (le_bytes_u32 w @ rest, eof) = Ready (Some (w, (rest, eof)))"
  by (simp add: read_u32_le_def read_exact_append)

lemma bind_io_eq_Some:
  "bind_io r f = Ready (Some y) \<longleftrightarrow> (\<exists>x. r = Ready (Some x) \<and> f x = Ready (Some y))"
  by (cases "(r, f)" rule: bind_io.cases) auto

lemma bind_io_Pending: "bind_io r f = Pending \<longleftrightarrow>
    r = Pending \<or> (\<exists>x. r = Ready (Some x) \<and> f x = Pending)"
  by (cases "(r, f)" rule: bind_io.cases) auto

text \<open>A closed stream never makes a reader wait.\<close>

lemma read_u8_closed: "snd s \<Longrightarrow> read_u8 s \<noteq> Pending"
  by (cases s rule: read_u8.cases) auto

lemma read_exact_closed: "snd s \<Longrightarrow> read_exact n s \<noteq> Pending"
  by (simp add: read_exact_def)

lemma read_u16_le_closed: "snd s \<Longrightarrow> read_u16_le s \<noteq> Pending"
  by (auto simp: read_u16_le_def bind_io_Pending read_exact_closed)

lemma read_u32_le_closed: "snd s \<Longrightarrow> read_u32_le s \<noteq> Pending"
  by (auto simp: read_u32_le_def bind_io_Pending read_exact_closed)

lemmas closed_never_waits =
  read_u8_closed read_exact_closed read_u16_le_closed read_u32_le_closed

text \<open>Reading keeps the closed flag.\<close>

lemma read_u8_eof: "read_u8 s = Ready (Some (v, s')) \<Longrightarrow> snd s' = snd s"
  by (cases s rule: read_u8.cases) (auto split: if_splits)

lemma read_exact_eof: "read_exact n s = Ready (Some (v, s')) \<Longrightarrow> snd s' = snd s"
  by (auto simp: read_exact_def split: if_splits)

lemma read_u16_le_eof: "read_u16_le s = Ready (Some (v, s')) \<Longrightarrow> snd s' = snd s"
  by (auto simp: read_u16_le_def bind_io_eq_Some dest: read_exact_eof)

lemma read_u32_le_eof: "read_u32_le s = Ready (Some (v, s')) \<Longrightarrow> snd s' = snd s"
  by (auto simp: read_u32_le_def bind_io_eq_Some dest: read_exact_eof)

lemmas reads_keep_eof = read_u8_eof read_exact_eof read_u16_le_eof read_u32_le_eof

section \<open>Strings and UTF-8\<close>

definition byte_of :: "char \<Rightarrow> u8" where
  "byte_of c = word_of_nat (of_char c)"

definition char_of_byte :: "u8 \<Rightarrow> char" where
  "char_of_byte b = char_of (unat b)"

lemma char_of_byte_byte_of [simp]: "char_of_byte (byte_of c) = c"
  by (simp add: byte_of_def char_of_byte_def unat_of_nat)

lemma byte_of_char_of_byte [simp]: "byte_of (char_of_byte b) = b"
  using unsigned_less [of b, where ?'a = nat] by (simp add: byte_of_def char_of_byte_def)

text \<open>\<^verbatim>\<open>str::as_bytes\<close>.\<close>

definition as_bytes :: "string \<Rightarrow> u8 list" where
  "as_bytes s = map byte_of s"

lemma length_as_bytes [simp]: "length (as_bytes s) = length s"
  by (simp add: as_bytes_def)

lemma as_bytes_append [simp]: "as_bytes (s @ t) = as_bytes s @ as_bytes t"
  by (simp add: as_bytes_def)

definition is_cont :: "u8 \<Rightarrow> bool" where
  "is_cont b \<longleftrightarrow> 0x80 \<le> b \<and> b \<le> 0xBF"

text \<open>
  Well-formed UTF-8 sequences of one to four bytes: the rows of the Unicode standard's
  table 3-7. Shortest forms only, no surrogates, nothing above U+10FFFF.
\<close>

definition utf8_1 :: "u8 \<Rightarrow> bool" where
  "utf8_1 b \<longleftrightarrow> b < 0x80"

definition utf8_2 :: "u8 \<Rightarrow> u8 \<Rightarrow> bool" where
  "utf8_2 b c \<longleftrightarrow> 0xC2 \<le> b \<and> b \<le> 0xDF \<and> is_cont c"

definition utf8_3 :: "u8 \<Rightarrow> u8 \<Rightarrow> u8 \<Rightarrow> bool" where
  "utf8_3 b c d \<longleftrightarrow> 0xE0 \<le> b \<and> b \<le> 0xEF \<and>
     is_cont c \<and> (b = 0xE0 \<longrightarrow> 0xA0 \<le> c) \<and> (b = 0xED \<longrightarrow> c \<le> 0x9F) \<and> is_cont d"

definition utf8_4 :: "u8 \<Rightarrow> u8 \<Rightarrow> u8 \<Rightarrow> u8 \<Rightarrow> bool" where
  "utf8_4 b c d e \<longleftrightarrow> 0xF0 \<le> b \<and> b \<le> 0xF4 \<and>
     is_cont c \<and> (b = 0xF0 \<longrightarrow> 0x90 \<le> c) \<and> (b = 0xF4 \<longrightarrow> c \<le> 0x8F) \<and>
     is_cont d \<and> is_cont e"

fun utf8_valid :: "u8 list \<Rightarrow> bool" where
  "utf8_valid [] = True"
| "utf8_valid (b # bs) =
     (utf8_1 b \<and> utf8_valid bs \<or>
      (case bs of [] \<Rightarrow> False
       | c # bs2 \<Rightarrow> utf8_2 b c \<and> utf8_valid bs2 \<or>
         (case bs2 of [] \<Rightarrow> False
          | d # bs3 \<Rightarrow> utf8_3 b c d \<and> utf8_valid bs3 \<or>
            (case bs3 of [] \<Rightarrow> False
             | e # bs4 \<Rightarrow> utf8_4 b c d e \<and> utf8_valid bs4))))"

declare utf8_valid.simps(2) [simp del]

text \<open>\<^verbatim>\<open>String::from_utf8\<close>, its error dropped as the callers drop it.\<close>

definition from_utf8 :: "u8 list \<Rightarrow> string option" where
  "from_utf8 bs = (if utf8_valid bs then Some (map char_of_byte bs) else None)"

text \<open>Every Rust \<^verbatim>\<open>String\<close> satisfies this by construction.\<close>

definition rust_string :: "string \<Rightarrow> bool" where
  "rust_string s \<longleftrightarrow> utf8_valid (as_bytes s)"

lemma from_utf8_as_bytes [simp]: "rust_string s \<Longrightarrow> from_utf8 (as_bytes s) = Some s"
  by (simp add: from_utf8_def rust_string_def as_bytes_def comp_def)

lemma from_utf8_rust_string: "from_utf8 bs = Some s \<Longrightarrow> rust_string s \<and> as_bytes s = bs"
  by (auto simp: from_utf8_def rust_string_def as_bytes_def comp_def split: if_splits)

text \<open>Characters (code points) of a string: the bytes that start one.\<close>

definition char_count :: "string \<Rightarrow> nat" where
  "char_count s = length (filter (\<lambda>b. \<not> is_cont b) (as_bytes s))"

lemma lead_not_cont: "b < 0x80 \<or> 0xC2 \<le> b \<Longrightarrow> \<not> is_cont b"
  by (auto simp: is_cont_def word_less_nat_alt word_le_nat_alt)

lemma utf8_lead:
  "utf8_1 b \<Longrightarrow> \<not> is_cont b"
  "utf8_2 b c \<Longrightarrow> \<not> is_cont b"
  "utf8_3 b c d \<Longrightarrow> \<not> is_cont b"
  "utf8_4 b c d e \<Longrightarrow> \<not> is_cont b"
  by (rule lead_not_cont,
      simp add: utf8_1_def utf8_2_def utf8_3_def utf8_4_def word_le_nat_alt)+

lemma utf8_conts:
  "utf8_2 b c \<Longrightarrow> is_cont c" "utf8_3 b c d \<Longrightarrow> is_cont c \<and> is_cont d"
  "utf8_4 b c d e \<Longrightarrow> is_cont c \<and> is_cont d \<and> is_cont e"
  by (simp_all add: utf8_2_def utf8_3_def utf8_4_def)

text \<open>
  A valid sequence is a lead byte, at most three continuation bytes and a valid rest, and
  any other valid rest would do.
\<close>

lemma utf8_valid_decompose:
  assumes "utf8_valid (b # bs)"
  obtains cs r where "bs = cs @ r" "length cs \<le> 3" "list_all is_cont cs" "utf8_valid r" "\<not> is_cont b"
    "\<And>r'. utf8_valid r' \<Longrightarrow> utf8_valid (b # cs @ r')"
proof -
  consider (one) "utf8_1 b" "utf8_valid bs"
    | (two) c r where "bs = c # r" "utf8_2 b c" "utf8_valid r"
    | (three) c d r where "bs = c # d # r" "utf8_3 b c d" "utf8_valid r"
    | (four) c d e r where "bs = c # d # e # r" "utf8_4 b c d e" "utf8_valid r"
    using assms by (auto simp: utf8_valid.simps(2) [of b bs] split: list.split_asm)
  then show thesis
  proof cases
    case one
    then show ?thesis using that [of "[]" bs] utf8_lead(1) by (simp add: utf8_valid.simps(2))
  next
    case two
    then show ?thesis using that [of "[c]" r] utf8_lead(2) utf8_conts(1) by (simp add: utf8_valid.simps(2) [of b])
  next
    case three
    then show ?thesis using that [of "[c, d]" r] utf8_lead(3) utf8_conts(2) by (simp add: utf8_valid.simps(2) [of b])
  next
    case four
    then show ?thesis using that [of "[c, d, e]" r] utf8_lead(4) utf8_conts(3) by (simp add: utf8_valid.simps(2) [of b])
  qed
qed

text \<open>Cutting off a final byte that is a character of its own keeps a text valid.\<close>

lemma utf8_valid_butlast: "utf8_valid (bs @ [x]) \<Longrightarrow> \<not> is_cont x \<Longrightarrow> utf8_valid bs"
proof (induction bs rule: length_induct)
  case (1 bs)
  show ?case
  proof (cases bs)
    case (Cons b t)
    with "1.prems" obtain cs r where t: "t @ [x] = cs @ r" and cs: "list_all is_cont cs" and r: "utf8_valid r"
      and ext: "\<And>r'. utf8_valid r' \<Longrightarrow> utf8_valid (b # cs @ r')"
      using utf8_valid_decompose [of b "t @ [x]"] by (metis append_Cons)
    have "r \<noteq> []"
    proof
      assume "r = []"
      with t have "x \<in> set cs" by (metis append_Nil2 in_set_conv_decomp)
      with cs "1.prems"(2) show False by (simp add: list_all_iff)
    qed
    with t obtain r0 where "r = r0 @ [x]" "t = cs @ r0"
      by (metis append_assoc append_butlast_last_id butlast_append butlast_snoc last_appendR last_snoc)
    with "1.IH" r "1.prems"(2) Cons ext show ?thesis by simp
  qed simp
qed

lemma utf8_length_bound:
  "utf8_valid bs \<Longrightarrow> length bs \<le> 4 * length (filter (\<lambda>b. \<not> is_cont b) bs)"
proof (induction bs rule: length_induct)
  case (1 bs)
  show ?case
  proof (cases bs)
    case (Cons b t)
    with "1.prems" obtain cs r
      where t: "t = cs @ r" "length cs \<le> 3" "utf8_valid r" and b: "\<not> is_cont b"
      by (blast elim: utf8_valid_decompose)
    with "1.IH" Cons have "length r \<le> 4 * length (filter (\<lambda>b. \<not> is_cont b) r)"
      by simp
    with t b Cons show ?thesis by simp
  qed simp
qed

lemma rust_string_length_bound: "rust_string s \<Longrightarrow> length s \<le> 4 * char_count s"
  using utf8_length_bound [of "as_bytes s"] by (simp add: rust_string_def char_count_def)

lemma rust_string_butlast: "rust_string (s @ replicate k (CHR '' '')) \<Longrightarrow> rust_string s"
proof (induction k)
  case (Suc k)
  have space: "\<not> is_cont (byte_of (CHR '' ''))" by (simp add: is_cont_def byte_of_def word_le_nat_alt)
  have "as_bytes (s @ replicate (Suc k) (CHR '' '')) =
      as_bytes (s @ replicate k (CHR '' '')) @ [byte_of (CHR '' '')]"
    by (simp add: as_bytes_def replicate_append_same)
  with Suc.prems space have "rust_string (s @ replicate k (CHR '' ''))"
    using utf8_valid_butlast by (metis rust_string_def)
  then show ?case by (rule Suc.IH)
qed simp

definition is_ascii :: "string \<Rightarrow> bool" where
  "is_ascii s \<longleftrightarrow> list_all (\<lambda>c. byte_of c < 0x80) s"

lemma is_ascii_append [simp]: "is_ascii (s @ t) \<longleftrightarrow> is_ascii s \<and> is_ascii t"
  by (simp add: is_ascii_def)

lemma ascii_rust_string: "is_ascii s \<Longrightarrow> rust_string s"
  by (induction s) (auto simp: is_ascii_def rust_string_def as_bytes_def utf8_1_def utf8_valid.simps(2))

section \<open>Decimal formatting\<close>

text \<open>\<^verbatim>\<open>format!("{n}")\<close> for an unsigned integer.\<close>

fun show_nat :: "nat \<Rightarrow> string" where
  "show_nat n =
     (if n < 10 then [''0123456789'' ! n]
      else show_nat (n div 10) @ [''0123456789'' ! (n mod 10)])"

declare show_nat.simps [simp del]

lemma digit_ascii: "d < 10 \<Longrightarrow> is_ascii [''0123456789'' ! d]"
proof -
  assume "d < 10"
  then have "''0123456789'' ! d \<in> set ''0123456789''" by (intro nth_mem) simp
  moreover have "\<forall>c \<in> set ''0123456789''. byte_of c < 0x80"
    by (simp add: byte_of_def word_less_nat_alt)
  ultimately show ?thesis by (auto simp: is_ascii_def)
qed

lemma show_nat_ascii: "is_ascii (show_nat n)"
proof (induction n rule: show_nat.induct)
  case (1 n)
  then show ?case by (subst show_nat.simps) (auto simp: digit_ascii)
qed

lemma show_nat_not_Nil: "show_nat n \<noteq> []"
  by (subst show_nat.simps) simp

lemma show_nat_length: "n < 10 ^ k \<Longrightarrow> 0 < k \<Longrightarrow> length (show_nat n) \<le> k"
proof (induction n arbitrary: k rule: show_nat.induct)
  case (1 n)
  show ?case
  proof (cases "n < 10")
    case True
    with "1.prems" show ?thesis by (subst show_nat.simps) simp
  next
    case False
    with "1.prems" obtain j where k: "k = Suc j" and j: "0 < j"
      by (cases k; cases "k - 1") auto
    have "n div 10 < 10 ^ j"
      using "1.prems" k by (simp add: less_mult_imp_div_less mult.commute)
    with False j have "length (show_nat (n div 10)) \<le> j"
      using "1.IH" by blast
    with False k show ?thesis by (subst show_nat.simps) simp
  qed
qed

definition digit_value :: "char \<Rightarrow> nat" where
  "digit_value c = of_char c - 48"

definition read_nat :: "string \<Rightarrow> nat" where
  "read_nat s = foldl (\<lambda>n c. 10 * n + digit_value c) 0 s"

lemma digit_value_nth: "d < 10 \<Longrightarrow> digit_value (''0123456789'' ! d) = d"
proof -
  assume "d < 10"
  then have "d \<in> {0, 1, 2, 3, 4, 5, 6, 7, 8, 9}" by auto
  then show ?thesis by (auto simp: digit_value_def)
qed

lemma read_nat_show_nat: "read_nat (show_nat n) = n"
proof (induction n rule: show_nat.induct)
  case (1 n)
  then show ?case
    by (subst show_nat.simps) (auto simp: read_nat_def digit_value_nth)
qed

definition is_digit :: "char \<Rightarrow> bool" where
  "is_digit c \<longleftrightarrow> c \<in> set ''0123456789''"

lemma show_nat_digits: "list_all is_digit (show_nat n)"
proof (induction n rule: show_nat.induct)
  case (1 n)
  have "is_digit (''0123456789'' ! d)" if "d < 10" for d
    using nth_mem [of d "''0123456789''"] that by (simp add: is_digit_def)
  with 1 show ?case by (subst show_nat.simps) auto
qed

lemma show_nat_inject [simp]: "show_nat m = show_nat n \<longleftrightarrow> m = n"
  using read_nat_show_nat by metis

end
