(* ===== verification/Ports.thy ===== *)
theory Ports
  imports Prelude
begin

text \<open>
  Port mappings as the daemon reads and uses them: \<^verbatim>\<open>challd/src/ports.rs\<close>.
  Reading accepts fewer than ten mappings and consumes five bytes for each; turning them
  into Docker's port-binding table keeps the last mapping of each container port and binds
  to the guest's own address, or to every address of the host for a demo.
\<close>

datatype port_type = Tcp | Udp

fun as_string :: "port_type \<Rightarrow> u16 \<Rightarrow> string" where
  "as_string Tcp port = show_nat (unat port) @ ''/tcp''"
| "as_string Udp port = show_nat (unat port) @ ''/udp''"

record port_mapping =
  from_port :: u16
  to_port :: u16
  mapping_type :: port_type

text \<open>The body of the loop of \<^verbatim>\<open>PortMappings::read\<close>.\<close>

definition read_mapping :: "stream \<Rightarrow> (port_mapping \<times> stream) io" where
  "read_mapping s =
     bind_io (read_u16_le s) (\<lambda>(from_p, s).
     bind_io (read_u16_le s) (\<lambda>(to_p, s).
     bind_io (read_u8 s) (\<lambda>(t, s).
       if t = 0 then Ready (Some (\<lparr>from_port = from_p, to_port = to_p, mapping_type = Tcp\<rparr>, s))
       else if t = 1 then Ready (Some (\<lparr>from_port = from_p, to_port = to_p, mapping_type = Udp\<rparr>, s))
       else Ready None)))"

fun read_mappings :: "nat \<Rightarrow> port_mapping list \<Rightarrow> stream \<Rightarrow> (port_mapping list \<times> stream) io" where
  "read_mappings 0 mappings s = Ready (Some (mappings, s))"
| "read_mappings (Suc n) mappings s =
     bind_io (read_mapping s) (\<lambda>(m, s). read_mappings n (mappings @ [m]) s)"

definition port_mappings_read :: "stream \<Rightarrow> (port_mapping list \<times> stream) io" where
  "port_mappings_read s =
     bind_io (read_u8 s) (\<lambda>(num_mappings, s).
       if num_mappings \<ge> 10 then Ready None
       else read_mappings (unat num_mappings) [] s)"

record port_binding =
  host_ip :: "string option"
  host_port :: "string option"

type_synonym port_table = "string \<rightharpoonup> port_binding list option"

definition binding_of :: "u8 option \<Rightarrow> port_mapping \<Rightarrow> port_binding" where
  "binding_of addr m =
     \<lparr>host_ip = Some (case addr of Some a \<Rightarrow> ''10.4.2.'' @ show_nat (unat a) | None \<Rightarrow> ''0.0.0.0''),
      host_port = Some (as_string (mapping_type m) (to_port m))\<rparr>"

definition into_hashmap :: "port_mapping list \<Rightarrow> u8 option \<Rightarrow> port_table" where
  "into_hashmap mappings addr =
     fold (\<lambda>m h. h(as_string (mapping_type m) (from_port m) \<mapsto> Some [binding_of addr m]))
       mappings Map.empty"

section \<open>Reading\<close>

text \<open>The five bytes one mapping takes on the wire.\<close>

definition mapping_bytes :: "port_mapping \<Rightarrow> u8 list" where
  "mapping_bytes m = le_bytes_u16 (from_port m) @ le_bytes_u16 (to_port m) @
     [case mapping_type m of Tcp \<Rightarrow> 0 | Udp \<Rightarrow> 1]"

lemma length_mapping_bytes [simp]: "length (mapping_bytes m) = 5"
  by (simp add: mapping_bytes_def)

lemma read_mapping_bytes [io_simps]:
  "read_mapping (mapping_bytes m @ rest, eof) = Ready (Some (m, (rest, eof)))"
  by (cases m; cases "mapping_type m")
    (auto simp: read_mapping_def mapping_bytes_def io_simps)

lemma read_mappings_bytes [io_simps]:
  "read_mappings (length ms) acc (concat (map mapping_bytes ms) @ rest, eof)
     = Ready (Some (acc @ ms, (rest, eof)))"
  by (induction ms arbitrary: acc) (simp_all add: io_simps)

lemma read_mappings_length:
  "read_mappings n acc s = Ready (Some (ms, s')) \<Longrightarrow> length ms = length acc + n"
proof (induction n acc s rule: read_mappings.induct)
  case (2 n acc s)
  from "2.prems" obtain m s1 where
    "read_mapping s = Ready (Some (m, s1))" "read_mappings n (acc @ [m]) s1 = Ready (Some (ms, s'))"
    by (auto simp: bind_io_eq_Some)
  with "2.IH" show ?case by fastforce
qed simp

lemma read_mapping_closed: "snd s \<Longrightarrow> read_mapping s \<noteq> Pending"
  unfolding read_mapping_def
  by (auto simp: bind_io_Pending closed_never_waits dest!: reads_keep_eof)

lemma read_mapping_eof: "read_mapping s = Ready (Some (m, s')) \<Longrightarrow> snd s' = snd s"
  unfolding read_mapping_def
  by (auto simp: bind_io_eq_Some dest!: reads_keep_eof split: if_splits)

lemma read_mappings_closed: "snd s \<Longrightarrow> read_mappings n acc s \<noteq> Pending"
proof (induction n acc s rule: read_mappings.induct)
  case (2 n acc s)
  then show ?case
    by (auto simp: bind_io_Pending read_mapping_closed dest: read_mapping_eof)
qed simp

lemma port_mappings_read_closed: "snd s \<Longrightarrow> port_mappings_read s \<noteq> Pending"
  by (auto simp: port_mappings_read_def bind_io_Pending closed_never_waits
      dest: reads_keep_eof read_mappings_closed split: if_splits)

lemma port_mappings_read_limit:
  assumes "port_mappings_read s = Ready (Some (ms, s'))"
  shows "length ms < 10"
proof -
  from assms obtain k s1 where "\<not> k \<ge> (10 :: u8)" "read_mappings (unat k) [] s1 = Ready (Some (ms, s'))"
    by (auto simp: port_mappings_read_def bind_io_eq_Some split: if_splits)
  then show ?thesis
    by (auto dest!: read_mappings_length simp: word_le_nat_alt)
qed

section \<open>Port names and the binding table\<close>

lemma as_string_inject [simp]: "as_string t p = as_string t' p' \<longleftrightarrow> t = t' \<and> p = p'"
  by (cases t; cases t') (auto simp: word_unat_eq_iff)

lemma into_hashmap_snoc:
  "into_hashmap (ms @ [m]) addr =
     (into_hashmap ms addr)(as_string (mapping_type m) (from_port m) \<mapsto> Some [binding_of addr m])"
  by (simp add: into_hashmap_def)

lemma into_hashmap_dom:
  "dom (into_hashmap ms addr) = (\<lambda>m. as_string (mapping_type m) (from_port m)) ` set ms"
proof (induction ms rule: rev_induct)
  case Nil
  then show ?case by (simp add: into_hashmap_def)
next
  case (snoc m ms)
  then show ?case by (simp add: into_hashmap_snoc del: fun_upd_apply)
qed

lemma into_hashmap_source:
  "into_hashmap ms addr k = Some v \<Longrightarrow>
     \<exists>m \<in> set ms. k = as_string (mapping_type m) (from_port m) \<and> v = Some [binding_of addr m]"
proof (induction ms rule: rev_induct)
  case Nil
  then show ?case by (simp add: into_hashmap_def)
next
  case (snoc m ms)
  then show ?case by (auto simp: into_hashmap_snoc split: if_splits)
qed

end
