(* ===== verification/Host.thy ===== *)
theory Host
  imports Ports "HOL-Library.Multiset"
begin

text \<open>
  The daemon's surroundings: external commands, the Docker engine, the kernel's WireGuard
  device, the random source, the file system. None of it is code of the repository, so it
  is a parameter: a record of operations on a world of any type. The locale
  \<open>host_laws\<close> names the documented behaviour the daemon relies on, and \<open>sim_env\<close>
  is a concrete host that keeps those laws, so they can hold together.
\<close>

text \<open>The body of Docker's create request, as \<^verbatim>\<open>Container::create\<close> fills it in.\<close>

record container_body =
  body_image :: string
  stop_timeout :: int
  auto_remove :: bool
  memory :: int
  memory_swap :: int
  nano_cpus :: int
  pids_limit :: int
  port_bindings :: port_table
  runtime :: "string option"

datatype stop_reply = StopOk | Stop404 | StopFailed

type_synonym key = "u8 list"

record wg_peer_cfg =
  peer_key :: key
  peer_allowed :: "u8 list \<times> nat"

record wg_interface_cfg =
  if_name :: string
  if_prvkey :: string
  if_addresses :: "(u8 list \<times> nat) list"
  if_port :: nat

text \<open>
  Operations return their result and the next world. For a command, \<open>None\<close> means it
  could not be spawned and \<open>Some b\<close> whether its exit status was success. The inspect
  reply is the nest of optional fields the caller unwraps: network settings, networks, the
  bridge entry, its address.
\<close>

record 'w env =
  run_command :: "string \<Rightarrow> string list \<Rightarrow> 'w \<Rightarrow> bool option \<times> 'w"
  docker_connect :: "'w \<Rightarrow> bool \<times> 'w"
  docker_create :: "container_body \<Rightarrow> 'w \<Rightarrow> string option \<times> 'w"
  docker_start :: "string \<Rightarrow> 'w \<Rightarrow> bool \<times> 'w"
  docker_inspect :: "string \<Rightarrow> 'w \<Rightarrow> (string \<rightharpoonup> string option) option option option \<times> 'w"
  docker_stop :: "string \<Rightarrow> 'w \<Rightarrow> stop_reply \<times> 'w"
  wg_open :: "string \<Rightarrow> 'w \<Rightarrow> bool \<times> 'w"
  wg_create_interface :: "'w \<Rightarrow> bool \<times> 'w"
  wg_configure_interface :: "wg_interface_cfg \<Rightarrow> 'w \<Rightarrow> bool \<times> 'w"
  wg_configure_peer :: "wg_peer_cfg \<Rightarrow> 'w \<Rightarrow> bool \<times> 'w"
  wg_remove_peer :: "key \<Rightarrow> 'w \<Rightarrow> bool \<times> 'w"
  wg_remove_interface :: "'w \<Rightarrow> bool \<times> 'w"
  random_secret :: "'w \<Rightarrow> u8 list \<times> 'w"
  install_sigterm :: "'w \<Rightarrow> bool \<times> 'w"
  socket_bind :: "string \<Rightarrow> 'w \<Rightarrow> bool \<times> 'w"
  remove_file :: "string \<Rightarrow> 'w \<Rightarrow> bool \<times> 'w"

text \<open>Pure functions of third-party crates: X25519 and base64.\<close>

record crypto =
  public_key_of :: "u8 list \<Rightarrow> u8 list"
  b64_encode :: "u8 list \<Rightarrow> string"

text \<open>Cargo features of the daemon.\<close>

record features =
  gvisor :: bool
  challd_group :: bool
  domain_name :: bool

text \<open>
  \<^verbatim>\<open>assert!(Command::new(p).args(a).status().await.unwrap().success())\<close>.
\<close>

definition run_checked :: "'w env \<Rightarrow> string \<Rightarrow> string list \<Rightarrow> ('w, unit) prog" where
  "run_checked E p a =
     bind_prog (call (run_command E p a)) (\<lambda>r.
     bind_prog (lift (unwrap r)) (\<lambda>ok. lift (assert_that ok)))"

lemma run_checked_Done:
  "run_checked E p a w = (Done u, w') \<longleftrightarrow> run_command E p a w = (Some True, w')"
  by (auto simp: run_checked_def prog_Done)

section \<open>The laws the daemon relies on\<close>

text \<open>
  What matters of a world is its view: the addresses on \<^verbatim>\<open>eth42\<close>, the rules of
  the nat table's \<^verbatim>\<open>PREROUTING\<close> chain, the containers that exist, and the public
  keys of the WireGuard peers. Each operation changes only what its documentation says:
  \<^verbatim>\<open>ip addr add\<close> succeeds only for a new address and \<^verbatim>\<open>ip addr del\<close>
  only for one that is there; \<^verbatim>\<open>iptables -A\<close> adds a rule and
  \<^verbatim>\<open>-D\<close> deletes one occurrence of a matching rule; Docker names a new
  container with a new id, and a container created with automatic removal is gone once
  stopped, as it is when Docker answers 404.
\<close>

record host_view =
  v_addrs :: "string set"
  v_rules :: "string list multiset"
  v_conts :: "string set"
  v_peers :: "key set"

locale host_laws =
  fixes E :: "'w env"
    and view :: "'w \<Rightarrow> host_view"
  assumes ip_add: "run_command E ''ip'' [''addr'', ''add'', a, ''dev'', ''eth42''] w = (Some True, w') \<Longrightarrow>
      a \<notin> v_addrs (view w) \<and> view w' = (view w)\<lparr>v_addrs := insert a (v_addrs (view w))\<rparr>"
    and ip_del: "run_command E ''ip'' [''addr'', ''del'', a, ''dev'', ''eth42''] w = (Some True, w') \<Longrightarrow>
      a \<in> v_addrs (view w) \<and> view w' = (view w)\<lparr>v_addrs := v_addrs (view w) - {a}\<rparr>"
    and nat_append: "run_command E ''iptables'' (''-t'' # ''nat'' # ''-A'' # ''PREROUTING'' # r) w = (Some True, w') \<Longrightarrow>
      view w' = (view w)\<lparr>v_rules := add_mset r (v_rules (view w))\<rparr>"
    and nat_delete: "run_command E ''iptables'' (''-t'' # ''nat'' # ''-D'' # ''PREROUTING'' # r) w = (Some True, w') \<Longrightarrow>
      r \<in># v_rules (view w) \<and> view w' = (view w)\<lparr>v_rules := v_rules (view w) - {#r#}\<rparr>"
    and connect: "docker_connect E w = (c, w') \<Longrightarrow> view w' = view w"
    and create: "docker_create E b w = (Some i, w') \<Longrightarrow>
      i \<notin> v_conts (view w) \<and> view w' = (view w)\<lparr>v_conts := insert i (v_conts (view w))\<rparr>"
    and start: "docker_start E i w = (s, w') \<Longrightarrow> view w' = view w"
    and inspect: "docker_inspect E i w = (n, w') \<Longrightarrow> view w' = view w"
    and stop: "docker_stop E i w = (reply, w') \<Longrightarrow> reply \<noteq> StopFailed \<Longrightarrow>
      view w' = (view w)\<lparr>v_conts := v_conts (view w) - {i}\<rparr>"
    and stop_failed: "docker_stop E i w = (StopFailed, w') \<Longrightarrow> view w' = view w"
    and add_peer: "wg_configure_peer E p w = (True, w') \<Longrightarrow>
      view w' = (view w)\<lparr>v_peers := insert (peer_key p) (v_peers (view w))\<rparr>"
    and del_peer: "wg_remove_peer E k w = (True, w') \<Longrightarrow>
      view w' = (view w)\<lparr>v_peers := v_peers (view w) - {k}\<rparr>"
    and secret: "random_secret E w = (x, w') \<Longrightarrow> view w' = view w"

section \<open>A host that keeps the laws\<close>

record sim_host =
  sh_addrs :: "string list"
  sh_rules :: "string list list"
  sh_conts :: "(nat \<times> container_body) list"
  sh_next :: nat
  sh_images :: "string list"
  sh_peers :: "wg_peer_cfg list"
  sh_links :: "string list"
  sh_files :: "string list"
  sh_entropy :: "u8 list list"

definition sim_container_id :: "nat \<Rightarrow> string" where
  "sim_container_id n = ''c'' @ show_nat n"

definition sim_bridge_addr :: "nat \<Rightarrow> string" where
  "sim_bridge_addr n = ''172.17.0.'' @ show_nat (n + 2)"

definition sim_ip_addr :: "string list \<Rightarrow> sim_host \<Rightarrow> bool option \<times> sim_host" where
  "sim_ip_addr args h =
     (case args of
        [verb, a, d, dev] \<Rightarrow>
          if d \<noteq> ''dev'' \<or> dev \<noteq> ''eth42'' then (Some False, h)
          else if verb = ''add'' then
            (if a \<in> set (sh_addrs h) then (Some False, h)
             else (Some True, h\<lparr>sh_addrs := a # sh_addrs h\<rparr>))
          else if verb = ''del'' then
            (if a \<in> set (sh_addrs h) then (Some True, h\<lparr>sh_addrs := removeAll a (sh_addrs h)\<rparr>)
             else (Some False, h))
          else (Some False, h)
      | _ \<Rightarrow> (Some False, h))"

definition sim_iptables :: "string list \<Rightarrow> sim_host \<Rightarrow> bool option \<times> sim_host" where
  "sim_iptables args h =
     (case args of
        t # tab # verb # chain # r \<Rightarrow>
          if t \<noteq> ''-t'' \<or> tab \<noteq> ''nat'' \<or> chain \<noteq> ''PREROUTING'' then (Some False, h)
          else if verb = ''-A'' then (Some True, h\<lparr>sh_rules := sh_rules h @ [r]\<rparr>)
          else if verb = ''-D'' then
            (if r \<in> set (sh_rules h) then (Some True, h\<lparr>sh_rules := remove1 r (sh_rules h)\<rparr>)
             else (Some False, h))
          else (Some False, h)
      | _ \<Rightarrow> (Some False, h))"

definition sim_ip_link :: "string list \<Rightarrow> sim_host \<Rightarrow> bool option \<times> sim_host" where
  "sim_ip_link args h =
     (case args of
        verb # dev # rest \<Rightarrow>
          if verb = ''add'' then
            (if dev \<in> set (sh_links h) then (Some False, h)
             else (Some True, h\<lparr>sh_links := dev # sh_links h\<rparr>))
          else if verb = ''delete'' then (Some True, h\<lparr>sh_links := removeAll dev (sh_links h)\<rparr>)
          else (Some True, h)
      | _ \<Rightarrow> (Some False, h))"

definition sim_command :: "string \<Rightarrow> string list \<Rightarrow> sim_host \<Rightarrow> bool option \<times> sim_host" where
  "sim_command p args h =
     (if p = ''ip'' then
        (case args of
           obj # rest \<Rightarrow> if obj = ''addr'' then sim_ip_addr rest h
             else if obj = ''link'' then sim_ip_link rest h else (Some False, h)
         | _ \<Rightarrow> (Some False, h))
      else if p = ''iptables'' then sim_iptables args h
      else if p = ''chown'' \<or> p = ''chmod'' then (Some True, h)
      else (None, h))"

definition sim_env :: "sim_host env" where
  "sim_env = \<lparr>
     run_command = sim_command,
     docker_connect = (\<lambda>h. (True, h)),
     docker_create = (\<lambda>b h.
       if body_image b \<in> set (sh_images h)
       then (Some (sim_container_id (sh_next h)),
             h\<lparr>sh_conts := (sh_next h, b) # sh_conts h, sh_next := Suc (sh_next h)\<rparr>)
       else (None, h)),
     docker_start = (\<lambda>i h. (i \<in> sim_container_id ` fst ` set (sh_conts h), h)),
     docker_inspect = (\<lambda>i h.
       (map_option (\<lambda>c. Some (Some [''bridge'' \<mapsto> Some (sim_bridge_addr (fst c))]))
          (find (\<lambda>c. sim_container_id (fst c) = i) (sh_conts h)), h)),
     docker_stop = (\<lambda>i h.
       (if i \<in> sim_container_id ` fst ` set (sh_conts h) then StopOk else Stop404,
        h\<lparr>sh_conts := filter (\<lambda>c. sim_container_id (fst c) \<noteq> i) (sh_conts h)\<rparr>)),
     wg_open = (\<lambda>n h. (True, h)),
     wg_create_interface = (\<lambda>h.
       if ''wg42'' \<in> set (sh_links h) then (False, h) else (True, h\<lparr>sh_links := ''wg42'' # sh_links h\<rparr>)),
     wg_configure_interface = (\<lambda>c h. (True, h\<lparr>sh_peers := []\<rparr>)),
     wg_configure_peer = (\<lambda>p h.
       (True, h\<lparr>sh_peers := p # filter (\<lambda>q. peer_key q \<noteq> peer_key p) (sh_peers h)\<rparr>)),
     wg_remove_peer = (\<lambda>k h. (True, h\<lparr>sh_peers := filter (\<lambda>q. peer_key q \<noteq> k) (sh_peers h)\<rparr>)),
     wg_remove_interface = (\<lambda>h. (True, h\<lparr>sh_links := removeAll ''wg42'' (sh_links h), sh_peers := []\<rparr>)),
     random_secret = (\<lambda>h.
       (case sh_entropy h of [] \<Rightarrow> replicate 32 0 | s # _ \<Rightarrow> take 32 (s @ replicate 32 0), h\<lparr>sh_entropy := drop 1 (sh_entropy h)\<rparr>)),
     install_sigterm = (\<lambda>h. (True, h)),
     socket_bind = (\<lambda>p h.
       if p \<in> set (sh_files h) then (False, h) else (True, h\<lparr>sh_files := p # sh_files h\<rparr>)),
     remove_file = (\<lambda>p h.
       if p \<in> set (sh_files h) then (True, h\<lparr>sh_files := removeAll p (sh_files h)\<rparr>) else (False, h))\<rparr>"

text \<open>
  The simulated engine numbers containers in order, so a new id is new: the view counts
  the containers numbered below the counter.
\<close>

definition sim_view :: "sim_host \<Rightarrow> host_view" where
  "sim_view h = \<lparr>
     v_addrs = set (sh_addrs h),
     v_rules = mset (sh_rules h),
     v_conts = sim_container_id ` {n \<in> fst ` set (sh_conts h). n < sh_next h},
     v_peers = peer_key ` set (sh_peers h)\<rparr>"

lemma sim_container_id_inject [simp]: "sim_container_id m = sim_container_id n \<longleftrightarrow> m = n"
  by (simp add: sim_container_id_def)

lemma sim_env_fields:
  "run_command sim_env = sim_command"
  "docker_connect sim_env h = (True, h)"
  "docker_create sim_env b h =
     (if body_image b \<in> set (sh_images h)
      then (Some (sim_container_id (sh_next h)),
            h\<lparr>sh_conts := (sh_next h, b) # sh_conts h, sh_next := Suc (sh_next h)\<rparr>)
      else (None, h))"
  "docker_start sim_env i h = (i \<in> sim_container_id ` fst ` set (sh_conts h), h)"
  "docker_inspect sim_env i h =
     (map_option (\<lambda>c. Some (Some [''bridge'' \<mapsto> Some (sim_bridge_addr (fst c))]))
        (find (\<lambda>c. sim_container_id (fst c) = i) (sh_conts h)), h)"
  "docker_stop sim_env i h =
     (if i \<in> sim_container_id ` fst ` set (sh_conts h) then StopOk else Stop404,
      h\<lparr>sh_conts := filter (\<lambda>c. sim_container_id (fst c) \<noteq> i) (sh_conts h)\<rparr>)"
  "wg_configure_peer sim_env p h =
     (True, h\<lparr>sh_peers := p # filter (\<lambda>q. peer_key q \<noteq> peer_key p) (sh_peers h)\<rparr>)"
  "wg_remove_peer sim_env k h = (True, h\<lparr>sh_peers := filter (\<lambda>q. peer_key q \<noteq> k) (sh_peers h)\<rparr>)"
  "random_secret sim_env h =
     (case sh_entropy h of [] \<Rightarrow> replicate 32 0 | s # _ \<Rightarrow> take 32 (s @ replicate 32 0), h\<lparr>sh_entropy := drop 1 (sh_entropy h)\<rparr>)"
  by (simp_all add: sim_env_def)

lemmas sim_eval = sim_env_fields sim_command_def sim_ip_addr_def sim_iptables_def run_checked_def prog_eval

lemmas sim_defs = sim_env_def sim_command_def sim_ip_addr_def sim_iptables_def sim_view_def

interpretation sim: host_laws sim_env sim_view
  by (unfold_locales; auto simp: sim_defs less_Suc_eq image_iff split: if_splits; force)

end
