(* ===== verification/Address_Manager.thy ===== *)
theory Address_Manager
  imports Prelude
begin

text \<open>
  The daemon's pool of guest addresses: \<^verbatim>\<open>challd/src/address_manager.rs\<close>. Each
  slot is one atomic flag; \<open>take_next_addr\<close> is the loop of \<^verbatim>\<open>fetch_or\<close>
  operations, and the small-step machine at the end of the theory interleaves several such
  loops at the granularity of one \<^verbatim>\<open>fetch_or\<close> or store.
\<close>

definition MAX_INSTANCES :: nat where
  "MAX_INSTANCES = 6"

record address_manager =
  used_addresses :: "bool list"

fun push_flags :: "nat \<Rightarrow> bool list \<Rightarrow> bool list" where
  "push_flags 0 v = v"
| "push_flags (Suc n) v = push_flags n (v @ [False])"

text \<open>\<^verbatim>\<open>new\<close>: the conversion to an array panics unless the length is right.\<close>

definition address_manager_new :: "address_manager outcome" where
  "address_manager_new =
     (let v = push_flags MAX_INSTANCES []
      in if length v = MAX_INSTANCES then Done \<lparr>used_addresses = v\<rparr> else Panic)"

text \<open>\<^verbatim>\<open>used_addresses[i].fetch_or(true)\<close>: the old flag, and the flag set.\<close>

definition fetch_or_true :: "address_manager \<Rightarrow> nat \<Rightarrow> (bool \<times> address_manager) outcome" where
  "fetch_or_true m i =
     (if i < length (used_addresses m)
      then Done (used_addresses m ! i, m\<lparr>used_addresses := (used_addresses m)[i := True]\<rparr>)
      else Panic)"

definition store_false :: "address_manager \<Rightarrow> nat \<Rightarrow> address_manager outcome" where
  "store_false m i =
     (if i < length (used_addresses m)
      then Done (m\<lparr>used_addresses := (used_addresses m)[i := False]\<rparr>)
      else Panic)"

text \<open>The range \<^verbatim>\<open>lo..hi\<close> of bytes.\<close>

definition u8_range :: "u8 \<Rightarrow> u8 \<Rightarrow> u8 list" where
  "u8_range lo hi = map word_of_nat [unat lo..<unat hi]"

fun take_loop :: "u8 list \<Rightarrow> address_manager \<Rightarrow> (u8 option \<times> address_manager) outcome" where
  "take_loop [] m = Done (None, m)"
| "take_loop (i # is) m =
     bind_outcome (fetch_or_true m (unat i)) (\<lambda>(in_use, m').
       if \<not> in_use then Done (Some (i + 1), m') else take_loop is m')"

definition take_next_addr :: "address_manager \<Rightarrow> (u8 option \<times> address_manager) outcome" where
  "take_next_addr m = take_loop (u8_range 0 (as_u8 MAX_INSTANCES)) m"

text \<open>The range check shared by the address manager, the containers and the interface.\<close>

definition addr_in_range :: "u8 \<Rightarrow> bool" where
  "addr_in_range addr \<longleftrightarrow> 1 \<le> addr \<and> addr \<le> as_u8 MAX_INSTANCES + 1"

definition relinquish_addr :: "address_manager \<Rightarrow> u8 \<Rightarrow> address_manager outcome" where
  "relinquish_addr m addr =
     bind_outcome (assert_that (addr_in_range addr)) (\<lambda>_. store_false m (unat (addr - 1)))"

section \<open>The pool as a set of addresses\<close>

definition pool_wf :: "address_manager \<Rightarrow> bool" where
  "pool_wf m \<longleftrightarrow> length (used_addresses m) = MAX_INSTANCES"

definition pool_addrs :: "u8 set" where
  "pool_addrs = {1, 2, 3, 4, 5, 6}"

definition slot_of :: "u8 \<Rightarrow> nat" where
  "slot_of a = unat (a - 1)"

definition in_use :: "address_manager \<Rightarrow> u8 set" where
  "in_use m = {a \<in> pool_addrs. used_addresses m ! slot_of a}"

lemma pool_addrs_finite [simp]: "finite pool_addrs"
  and pool_addrs_card: "card pool_addrs = MAX_INSTANCES"
  by (simp_all add: pool_addrs_def MAX_INSTANCES_def)

lemma slot_of_less: "a \<in> pool_addrs \<Longrightarrow> slot_of a < MAX_INSTANCES"
  by (auto simp: pool_addrs_def slot_of_def MAX_INSTANCES_def)

lemma slot_of_inject: "slot_of a = slot_of b \<longleftrightarrow> a = b"
  by (simp add: slot_of_def flip: word_unat_eq_iff)

lemma slot_of_Suc: "i < 6 \<Longrightarrow> slot_of (word_of_nat i + 1) = i"
  by (simp add: slot_of_def unat_of_nat)

lemma addr_of_slot: "i < 6 \<Longrightarrow> word_of_nat i + 1 \<in> pool_addrs"
proof -
  assume "i < 6"
  then have "i \<in> {0, 1, 2, 3, 4, 5}" by auto
  then show ?thesis by (auto simp: pool_addrs_def)
qed

lemma pool_addr_in_range: "a \<in> pool_addrs \<Longrightarrow> addr_in_range a"
  by (auto simp: pool_addrs_def addr_in_range_def MAX_INSTANCES_def as_u8_def)

lemma in_use_set_slot:
  assumes "pool_wf m" "a \<in> pool_addrs"
  shows "in_use (m\<lparr>used_addresses := (used_addresses m)[slot_of a := True]\<rparr>) = insert a (in_use m)"
    and "in_use (m\<lparr>used_addresses := (used_addresses m)[slot_of a := False]\<rparr>) = in_use m - {a}"
  using assms slot_of_less
  by (auto simp: in_use_def pool_wf_def nth_list_update slot_of_inject)

lemma address_manager_new_fresh:
  "address_manager_new = Done \<lparr>used_addresses = replicate MAX_INSTANCES False\<rparr>"
  by (simp add: address_manager_new_def MAX_INSTANCES_def numeral_eq_Suc)

lemma fresh_pool:
  "address_manager_new = Done m \<Longrightarrow> pool_wf m \<and> in_use m = {}"
  by (auto simp: address_manager_new_fresh pool_wf_def in_use_def slot_of_less)

section \<open>The loop\<close>

lemma u8_range_0: "n < 256 \<Longrightarrow> u8_range 0 (as_u8 n) = map word_of_nat [0..<n]"
  by (simp add: u8_range_def)

text \<open>The loop takes the address of the first free slot, or leaves the flags as they are.\<close>

lemma take_loop_spec:
  assumes "pool_wf m" "j \<le> 6"
  shows "take_loop (map word_of_nat [j..<6]) m =
     (case filter (\<lambda>i. \<not> used_addresses m ! i) [j..<6] of
        [] \<Rightarrow> Done (None, m)
      | i # _ \<Rightarrow> Done (Some (word_of_nat i + 1), m\<lparr>used_addresses := (used_addresses m)[i := True]\<rparr>))"
  using assms(2)
proof (induction j rule: inc_induct)
  case base
  then show ?case by simp
next
  case (step j)
  have up: "[j..<6] = j # [Suc j..<6]" using step by (simp add: upt_conv_Cons)
  have len: "j < length (used_addresses m)" using step assms(1) by (simp add: pool_wf_def MAX_INSTANCES_def)
  have j: "unat (word_of_nat j :: u8) = j" using step by (simp add: unat_of_nat)
  have fetch: "fetch_or_true m j = Done (used_addresses m ! j, m\<lparr>used_addresses := (used_addresses m)[j := True]\<rparr>)"
    using len by (simp add: fetch_or_true_def)
  show ?case
  proof (cases "used_addresses m ! j")
    case True
    then have "(used_addresses m)[j := True] = used_addresses m"
      by (metis list_update_id)
    then have "m\<lparr>used_addresses := (used_addresses m)[j := True]\<rparr> = m" by simp
    with True j fetch step.IH show ?thesis by (simp add: up)
  next
    case False
    with j fetch show ?thesis by (simp add: up)
  qed
qed

definition free_slots :: "address_manager \<Rightarrow> nat list" where
  "free_slots m = filter (\<lambda>i. \<not> used_addresses m ! i) [0..<6]"

lemma take_next_addr_eq:
  assumes "pool_wf m"
  shows "take_next_addr m =
     (case free_slots m of
        [] \<Rightarrow> Done (None, m)
      | i # _ \<Rightarrow> Done (Some (word_of_nat i + 1), m\<lparr>used_addresses := (used_addresses m)[i := True]\<rparr>))"
  using take_loop_spec [OF assms, of 0]
  by (simp add: take_next_addr_def free_slots_def u8_range_0 MAX_INSTANCES_def)

lemma free_slots_empty: "pool_wf m \<Longrightarrow> free_slots m = [] \<longleftrightarrow> in_use m = pool_addrs"
proof -
  assume wf: "pool_wf m"
  have "free_slots m = [] \<longleftrightarrow> (\<forall>i < 6. used_addresses m ! i)"
    by (auto simp: free_slots_def filter_empty_conv)
  also have "\<dots> \<longleftrightarrow> (\<forall>a \<in> pool_addrs. used_addresses m ! slot_of a)"
    using slot_of_less slot_of_Suc addr_of_slot by (metis MAX_INSTANCES_def)
  finally show ?thesis by (auto simp: in_use_def)
qed

lemma free_slots_Cons:
  assumes wf: "pool_wf m" and free: "free_slots m = i # is"
  shows "i < 6" "word_of_nat i + 1 \<in> pool_addrs - in_use m" "slot_of (word_of_nat i + 1) = i"
    "\<And>b. b \<in> pool_addrs \<Longrightarrow> b < word_of_nat i + 1 \<Longrightarrow> b \<in> in_use m"
proof -
  have in_free: "j \<in> set (free_slots m) \<longleftrightarrow> j < 6 \<and> \<not> used_addresses m ! j" for j
    by (auto simp: free_slots_def)
  with free have i: "i < 6" "\<not> used_addresses m ! i" by fastforce+
  then show "i < 6" "slot_of (word_of_nat i + 1) = i" "word_of_nat i + 1 \<in> pool_addrs - in_use m"
    using slot_of_Suc addr_of_slot by (auto simp: in_use_def)
  fix b assume b: "b \<in> pool_addrs" "b < word_of_nat i + 1"
  have "unat (word_of_nat i + 1 :: u8) = Suc i"
    using i(1) by (simp add: unat_word_ariths unat_of_nat)
  with b have lt: "slot_of b < i"
    by (auto simp: pool_addrs_def slot_of_def word_less_nat_alt)
  have "sorted (free_slots m)" by (simp add: free_slots_def sorted_wrt_filter)
  with free lt have "slot_of b \<notin> set (free_slots m)" by auto
  with in_free lt i(1) b show "b \<in> in_use m" by (simp add: in_use_def)
qed

lemma take_next_addr_Some:
  assumes wf: "pool_wf m" and take: "take_next_addr m = Done (Some a, m')"
  shows "a \<in> pool_addrs - in_use m" "in_use m' = insert a (in_use m)" "pool_wf m'"
    "\<And>b. b \<in> pool_addrs \<Longrightarrow> b < a \<Longrightarrow> b \<in> in_use m"
proof -
  from take obtain i "is" where free: "free_slots m = i # is" and a: "a = word_of_nat i + 1"
    and m': "m' = m\<lparr>used_addresses := (used_addresses m)[i := True]\<rparr>"
    using take_next_addr_eq [OF wf] by (auto split: list.splits)
  note facts = free_slots_Cons [OF wf free]
  from facts a show "a \<in> pool_addrs - in_use m"
    and "\<And>b. b \<in> pool_addrs \<Longrightarrow> b < a \<Longrightarrow> b \<in> in_use m" by blast+
  from facts a m' show "in_use m' = insert a (in_use m)"
    using in_use_set_slot(1) [OF wf, of a] by simp
  from wf m' show "pool_wf m'" by (simp add: pool_wf_def)
qed

lemma take_next_addr_None:
  assumes wf: "pool_wf m" and take: "take_next_addr m = Done (None, m')"
  shows "in_use m = pool_addrs" "m' = m"
  using take_next_addr_eq [OF wf] take free_slots_empty [OF wf]
  by (auto split: list.splits)

lemma take_next_addr_total: "pool_wf m \<Longrightarrow> \<exists>r m'. take_next_addr m = Done (r, m')"
  by (auto simp: take_next_addr_eq split: list.split)

lemma relinquish_addr_pool:
  assumes "pool_wf m" "a \<in> pool_addrs"
  shows "\<exists>m'. relinquish_addr m a = Done m' \<and> pool_wf m' \<and> in_use m' = in_use m - {a}"
proof -
  have "slot_of a < length (used_addresses m)"
    using assms slot_of_less by (simp add: pool_wf_def)
  then show ?thesis
    using assms in_use_set_slot(2) pool_addr_in_range
    by (auto simp: relinquish_addr_def store_false_def slot_of_def [symmetric] pool_wf_def)
qed

lemma relinquish_addr_Done:
  "pool_wf m \<Longrightarrow> a \<in> pool_addrs \<Longrightarrow> relinquish_addr m a = Done m' \<Longrightarrow>
     pool_wf m' \<and> in_use m' = in_use m - {a}"
  using relinquish_addr_pool by fastforce

text \<open>One \<^verbatim>\<open>fetch_or\<close>, in terms of addresses: what the interleaved loops are made of.\<close>

lemma fetch_or_true_addr:
  assumes wf: "pool_wf m" and i: "i < MAX_INSTANCES" and f: "fetch_or_true m i = Done (b, m')"
  shows "pool_wf m'" "in_use m' = insert (word_of_nat i + 1) (in_use m)"
    "b \<longleftrightarrow> word_of_nat i + 1 \<in> in_use m"
proof -
  let ?a = "word_of_nat i + 1 :: u8"
  have a: "?a \<in> pool_addrs" "slot_of ?a = i"
    using i addr_of_slot slot_of_Suc by (simp_all add: MAX_INSTANCES_def)
  from f wf i have "b = used_addresses m ! i" "m' = m\<lparr>used_addresses := (used_addresses m)[i := True]\<rparr>"
    by (auto simp: fetch_or_true_def pool_wf_def)
  with wf a show "pool_wf m'" "in_use m' = insert ?a (in_use m)" "b \<longleftrightarrow> ?a \<in> in_use m"
    using in_use_set_slot(1) [OF wf a(1)] by (auto simp: pool_wf_def in_use_def)
qed

lemma fetch_or_true_total:
  "pool_wf m \<Longrightarrow> i < MAX_INSTANCES \<Longrightarrow> \<exists>b m'. fetch_or_true m i = Done (b, m')"
  by (simp add: fetch_or_true_def pool_wf_def)

section \<open>What a client of the pool may rely on\<close>

text \<open>
  A client takes addresses, keeps the ones it was given and gives back only those. Run
  against any pool that keeps the laws below, it never holds an address twice and the pool
  marks exactly the held addresses.
\<close>

datatype 'a pool_op = Take | Release 'a

fun pool_run ::
  "('p \<Rightarrow> ('a option \<times> 'p) outcome) \<Rightarrow> ('p \<Rightarrow> 'a \<Rightarrow> 'p outcome) \<Rightarrow>
   'a pool_op list \<Rightarrow> 'p \<Rightarrow> 'a list \<Rightarrow> ('p \<times> 'a list) outcome" where
  "pool_run tk rel [] p held = Done (p, held)"
| "pool_run tk rel (Take # ops) p held =
     bind_outcome (tk p) (\<lambda>(r, p').
       pool_run tk rel ops p' (case r of Some a \<Rightarrow> a # held | None \<Rightarrow> held))"
| "pool_run tk rel (Release a # ops) p held =
     (if a \<in> set held
      then bind_outcome (rel p a) (\<lambda>p'. pool_run tk rel ops p' (remove1 a held))
      else pool_run tk rel ops p held)"

locale addr_pool =
  fixes wf :: "'p \<Rightarrow> bool"
    and used :: "'p \<Rightarrow> 'a set"
    and addrs :: "'a set"
    and tk :: "'p \<Rightarrow> ('a option \<times> 'p) outcome"
    and release :: "'p \<Rightarrow> 'a \<Rightarrow> 'p outcome"
  assumes take_total: "wf p \<Longrightarrow> \<exists>r p'. tk p = Done (r, p')"
    and take_Some: "wf p \<Longrightarrow> tk p = Done (Some a, p') \<Longrightarrow>
      a \<in> addrs - used p \<and> used p' = insert a (used p) \<and> wf p'"
    and take_None: "wf p \<Longrightarrow> tk p = Done (None, p') \<Longrightarrow> used p = addrs \<and> p' = p"
    and release_held: "wf p \<Longrightarrow> a \<in> addrs \<Longrightarrow>
      \<exists>p'. release p a = Done p' \<and> wf p' \<and> used p' = used p - {a}"
begin

lemma run_tracks_held:
  assumes "wf p" "used p = set held" "distinct held" "set held \<subseteq> addrs"
  shows "\<exists>p' held'. pool_run tk release ops p held = Done (p', held') \<and> wf p' \<and>
    used p' = set held' \<and> distinct held' \<and> set held' \<subseteq> addrs"
  using assms
proof (induction ops arbitrary: p held)
  case Nil
  then show ?case by simp
next
  case (Cons opn ops)
  show ?case
  proof (cases opn)
    case Take
    from take_total [OF Cons.prems(1)] obtain r p' where t: "tk p = Done (r, p')" by blast
    show ?thesis
    proof (cases r)
      case None
      with t have "p' = p" using take_None [OF Cons.prems(1)] by blast
      with None t Take Cons show ?thesis by simp
    next
      case (Some a)
      with t have "a \<in> addrs - used p" "used p' = insert a (used p)" "wf p'"
        using take_Some [OF Cons.prems(1)] by blast+
      with Some t Take Cons.prems show ?thesis using Cons.IH [of p' "a # held"] by auto
    qed
  next
    case (Release a)
    show ?thesis
    proof (cases "a \<in> set held")
      case True
      with Cons.prems obtain p' where "release p a = Done p'" "wf p'" "used p' = used p - {a}"
        using release_held by blast
      moreover from Cons.prems have "set (remove1 a held) = set held - {a}"
        by (simp add: set_remove1_eq)
      moreover from Cons.prems have "set held - {a} \<subseteq> addrs" by blast
      ultimately show ?thesis
        using True Release Cons.prems Cons.IH [of p' "remove1 a held"] by auto
    next
      case False
      with Cons Release show ?thesis by simp
    qed
  qed
qed

end

interpretation mgr_pool: addr_pool pool_wf in_use pool_addrs take_next_addr relinquish_addr
proof
  show "\<And>p. pool_wf p \<Longrightarrow> \<exists>r p'. take_next_addr p = Done (r, p')"
    by (rule take_next_addr_total)
  show "\<And>p a p'. pool_wf p \<Longrightarrow> take_next_addr p = Done (Some a, p') \<Longrightarrow>
      a \<in> pool_addrs - in_use p \<and> in_use p' = insert a (in_use p) \<and> pool_wf p'"
    using take_next_addr_Some by blast
  show "\<And>p p'. pool_wf p \<Longrightarrow> take_next_addr p = Done (None, p') \<Longrightarrow> in_use p = pool_addrs \<and> p' = p"
    using take_next_addr_None by blast
  show "\<And>p a. pool_wf p \<Longrightarrow> a \<in> pool_addrs \<Longrightarrow>
      \<exists>p'. relinquish_addr p a = Done p' \<and> pool_wf p' \<and> in_use p' = in_use p - {a}"
    by (rule relinquish_addr_pool)
qed

end
