(* ===== verification/Container.thy ===== *)
theory Container
  imports Host Address_Manager
begin

text \<open>
  Challenge containers: \<^verbatim>\<open>challd/src/container.rs\<close>. Creating one for a guest
  puts its address on \<^verbatim>\<open>eth42\<close>, starts the container with fixed resource limits
  and redirects the guest's traffic to it; \<open>shutdown\<close> undoes exactly that.
\<close>

record vpn_info =
  vpn_addr :: u8
  bridge_addr :: string

record container =
  cont_id :: "string option"
  cont_vpn :: "vpn_info option"

definition MAX_MEM :: int where
  "MAX_MEM = 100 * 1024 * 1024"

definition vpn_ip :: "u8 \<Rightarrow> string" where
  "vpn_ip addr = ''10.4.2.'' @ show_nat (unat addr) @ ''/32''"

definition guest_ip :: "u8 \<Rightarrow> string" where
  "guest_ip addr = ''10.4.1.'' @ show_nat (unat addr) @ ''/32''"

text \<open>The arguments of the two \<^verbatim>\<open>iptables\<close> calls after the chain's name.\<close>

definition dnat_rule :: "u8 \<Rightarrow> string \<Rightarrow> string list" where
  "dnat_rule addr bridge =
     [''-i'', ''wg42'', ''-s'', guest_ip addr, ''-d'', ''10.4.2.0'',
      ''-j'', ''DNAT'', ''--to-destination'', bridge]"

definition create_body :: "features \<Rightarrow> string \<Rightarrow> u8 option \<Rightarrow> port_mapping list \<Rightarrow> container_body" where
  "create_body F image_name maybe_addr ports = \<lparr>
     body_image = image_name,
     stop_timeout = 10,
     auto_remove = True,
     memory = MAX_MEM,
     memory_swap = MAX_MEM,
     nano_cpus = 2 * 10 ^ 8,
     pids_limit = 150,
     port_bindings = into_hashmap ports maybe_addr,
     runtime = (if gvisor F then Some ''runsc'' else None)\<rparr>"

text \<open>
  The redirection of a guest's traffic: the bridge address from the inspect reply, every
  optional field unwrapped, then the \<^verbatim>\<open>iptables\<close> rule.
\<close>

definition inspect_bridge :: "'w env \<Rightarrow> string \<Rightarrow> ('w, string) prog" where
  "inspect_bridge E i =
     bind_prog (call (docker_inspect E i)) (\<lambda>reply.
     bind_prog (lift (unwrap reply)) (\<lambda>network_settings.
     bind_prog (lift (unwrap network_settings)) (\<lambda>networks_field.
     bind_prog (lift (unwrap networks_field)) (\<lambda>networks.
     bind_prog (lift (unwrap (networks ''bridge''))) (\<lambda>ip_address.
       lift (unwrap ip_address))))))"

definition setup_vpn :: "'w env \<Rightarrow> string \<Rightarrow> u8 \<Rightarrow> ('w, vpn_info) prog" where
  "setup_vpn E i addr =
     bind_prog (inspect_bridge E i) (\<lambda>bridge.
     bind_prog (run_checked E ''iptables''
         ([''-t'', ''nat'', ''-A'', ''PREROUTING''] @ dnat_rule addr bridge)) (\<lambda>_.
       ret \<lparr>vpn_addr = addr, bridge_addr = bridge\<rparr>))"

text \<open>\<open>Inl ()\<close> is the \<^verbatim>\<open>Err\<close> of a failed connection to Docker.\<close>

definition container_create ::
  "'w env \<Rightarrow> features \<Rightarrow> string \<Rightarrow> u8 option \<Rightarrow> port_mapping list \<Rightarrow> ('w, unit + container) prog" where
  "container_create E F image_name maybe_addr ports =
     bind_prog (lift (case maybe_addr of
         Some addr \<Rightarrow> assert_that (addr_in_range addr) | None \<Rightarrow> Done ())) (\<lambda>_.
     bind_prog (call (docker_connect E)) (\<lambda>connected.
     if \<not> connected then ret (Inl ()) else
     bind_prog (case maybe_addr of
         Some addr \<Rightarrow> run_checked E ''ip'' [''addr'', ''add'', vpn_ip addr, ''dev'', ''eth42'']
       | None \<Rightarrow> ret ()) (\<lambda>_.
     bind_prog (call (docker_create E (create_body F image_name maybe_addr ports))) (\<lambda>created.
     bind_prog (lift (unwrap created)) (\<lambda>i.
     bind_prog (call (docker_start E i)) (\<lambda>started.
     bind_prog (lift (assert_that started)) (\<lambda>_.
     bind_prog (case maybe_addr of
         Some addr \<Rightarrow> bind_prog (setup_vpn E i addr) (\<lambda>v. ret (Some v))
       | None \<Rightarrow> ret None) (\<lambda>vpn.
       ret (Inr \<lparr>cont_id = Some i, cont_vpn = vpn\<rparr>)))))))))"

text \<open>
  \<open>shutdown\<close> owns the container. If the connection to Docker fails it panics while the
  container still has its id, and the destructor's assertion then panics during unwinding:
  the process aborts. Without an id it panics. Every reply of the stop request is only
  logged.
\<close>

definition teardown_vpn :: "'w env \<Rightarrow> vpn_info \<Rightarrow> ('w, unit) prog" where
  "teardown_vpn E vpn =
     bind_prog (run_checked E ''iptables''
         ([''-t'', ''nat'', ''-D'', ''PREROUTING''] @ dnat_rule (vpn_addr vpn) (bridge_addr vpn))) (\<lambda>_.
       run_checked E ''ip'' [''addr'', ''del'', vpn_ip (vpn_addr vpn), ''dev'', ''eth42''])"

definition container_drop :: "container \<Rightarrow> unit outcome" where
  "container_drop c = assert_that (cont_id c = None)"

definition container_shutdown :: "'w env \<Rightarrow> container \<Rightarrow> ('w, unit) prog" where
  "container_shutdown E c =
     bind_prog (call (docker_connect E)) (\<lambda>connected.
     if \<not> connected then lift (if container_drop c = Done () then Panic else Abort) else
     bind_prog (lift (unwrap (cont_id c))) (\<lambda>i.
     let c' = c\<lparr>cont_id := None\<rparr> in
     bind_prog (call (docker_stop E i)) (\<lambda>_.
     bind_prog (case cont_vpn c' of Some vpn \<Rightarrow> teardown_vpn E vpn | None \<Rightarrow> ret ()) (\<lambda>_.
       lift (container_drop c')))))"

text \<open>\<^verbatim>\<open>id()\<close> and the id the shutdown signal waits for.\<close>

definition container_id :: "container \<Rightarrow> string outcome" where
  "container_id c = unwrap (cont_id c)"

text \<open>
  The future that ends with the container: Docker is asked to report when it is no longer
  running, and everything it reports is read until its stream ends. \<open>wait_container\<close> gives
  what arrives on that stream and whether it ends. Without a connection to Docker the future
  is over at once.
\<close>

fun drain_events :: "'e list \<times> bool \<Rightarrow> unit async" where
  "drain_events ([], ended) = (if ended then Ready () else Pending)"
| "drain_events (e # es, ended) = drain_events (es, ended)"

definition shutdown_signal_impl ::
  "'w env \<Rightarrow> (string \<Rightarrow> 'w \<Rightarrow> 'e list \<times> bool) \<Rightarrow> string \<Rightarrow> ('w, unit async) prog" where
  "shutdown_signal_impl E wait_container i =
     bind_prog (call (docker_connect E)) (\<lambda>connected.
     if \<not> connected then ret (Ready ())
     else (\<lambda>w. (Done (drain_events (wait_container i w)), w)))"

definition shutdown_signal ::
  "'w env \<Rightarrow> (string \<Rightarrow> 'w \<Rightarrow> 'e list \<times> bool) \<Rightarrow> container \<Rightarrow> ('w, unit async) prog" where
  "shutdown_signal E wait_container c =
     bind_prog (lift (container_id c)) (shutdown_signal_impl E wait_container)"

lemma drain_events_eq: "drain_events s = (if snd s then Ready () else Pending)"
  by (induction s rule: drain_events.induct) simp_all

text \<open>
  For a container that was created the future never panics, and it is over exactly when
  Docker cannot be reached or its stream has ended.
\<close>

lemma shutdown_signal_eq:
  assumes "cont_id c = Some i"
  shows "shutdown_signal E wait_container c w =
    (let (connected, w') = docker_connect E w
     in (Done (if connected \<longrightarrow> snd (wait_container i w') then Ready () else Pending), w'))"
  using assms
  by (simp add: shutdown_signal_def shutdown_signal_impl_def container_id_def prog_eval ret_def drain_events_eq split_beta)

section \<open>What creation adds and shutdown removes\<close>

definition vpn_view :: "container \<Rightarrow> host_view \<Rightarrow> host_view" where
  "vpn_view c v = (case cont_vpn c of
     Some x \<Rightarrow> v\<lparr>v_addrs := insert (vpn_ip (vpn_addr x)) (v_addrs v),
                 v_rules := add_mset (dnat_rule (vpn_addr x) (bridge_addr x)) (v_rules v)\<rparr>
   | None \<Rightarrow> v)"

lemma vpn_ip_inject [simp]: "vpn_ip a = vpn_ip b \<longleftrightarrow> a = b"
  by (auto simp: vpn_ip_def word_unat_eq_iff)

lemma guest_ip_inject [simp]: "guest_ip a = guest_ip b \<longleftrightarrow> a = b"
  by (auto simp: guest_ip_def word_unat_eq_iff)

lemma setup_vpn_addr: "setup_vpn E i addr w = (Done v, w') \<Longrightarrow> vpn_addr v = addr"
  by (auto simp: setup_vpn_def prog_Done)

text \<open>A container that was created has an id and remembers the guest's address.\<close>

lemma container_create_shape:
  assumes "container_create E F img maybe_addr ports w = (Done (Inr c), w')"
  shows "cont_id c \<noteq> None" "map_option vpn_addr (cont_vpn c) = maybe_addr"
  using assms unfolding container_create_def
  by (auto simp: prog_Done setup_vpn_addr split: if_splits option.splits)

context host_laws
begin

lemma inspect_bridge_view: "inspect_bridge E i w = (Done b, w') \<Longrightarrow> view w' = view w"
  by (auto simp: inspect_bridge_def prog_Done dest!: inspect)

lemma setup_vpn_view:
  assumes "setup_vpn E i addr w = (Done v, w')"
  shows "view w' = (view w)\<lparr>v_rules := add_mset (dnat_rule addr (bridge_addr v)) (v_rules (view w))\<rparr>"
    and "vpn_addr v = addr"
  using assms unfolding setup_vpn_def
  by (auto simp: prog_Done run_checked_Done dest!: inspect_bridge_view nat_append)

lemma create_view:
  assumes "container_create E F img maybe_addr ports w = (Done (Inr c), w')"
  obtains i where "cont_id c = Some i" "i \<notin> v_conts (view w)"
    "map_option vpn_addr (cont_vpn c) = maybe_addr"
    "\<And>a. maybe_addr = Some a \<Longrightarrow> addr_in_range a \<and> vpn_ip a \<notin> v_addrs (view w)"
    "view w' = (vpn_view c (view w))\<lparr>v_conts := insert i (v_conts (view w))\<rparr>"
proof -
  show thesis
  proof (cases maybe_addr)
    case None
    with assms show ?thesis
      unfolding container_create_def
      by (auto simp: prog_Done vpn_view_def dest!: connect create start split: if_splits intro!: that)
  next
    case (Some a)
    with assms obtain w1 w2 w3 w4 i v where
      a: "addr_in_range a" and w1: "docker_connect E w = (True, w1)"
      and w2: "run_command E ''ip'' [''addr'', ''add'', vpn_ip a, ''dev'', ''eth42''] w1 = (Some True, w2)"
      and w3: "docker_create E (create_body F img maybe_addr ports) w2 = (Some i, w3)"
      and w4: "docker_start E i w3 = (True, w4)"
      and w': "setup_vpn E i a w4 = (Done v, w')" and c: "c = \<lparr>cont_id = Some i, cont_vpn = Some v\<rparr>"
      unfolding container_create_def
      by (auto simp: prog_Done run_checked_Done split: if_splits)
    note views = connect [OF w1] ip_add [OF w2] create [OF w3] start [OF w4] setup_vpn_view [OF w']
    show ?thesis
      using that [of i] views a c Some by (simp add: vpn_view_def)
  qed
qed

lemma shutdown_view:
  assumes "container_shutdown E c w = (Done (), w')" and id: "cont_id c = Some i"
    and stopped: "fst (docker_stop E i (snd (docker_connect E w))) \<noteq> StopFailed"
  shows "vpn_view c ((view w')\<lparr>v_conts := v_conts (view w)\<rparr>) = view w"
    and "v_conts (view w') = v_conts (view w) - {i}"
    and "\<And>x. cont_vpn c = Some x \<Longrightarrow> vpn_ip (vpn_addr x) \<notin> v_addrs (view w')"
proof -
  from assms obtain w1 w2 r where w1: "docker_connect E w = (True, w1)"
    and w2: "docker_stop E i w1 = (r, w2)"
    and rest: "(case cont_vpn c of Some vpn \<Rightarrow> teardown_vpn E vpn | None \<Rightarrow> ret ()) w2 = (Done (), w')"
    unfolding container_shutdown_def
    by (auto simp: prog_Done Let_def split: if_splits)
  from stopped w1 w2 have r: "r \<noteq> StopFailed" by simp
  note views = connect [OF w1] stop [OF w2 r]
  have "vpn_view c ((view w')\<lparr>v_conts := v_conts (view w)\<rparr>) = view w \<and>
      v_conts (view w') = v_conts (view w) - {i} \<and>
      (\<forall>x. cont_vpn c = Some x \<longrightarrow> vpn_ip (vpn_addr x) \<notin> v_addrs (view w'))"
  proof (cases "cont_vpn c")
    case None
    with rest views show ?thesis by (simp add: vpn_view_def)
  next
    case (Some x)
    with rest obtain w3 where
      w3: "run_command E ''iptables'' (''-t'' # ''nat'' # ''-D'' # ''PREROUTING'' # dnat_rule (vpn_addr x) (bridge_addr x)) w2 = (Some True, w3)"
      and w4: "run_command E ''ip'' [''addr'', ''del'', vpn_ip (vpn_addr x), ''dev'', ''eth42''] w3 = (Some True, w')"
      by (auto simp: teardown_vpn_def prog_Done run_checked_Done)
    from views nat_delete [OF w3] ip_del [OF w4] Some show ?thesis
      by (auto simp: vpn_view_def insert_absorb)
  qed
  then show "vpn_view c ((view w')\<lparr>v_conts := v_conts (view w)\<rparr>) = view w"
    and "v_conts (view w') = v_conts (view w) - {i}"
    and "\<And>x. cont_vpn c = Some x \<Longrightarrow> vpn_ip (vpn_addr x) \<notin> v_addrs (view w')" by auto
qed

text \<open>
  Stopping a container leaves the host as it was before the container was created,
  whatever other addresses, rules, containers and peers there are.
\<close>

lemma shutdown_undoes_create:
  assumes created: "container_create E F img maybe_addr ports w = (Done (Inr c), w1)"
    and same: "view w2 = view w1"
    and down: "container_shutdown E c w2 = (Done (), w')"
    and stopped: "fst (docker_stop E (the (cont_id c)) (snd (docker_connect E w2))) \<noteq> StopFailed"
  shows "view w' = view w"
proof -
  from create_view [OF created] obtain i where i: "cont_id c = Some i" "i \<notin> v_conts (view w)"
    and addr: "map_option vpn_addr (cont_vpn c) = maybe_addr"
      "\<And>a. maybe_addr = Some a \<Longrightarrow> vpn_ip a \<notin> v_addrs (view w)"
    and v1: "view w2 = (vpn_view c (view w))\<lparr>v_conts := insert i (v_conts (view w))\<rparr>"
    using same by metis
  from stopped i(1) have st: "fst (docker_stop E i (snd (docker_connect E w2))) \<noteq> StopFailed" by simp
  note down_view = shutdown_view [OF down i(1) st]
  from down_view(2) v1 i(2) have conts: "v_conts (view w') = v_conts (view w)" by simp
  have vpn: "vpn_view c ((view w')\<lparr>v_conts := v_conts (view w2)\<rparr>) = view w2"
    by (rule down_view(1))
  show ?thesis
  proof (cases "cont_vpn c")
    case None
    with vpn v1 conts show ?thesis
      by (cases "view w"; cases "view w'") (simp add: vpn_view_def)
  next
    case (Some x)
    then have "vpn_ip (vpn_addr x) \<notin> v_addrs (view w)" "vpn_ip (vpn_addr x) \<notin> v_addrs (view w')"
      using addr down_view(3) by auto
    with Some vpn v1 conts show ?thesis
      by (cases "view w"; cases "view w'") (simp add: vpn_view_def insert_ident)
  qed
qed

end

end
