(* ===== verification/Wg_Config.thy ===== *)
theory Wg_Config
  imports Prelude
begin

text \<open>
  The WireGuard configuration handed to a guest: \<^verbatim>\<open>challd/src/wg_config.rs\<close>.
  The serialised text determines its five fields as long as none of them contains a line
  break, and its length is the fixed text plus the fields'.
\<close>

record wg_interface =
  wgi_address :: string
  wgi_private_key :: string

record wg_peer =
  wgp_public_key :: string
  wgp_endpoint :: string
  wgp_allowed_ips :: string

record wg_config =
  wgc_interface :: wg_interface
  wgc_peer :: wg_peer

abbreviation newline :: char where
  "newline \<equiv> CHR 0x0A"

definition serialize :: "wg_config \<Rightarrow> string" where
  "serialize c =
     ''[Interface]'' @ [newline] @
     ''Address = '' @ wgi_address (wgc_interface c) @ [newline] @
     ''PrivateKey = '' @ wgi_private_key (wgc_interface c) @ [newline] @
     [newline] @
     ''[Peer]'' @ [newline] @
     ''PublicKey = '' @ wgp_public_key (wgc_peer c) @ [newline] @
     ''Endpoint = '' @ wgp_endpoint (wgc_peer c) @ [newline] @
     ''AllowedIPs = '' @ wgp_allowed_ips (wgc_peer c)"

definition one_line :: "string \<Rightarrow> bool" where
  "one_line s \<longleftrightarrow> newline \<notin> set s"

definition one_line_fields :: "wg_config \<Rightarrow> bool" where
  "one_line_fields c \<longleftrightarrow>
     one_line (wgi_address (wgc_interface c)) \<and> one_line (wgi_private_key (wgc_interface c)) \<and>
     one_line (wgp_public_key (wgc_peer c)) \<and> one_line (wgp_endpoint (wgc_peer c)) \<and>
     one_line (wgp_allowed_ips (wgc_peer c))"

lemma one_line_append [simp]: "one_line (s @ t) \<longleftrightarrow> one_line s \<and> one_line t"
  by (auto simp: one_line_def)

lemma ascii_digits_one_line: "one_line (show_nat n)"
proof (induction n rule: show_nat.induct)
  case (1 n)
  have digit: "one_line [''0123456789'' ! d]" if "d < 10" for d
    using nth_mem [of d "''0123456789''"] that by (auto simp: one_line_def)
  show ?case
    using 1 digit by (subst show_nat.simps) auto
qed

lemma split_at_newline:
  assumes "one_line s" "one_line s'" "s @ newline # t = s' @ newline # t'"
  shows "s = s' \<and> t = t'"
  using assms
proof (induction s arbitrary: s')
  case Nil
  then show ?case by (cases s') (auto simp: one_line_def)
next
  case (Cons c s)
  then show ?case by (cases s') (auto simp: one_line_def)
qed

lemma length_serialize:
  "length (serialize c) = 83 +
     length (wgi_address (wgc_interface c)) + length (wgi_private_key (wgc_interface c)) +
     length (wgp_public_key (wgc_peer c)) + length (wgp_endpoint (wgc_peer c)) +
     length (wgp_allowed_ips (wgc_peer c))"
  by (simp add: serialize_def)

lemma serialize_fields:
  assumes eq: "serialize c = serialize c'"
    and one: "one_line_fields c" and one': "one_line_fields c'"
  shows "wgc_interface c = wgc_interface c' \<and> wgc_peer c = wgc_peer c'"
proof -
  note fields = one [unfolded one_line_fields_def] one' [unfolded one_line_fields_def]
  let ?i = "wgc_interface c" and ?p = "wgc_peer c"
  let ?i' = "wgc_interface c'" and ?p' = "wgc_peer c'"
  let ?tl = "\<lambda>p. ''AllowedIPs = '' @ wgp_allowed_ips p"
  let ?te = "\<lambda>p. ''Endpoint = '' @ wgp_endpoint p @ newline # ?tl p"
  let ?tk = "\<lambda>p. newline # ''[Peer]'' @ newline # ''PublicKey = '' @ wgp_public_key p @ newline # ?te p"
  let ?ti = "\<lambda>i p. ''PrivateKey = '' @ wgi_private_key i @ newline # ?tk p"
  from eq have "wgi_address ?i @ newline # ?ti ?i ?p = wgi_address ?i' @ newline # ?ti ?i' ?p'"
    by (simp add: serialize_def)
  with fields have 1: "wgi_address ?i = wgi_address ?i'" "?ti ?i ?p = ?ti ?i' ?p'"
    using split_at_newline by blast+
  from 1(2) have "wgi_private_key ?i @ newline # ?tk ?p = wgi_private_key ?i' @ newline # ?tk ?p'"
    by simp
  with fields have 2: "wgi_private_key ?i = wgi_private_key ?i'" "?tk ?p = ?tk ?p'"
    using split_at_newline by blast+
  from 2(2) have "wgp_public_key ?p @ newline # ?te ?p = wgp_public_key ?p' @ newline # ?te ?p'"
    by simp
  with fields have 3: "wgp_public_key ?p = wgp_public_key ?p'" "?te ?p = ?te ?p'"
    using split_at_newline by blast+
  from 3(2) have "wgp_endpoint ?p @ newline # ?tl ?p = wgp_endpoint ?p' @ newline # ?tl ?p'"
    by simp
  with fields have 4: "wgp_endpoint ?p = wgp_endpoint ?p'" "?tl ?p = ?tl ?p'"
    using split_at_newline by blast+
  from 1 2 3 4 show ?thesis by simp
qed

end
