(* ===== verification/Interface.thy ===== *)
theory Interface
  imports Container Wg_Config
begin

text \<open>
  The network devices of the daemon: the dummy interface \<^verbatim>\<open>eth42\<close>
  (\<^verbatim>\<open>challd/src/dummy_interface.rs\<close>), the WireGuard interface
  \<^verbatim>\<open>wg42\<close> and its temporary peers (\<^verbatim>\<open>challd/src/interface.rs\<close>), key pairs
  (\<^verbatim>\<open>challd/src/crypto_stuff.rs\<close>) and the life of a demo container
  (\<^verbatim>\<open>challd/src/demo.rs\<close>).
\<close>

section \<open>IPv4 addresses\<close>

text \<open>
  \<^verbatim>\<open>str::parse::<Ipv4Addr>\<close>: four decimal octets of one to three digits, no
  leading zero, separated by dots.
\<close>

fun split_dots :: "string \<Rightarrow> string list" where
  "split_dots [] = [[]]"
| "split_dots (c # cs) =
     (if c = CHR ''.'' then [] # split_dots cs
      else (case split_dots cs of [] \<Rightarrow> [[c]] | p # ps \<Rightarrow> (c # p) # ps))"

definition parse_octet :: "string \<Rightarrow> u8 option" where
  "parse_octet s =
     (if s \<noteq> [] \<and> length s \<le> 3 \<and> list_all is_digit s \<and>
         (length s = 1 \<or> s ! 0 \<noteq> CHR ''0'') \<and> read_nat s < 256
      then Some (word_of_nat (read_nat s)) else None)"

definition parse_ipv4 :: "string \<Rightarrow> u8 list option" where
  "parse_ipv4 s =
     (case map parse_octet (split_dots s) of
        [Some a, Some b, Some c, Some d] \<Rightarrow> Some [a, b, c, d]
      | _ \<Rightarrow> None)"

section \<open>Devices\<close>

definition dummy_create :: "'w env \<Rightarrow> ('w, unit) prog" where
  "dummy_create E =
     bind_prog (run_checked E ''ip'' [''link'', ''add'', ''eth42'', ''type'', ''dummy'']) (\<lambda>_.
       run_checked E ''ip'' [''link'', ''set'', ''dev'', ''eth42'', ''up''])"

definition dummy_drop :: "'w env \<Rightarrow> ('w, unit) prog" where
  "dummy_drop E =
     bind_prog (call (run_command E ''ip'' [''link'', ''delete'', ''eth42'', ''type'', ''dummy''])) (\<lambda>r.
     bind_prog (lift (unwrap r)) (\<lambda>_. ret ()))"

record keypair =
  pubkey :: "u8 list"
  privkey :: "u8 list"

definition gen_keypair :: "'w env \<Rightarrow> crypto \<Rightarrow> ('w, keypair) prog" where
  "gen_keypair E C =
     bind_prog (call (random_secret E)) (\<lambda>secret.
       ret \<lparr>pubkey = public_key_of C secret, privkey = secret\<rparr>)"

definition DEVICE_NAME :: string where
  "DEVICE_NAME = ''wg42''"

definition INT_ADDR_MASK :: "u8 list \<times> nat" where
  "INT_ADDR_MASK = ([10, 4, 1, 0], 24)"

record interface =
  int_pubkey :: string

definition interface_new :: "'w env \<Rightarrow> crypto \<Rightarrow> ('w, unit + interface) prog" where
  "interface_new E C =
     bind_prog (call (wg_open E DEVICE_NAME)) (\<lambda>opened.
     if \<not> opened then ret (Inl ()) else
     bind_prog (call (wg_create_interface E)) (\<lambda>created.
     if \<not> created then ret (Inl ()) else
     bind_prog (gen_keypair E C) (\<lambda>host_keypair.
     bind_prog (call (wg_configure_interface E \<lparr>
         if_name = DEVICE_NAME,
         if_prvkey = b64_encode C (privkey host_keypair),
         if_addresses = [INT_ADDR_MASK],
         if_port = 51820\<rparr>)) (\<lambda>configured.
     bind_prog (lift (assert_that configured)) (\<lambda>_.
       ret (Inr \<lparr>int_pubkey = b64_encode C (pubkey host_keypair)\<rparr>))))))"

definition interface_drop :: "'w env \<Rightarrow> ('w, unit) prog" where
  "interface_drop E = bind_prog (call (wg_remove_interface E)) (\<lambda>ok. lift (assert_that ok))"

text \<open>
  \<^verbatim>\<open>add_temp_peer\<close>. The key of the configured peer is returned for the task that
  will remove it; \<open>drop_cleanup\<close> is what dropping the caller's cleanup future does,
  which happens when the peer cannot be configured and when a panic unwinds.
\<close>

definition peer_config :: "features \<Rightarrow> crypto \<Rightarrow> interface \<Rightarrow> keypair \<Rightarrow> u8 \<Rightarrow> wg_config" where
  "peer_config F C itf peer_keypair addr = \<lparr>
     wgc_interface = \<lparr>
       wgi_address = ''10.4.1.'' @ show_nat (unat addr) @ ''/32'',
       wgi_private_key = b64_encode C (privkey peer_keypair)\<rparr>,
     wgc_peer = \<lparr>
       wgp_public_key = int_pubkey itf,
       wgp_endpoint = (if domain_name F then ''scdt.club:51820'' else ''127.0.0.1:51820''),
       wgp_allowed_ips = ''10.4.2.0/32''\<rparr>\<rparr>"

definition add_temp_peer ::
  "'w env \<Rightarrow> features \<Rightarrow> crypto \<Rightarrow> interface \<Rightarrow> unit outcome \<Rightarrow> u8 \<Rightarrow> ('w, unit + key \<times> wg_config) prog" where
  "add_temp_peer E F C itf drop_cleanup addr =
     bind_prog (on_panic (
       bind_prog (lift (assert_that (addr_in_range addr))) (\<lambda>_.
       bind_prog (gen_keypair E C) (\<lambda>peer_keypair.
       bind_prog (lift (unwrap (parse_ipv4 (''10.4.1.'' @ show_nat (unat addr))))) (\<lambda>ip.
         ret (peer_keypair, ip)))))
       (lift drop_cleanup)) (\<lambda>(peer_keypair, ip).
     bind_prog (call (wg_configure_peer E \<lparr>
         peer_key = pubkey peer_keypair,
         peer_allowed = (ip, 32)\<rparr>)) (\<lambda>configured.
     if \<not> configured then bind_prog (lift drop_cleanup) (\<lambda>_. ret (Inl ()))
     else ret (Inr (pubkey peer_keypair, peer_config F C itf peer_keypair addr))))"

text \<open>
  The two spawned tasks after their \<^verbatim>\<open>select!\<close> has fired: a guest's task removes
  the peer before the cleanup and skips the cleanup (dropping it) when that fails; a
  demo's task runs the cleanup.
\<close>

definition temp_peer_task ::
  "'w env \<Rightarrow> key \<Rightarrow> unit outcome \<Rightarrow> ('w, unit) prog \<Rightarrow> ('w, unit + unit) prog" where
  "temp_peer_task E k drop_cleanup cleanup =
     bind_prog (call (wg_remove_peer E k)) (\<lambda>removed.
     if \<not> removed then bind_prog (lift drop_cleanup) (\<lambda>_. ret (Inl ()))
     else bind_prog cleanup (\<lambda>_. ret (Inr ())))"

definition demo_task :: "('w, unit) prog \<Rightarrow> ('w, unit + unit) prog" where
  "demo_task cleanup = bind_prog cleanup (\<lambda>_. ret (Inr ()))"

section \<open>The peer address always parses\<close>

lemma show_nat_first: "0 < n \<Longrightarrow> show_nat n ! 0 \<noteq> CHR ''0''"
proof (induction n rule: show_nat.induct)
  case (1 n)
  show ?case
  proof (cases "n < 10")
    case True
    with "1.prems" have "n \<in> {1, 2, 3, 4, 5, 6, 7, 8, 9}" by auto
    then show ?thesis by (subst show_nat.simps) auto
  next
    case False
    then have "show_nat (n div 10) ! 0 \<noteq> CHR ''0''" using 1 by simp
    with False show ?thesis
      using show_nat_not_Nil [of "n div 10"] by (subst show_nat.simps) (simp add: nth_append)
  qed
qed

lemma parse_octet_show [simp]: "parse_octet (show_nat (unat (a :: u8))) = Some a"
proof -
  have lt: "unat a < 256" using unsigned_less [of a, where ?'a = nat] by simp
  have "length (show_nat (unat a)) \<le> 3" using lt by (intro show_nat_length) simp_all
  moreover have "length (show_nat (unat a)) = 1 \<or> show_nat (unat a) ! 0 \<noteq> CHR ''0''"
    using show_nat_first [of "unat a"] by (cases "unat a = 0") (simp_all add: show_nat.simps [of 0])
  ultimately show ?thesis
    using lt by (simp add: parse_octet_def show_nat_not_Nil show_nat_digits read_nat_show_nat)
qed

lemma split_dots_no_dot: "list_all is_digit s \<Longrightarrow> split_dots s = [s]"
  by (induction s) (auto simp: is_digit_def)

lemma parse_octet_4: "parse_octet ''4'' = Some 4" and parse_octet_1: "parse_octet ''1'' = Some 1"
  and parse_octet_10: "parse_octet ''10'' = Some 10"
  by (simp_all add: parse_octet_def is_digit_def read_nat_def digit_value_def)

lemma parse_guest_ip:
  "parse_ipv4 (''10.4.1.'' @ show_nat (unat (a :: u8))) = Some [10, 4, 1, a]"
  using split_dots_no_dot [OF show_nat_digits, of "unat a"]
  by (simp add: parse_ipv4_def parse_octet_4 parse_octet_1 parse_octet_10)

section \<open>Effects of peers on the host\<close>

context host_laws
begin

lemma gen_keypair_view: "gen_keypair E C w = (Done kp, w') \<Longrightarrow> view w' = view w"
  by (auto simp: gen_keypair_def prog_Done dest!: secret)

lemma add_temp_peer_view:
  assumes "add_temp_peer E F C itf d addr w = (Done (Inr (k, cfg)), w')"
  shows "view w' = (view w)\<lparr>v_peers := insert k (v_peers (view w))\<rparr>"
  using assms unfolding add_temp_peer_def
  by (auto simp: prog_Done dest!: gen_keypair_view add_peer split: if_splits)

text \<open>A guest's whole session leaves no trace on the host.\<close>

lemma guest_session_view:
  assumes created: "container_create E F img (Some a) ports w = (Done (Inr c), w1)"
    and peer: "add_temp_peer E F C itf d a w1 = (Done (Inr (k, cfg)), w2)"
    and ended: "temp_peer_task E k d (container_shutdown E c) w2 = (Done (Inr ()), w3)"
    and fresh: "k \<notin> v_peers (view w)"
    and stopped: "\<And>w. fst (docker_stop E (the (cont_id c)) w) \<noteq> StopFailed"
  shows "view w3 = view w"
proof -
  from ended obtain w2' where del: "wg_remove_peer E k w2 = (True, w2')"
    and down: "container_shutdown E c w2' = (Done (), w3)"
    unfolding temp_peer_task_def by (auto simp: prog_Done split: if_splits)
  obtain i where "view w1 = (vpn_view c (view w))\<lparr>v_conts := insert i (v_conts (view w))\<rparr>"
    by (rule create_view [OF created])
  then have peers: "v_peers (view w1) = v_peers (view w)"
    by (simp add: vpn_view_def split: option.splits)
  have "view w2' = view w1"
    using add_temp_peer_view [OF peer] del_peer [OF del] fresh peers
    by (cases "view w1") simp
  from shutdown_undoes_create [OF created this down stopped] show ?thesis .
qed

end

text \<open>With an address in range, only the environment can make adding a peer fail.\<close>

lemma add_temp_peer_no_panic:
  assumes "addr_in_range addr" "d = Done ()"
  shows "\<exists>r w'. add_temp_peer E F C itf d addr w = (Done r, w')"
  using assms
  unfolding add_temp_peer_def parse_guest_ip
  by (auto simp: gen_keypair_def bind_prog_def call_def lift_def ret_def on_panic_def split: prod.splits)

end
