(* ===== verification/Container_Steps.thy ===== *)
theory Container_Steps
  imports Container
begin

text \<open>
  Creating and shutting down a container wait for Docker and for commands, and other tasks
  run meanwhile. Here the two functions of \<^verbatim>\<open>container.rs\<close> are cut at these points:
  a stage for every operation on the host, and a step that performs it and says what comes
  next. Steps that follow one another undisturbed make up the functions.
\<close>

section \<open>Creation\<close>

datatype create_stage =
    AtConnect
  | AtAddr
  | AtCreate
  | AtStart string
  | AtInspect string u8
  | AtRedirect string u8 string

text \<open>\<open>Inl\<close> is the next stage, \<open>Inr\<close> what the function returns.\<close>

fun create_step ::
  "'w env \<Rightarrow> features \<Rightarrow> string \<Rightarrow> u8 option \<Rightarrow> port_mapping list \<Rightarrow> create_stage \<Rightarrow>
     ('w, create_stage + unit + container) prog" where
  "create_step E F image_name maybe_addr ports AtConnect =
     bind_prog (lift (case maybe_addr of
         Some addr \<Rightarrow> assert_that (addr_in_range addr) | None \<Rightarrow> Done ())) (\<lambda>_.
     bind_prog (call (docker_connect E)) (\<lambda>connected.
       ret (if connected then Inl AtAddr else Inr (Inl ()))))"
| "create_step E F image_name maybe_addr ports AtAddr =
     bind_prog (case maybe_addr of
         Some addr \<Rightarrow> run_checked E ''ip'' [''addr'', ''add'', vpn_ip addr, ''dev'', ''eth42'']
       | None \<Rightarrow> ret ()) (\<lambda>_.
       ret (Inl AtCreate))"
| "create_step E F image_name maybe_addr ports AtCreate =
     bind_prog (call (docker_create E (create_body F image_name maybe_addr ports))) (\<lambda>created.
     bind_prog (lift (unwrap created)) (\<lambda>i.
       ret (Inl (AtStart i))))"
| "create_step E F image_name maybe_addr ports (AtStart i) =
     bind_prog (call (docker_start E i)) (\<lambda>started.
     bind_prog (lift (assert_that started)) (\<lambda>_.
       ret (case maybe_addr of
          Some addr \<Rightarrow> Inl (AtInspect i addr)
        | None \<Rightarrow> Inr (Inr \<lparr>cont_id = Some i, cont_vpn = None\<rparr>))))"
| "create_step E F image_name maybe_addr ports (AtInspect i addr) =
     bind_prog (inspect_bridge E i) (\<lambda>bridge.
       ret (Inl (AtRedirect i addr bridge)))"
| "create_step E F image_name maybe_addr ports (AtRedirect i addr bridge) =
     bind_prog (run_checked E ''iptables''
         ([''-t'', ''nat'', ''-A'', ''PREROUTING''] @ dnat_rule addr bridge)) (\<lambda>_.
       ret (Inr (Inr \<lparr>cont_id = Some i, cont_vpn = Some \<lparr>vpn_addr = addr, bridge_addr = bridge\<rparr>\<rparr>)))"

fun create_left :: "create_stage \<Rightarrow> nat" where
  "create_left AtConnect = 6"
| "create_left AtAddr = 5"
| "create_left AtCreate = 4"
| "create_left (AtStart _) = 3"
| "create_left (AtInspect _ _) = 2"
| "create_left (AtRedirect _ _ _) = 1"

section \<open>Shutdown\<close>

datatype stop_stage =
    AtStopConnect
  | AtStop string
  | AtUnredirect vpn_info
  | AtUnaddr vpn_info

text \<open>
  From \<open>AtStop\<close> on the container has lost its id, so that dropping it is harmless.
\<close>

fun stop_step :: "'w env \<Rightarrow> container \<Rightarrow> stop_stage \<Rightarrow> ('w, stop_stage + unit) prog" where
  "stop_step E c AtStopConnect =
     bind_prog (call (docker_connect E)) (\<lambda>connected.
     if \<not> connected then lift (if container_drop c = Done () then Panic else Abort) else
     bind_prog (lift (unwrap (cont_id c))) (\<lambda>i.
       ret (Inl (AtStop i))))"
| "stop_step E c (AtStop i) =
     bind_prog (call (docker_stop E i)) (\<lambda>_.
       (case cont_vpn c of
          Some vpn \<Rightarrow> ret (Inl (AtUnredirect vpn))
        | None \<Rightarrow> bind_prog (lift (container_drop (c\<lparr>cont_id := None\<rparr>))) (\<lambda>_. ret (Inr ()))))"
| "stop_step E c (AtUnredirect vpn) =
     bind_prog (run_checked E ''iptables''
         ([''-t'', ''nat'', ''-D'', ''PREROUTING''] @ dnat_rule (vpn_addr vpn) (bridge_addr vpn))) (\<lambda>_.
       ret (Inl (AtUnaddr vpn)))"
| "stop_step E c (AtUnaddr vpn) =
     bind_prog (run_checked E ''ip'' [''addr'', ''del'', vpn_ip (vpn_addr vpn), ''dev'', ''eth42'']) (\<lambda>_.
     bind_prog (lift (container_drop (c\<lparr>cont_id := None\<rparr>))) (\<lambda>_.
       ret (Inr ())))"

fun stop_left :: "stop_stage \<Rightarrow> nat" where
  "stop_left AtStopConnect = 4"
| "stop_left (AtStop _) = 3"
| "stop_left (AtUnredirect _) = 2"
| "stop_left (AtUnaddr _) = 1"

section \<open>What a stage knows\<close>

text \<open>
  The guest's address a creation is about stays the same, and a shutdown is about the
  container's own id and network set-up.
\<close>

fun create_for :: "u8 option \<Rightarrow> create_stage \<Rightarrow> bool" where
  "create_for a (AtInspect _ addr) \<longleftrightarrow> a = Some addr"
| "create_for a (AtRedirect _ addr _) \<longleftrightarrow> a = Some addr"
| "create_for a _ \<longleftrightarrow> True"

fun stop_for :: "container \<Rightarrow> stop_stage \<Rightarrow> bool" where
  "stop_for c AtStopConnect \<longleftrightarrow> True"
| "stop_for c (AtStop i) \<longleftrightarrow> cont_id c = Some i"
| "stop_for c (AtUnredirect vpn) \<longleftrightarrow> cont_vpn c = Some vpn"
| "stop_for c (AtUnaddr vpn) \<longleftrightarrow> cont_vpn c = Some vpn"

lemma create_step_for:
  assumes "create_step E F img a ports pc w = (Done r, w')" "create_for a pc"
  shows "case r of Inl pc' \<Rightarrow> create_for a pc' | Inr (Inl _) \<Rightarrow> True
    | Inr (Inr c) \<Rightarrow> cont_id c \<noteq> None \<and> map_option vpn_addr (cont_vpn c) = a"
  using assms by (cases pc) (auto simp: prog_Done split: if_splits option.splits)

lemma stop_step_for:
  "stop_step E c pc w = (Done (Inl pc'), w') \<Longrightarrow> stop_for c pc \<Longrightarrow> stop_for c pc'"
  by (cases pc) (auto simp: prog_Done split: if_splits option.splits)

section \<open>Steps end\<close>

lemma create_step_left:
  "create_step E F img a ports pc w = (Done (Inl pc'), w') \<Longrightarrow> create_left pc' < create_left pc"
  by (cases pc) (auto simp: prog_Done split: if_splits option.splits)

lemma create_left_pos [simp]: "0 < create_left pc"
  by (cases pc) simp_all

lemma create_left_bound: "create_left pc \<le> 6"
  by (cases pc) simp_all

lemma stop_step_left:
  "stop_step E c pc w = (Done (Inl pc'), w') \<Longrightarrow> stop_left pc' < stop_left pc"
  by (cases pc) (auto simp: prog_Done split: if_splits option.splits)

lemma stop_left_pos [simp]: "0 < stop_left pc"
  by (cases pc) simp_all

lemma stop_left_bound: "stop_left pc \<le> 4"
  by (cases pc) simp_all

section \<open>Undisturbed steps are the functions\<close>

function create_run ::
  "'w env \<Rightarrow> features \<Rightarrow> string \<Rightarrow> u8 option \<Rightarrow> port_mapping list \<Rightarrow> create_stage \<Rightarrow> ('w, unit + container) prog" where
  "create_run E F img a ports pc w =
     (case create_step E F img a ports pc w of
        (Done (Inl pc'), w') \<Rightarrow> create_run E F img a ports pc' w'
      | (Done (Inr r), w') \<Rightarrow> (Done r, w')
      | (Panic, w') \<Rightarrow> (Panic, w')
      | (Abort, w') \<Rightarrow> (Abort, w'))"
  by pat_completeness auto

termination
  by (relation "measure (\<lambda>(E, F, img, a, ports, pc, w). create_left pc)") (auto dest: create_step_left [OF sym])

function stop_run :: "'w env \<Rightarrow> container \<Rightarrow> stop_stage \<Rightarrow> ('w, unit) prog" where
  "stop_run E c pc w =
     (case stop_step E c pc w of
        (Done (Inl pc'), w') \<Rightarrow> stop_run E c pc' w'
      | (Done (Inr r), w') \<Rightarrow> (Done r, w')
      | (Panic, w') \<Rightarrow> (Panic, w')
      | (Abort, w') \<Rightarrow> (Abort, w'))"
  by pat_completeness auto

termination
  by (relation "measure (\<lambda>(E, c, pc, w). stop_left pc)") (auto dest: stop_step_left [OF sym])

lemmas [simp del] = create_run.simps stop_run.simps

lemma create_run_bind:
  "create_run E F img a ports pc w =
     bind_prog (create_step E F img a ports pc) (\<lambda>r.
       case r of Inl pc' \<Rightarrow> create_run E F img a ports pc' | Inr x \<Rightarrow> ret x) w"
  by (subst create_run.simps) (auto simp: bind_prog_def ret_def split: prod.split outcome.split sum.split)

lemma stop_run_bind:
  "stop_run E c pc w =
     bind_prog (stop_step E c pc) (\<lambda>r. case r of Inl pc' \<Rightarrow> stop_run E c pc' | Inr x \<Rightarrow> ret x) w"
  by (subst stop_run.simps) (auto simp: bind_prog_def ret_def split: prod.split outcome.split sum.split)

text \<open>The same as equations between programs.\<close>

lemma prog_monad:
  "bind_prog (bind_prog p f) g = bind_prog p (\<lambda>x. bind_prog (f x) g)"
  "bind_prog (ret x) h = h x"
  "lift (Done x) = ret x"
  "bind_prog (lift Panic) f = lift Panic"
  "bind_prog (lift Abort) f = lift Abort"
  by (rule ext, simp add: bind_prog_assoc ret_def lift_def)+

lemma drop_stopped [simp]: "container_drop (c\<lparr>cont_id := None\<rparr>) = Done ()"
  by (simp add: container_drop_def assert_that_def)

lemmas create_run_unfold = create_run_bind [THEN ext]
lemmas stop_run_unfold = stop_run_bind [THEN ext]

lemma create_run_redirect:
  "create_run E F img a ports (AtRedirect i x bridge) =
     bind_prog (run_checked E ''iptables''
         ([''-t'', ''nat'', ''-A'', ''PREROUTING''] @ dnat_rule x bridge)) (\<lambda>_.
       ret (Inr \<lparr>cont_id = Some i, cont_vpn = Some \<lparr>vpn_addr = x, bridge_addr = bridge\<rparr>\<rparr>))"
  by (subst create_run_unfold) (simp add: prog_monad)

lemma create_run_inspect:
  "create_run E F img a ports (AtInspect i x) =
     bind_prog (setup_vpn E i x) (\<lambda>v. ret (Inr \<lparr>cont_id = Some i, cont_vpn = Some v\<rparr>))"
  by (subst create_run_unfold) (simp add: prog_monad setup_vpn_def create_run_redirect)

lemma create_run_start:
  "create_run E F img a ports (AtStart i) =
     bind_prog (call (docker_start E i)) (\<lambda>started.
     bind_prog (lift (assert_that started)) (\<lambda>_.
     bind_prog (case a of
         Some addr \<Rightarrow> bind_prog (setup_vpn E i addr) (\<lambda>v. ret (Some v))
       | None \<Rightarrow> ret None) (\<lambda>vpn.
       ret (Inr \<lparr>cont_id = Some i, cont_vpn = vpn\<rparr>))))"
  by (subst create_run_unfold) (simp add: prog_monad create_run_inspect split: option.split)

lemma create_run_create:
  "create_run E F img a ports AtCreate =
     bind_prog (call (docker_create E (create_body F img a ports))) (\<lambda>created.
     bind_prog (lift (unwrap created)) (\<lambda>i. create_run E F img a ports (AtStart i)))"
  by (subst create_run_unfold) (simp add: prog_monad)

lemma create_run_addr:
  "create_run E F img a ports AtAddr =
     bind_prog (case a of
         Some addr \<Rightarrow> run_checked E ''ip'' [''addr'', ''add'', vpn_ip addr, ''dev'', ''eth42'']
       | None \<Rightarrow> ret ()) (\<lambda>_. create_run E F img a ports AtCreate)"
  by (subst create_run_unfold) (simp add: prog_monad)

lemma create_run_eq: "create_run E F img a ports AtConnect = container_create E F img a ports"
proof -
  have "(case (if b then Inl AtAddr else Inr (Inl ())) of Inl pc \<Rightarrow> create_run E F img a ports pc | Inr x \<Rightarrow> ret x) =
      (if \<not> b then ret (Inl ()) else create_run E F img a ports AtAddr)" for b
    by simp
  then show ?thesis
    by (subst create_run_unfold)
      (simp only: create_step.simps prog_monad create_run_addr create_run_create create_run_start container_create_def)
qed

lemma stop_run_unaddr:
  "stop_run E c (AtUnaddr vpn) =
     bind_prog (run_checked E ''ip'' [''addr'', ''del'', vpn_ip (vpn_addr vpn), ''dev'', ''eth42'']) (\<lambda>_.
       lift (container_drop (c\<lparr>cont_id := None\<rparr>)))"
  by (subst stop_run_unfold) (simp add: prog_monad)

lemma stop_run_unredirect:
  "stop_run E c (AtUnredirect vpn) =
     bind_prog (teardown_vpn E vpn) (\<lambda>_. lift (container_drop (c\<lparr>cont_id := None\<rparr>)))"
  by (subst stop_run_unfold) (simp add: prog_monad teardown_vpn_def stop_run_unaddr)

lemma stop_run_stop:
  "stop_run E c (AtStop i) =
     bind_prog (call (docker_stop E i)) (\<lambda>_.
     bind_prog (case cont_vpn c of Some vpn \<Rightarrow> teardown_vpn E vpn | None \<Rightarrow> ret ()) (\<lambda>_.
       lift (container_drop (c\<lparr>cont_id := None\<rparr>))))"
  by (subst stop_run_unfold)
    (simp add: prog_monad stop_run_unredirect split: option.split)

lemma stop_run_eq: "stop_run E c AtStopConnect = container_shutdown E c"
  by (subst stop_run_unfold)
    (simp add: prog_monad stop_run_stop container_shutdown_def Let_def if_distrib [of "\<lambda>x. bind_prog x _"] cong: if_cong)

end
