(* ===== verification/Daemon.thy ===== *)
theory Daemon
  imports Interface Container_Steps
begin

text \<open>
  The daemon itself: \<^verbatim>\<open>challd/src/main.rs\<close>. First the pieces of \<open>main\<close> and
  of a connection's task as functions, then the whole daemon as a step relation in which
  any number of connections, their container tasks and the main loop interleave. A step of
  a task touches the shared state once: it probes the address pool with one
  \<^verbatim>\<open>fetch_or\<close>, makes one request to Docker or runs one command of a container's
  creation or shutdown, adds or removes a peer, or gives an address back.
\<close>

section \<open>Requests\<close>

definition RESULT_OK :: u8 where "RESULT_OK = 0"

definition RESULT_MALFORMED_REQUEST :: u8 where "RESULT_MALFORMED_REQUEST = 1"

definition RESULT_INVALID_PORT :: u8 where "RESULT_INVALID_PORT = 2"

definition RESULT_BUSY :: u8 where "RESULT_BUSY = 3"

definition MODE_GUEST :: u8 where "MODE_GUEST = 0"

definition MODE_DEMO :: u8 where "MODE_DEMO = 1"

lemmas protocol_consts =
  RESULT_OK_def RESULT_MALFORMED_REQUEST_def RESULT_INVALID_PORT_def RESULT_BUSY_def
  MODE_GUEST_def MODE_DEMO_def

datatype mode = GuestRequest u32 | Demo

record request =
  req_mode :: mode
  req_image :: string
  req_ports :: "port_mapping list"

text \<open>
  What a connection's task does before it starts a container: go on with a value, answer
  with a result code and end, or wait for bytes that do not come.
\<close>

datatype 'a handled = Parsed 'a | Reply u8 | Stalled

text \<open>The macro \<^verbatim>\<open>handle_error!\<close>: both of its forms answer the given code.\<close>

definition handle_error :: "'a io \<Rightarrow> u8 \<Rightarrow> ('a \<Rightarrow> 'b handled) \<Rightarrow> 'b handled" where
  "handle_error r e k =
     (case r of Ready (Some v) \<Rightarrow> k v | Ready None \<Rightarrow> Reply e | Pending \<Rightarrow> Stalled)"

definition read_mode :: "stream \<Rightarrow> (mode \<times> stream \<Rightarrow> 'b handled) \<Rightarrow> 'b handled" where
  "read_mode s k =
     handle_error (read_u8 s) RESULT_MALFORMED_REQUEST (\<lambda>(m, s).
       if m = MODE_GUEST then
         handle_error (read_u32_le s) RESULT_MALFORMED_REQUEST (\<lambda>(guest_code, s).
           k (GuestRequest guest_code, s))
       else if m = MODE_DEMO then k (Demo, s)
       else Reply RESULT_MALFORMED_REQUEST)"

definition parse_request :: "stream \<Rightarrow> request handled" where
  "parse_request s =
     read_mode s (\<lambda>(m, s).
     handle_error (read_u8 s) RESULT_MALFORMED_REQUEST (\<lambda>(len, s).
     handle_error (read_exact (unat len) s) RESULT_MALFORMED_REQUEST (\<lambda>(name, s).
     (case from_utf8 name of
        None \<Rightarrow> Reply RESULT_MALFORMED_REQUEST
      | Some image_name \<Rightarrow>
          handle_error (port_mappings_read s) RESULT_INVALID_PORT (\<lambda>(ports, s).
            Parsed \<lparr>req_mode = m, req_image = image_name, req_ports = ports\<rparr>)))))"

section \<open>Answers\<close>

text \<open>
  The bytes written once a container runs: the code, and for a guest the length of the
  configuration as two bytes (a panic if it does not fit) and its text.
\<close>

definition ok_response :: "wg_config option \<Rightarrow> u8 list outcome" where
  "ok_response maybe_cfg =
     (case maybe_cfg of
        None \<Rightarrow> Done [RESULT_OK]
      | Some cfg \<Rightarrow>
          let s = serialize cfg in
          if length s < 2 ^ 16 then
            Done ([RESULT_OK] @ le_bytes_u16 (word_of_nat (length s)) @ as_bytes s)
          else Panic)"

section \<open>Start and end of the process\<close>

text \<open>
  Values of \<open>main\<close> are dropped in reverse order of their creation, also when a later
  \<^verbatim>\<open>unwrap\<close> or assertion panics.
\<close>

definition main_init ::
  "'w env \<Rightarrow> features \<Rightarrow> crypto \<Rightarrow> string option \<Rightarrow> ('w, string \<times> address_manager \<times> interface) prog" where
  "main_init E F C socket_var =
     (let socket_path = (case socket_var of Some p \<Rightarrow> p | None \<Rightarrow> ''socket'') in
     bind_prog (dummy_create E) (\<lambda>_.
     on_panic (
       bind_prog (lift address_manager_new) (\<lambda>addrs.
       bind_prog (call (install_sigterm E)) (\<lambda>installed.
       bind_prog (lift (assert_that installed)) (\<lambda>_.
       bind_prog (interface_new E C) (\<lambda>r.
       bind_prog (lift (case r of Inr itf \<Rightarrow> Done itf | Inl _ \<Rightarrow> Panic)) (\<lambda>itf.
       on_panic (
         bind_prog (call (socket_bind E socket_path)) (\<lambda>bound.
         bind_prog (lift (assert_that bound)) (\<lambda>_.
         bind_prog (if challd_group F then run_checked E ''chown'' [''root:challd'', socket_path] else ret ()) (\<lambda>_.
         bind_prog (run_checked E ''chmod'' [''720'', socket_path]) (\<lambda>_.
           ret (socket_path, addrs, itf))))))
       (interface_drop E)))))))
     (dummy_drop E)))"

definition main_exit :: "'w env \<Rightarrow> string \<Rightarrow> ('w, unit) prog" where
  "main_exit E socket_path =
     with_drop (with_drop
       (bind_prog (call (remove_file E socket_path)) (\<lambda>ok. lift (assert_that ok)))
       (interface_drop E)) (dummy_drop E)"

section \<open>The life of a connection\<close>

text \<open>
  Where a connection's task stands. A task that panicked (\<open>Crashed\<close>) keeps the address it
  had taken: nothing gives it back. \<open>Aborting\<close> ends the whole process.
\<close>

datatype pc =
    Absent
  | Reading stream
  | Rejected u8
  | Probing request nat
  | Starting request "u8 option" create_stage
  | Started container "u8 option"
  | Waiting container "u8 option" "(key \<times> wg_config) option" nat
  | Stopping container "u8 option" stop_stage
  | Releasing u8
  | Finished
  | Crashed "u8 option"
  | Aborting "u8 option"

text \<open>What the \<^verbatim>\<open>select!\<close> of a container's task can fire on.\<close>

datatype wake = Slept | TokenCancelled | ContainerStopped

definition GUEST_SECS :: nat where "GUEST_SECS = 4 * 60 * 60"

definition DEMO_SECS :: nat where "DEMO_SECS = 6 * 60 * 60"

record 'w shared =
  s_mgr :: address_manager
  s_world :: 'w

text \<open>The future that cleans up is dropped unrun: the container in it is dropped.\<close>

definition cleanup_drop :: "container \<Rightarrow> unit outcome" where
  "cleanup_drop c = container_drop c"

definition crash :: "'a outcome \<Rightarrow> u8 option \<Rightarrow> pc" where
  "crash r addr = (case r of Abort \<Rightarrow> Aborting addr | _ \<Rightarrow> Crashed addr)"

text \<open>Reading the request and taking an address.\<close>

definition step_reading :: "stream \<Rightarrow> pc option" where
  "step_reading s =
     (case parse_request s of
        Stalled \<Rightarrow> None
      | Reply e \<Rightarrow> Some (Rejected e)
      | Parsed req \<Rightarrow>
          (case req_mode req of
             GuestRequest _ \<Rightarrow> Some (Probing req 0)
           | Demo \<Rightarrow> Some (Starting req None AtConnect)))"

definition step_probing :: "request \<Rightarrow> nat \<Rightarrow> 'w shared \<Rightarrow> pc \<times> 'w shared" where
  "step_probing req i sh =
     (if i < MAX_INSTANCES then
        (case fetch_or_true (s_mgr sh) i of
           Done (used, m) \<Rightarrow>
             (if \<not> used then Starting req (Some (word_of_nat i + 1)) AtConnect else Probing req (Suc i),
              sh\<lparr>s_mgr := m\<rparr>)
         | r \<Rightarrow> (crash r None, sh))
      else (Rejected RESULT_BUSY, sh))"

text \<open>The tracked task: create the container, add the peer, wait, clean up.\<close>

definition step_starting ::
  "'w env \<Rightarrow> features \<Rightarrow> request \<Rightarrow> u8 option \<Rightarrow> create_stage \<Rightarrow> 'w shared \<Rightarrow> pc \<times> 'w shared" where
  "step_starting E F req addr pc sh =
     (case create_step E F (req_image req) addr (req_ports req) pc (s_world sh) of
        (Done (Inl pc'), w) \<Rightarrow> (Starting req addr pc', sh\<lparr>s_world := w\<rparr>)
      | (Done (Inr (Inr c)), w) \<Rightarrow> (Started c addr, sh\<lparr>s_world := w\<rparr>)
      | (Done (Inr (Inl _)), w) \<Rightarrow> (Crashed addr, sh\<lparr>s_world := w\<rparr>)
      | (r, w) \<Rightarrow> (crash r addr, sh\<lparr>s_world := w\<rparr>))"

definition step_started ::
  "'w env \<Rightarrow> features \<Rightarrow> crypto \<Rightarrow> interface \<Rightarrow> nat \<Rightarrow> container \<Rightarrow> u8 option \<Rightarrow> 'w shared \<Rightarrow> pc \<times> 'w shared" where
  "step_started E F C itf now c addr sh =
     (case addr of
        None \<Rightarrow> (Waiting c None None now, sh)
      | Some a \<Rightarrow>
          (case add_temp_peer E F C itf (cleanup_drop c) a (s_world sh) of
             (Done (Inr (k, cfg)), w) \<Rightarrow> (Waiting c addr (Some (k, cfg)) now, sh\<lparr>s_world := w\<rparr>)
           | (Done (Inl _), w) \<Rightarrow> (Crashed addr, sh\<lparr>s_world := w\<rparr>)
           | (r, w) \<Rightarrow> (crash r addr, sh\<lparr>s_world := w\<rparr>)))"

definition wake_enabled :: "wake \<Rightarrow> bool \<Rightarrow> nat \<Rightarrow> u8 option \<Rightarrow> nat \<Rightarrow> bool" where
  "wake_enabled cause cancelled now addr since =
     (case cause of
        Slept \<Rightarrow> since + (case addr of Some _ \<Rightarrow> GUEST_SECS | None \<Rightarrow> DEMO_SECS) \<le> now
      | TokenCancelled \<Rightarrow> cancelled
      | ContainerStopped \<Rightarrow> True)"

definition step_waiting ::
  "'w env \<Rightarrow> container \<Rightarrow> u8 option \<Rightarrow> (key \<times> wg_config) option \<Rightarrow> 'w shared \<Rightarrow> pc \<times> 'w shared" where
  "step_waiting E c addr k sh =
     (case k of
        None \<Rightarrow> (Stopping c addr AtStopConnect, sh)
      | Some (pk, cfg) \<Rightarrow>
          (case wg_remove_peer E pk (s_world sh) of
             (True, w) \<Rightarrow> (Stopping c addr AtStopConnect, sh\<lparr>s_world := w\<rparr>)
           | (False, w) \<Rightarrow> (crash (cleanup_drop c) addr, sh\<lparr>s_world := w\<rparr>)))"

definition step_stopping ::
  "'w env \<Rightarrow> container \<Rightarrow> u8 option \<Rightarrow> stop_stage \<Rightarrow> 'w shared \<Rightarrow> pc \<times> 'w shared" where
  "step_stopping E c addr pc sh =
     (case stop_step E c pc (s_world sh) of
        (Done (Inl pc'), w) \<Rightarrow> (Stopping c addr pc', sh\<lparr>s_world := w\<rparr>)
      | (Done (Inr _), w) \<Rightarrow> (case addr of Some a \<Rightarrow> Releasing a | None \<Rightarrow> Finished, sh\<lparr>s_world := w\<rparr>)
      | (r, w) \<Rightarrow> (crash r addr, sh\<lparr>s_world := w\<rparr>))"

definition step_releasing :: "u8 \<Rightarrow> 'w shared \<Rightarrow> pc \<times> 'w shared" where
  "step_releasing a sh =
     (case relinquish_addr (s_mgr sh) a of
        Done m \<Rightarrow> (Finished, sh\<lparr>s_mgr := m\<rparr>)
      | r \<Rightarrow> (crash r (Some a), sh))"

text \<open>One step of a connection's task; \<open>None\<close> where it cannot move.\<close>

fun task_step ::
  "'w env \<Rightarrow> features \<Rightarrow> crypto \<Rightarrow> interface \<Rightarrow> bool \<Rightarrow> nat \<Rightarrow> wake \<Rightarrow> pc \<Rightarrow> 'w shared \<Rightarrow> (pc \<times> 'w shared) option" where
  "task_step E F C itf cancelled now cause (Reading s) sh = map_option (\<lambda>p. (p, sh)) (step_reading s)"
| "task_step E F C itf cancelled now cause (Probing req i) sh = Some (step_probing req i sh)"
| "task_step E F C itf cancelled now cause (Starting req addr pc) sh = Some (step_starting E F req addr pc sh)"
| "task_step E F C itf cancelled now cause (Started c addr) sh = Some (step_started E F C itf now c addr sh)"
| "task_step E F C itf cancelled now cause (Waiting c addr k since) sh =
     (if wake_enabled cause cancelled now addr since then Some (step_waiting E c addr k sh) else None)"
| "task_step E F C itf cancelled now cause (Stopping c addr pc) sh = Some (step_stopping E c addr pc sh)"
| "task_step E F C itf cancelled now cause (Releasing a) sh = Some (step_releasing a sh)"
| "task_step E F C itf cancelled now cause p sh = None"

text \<open>
  What the client is sent: the code of a rejected request, or the answer of a task that
  spawned on its way to waiting for the container's end.
\<close>

definition reply :: "pc \<Rightarrow> u8 list outcome option" where
  "reply p =
     (case p of
        Rejected e \<Rightarrow> Some (Done [e])
      | Waiting c addr k since \<Rightarrow> Some (ok_response (map_option snd k))
      | _ \<Rightarrow> None)"

section \<open>The daemon\<close>

datatype phase = Serving | Draining | Exited | ProcessAborted

record 'w daemon =
  d_shared :: "'w shared"
  d_tasks :: "nat \<Rightarrow> pc"
  d_phase :: phase
  d_now :: nat

text \<open>The tasks \<^verbatim>\<open>tracker\<close> waits for: those spawned on it and not ended.\<close>

fun tracked :: "pc \<Rightarrow> bool" where
  "tracked (Starting _ _ _) = True"
| "tracked (Started _ _) = True"
| "tracked (Waiting _ _ _ _) = True"
| "tracked (Stopping _ _ _) = True"
| "tracked (Releasing _) = True"
| "tracked _ = False"

definition running :: "'w daemon \<Rightarrow> bool" where
  "running d \<longleftrightarrow> d_phase d = Serving \<or> d_phase d = Draining"

definition is_Aborting :: "pc \<Rightarrow> bool" where
  "is_Aborting p = (case p of Aborting _ \<Rightarrow> True | _ \<Rightarrow> False)"

definition set_task :: "'w daemon \<Rightarrow> nat \<Rightarrow> pc \<times> 'w shared \<Rightarrow> 'w daemon" where
  "set_task d t r = d\<lparr>d_tasks := (d_tasks d)(t := fst r), d_shared := snd r,
     d_phase := (if is_Aborting (fst r) then ProcessAborted else d_phase d)\<rparr>"

text \<open>
  Apart from the daemon's own steps, the host may change on its own (\<open>outside\<close>): containers
  end, other programs run.
\<close>

inductive dstep :: "'w env \<Rightarrow> features \<Rightarrow> crypto \<Rightarrow> interface \<Rightarrow> string \<Rightarrow> 'w daemon \<Rightarrow> 'w daemon \<Rightarrow> bool"
  for E F C itf path where
  accept: "d_phase d = Serving \<Longrightarrow> d_tasks d t = Absent \<Longrightarrow>
     dstep E F C itf path d (d\<lparr>d_tasks := (d_tasks d)(t := Reading s)\<rparr>)"
| advance: "running d \<Longrightarrow>
     task_step E F C itf (d_phase d = Draining) (d_now d) cause (d_tasks d t) (d_shared d) = Some r \<Longrightarrow>
     dstep E F C itf path d (set_task d t r)"
| tick: "running d \<Longrightarrow> dstep E F C itf path d (d\<lparr>d_now := Suc (d_now d)\<rparr>)"
| outside: "running d \<Longrightarrow> dstep E F C itf path d (d\<lparr>d_shared := (d_shared d)\<lparr>s_world := w\<rparr>\<rparr>)"
| signal: "d_phase d = Serving \<Longrightarrow> dstep E F C itf path d (d\<lparr>d_phase := Draining\<rparr>)"
| exit: "d_phase d = Draining \<Longrightarrow> \<forall>t. \<not> tracked (d_tasks d t) \<Longrightarrow>
     dstep E F C itf path d (d\<lparr>d_phase := Exited,
       d_shared := (d_shared d)\<lparr>s_world := snd (main_exit E path (s_world (d_shared d)))\<rparr>\<rparr>)"

inductive_cases dstepE: "dstep E F C itf path d d'"

definition initial :: "address_manager \<Rightarrow> 'w \<Rightarrow> 'w daemon" where
  "initial m w = \<lparr>d_shared = \<lparr>s_mgr = m, s_world = w\<rparr>, d_tasks = (\<lambda>_. Absent),
     d_phase = Serving, d_now = 0\<rparr>"

inductive reachable :: "'w env \<Rightarrow> features \<Rightarrow> crypto \<Rightarrow> interface \<Rightarrow> string \<Rightarrow> 'w daemon \<Rightarrow> bool"
  for E F C itf path where
  start: "address_manager_new = Done m \<Longrightarrow> reachable E F C itf path (initial m w)"
| step: "reachable E F C itf path d \<Longrightarrow> dstep E F C itf path d d' \<Longrightarrow> reachable E F C itf path d'"

end
