(* ===== verification/Base64.thy ===== *)
theory Base64
  imports Prelude
begin

text \<open>
  Standard base64 with padding. Both programs call the \<^verbatim>\<open>base64\<close> crate for it, so
  the models take the encoder and decoder as parameters; the locale \<open>base64_laws\<close> names
  what they rely on and the codec of RFC 4648 below keeps those laws.
\<close>

locale base64_laws =
  fixes enc :: "u8 list \<Rightarrow> string"
    and dec :: "string \<Rightarrow> u8 list option"
  assumes dec_enc: "dec (enc bs) = Some bs"
    and enc_length: "length (enc bs) = 4 * ((length bs + 2) div 3)"
    and enc_ascii: "is_ascii (enc bs)"
    and enc_one_line: "CHR 0x0A \<notin> set (enc bs)"

section \<open>The codec of RFC 4648\<close>

definition b64_alphabet :: string where
  "b64_alphabet = ''ABCDEFGHIJKLMNOPQRSTUVWXYZabcdefghijklmnopqrstuvwxyz0123456789+/''"

definition b64_char :: "nat \<Rightarrow> char" where
  "b64_char n = b64_alphabet ! n"

definition b64_value :: "char \<Rightarrow> nat option" where
  "b64_value c = map_of (zip b64_alphabet [0..<64]) c"

fun rfc4648_encode :: "u8 list \<Rightarrow> string" where
  "rfc4648_encode [] = []"
| "rfc4648_encode [a] =
     [b64_char (unat a div 4), b64_char (unat a mod 4 * 16), CHR ''='', CHR ''='']"
| "rfc4648_encode [a, b] =
     [b64_char (unat a div 4), b64_char (unat a mod 4 * 16 + unat b div 16),
      b64_char (unat b mod 16 * 4), CHR ''='']"
| "rfc4648_encode (a # b # c # bs) =
     b64_char (unat a div 4) # b64_char (unat a mod 4 * 16 + unat b div 16) #
     b64_char (unat b mod 16 * 4 + unat c div 64) # b64_char (unat c mod 64) # rfc4648_encode bs"

text \<open>
  The decoder takes groups of four characters, the last one with one or two padding
  characters whose unused bits must be zero, as the crate's standard engine demands.
\<close>

fun rfc4648_decode :: "string \<Rightarrow> u8 list option" where
  "rfc4648_decode [] = Some []"
| "rfc4648_decode (p # q # r # s # cs) =
     (case (b64_value p, b64_value q) of
        (Some x, Some y) \<Rightarrow>
          if r = CHR ''='' \<and> s = CHR ''='' \<and> cs = [] then
            (if y mod 16 = 0 then Some [word_of_nat (x * 4 + y div 16)] else None)
          else (case b64_value r of
             None \<Rightarrow> None
           | Some z \<Rightarrow>
               if s = CHR ''='' \<and> cs = [] then
                 (if z mod 4 = 0 then
                    Some [word_of_nat (x * 4 + y div 16), word_of_nat (y mod 16 * 16 + z div 4)]
                  else None)
               else (case b64_value s of
                  None \<Rightarrow> None
                | Some v \<Rightarrow>
                    map_option (\<lambda>bs. [word_of_nat (x * 4 + y div 16),
                        word_of_nat (y mod 16 * 16 + z div 4), word_of_nat (z mod 4 * 64 + v)] @ bs)
                      (rfc4648_decode cs)))
      | _ \<Rightarrow> None)"
| "rfc4648_decode _ = None"

lemma b64_alphabet_facts:
  "distinct b64_alphabet" "length b64_alphabet = 64"
  "CHR ''='' \<notin> set b64_alphabet" "CHR 0x0A \<notin> set b64_alphabet"
  by (simp_all add: b64_alphabet_def)

lemma b64_value_char [simp]: "n < 64 \<Longrightarrow> b64_value (b64_char n) = Some n"
proof -
  assume n: "n < 64"
  have "map_of (zip b64_alphabet [0..<64]) (b64_alphabet ! n) = Some ([0..<64] ! n)"
    using n b64_alphabet_facts(1,2) by (intro map_of_zip_nth) simp_all
  with n show ?thesis by (simp add: b64_value_def b64_char_def)
qed

lemma b64_char_mem: "n < 64 \<Longrightarrow> b64_char n \<in> set b64_alphabet"
  using b64_alphabet_facts(2) by (simp add: b64_char_def)

lemma b64_char_not_pad [simp]: "n < 64 \<Longrightarrow> b64_char n \<noteq> CHR ''=''"
  using b64_char_mem b64_alphabet_facts(3) by metis

lemma b64_char_not_newline [simp]: "n < 64 \<Longrightarrow> CHR 0x0A \<noteq> b64_char n"
  using b64_char_mem b64_alphabet_facts(4) by metis

lemma u8_less: "unat (a :: u8) < 256"
  using unsigned_less [of a, where ?'a = nat] by simp

text \<open>The six-bit groups of three bytes, and back.\<close>

lemma sextets [simp]:
  fixes a b c :: u8
  shows "unat a div 4 < 64" "unat a mod 4 * 16 < 64" "unat a mod 4 * 16 + unat b div 16 < 64"
    "unat b mod 16 * 4 < 64" "unat b mod 16 * 4 + unat c div 64 < 64" "unat c mod 64 < 64"
  using u8_less [of a] u8_less [of b] u8_less [of c] by simp_all

lemma regroup:
  fixes a b c :: u8
  shows "word_of_nat (unat a div 4 * 4 + (unat a mod 4 * 16) div 16) = a"
    "word_of_nat (unat a div 4 * 4 + (unat a mod 4 * 16 + unat b div 16) div 16) = a"
    "word_of_nat ((unat a mod 4 * 16 + unat b div 16) mod 16 * 16 + (unat b mod 16 * 4) div 4) = b"
    "word_of_nat ((unat a mod 4 * 16 + unat b div 16) mod 16 * 16 + (unat b mod 16 * 4 + unat c div 64) div 4) = b"
    "word_of_nat ((unat b mod 16 * 4 + unat c div 64) mod 4 * 64 + unat c mod 64) = c"
proof -
  have bounds: "unat b div 16 < 16" "unat c div 64 < 4"
    using u8_less [of b] u8_less [of c] by linarith+
  have 1: "unat a div 4 * 4 + (unat a mod 4 * 16) div 16 = unat a" by simp
  have 2: "unat a div 4 * 4 + (unat a mod 4 * 16 + unat b div 16) div 16 = unat a"
    using bounds by simp
  have 3: "(unat a mod 4 * 16 + unat b div 16) mod 16 * 16 + (unat b mod 16 * 4) div 4 = unat b"
    using bounds by simp
  have 4: "(unat a mod 4 * 16 + unat b div 16) mod 16 * 16 + (unat b mod 16 * 4 + unat c div 64) div 4 = unat b"
    using bounds by simp
  have 5: "(unat b mod 16 * 4 + unat c div 64) mod 4 * 64 + unat c mod 64 = unat c"
    using bounds by simp
  show "word_of_nat (unat a div 4 * 4 + (unat a mod 4 * 16) div 16) = a"
    "word_of_nat (unat a div 4 * 4 + (unat a mod 4 * 16 + unat b div 16) div 16) = a"
    "word_of_nat ((unat a mod 4 * 16 + unat b div 16) mod 16 * 16 + (unat b mod 16 * 4) div 4) = b"
    "word_of_nat ((unat a mod 4 * 16 + unat b div 16) mod 16 * 16 + (unat b mod 16 * 4 + unat c div 64) div 4) = b"
    "word_of_nat ((unat b mod 16 * 4 + unat c div 64) mod 4 * 64 + unat c mod 64) = c"
    by (simp_all only: 1 2 3 4 5 of_nat_unat ucast_id)
qed

lemma rfc4648_decode_encode: "rfc4648_decode (rfc4648_encode bs) = Some bs"
proof (induction bs rule: rfc4648_encode.induct)
  case (3 a b)
  then show ?case using regroup(2,3) [of a b] by simp
next
  case (4 a b c bs)
  then show ?case using regroup(2) [of a b] regroup(4) [of a b c] regroup(5) [of b c] by simp
qed (simp_all add: regroup(1) del: One_nat_def)

lemma rfc4648_encode_length: "length (rfc4648_encode bs) = 4 * ((length bs + 2) div 3)"
proof (induction bs rule: rfc4648_encode.induct)
  case (4 a b c bs)
  have "(n + 3) div 3 = Suc (n div 3)" for n :: nat by simp
  from this [of "length bs + 2"] have "(length bs + 5) div 3 = Suc ((length bs + 2) div 3)"
    by simp
  with 4 show ?case by (simp add: add.commute)
qed simp_all

lemma b64_char_ascii: "n < 64 \<Longrightarrow> is_ascii [b64_char n]"
proof -
  assume "n < 64"
  moreover have "\<forall>c \<in> set b64_alphabet. byte_of c < 0x80"
    by (simp add: b64_alphabet_def byte_of_def word_less_nat_alt)
  ultimately show ?thesis using b64_char_mem by (simp add: is_ascii_def)
qed

lemma rfc4648_encode_ascii: "is_ascii (rfc4648_encode bs)"
  by (induction bs rule: rfc4648_encode.induct)
    (use b64_char_ascii in \<open>auto simp: is_ascii_def byte_of_def word_less_nat_alt\<close>)

lemma rfc4648_encode_one_line: "CHR 0x0A \<notin> set (rfc4648_encode bs)"
  by (induction bs rule: rfc4648_encode.induct) simp_all

interpretation rfc4648: base64_laws rfc4648_encode rfc4648_decode
  by unfold_locales
    (simp_all add: rfc4648_decode_encode rfc4648_encode_length rfc4648_encode_ascii rfc4648_encode_one_line)

end
