(* ===== verification/Daemon_Invariant.thy ===== *)
theory Daemon_Invariant
  imports Daemon Base64
begin

text \<open>
  What holds in every state the daemon can reach, whatever its environment does: which
  task owns which guest address, that tasks keep what they need to clean up, that no
  container task gets stuck once the daemon drains, and how long a drain can take.
\<close>

section \<open>Ownership of addresses\<close>

text \<open>The address attached to a task, also after it has crashed.\<close>

fun holds :: "pc \<Rightarrow> u8 option" where
  "holds (Starting _ a _) = a"
| "holds (Started _ a) = a"
| "holds (Waiting _ a _ _) = a"
| "holds (Stopping _ a _) = a"
| "holds (Releasing a) = Some a"
| "holds (Crashed a) = a"
| "holds (Aborting a) = a"
| "holds _ = None"

text \<open>
  The invariant: the pool is well formed, it marks exactly the addresses attached to
  tasks, and no address is attached to two of them.
\<close>

definition holders :: "(nat \<Rightarrow> pc) \<Rightarrow> nat \<rightharpoonup> u8" where
  "holders ts t = holds (ts t)"

definition owned :: "(nat \<rightharpoonup> u8) \<Rightarrow> address_manager \<Rightarrow> bool" where
  "owned h m \<longleftrightarrow> pool_wf m \<and> in_use m = ran h \<and> inj_on h (dom h)"

lemma in_use_subset: "in_use m \<subseteq> pool_addrs"
  by (auto simp: in_use_def)

lemma holders_upd [simp]: "holders (ts(t := p)) = (holders ts)(t := holds p)"
  by (auto simp: holders_def)

lemma holders_at: "holders ts t = holds (ts t)"
  by (simp add: holders_def)

lemma owned_take:
  assumes "owned h m" "h t = None" "a \<notin> in_use m" "in_use m' = insert a (in_use m)" "pool_wf m'"
  shows "owned (h(t \<mapsto> a)) m'"
proof -
  from assms have "a \<notin> ran h" by (simp add: owned_def)
  then have "inj_on (h(t \<mapsto> a)) (insert t (dom h))"
    using assms(1,2) by (auto simp: owned_def inj_on_def ran_def)
  with assms show ?thesis by (simp add: owned_def)
qed

lemma ran_upd_None: "inj_on h (dom h) \<Longrightarrow> h t = Some a \<Longrightarrow> ran (h(t := None)) = ran h - {a}"
proof -
  assume inj: "inj_on h (dom h)" and t: "h t = Some a"
  have only: "u = t" if "h u = Some a" for u
    using inj t that by (metis domI inj_onD)
  have "b \<in> ran (h(t := None)) \<longleftrightarrow> b \<in> ran h \<and> b \<noteq> a" for b
  proof
    assume "b \<in> ran (h(t := None))"
    then obtain u where "u \<noteq> t" "h u = Some b" by (auto simp: ran_def split: if_splits)
    then show "b \<in> ran h \<and> b \<noteq> a" using only ranI [of h u b] by blast
  next
    assume "b \<in> ran h \<and> b \<noteq> a"
    then obtain u where u: "h u = Some b" "b \<noteq> a" by (auto simp: ran_def)
    with t have "(h(t := None)) u = Some b" by auto
    then show "b \<in> ran (h(t := None))" by (rule ranI)
  qed
  then show ?thesis by blast
qed

lemma owned_release:
  assumes "owned h m" "h t = Some a" "in_use m' = in_use m - {a}" "pool_wf m'"
  shows "owned (h(t := None)) m'"
  using assms ran_upd_None [of h t a] by (auto simp: owned_def inj_on_def)

section \<open>What one step of a task does to its address\<close>

lemma holds_crash [simp]: "holds (crash r a) = a"
  by (cases r) (simp_all add: crash_def)

lemma step_reading_holds: "step_reading s = Some p \<Longrightarrow> holds p = None"
  by (auto simp: step_reading_def split: handled.splits mode.splits)

lemma step_starting_holds: "step_starting E F req a pc sh = (p, sh') \<Longrightarrow> holds p = a \<and> s_mgr sh' = s_mgr sh"
  by (auto simp: step_starting_def split: prod.splits outcome.splits sum.splits)

lemma step_started_holds:
  "step_started E F C itf now c a sh = (p, sh') \<Longrightarrow> holds p = a \<and> s_mgr sh' = s_mgr sh"
  by (auto simp: step_started_def split: prod.splits outcome.splits sum.splits option.splits)

lemma step_waiting_holds: "step_waiting E c a k sh = (p, sh') \<Longrightarrow> holds p = a \<and> s_mgr sh' = s_mgr sh"
  by (auto simp: step_waiting_def split: prod.splits option.splits bool.splits)

lemma step_stopping_holds: "step_stopping E c a pc sh = (p, sh') \<Longrightarrow> holds p = a \<and> s_mgr sh' = s_mgr sh"
  by (auto simp: step_stopping_def split: prod.splits outcome.splits sum.splits option.splits)

lemmas step_holds = step_starting_holds step_started_holds step_waiting_holds step_stopping_holds

lemma step_probing_owned:
  assumes o: "owned h (s_mgr sh)" and t: "h t = None" and s: "step_probing req i sh = (p, sh')"
  shows "owned (h(t := holds p)) (s_mgr sh')"
proof (cases "i < MAX_INSTANCES")
  case False
  with s have "holds p = None" "sh' = sh" by (auto simp: step_probing_def)
  with o t show ?thesis by (simp add: fun_upd_idem)
next
  case True
  from o have wf: "pool_wf (s_mgr sh)" by (simp add: owned_def)
  from fetch_or_true_total [OF wf True] obtain b m where f: "fetch_or_true (s_mgr sh) i = Done (b, m)" by blast
  note facts = fetch_or_true_addr [OF wf True f]
  show ?thesis
  proof (cases b)
    case False
    with True f s have "holds p = Some (word_of_nat i + 1)" "s_mgr sh' = m"
      by (auto simp: step_probing_def)
    with facts False owned_take [OF o t, of "word_of_nat i + 1" m] show ?thesis by simp
  next
    case b: True
    with True f s have p: "holds p = None" "s_mgr sh' = m" by (auto simp: step_probing_def)
    from b facts have "in_use m = in_use (s_mgr sh)" by auto
    with o facts(1) have "owned h m" by (simp add: owned_def)
    with t p show ?thesis by (simp add: fun_upd_idem)
  qed
qed

lemma step_releasing_owned:
  assumes o: "owned h (s_mgr sh)" and t: "h t = Some a"
  shows "\<exists>m. step_releasing a sh = (Finished, sh\<lparr>s_mgr := m\<rparr>) \<and> owned (h(t := None)) m"
proof -
  from o t have wf: "pool_wf (s_mgr sh)" and "a \<in> in_use (s_mgr sh)" by (auto simp: owned_def ranI)
  then have "a \<in> pool_addrs" using in_use_subset by blast
  with wf obtain m where "relinquish_addr (s_mgr sh) a = Done m" "pool_wf m" "in_use m = in_use (s_mgr sh) - {a}"
    using relinquish_addr_pool by blast
  with owned_release [OF o t] show ?thesis by (auto simp: step_releasing_def)
qed

text \<open>Every other step keeps the task's address and the pool.\<close>

lemma task_step_keeps:
  assumes "task_step E F C itf cn now cause p0 sh = Some (p, sh')"
    "\<And>req i. p0 \<noteq> Probing req i" "\<And>a. p0 \<noteq> Releasing a"
  shows "holds p = holds p0 \<and> s_mgr sh' = s_mgr sh"
proof (cases p0)
  case (Reading s)
  with assms(1) have "step_reading s = Some p" "sh' = sh" by auto
  with Reading step_reading_holds [of s p] show ?thesis by simp
qed (use assms in \<open>auto dest!: step_holds split: if_splits\<close>)

lemma task_step_owned:
  assumes o: "owned h (s_mgr sh)" and h: "h t = holds p0"
    and s: "task_step E F C itf cn now cause p0 sh = Some (p, sh')"
  shows "owned (h(t := holds p)) (s_mgr sh')"
proof (cases p0)
  case (Probing req i)
  with s h show ?thesis using step_probing_owned [OF o] by auto
next
  case (Releasing a)
  with h obtain m where "step_releasing a sh = (Finished, sh\<lparr>s_mgr := m\<rparr>)" "owned (h(t := None)) m"
    using step_releasing_owned [OF o] by auto
  with s Releasing show ?thesis by auto
qed (use o h task_step_keeps [OF s] in \<open>auto simp: fun_upd_idem\<close>)

lemma reachable_owned:
  "reachable E F C itf path d \<Longrightarrow> owned (holders (d_tasks d)) (s_mgr (d_shared d))"
proof (induction rule: reachable.induct)
  case (start m w)
  have "holders (\<lambda>_. Absent) = Map.empty" by (auto simp: holders_def)
  with start fresh_pool show ?case by (auto simp: initial_def owned_def)
next
  case (step d d')
  from step.hyps(2) show ?case
  proof (cases rule: dstep.cases)
    case (accept t s)
    then have "holders (d_tasks d) t = None" by (simp add: holders_at)
    with accept step.IH show ?thesis by (simp add: fun_upd_idem del: fun_upd_apply)
  next
    case (advance cause t r)
    obtain p sh where r: "r = (p, sh)" by fastforce
    have "owned ((holders (d_tasks d))(t := holds p)) (s_mgr sh)"
      using advance r by (intro task_step_owned [OF step.IH]) (auto simp: holders_at)
    with advance r show ?thesis by (simp add: set_task_def del: fun_upd_apply)
  qed (use step.IH in auto)
qed

section \<open>What a task carries\<close>

text \<open>
  A task that has a container has one with an id, whose network set-up is for the address
  the task holds; it has a peer exactly when it has an address.
\<close>

definition container_for :: "container \<Rightarrow> u8 option \<Rightarrow> bool" where
  "container_for c a \<longleftrightarrow> cont_id c \<noteq> None \<and> map_option vpn_addr (cont_vpn c) = a"

fun equipped :: "pc \<Rightarrow> bool" where
  "equipped (Started c a) = container_for c a"
| "equipped (Waiting c a k _) = (container_for c a \<and> (k = None \<longleftrightarrow> a = None))"
| "equipped (Starting _ a pc) = create_for a pc"
| "equipped (Stopping c a pc) = (container_for c a \<and> stop_for c pc)"
| "equipped _ = True"

lemma equipped_crash [simp]: "equipped (crash r a)"
  by (cases r) (simp_all add: crash_def)

lemma task_step_equipped:
  assumes "task_step E F C itf cn now cause p0 sh = Some (p, sh')" "equipped p0"
  shows "equipped p"
  using assms
proof (cases p0)
  case (Reading s)
  with assms show ?thesis by (auto simp: step_reading_def split: handled.splits mode.splits)
next
  case (Probing req i)
  with assms show ?thesis by (auto simp: step_probing_def split: outcome.splits if_splits)
next
  case (Starting req a pc)
  with assms show ?thesis
    by (auto simp: step_starting_def container_for_def dest: create_step_for split: prod.splits outcome.splits sum.splits)
next
  case (Started c a)
  with assms show ?thesis
    by (auto simp: step_started_def split: prod.splits outcome.splits sum.splits option.splits)
next
  case (Waiting c a k since)
  with assms show ?thesis
    by (auto simp: step_waiting_def split: prod.splits option.splits bool.splits if_splits)
next
  case (Stopping c a pc)
  with assms show ?thesis
    by (auto simp: step_stopping_def dest: stop_step_for stop_step_left split: prod.splits outcome.splits sum.splits option.splits)
next
  case (Releasing a)
  with assms show ?thesis by (auto simp: step_releasing_def split: outcome.splits)
qed auto

text \<open>A task that was accepted stays one.\<close>

lemma crash_present [simp]: "crash r a \<noteq> Absent"
  by (cases r) (simp_all add: crash_def)

lemma task_step_present:
  assumes "task_step E F C itf cn now cause p0 sh = Some (p, sh')"
  shows "p0 \<noteq> Absent" "p \<noteq> Absent"
proof -
  show "p0 \<noteq> Absent" using assms by auto
  show "p \<noteq> Absent"
  proof (cases p0)
    case (Reading x)
    with assms show ?thesis by (auto simp: step_reading_def split: handled.splits mode.splits)
  next
    case (Probing req i)
    with assms show ?thesis by (auto simp: step_probing_def split: outcome.splits if_splits)
  next
    case (Starting req a pc)
    with assms show ?thesis by (auto simp: step_starting_def split: prod.splits outcome.splits sum.splits)
  next
    case (Started c a)
    with assms show ?thesis
      by (auto simp: step_started_def split: prod.splits outcome.splits sum.splits option.splits)
  next
    case (Waiting c a k since)
    with assms show ?thesis by (auto simp: step_waiting_def split: prod.splits option.splits bool.splits if_splits)
  next
    case (Stopping c a pc)
    with assms show ?thesis by (auto simp: step_stopping_def split: prod.splits outcome.splits sum.splits option.splits)
  next
    case (Releasing a)
    with assms show ?thesis by (auto simp: step_releasing_def split: outcome.splits)
  qed (use assms in auto)
qed

lemma dstep_task:
  assumes "dstep E F C itf path d d'"
  shows "d_tasks d' u = d_tasks d u \<or>
    (d_tasks d u = Absent \<and> (\<exists>s. d_tasks d' u = Reading s)) \<or>
    (\<exists>cause sh'. task_step E F C itf (d_phase d = Draining) (d_now d) cause (d_tasks d u) (d_shared d)
       = Some (d_tasks d' u, sh'))"
  using assms by cases (auto simp: set_task_def)

lemma reachable_equipped: "reachable E F C itf path d \<Longrightarrow> equipped (d_tasks d t)"
proof (induction rule: reachable.induct)
  case (start m w)
  then show ?case by (simp add: initial_def)
next
  case (step d d')
  from dstep_task [OF step.hyps(2), of t] consider
    "d_tasks d' t = d_tasks d t" | s where "d_tasks d' t = Reading s"
    | cause sh' where "task_step E F C itf (d_phase d = Draining) (d_now d) cause (d_tasks d t) (d_shared d)
       = Some (d_tasks d' t, sh')"
    by metis
  then show ?case
    using step.IH by cases (simp, simp, rule task_step_equipped)
qed

section \<open>Crashes lose their address for good\<close>

lemma dstep_crashed:
  assumes "dstep E F C itf path d d'" "d_tasks d t = Crashed a"
  shows "d_tasks d' t = Crashed a"
  using dstep_task [OF assms(1), of t] assms(2) by auto

lemma dsteps_crashed:
  assumes "(dstep E F C itf path)\<^sup>*\<^sup>* d d'" "d_tasks d t = Crashed a"
  shows "d_tasks d' t = Crashed a"
  using assms by (induction rule: rtranclp_induct) (auto intro: dstep_crashed)

lemma dsteps_reachable:
  "(dstep E F C itf path)\<^sup>*\<^sup>* d d' \<Longrightarrow> reachable E F C itf path d \<Longrightarrow> reachable E F C itf path d'"
  by (induction rule: rtranclp_induct) (auto intro: reachable.step)

section \<open>Every task ends within twenty-one steps\<close>

fun rank :: "pc \<Rightarrow> nat" where
  "rank (Reading _) = 15 + MAX_INSTANCES"
| "rank (Probing _ i) = 14 + (MAX_INSTANCES - i)"
| "rank (Starting _ _ pc) = 7 + create_left pc"
| "rank (Started _ _) = 7"
| "rank (Waiting _ _ _ _) = 6"
| "rank (Stopping _ _ pc) = 1 + stop_left pc"
| "rank (Releasing _) = 1"
| "rank _ = 0"

lemma rank_crash [simp]: "rank (crash r a) = 0"
  by (cases r) (simp_all add: crash_def)

lemma rank_bound: "rank p \<le> 21"
  by (cases p) (auto simp: MAX_INSTANCES_def intro: le_trans [OF create_left_bound] le_trans [OF stop_left_bound])

lemma task_step_rank:
  assumes "task_step E F C itf cn now cause p0 sh = Some (p, sh')"
  shows "rank p < rank p0"
proof (cases p0)
  case (Reading s)
  with assms show ?thesis by (auto simp: step_reading_def split: handled.splits mode.splits)
next
  case (Probing req i)
  with assms show ?thesis by (auto simp: step_probing_def split: outcome.splits if_splits)
next
  case (Starting req a pc)
  with assms show ?thesis
    by (auto simp: step_starting_def dest: create_step_left split: prod.splits outcome.splits sum.splits)
next
  case (Started c a)
  with assms show ?thesis
    by (auto simp: step_started_def split: prod.splits outcome.splits sum.splits option.splits)
next
  case (Waiting c a k since)
  with assms show ?thesis
    by (auto simp: step_waiting_def split: prod.splits option.splits bool.splits if_splits)
next
  case (Stopping c a pc)
  with assms show ?thesis
    by (auto simp: step_stopping_def dest: stop_step_for stop_step_left split: prod.splits outcome.splits sum.splits option.splits)
next
  case (Releasing a)
  with assms show ?thesis by (auto simp: step_releasing_def split: outcome.splits)
qed (use assms in auto)

text \<open>Once the token is cancelled no tracked task waits for anything else.\<close>

lemma tracked_enabled:
  "tracked p \<Longrightarrow> \<exists>r. task_step E F C itf True now TokenCancelled p sh = Some r"
  by (cases p) (auto simp: wake_enabled_def)

lemma reachable_finite: "reachable E F C itf path d \<Longrightarrow> finite {t. d_tasks d t \<noteq> Absent}"
proof (induction rule: reachable.induct)
  case (start m w)
  then show ?case by (simp add: initial_def)
next
  case (step d d')
  from step.hyps(2) have "\<exists>t. {u. d_tasks d' u \<noteq> Absent} \<subseteq> insert t {u. d_tasks d u \<noteq> Absent}"
    by cases (auto simp: set_task_def)
  with step.IH show ?case by (auto intro: finite_subset)
qed

section \<open>Following a creation\<close>

text \<open>
  What every step of a creation keeps holds at its end, when no other step comes in between.
\<close>

lemma follow_create:
  assumes run: "create_run E F (req_image req) a (req_ports req) pc (s_world sh) = (Done (Inr c), w)"
    and Q: "Q (Starting req a pc) sh"
    and step: "\<And>pc sh p sh'. Q (Starting req a pc) sh \<Longrightarrow> step_starting E F req a pc sh = (p, sh') \<Longrightarrow>
      (\<exists>pc'. p = Starting req a pc') \<or> (\<exists>c. p = Started c a) \<Longrightarrow> Q p sh'"
  shows "Q (Started c a) (sh\<lparr>s_world := w\<rparr>)"
  using run Q
proof (induction "create_left pc" arbitrary: pc sh rule: less_induct)
  case less
  note run = less.prems(1) [unfolded create_run.simps [of E F "req_image req" a "req_ports req" pc "s_world sh"]]
  show ?case
  proof (cases "create_step E F (req_image req) a (req_ports req) pc (s_world sh)")
    case (Pair r v)
    with run consider pc' where "r = Done (Inl pc')"
      "create_run E F (req_image req) a (req_ports req) pc' v = (Done (Inr c), w)"
      | "r = Done (Inr (Inr c))" "v = w"
      by (auto split: outcome.splits sum.splits)
    then show ?thesis
    proof cases
      case 1
      with Pair have s: "step_starting E F req a pc sh = (Starting req a pc', sh\<lparr>s_world := v\<rparr>)"
        by (simp add: step_starting_def)
      have "create_left pc' < create_left pc" using create_step_left Pair 1(1) by metis
      moreover have "Q (Starting req a pc') (sh\<lparr>s_world := v\<rparr>)" using step [OF less.prems(2) s] by blast
      ultimately show ?thesis using less.hyps [of pc' "sh\<lparr>s_world := v\<rparr>"] 1(2) by simp
    next
      case 2
      with Pair have "step_starting E F req a pc sh = (Started c a, sh\<lparr>s_world := w\<rparr>)"
        by (simp add: step_starting_def)
      with step [OF less.prems(2)] show ?thesis by blast
    qed
  qed
qed

end
