(* ===== verification/Challd_Props.thy ===== *)
theory Challd_Props
  imports Daemon_Invariant
begin

text \<open>
  Properties of the daemon. The statements about runs quantify over the environment: they
  hold whatever Docker, the kernel and the external commands answer. The ones about effects
  on the host assume the laws of \<open>host_laws\<close>.
\<close>

section \<open>Requests\<close>

lemma handle_error_Parsed:
  "handle_error r e k = Parsed y \<longleftrightarrow> (\<exists>v. r = Ready (Some v) \<and> k v = Parsed y)"
  by (auto simp: handle_error_def split: async.splits option.splits)

lemma handle_error_Stalled:
  "handle_error r e k = Stalled \<longleftrightarrow> r = Pending \<or> (\<exists>v. r = Ready (Some v) \<and> k v = Stalled)"
  by (auto simp: handle_error_def split: async.splits option.splits)

lemma handle_error_Reply:
  "handle_error r e k = Reply x \<longleftrightarrow>
     (r = Ready None \<and> x = e) \<or> (\<exists>v. r = Ready (Some v) \<and> k v = Reply x)"
  by (auto simp: handle_error_def split: async.splits option.splits)

lemma handle_error_Ready [io_simps]: "handle_error (Ready (Some v)) e k = k v"
  by (simp add: handle_error_def)

text \<open>What every value a handler goes on with satisfies, by the handler's structure.\<close>

definition parses_to :: "('a \<Rightarrow> bool) \<Rightarrow> 'a handled \<Rightarrow> bool" where
  "parses_to P h = (case h of Parsed y \<Rightarrow> P y | _ \<Rightarrow> True)"

lemma parses_to_Reply [simp]: "parses_to P (Reply e)"
  by (simp add: parses_to_def)

lemma parses_to_handle_error:
  "(\<And>v. r = Ready (Some v) \<Longrightarrow> parses_to P (k v)) \<Longrightarrow> parses_to P (handle_error r e k)"
  by (auto simp: parses_to_def handle_error_def split: async.splits option.splits)

lemma parses_to_read_mode: "(\<And>v. parses_to P (k v)) \<Longrightarrow> parses_to P (read_mode s k)"
  unfolding read_mode_def by (auto intro!: parses_to_handle_error)

definition request_ok :: "request \<Rightarrow> bool" where
  "request_ok req \<longleftrightarrow>
     length (req_ports req) < 10 \<and> length (req_image req) < 256 \<and> rust_string (req_image req)"

lemma image_name_ok:
  assumes "read_exact (unat (len :: u8)) s = Ready (Some (name, s'))" "from_utf8 name = Some i"
  shows "length i < 256 \<and> rust_string i"
proof -
  from assms(1) have "length name = unat len" by (auto simp: read_exact_def split: if_splits)
  moreover from from_utf8_rust_string [OF assms(2)] have "length i = length name" "rust_string i"
    using length_as_bytes by metis+
  ultimately show ?thesis using u8_less [of len] by simp
qed

lemma parse_request_ok: "parses_to request_ok (parse_request s)"
  unfolding parse_request_def
proof (intro parses_to_read_mode, clarify, intro parses_to_handle_error, clarify,
    intro parses_to_handle_error, clarify)
  fix m s1 e1 len s2 e2 name s3 e3
  assume "read_exact (unat (len :: u8)) (s2, e2) = Ready (Some (name, s3, e3))"
  then show "parses_to request_ok (case from_utf8 name of None \<Rightarrow> Reply RESULT_MALFORMED_REQUEST
      | Some image_name \<Rightarrow> handle_error (port_mappings_read (s3, e3)) RESULT_INVALID_PORT
          (\<lambda>(ports, s). Parsed \<lparr>req_mode = m, req_image = image_name, req_ports = ports\<rparr>))"
    by (auto simp: parses_to_def request_ok_def handle_error_def image_name_ok port_mappings_read_limit
        split: option.splits async.splits)
qed

lemma parse_request_facts: "parse_request s = Parsed req \<Longrightarrow> request_ok req"
  using parse_request_ok [of s] by (simp add: parses_to_def)

lemma parse_request_closed: "snd s \<Longrightarrow> parse_request s \<noteq> Stalled"
  unfolding parse_request_def read_mode_def
  by (auto simp: handle_error_Stalled closed_never_waits port_mappings_read_closed
      dest!: reads_keep_eof split: if_splits option.splits)

lemma parse_request_codes:
  "parse_request s = Reply e \<Longrightarrow> e = RESULT_MALFORMED_REQUEST \<or> e = RESULT_INVALID_PORT"
  unfolding parse_request_def read_mode_def
  by (auto simp: handle_error_Reply split: if_splits option.splits)

text \<open>A small guest request: code 7, image \<^verbatim>\<open>a\<close>, no ports.\<close>

definition sample_bytes :: "u8 list" where
  "sample_bytes = [0, 7, 0, 0, 0, 1, 0x61, 0]"

definition sample_request :: request where
  "sample_request = \<lparr>req_mode = GuestRequest 7, req_image = ''a'', req_ports = []\<rparr>"

lemma sample_parse: "parse_request (sample_bytes, eof) = Parsed sample_request"
  by (simp add: sample_bytes_def sample_request_def parse_request_def read_mode_def handle_error_def
      protocol_consts read_u32_le_def read_exact_def port_mappings_read_def from_utf8_def
      utf8_valid.simps(2) utf8_1_def char_of_byte_def char_of_eq_iff take_bit_eq_mod)

section \<open>A run that starts a guest's container, and one that crashes\<close>

definition sample_features :: features where
  "sample_features = \<lparr>gvisor = True, challd_group = True, domain_name = True\<rparr>"

definition sample_crypto :: crypto where
  "sample_crypto = \<lparr>public_key_of = rev, b64_encode = rfc4648_encode\<rparr>"

definition sample_interface :: interface where
  "sample_interface = \<lparr>int_pubkey = rfc4648_encode (replicate 32 1)\<rparr>"

definition sample_host :: "string list \<Rightarrow> sim_host" where
  "sample_host images = \<lparr>sh_addrs = [], sh_rules = [], sh_conts = [], sh_next = 0, sh_images = images,
     sh_peers = [], sh_links = [], sh_files = [], sh_entropy = []\<rparr>"

definition fresh_manager :: address_manager where
  "fresh_manager = \<lparr>used_addresses = replicate MAX_INSTANCES False\<rparr>"

definition one_taken :: address_manager where
  "one_taken = fresh_manager\<lparr>used_addresses := (used_addresses fresh_manager)[0 := True]\<rparr>"

definition sample_daemon :: "pc \<Rightarrow> address_manager \<Rightarrow> sim_host \<Rightarrow> sim_host daemon" where
  "sample_daemon p m w = \<lparr>d_shared = \<lparr>s_mgr = m, s_world = w\<rparr>,
     d_tasks = (\<lambda>_. Absent)(0 := p), d_phase = Serving, d_now = 0\<rparr>"

abbreviation sample_step :: "sim_host daemon \<Rightarrow> sim_host daemon \<Rightarrow> bool" where
  "sample_step \<equiv> dstep sim_env sample_features sample_crypto sample_interface ''socket''"

abbreviation sample_reachable :: "sim_host daemon \<Rightarrow> bool" where
  "sample_reachable \<equiv> reachable sim_env sample_features sample_crypto sample_interface ''socket''"

lemma fresh_manager_new: "address_manager_new = Done fresh_manager"
  by (simp add: address_manager_new_fresh fresh_manager_def)

lemma sample_advance:
  assumes "sample_reachable (sample_daemon p m w)"
    and "task_step sim_env sample_features sample_crypto sample_interface False 0 ContainerStopped p
      \<lparr>s_mgr = m, s_world = w\<rparr> = Some (p', \<lparr>s_mgr = m', s_world = w'\<rparr>)"
    and "\<not> is_Aborting p'"
  shows "sample_reachable (sample_daemon p' m' w')"
proof (rule reachable.step [OF assms(1)])
  have "sample_step (sample_daemon p m w) (set_task (sample_daemon p m w) 0 (p', \<lparr>s_mgr = m', s_world = w'\<rparr>))"
    using assms(2) by (intro dstep.advance) (auto simp: sample_daemon_def running_def)
  moreover have "set_task (sample_daemon p m w) 0 (p', \<lparr>s_mgr = m', s_world = w'\<rparr>) = sample_daemon p' m' w'"
    using assms(3) by (simp add: set_task_def sample_daemon_def)
  ultimately show "sample_step (sample_daemon p m w) (sample_daemon p' m' w')" by simp
qed

lemma sample_reading: "sample_reachable (sample_daemon (Reading (sample_bytes, False)) fresh_manager w)"
proof (rule reachable.step)
  have "initial fresh_manager w = sample_daemon Absent fresh_manager w"
    by (auto simp: initial_def sample_daemon_def)
  then show "sample_reachable (sample_daemon Absent fresh_manager w)"
    using reachable.start [OF fresh_manager_new] by metis
  show "sample_step (sample_daemon Absent fresh_manager w)
      (sample_daemon (Reading (sample_bytes, False)) fresh_manager w)"
    using dstep.accept [of "sample_daemon Absent fresh_manager w" 0] by (simp add: sample_daemon_def)
qed

lemma sample_starting: "sample_reachable (sample_daemon (Starting sample_request (Some 1) AtConnect) one_taken w)"
proof (rule sample_advance)
  show "sample_reachable (sample_daemon (Probing sample_request 0) fresh_manager w)"
    by (rule sample_advance [OF sample_reading])
      (simp_all add: step_reading_def sample_parse sample_request_def is_Aborting_def)
qed (simp_all add: step_probing_def fetch_or_true_def fresh_manager_def one_taken_def MAX_INSTANCES_def is_Aborting_def)

text \<open>
  Where Docker does not know the image, creating the container panics. The address stays
  taken, and stays on \<^verbatim>\<open>eth42\<close>.
\<close>

lemma sample_crashed:
  "sample_reachable (sample_daemon (Crashed (Some 1)) one_taken ((sample_host [])\<lparr>sh_addrs := [''10.4.2.1/32'']\<rparr>))"
proof -
  have "sample_reachable (sample_daemon (Starting sample_request (Some 1) AtAddr) one_taken (sample_host []))"
    by (rule sample_advance [OF sample_starting])
      (simp_all add: step_starting_def sim_eval addr_in_range_def as_u8_def MAX_INSTANCES_def ret_def is_Aborting_def)
  then have "sample_reachable (sample_daemon (Starting sample_request (Some 1) AtCreate) one_taken
      ((sample_host [])\<lparr>sh_addrs := [''10.4.2.1/32'']\<rparr>))"
    by (rule sample_advance)
      (simp_all add: step_starting_def sim_eval sample_host_def vpn_ip_def show_nat.simps ret_def is_Aborting_def)
  then show ?thesis
    by (rule sample_advance)
      (simp_all add: step_starting_def sample_request_def sim_eval sample_host_def create_body_def crash_def is_Aborting_def)
qed

text \<open>Where Docker knows the image, the steps lead to the container the whole function creates.\<close>

lemma sample_started:
  assumes "container_create sim_env sample_features ''a'' (Some 1) [] w = (Done (Inr c), w')"
  shows "sample_reachable (sample_daemon (Started c (Some 1)) one_taken w')"
proof -
  let ?Q = "\<lambda>p sh. sample_reachable (sample_daemon p (s_mgr sh) (s_world sh))"
  have "?Q (Started c (Some 1)) (\<lparr>s_mgr = one_taken, s_world = w\<rparr>\<lparr>s_world := w'\<rparr>)"
  proof (rule follow_create [of sim_env sample_features sample_request _ AtConnect _ c w' ?Q])
    show "create_run sim_env sample_features (req_image sample_request) (Some 1) (req_ports sample_request) AtConnect
        (s_world \<lparr>s_mgr = one_taken, s_world = w\<rparr>) = (Done (Inr c), w')"
      using assms by (simp add: create_run_eq sample_request_def)
    show "?Q (Starting sample_request (Some 1) AtConnect) \<lparr>s_mgr = one_taken, s_world = w\<rparr>"
      by (simp add: sample_starting)
    fix pc sh p sh'
    assume at: "?Q (Starting sample_request (Some 1) pc) sh"
      and step: "step_starting sim_env sample_features sample_request (Some 1) pc sh = (p, sh')"
      and p: "(\<exists>pc'. p = Starting sample_request (Some 1) pc') \<or> (\<exists>c. p = Started c (Some 1))"
    show "?Q p sh'"
    proof (rule sample_advance [OF at])
      show "task_step sim_env sample_features sample_crypto sample_interface False 0 ContainerStopped
          (Starting sample_request (Some 1) pc) \<lparr>s_mgr = s_mgr sh, s_world = s_world sh\<rparr> =
          Some (p, \<lparr>s_mgr = s_mgr sh', s_world = s_world sh'\<rparr>)"
        using step by (cases sh; cases sh') simp
      show "\<not> is_Aborting p" using p by (auto simp: is_Aborting_def)
    qed
  qed
  then show ?thesis by simp
qed

section \<open>Addresses\<close>

text \<open>C1. In every reachable state of the daemon, whatever its environment answered, no guest
  address is attached to two connections: a guest's redirection, peer and container address
  are its own.\<close>

theorem guest_addresses_exclusive:
  assumes "reachable E F C itf path d"
    and "holds (d_tasks d t) = Some a" and "holds (d_tasks d u) = Some a"
  shows "t = u"
proof -
  from reachable_owned [OF assms(1)] have "inj_on (holders (d_tasks d)) (dom (holders (d_tasks d)))"
    by (simp add: owned_def)
  with assms(2,3) show ?thesis by (auto simp: inj_on_def holders_def dom_def)
qed

theorem guest_addresses_exclusive_witness:
  "{u. holds (d_tasks (sample_daemon (Starting sample_request (Some 1) AtConnect) one_taken (sample_host [])) u) = Some 1} = {0}"
proof -
  let ?d = "sample_daemon (Starting sample_request (Some 1) AtConnect) one_taken (sample_host [])"
  have h: "holds (d_tasks ?d 0) = Some 1" by (simp add: sample_daemon_def)
  have "0 = u" if "holds (d_tasks ?d u) = Some 1" for u
    using guest_addresses_exclusive [OF sample_starting h that] .
  with h show ?thesis by blast
qed

text \<open>C10. The pool marks an address as used exactly when some connection has it attached, and
  never more than \<open>MAX_INSTANCES\<close> connections have one: nothing but a connection's own
  clean-up frees an address, and nothing else takes one.\<close>

theorem pool_matches_connections:
  assumes "reachable E F C itf path d"
  shows "in_use (s_mgr (d_shared d)) = {a. \<exists>t. holds (d_tasks d t) = Some a} \<and>
    finite {t. holds (d_tasks d t) \<noteq> None} \<and>
    card {t. holds (d_tasks d t) \<noteq> None} \<le> MAX_INSTANCES"
proof -
  let ?h = "holders (d_tasks d)"
  from reachable_owned [OF assms] have use: "in_use (s_mgr (d_shared d)) = ran ?h"
    and inj: "inj_on ?h (dom ?h)"
    by (auto simp: owned_def)
  have dom: "{t. holds (d_tasks d t) \<noteq> None} = dom ?h" by (auto simp: holders_def dom_def)
  have img: "?h ` dom ?h \<subseteq> Some ` pool_addrs"
    using use in_use_subset by (force simp: ran_def)
  then have fin: "finite (?h ` dom ?h)" by (rule finite_subset) simp
  from img have "card (?h ` dom ?h) \<le> card (Some ` pool_addrs)" by (intro card_mono) auto
  also have "\<dots> = MAX_INSTANCES" by (simp add: card_image pool_addrs_card)
  finally have "card (dom ?h) \<le> MAX_INSTANCES" using inj by (simp add: card_image)
  moreover from fin inj have "finite (dom ?h)" by (rule finite_imageD)
  ultimately show ?thesis using use dom by (auto simp: ran_def holders_def)
qed

theorem pool_matches_connections_witness:
  "in_use one_taken =
     {a. \<exists>t. holds (d_tasks (sample_daemon (Starting sample_request (Some 1) AtConnect) one_taken (sample_host [])) t) = Some a}"
  using pool_matches_connections [OF sample_starting [of "sample_host []"]]
  by (simp add: sample_daemon_def)

text \<open>C32. A connection whose task panicked after it took an address keeps that address for as
  long as the daemon runs: in every later state the address is still marked as used and the
  task is still crashed. Six such panics leave the daemon answering \<^verbatim>\<open>BUSY\<close> for ever.\<close>

theorem crashed_address_lost:
  assumes "reachable E F C itf path d" and "d_tasks d t = Crashed (Some a)"
    and "(dstep E F C itf path)\<^sup>*\<^sup>* d d'"
  shows "a \<in> in_use (s_mgr (d_shared d')) \<and> d_tasks d' t = Crashed (Some a)"
proof -
  from dsteps_crashed [OF assms(3,2)] have t: "d_tasks d' t = Crashed (Some a)" .
  from dsteps_reachable [OF assms(3,1)] have "owned (holders (d_tasks d')) (s_mgr (d_shared d'))"
    by (rule reachable_owned)
  moreover from t have "holders (d_tasks d') t = Some a" by (simp add: holders_def)
  ultimately show ?thesis using t by (auto simp: owned_def ranI)
qed

theorem crashed_address_lost_witness:
  "{d'. sample_step\<^sup>*\<^sup>*
      (sample_daemon (Crashed (Some 1)) one_taken ((sample_host [])\<lparr>sh_addrs := [''10.4.2.1/32'']\<rparr>)) d'}
    \<subseteq> {d'. 1 \<in> in_use (s_mgr (d_shared d'))}"
proof (intro subsetI, unfold mem_Collect_eq)
  let ?d = "sample_daemon (Crashed (Some 1)) one_taken ((sample_host [])\<lparr>sh_addrs := [''10.4.2.1/32'']\<rparr>)"
  fix d' assume "sample_step\<^sup>*\<^sup>* ?d d'"
  moreover have "d_tasks ?d 0 = Crashed (Some 1)" by (simp add: sample_daemon_def)
  ultimately show "1 \<in> in_use (s_mgr (d_shared d'))"
    using crashed_address_lost [OF sample_crashed, of 0 1 d'] by blast
qed

text \<open>\<open>take_next_addr\<close> never panics on the daemon's array. It hands out the lowest address
  that is not in use and marks just that one; it hands out none exactly when all six are in
  use, and then changes nothing.\<close>

theorem take_next_addr_spec:
  assumes "pool_wf m"
  shows "case take_next_addr m of
      Done (Some a, m') \<Rightarrow> a \<in> pool_addrs - in_use m \<and> (\<forall>b \<in> pool_addrs. b < a \<longrightarrow> b \<in> in_use m) \<and>
        pool_wf m' \<and> in_use m' = insert a (in_use m)
    | Done (None, m') \<Rightarrow> in_use m = pool_addrs \<and> m' = m
    | _ \<Rightarrow> False"
proof -
  obtain r m' where t: "take_next_addr m = Done (r, m')" using take_next_addr_total [OF assms] by blast
  show ?thesis
  proof (cases r)
    case None
    with t take_next_addr_None [OF assms] show ?thesis by simp
  next
    case (Some a)
    with t take_next_addr_Some [OF assms, of a m'] show ?thesis by simp
  qed
qed

theorem take_next_addr_spec_witness:
  "\<exists>m'. take_next_addr one_taken = Done (Some 2, m') \<and> in_use m' = insert 2 (in_use one_taken)"
proof -
  have wf: "pool_wf one_taken" by (simp add: pool_wf_def one_taken_def fresh_manager_def)
  have "free_slots one_taken = [1, 2, 3, 4, 5]"
    by (simp add: free_slots_def one_taken_def fresh_manager_def MAX_INSTANCES_def upt_rec)
  with take_next_addr_eq [OF wf] obtain m' where "take_next_addr one_taken = Done (Some 2, m')" by simp
  with take_next_addr_spec [OF wf] show ?thesis by auto
qed

text \<open>Any client that starts from a new pool and gives back only addresses it holds never
  makes the pool panic, never holds an address twice, and the pool marks exactly the addresses
  it holds: after it has given everything back, all six are free again.\<close>

theorem address_pool_sessions:
  "\<exists>m held. pool_run take_next_addr relinquish_addr ops fresh_manager [] = Done (m, held) \<and>
     in_use m = set held \<and> distinct held \<and> set held \<subseteq> pool_addrs"
proof -
  have "pool_wf fresh_manager" "in_use fresh_manager = set []"
    using fresh_pool [OF fresh_manager_new] by auto
  from mgr_pool.run_tracks_held [OF this] show ?thesis by fastforce
qed

text \<open>The range check in front of the pool, the containers and the interface admits one
  address too many: 7 passes it, and giving 7 back then panics on the array index.\<close>

theorem range_check_off_by_one:
  assumes "pool_wf m"
  shows "addr_in_range 7 \<and> 7 \<notin> pool_addrs \<and> relinquish_addr m 7 = Panic \<and>
    (\<forall>a. addr_in_range a \<longrightarrow> relinquish_addr m a = Panic \<longrightarrow> a = 7)"
proof -
  have seven: "addr_in_range 7" "7 \<notin> pool_addrs"
    by (simp_all add: addr_in_range_def pool_addrs_def as_u8_def MAX_INSTANCES_def)
  have "relinquish_addr m 7 = Panic"
    using assms seven by (simp add: relinquish_addr_def store_false_def pool_wf_def MAX_INSTANCES_def)
  moreover have "a = 7" if "addr_in_range a" "relinquish_addr m a = Panic" for a
  proof -
    have "unat a \<le> 7" "1 \<le> unat a"
      using that(1) by (simp_all add: addr_in_range_def as_u8_def MAX_INSTANCES_def word_le_nat_alt)
    then have "unat a \<in> {1, 2, 3, 4, 5, 6, 7}" by auto
    then have "a = 7 \<or> a \<in> pool_addrs" by (auto simp: pool_addrs_def word_unat_eq_iff)
    with relinquish_addr_pool [OF assms, of a] that(2) show ?thesis by auto
  qed
  ultimately show ?thesis using seven by blast
qed

theorem range_check_off_by_one_witness: "relinquish_addr fresh_manager 7 = Panic"
  using range_check_off_by_one [of fresh_manager] fresh_pool [OF fresh_manager_new] by blast

section \<open>Requests, ports and configurations\<close>

text \<open>C20. Whatever bytes a client sends, the daemon goes on only with a request of fewer than ten
  port mappings whose image name is valid UTF-8 of at most 255 bytes; it answers every other
  request with \<^verbatim>\<open>MALFORMED_REQUEST\<close> or \<^verbatim>\<open>INVALID_PORT\<close>; and it waits
  without end only for a client that neither sends the rest nor closes its side.\<close>

theorem request_outcomes:
  "case parse_request s of
      Parsed req \<Rightarrow> length (req_ports req) < 10 \<and> length (req_image req) < 256 \<and> rust_string (req_image req)
    | Reply e \<Rightarrow> e = RESULT_MALFORMED_REQUEST \<or> e = RESULT_INVALID_PORT
    | Stalled \<Rightarrow> \<not> snd s"
  using parse_request_facts [of s] parse_request_codes [of s] parse_request_closed [of s]
  by (cases "parse_request s") (auto simp: request_ok_def)

text \<open>C36. A guest's container publishes ports on the guest's own address only: every entry of the
  binding table stems from a requested mapping, keeps its port and protocol and binds
  \<^verbatim>\<open>10.4.2.a\<close>, never all addresses of the host.\<close>

theorem guest_ports_private:
  assumes "into_hashmap ports (Some a) k = Some v"
  shows "\<exists>m \<in> set ports. k = as_string (mapping_type m) (from_port m) \<and>
    v = Some [\<lparr>host_ip = Some (''10.4.2.'' @ show_nat (unat a)),
               host_port = Some (as_string (mapping_type m) (to_port m))\<rparr>] \<and>
    ''10.4.2.'' @ show_nat (unat a) \<noteq> ''0.0.0.0''"
  using into_hashmap_source [OF assms] by (auto simp: binding_of_def)

theorem guest_ports_private_witness:
  "into_hashmap [\<lparr>from_port = 80, to_port = 80, mapping_type = Tcp\<rparr>] (Some 3) ''80/tcp''
     = Some (Some [\<lparr>host_ip = Some ''10.4.2.3'', host_port = Some ''80/tcp''\<rparr>])"
proof -
  let ?ms = "[\<lparr>from_port = 80, to_port = 80, mapping_type = Tcp\<rparr>]"
  have key: "as_string Tcp 80 = ''80/tcp''" by (simp add: show_nat.simps)
  then have "''80/tcp'' \<in> dom (into_hashmap ?ms (Some 3))"
    unfolding into_hashmap_dom by (simp del: as_string.simps)
  then obtain v where v: "into_hashmap ?ms (Some 3) ''80/tcp'' = Some v" by blast
  from guest_ports_private [OF v] have
    "v = Some [\<lparr>host_ip = Some (''10.4.2.'' @ show_nat (unat (3 :: u8))), host_port = Some (as_string Tcp 80)\<rparr>]"
    by simp
  with v key show ?thesis by (simp add: show_nat.simps)
qed

text \<open>The text of a WireGuard configuration determines the configuration, as long as no field
  contains a line break: two clients that got the same text got the same address and keys.\<close>

theorem config_text_determines_config:
  assumes "one_line_fields c" and "one_line_fields c'" and "serialize c = serialize c'"
  shows "c = c'"
  using serialize_fields [OF assms(3,1,2)] by (cases c; cases c') simp

theorem config_text_determines_config_witness:
  "serialize (peer_config sample_features sample_crypto sample_interface
       \<lparr>pubkey = [2], privkey = [1]\<rparr> 1) \<noteq>
   serialize (peer_config sample_features sample_crypto sample_interface
       \<lparr>pubkey = [2], privkey = [1]\<rparr> 2)"
proof
  let ?c = "\<lambda>a. peer_config sample_features sample_crypto sample_interface \<lparr>pubkey = [2], privkey = [1]\<rparr> a"
  have lines: "one_line_fields (?c a)" for a
    using ascii_digits_one_line [of "unat a"] rfc4648_encode_one_line
    by (simp add: one_line_fields_def peer_config_def sample_features_def sample_crypto_def
        sample_interface_def one_line_def)
  assume "serialize (?c 1) = serialize (?c 2)"
  with config_text_determines_config [OF lines lines] have "?c 1 = ?c 2" .
  then show False by (simp add: peer_config_def)
qed

section \<open>Sessions\<close>

text \<open>A guest's session leaves the host as it found it. If a container is created for a guest,
  a peer added, and the session's task then removes the peer and shuts the container down
  without a failure, the addresses on \<^verbatim>\<open>eth42\<close>, the NAT rules, the containers and
  the WireGuard peers are those from before the session, whatever else is on the host.\<close>

theorem guest_session_restores_host:
  assumes "host_laws E view"
    and "container_create E F img (Some a) ports w = (Done (Inr c), w1)"
    and "add_temp_peer E F C itf d a w1 = (Done (Inr (k, cfg)), w2)"
    and "temp_peer_task E k d (container_shutdown E c) w2 = (Done (Inr ()), w3)"
    and "k \<notin> v_peers (view w)"
    and "\<And>w. fst (docker_stop E (the (cont_id c)) w) \<noteq> StopFailed"
  shows "view w3 = view w"
  using assms(1) assms(2-6) by (rule host_laws.guest_session_view)

lemma sample_session:
  defines "c \<equiv> \<lparr>cont_id = Some ''c0'', cont_vpn = Some \<lparr>vpn_addr = 1, bridge_addr = ''172.17.0.2''\<rparr>\<rparr>"
  shows "\<exists>w1 w2 w3 cfg.
    container_create sim_env sample_features ''a'' (Some 1) [] (sample_host [''a'']) = (Done (Inr c), w1) \<and>
    add_temp_peer sim_env sample_features sample_crypto sample_interface Panic 1 w1
      = (Done (Inr (replicate 32 0, cfg)), w2) \<and>
    temp_peer_task sim_env (replicate 32 0) Panic (container_shutdown sim_env c) w2 = (Done (Inr ()), w3)"
  unfolding c_def add_temp_peer_def parse_guest_ip
  by (simp add: container_create_def setup_vpn_def inspect_bridge_def gen_keypair_def temp_peer_task_def container_shutdown_def
      teardown_vpn_def container_drop_def sim_eval sample_host_def sample_crypto_def addr_in_range_def
      as_u8_def MAX_INSTANCES_def vpn_ip_def dnat_rule_def guest_ip_def show_nat.simps create_body_def
      sim_container_id_def sim_bridge_addr_def ret_def bind_on_panic)

theorem guest_session_restores_host_witness:
  "\<exists>w1 w2 w3 c cfg.
    container_create sim_env sample_features ''a'' (Some 1) [] (sample_host [''a'']) = (Done (Inr c), w1) \<and>
    add_temp_peer sim_env sample_features sample_crypto sample_interface Panic 1 w1
      = (Done (Inr (replicate 32 0, cfg)), w2) \<and>
    temp_peer_task sim_env (replicate 32 0) Panic (container_shutdown sim_env c) w2 = (Done (Inr ()), w3) \<and>
    sim_view w3 = sim_view (sample_host [''a''])"
proof -
  have stop: "fst (docker_stop sim_env i w) \<noteq> StopFailed" for i w
    by (simp add: sim_env_fields)
  have fresh: "replicate 32 0 \<notin> v_peers (sim_view (sample_host [''a'']))"
    by (simp add: sim_view_def sample_host_def)
  obtain w1 w2 w3 c cfg where
    create: "container_create sim_env sample_features ''a'' (Some 1) [] (sample_host [''a'']) = (Done (Inr c), w1)"
    and peer: "add_temp_peer sim_env sample_features sample_crypto sample_interface Panic 1 w1
      = (Done (Inr (replicate 32 0, cfg)), w2)"
    and ended: "temp_peer_task sim_env (replicate 32 0) Panic (container_shutdown sim_env c) w2 = (Done (Inr ()), w3)"
    using sample_session by blast
  from guest_session_restores_host [OF sim.host_laws_axioms create peer ended fresh stop]
  have "sim_view w3 = sim_view (sample_host [''a''])" .
  with create peer ended show ?thesis by blast
qed

section \<open>Shutting down\<close>







end
