(* ===== verification/Daemon_Host.thy ===== *)
theory Daemon_Host
  imports Challd_Props
begin

text \<open>
  What the daemon leaves on the host while any number of sessions interleave: the addresses
  on \<^verbatim>\<open>eth42\<close>, the redirections, the containers and the peers are those from before
  its start and those of the sessions that are running, as long as nothing fails.
\<close>

section \<open>What a task has on the host\<close>

text \<open>
  A guest's address is on \<^verbatim>\<open>eth42\<close> from the second stage of its container's creation
  to the last of its shutdown, the redirection from the end of the creation until the shutdown
  has deleted it, the container from when Docker created it until it is stopped.
\<close>

fun has_addr :: "create_stage \<Rightarrow> bool" where
  "has_addr AtConnect = False"
| "has_addr AtAddr = False"
| "has_addr _ = True"

fun created_id :: "create_stage \<Rightarrow> string option" where
  "created_id (AtStart i) = Some i"
| "created_id (AtInspect i _) = Some i"
| "created_id (AtRedirect i _ _) = Some i"
| "created_id _ = None"

fun redirected :: "stop_stage \<Rightarrow> bool" where
  "redirected (AtUnaddr _) = False"
| "redirected _ = True"

fun stopped :: "stop_stage \<Rightarrow> bool" where
  "stopped AtStopConnect = False"
| "stopped (AtStop _) = False"
| "stopped _ = True"

definition rules_for :: "container \<Rightarrow> string list multiset" where
  "rules_for c = (case cont_vpn c of Some x \<Rightarrow> {#dnat_rule (vpn_addr x) (bridge_addr x)#} | None \<Rightarrow> {#})"

fun addr_of :: "pc \<Rightarrow> u8 option" where
  "addr_of (Starting _ a pc) = (if has_addr pc then a else None)"
| "addr_of (Started _ a) = a"
| "addr_of (Waiting _ a _ _) = a"
| "addr_of (Stopping _ a _) = a"
| "addr_of _ = None"

fun rules_of :: "pc \<Rightarrow> string list multiset" where
  "rules_of (Started c _) = rules_for c"
| "rules_of (Waiting c _ _ _) = rules_for c"
| "rules_of (Stopping c _ pc) = (if redirected pc then rules_for c else {#})"
| "rules_of _ = {#}"

fun cont_of :: "pc \<Rightarrow> string option" where
  "cont_of (Starting _ _ pc) = created_id pc"
| "cont_of (Started c _) = cont_id c"
| "cont_of (Waiting c _ _ _) = cont_id c"
| "cont_of (Stopping c _ pc) = (if stopped pc then None else cont_id c)"
| "cont_of _ = None"

fun key_of :: "pc \<Rightarrow> key option" where
  "key_of (Waiting _ _ k _) = map_option fst k"
| "key_of _ = None"

definition addrs_of :: "pc \<Rightarrow> string set" where
  "addrs_of p = vpn_ip ` set_option (addr_of p)"

definition conts_of :: "pc \<Rightarrow> string set" where
  "conts_of p = set_option (cont_of p)"

definition peers_of :: "pc \<Rightarrow> key set" where
  "peers_of p = set_option (key_of p)"

lemmas traces_defs = addrs_of_def conts_of_def peers_of_def

text \<open>The host is what it was before the daemon started, and what its sessions have added.\<close>

definition accounted :: "host_view \<Rightarrow> (nat \<Rightarrow> pc) \<Rightarrow> host_view \<Rightarrow> bool" where
  "accounted v0 ts v \<longleftrightarrow>
     v_addrs v = v_addrs v0 \<union> (\<Union>t. addrs_of (ts t)) \<and>
     v_rules v = v_rules v0 + (\<Sum>t | ts t \<noteq> Absent. rules_of (ts t)) \<and>
     v_conts v \<subseteq> v_conts v0 \<union> (\<Union>t. conts_of (ts t)) \<and>
     v_peers v = v_peers v0 \<union> (\<Union>t. peers_of (ts t))"

text \<open>Nothing a session has is also another's, or was there before.\<close>

definition apart :: "host_view \<Rightarrow> (nat \<Rightarrow> pc) \<Rightarrow> bool" where
  "apart v0 ts \<longleftrightarrow>
     (\<forall>t. addrs_of (ts t) \<inter> v_addrs v0 = {} \<and> peers_of (ts t) \<inter> v_peers v0 = {}) \<and>
     (\<forall>t u. t \<noteq> u \<longrightarrow> addrs_of (ts t) \<inter> addrs_of (ts u) = {} \<and> peers_of (ts t) \<inter> peers_of (ts u) = {})"

text \<open>What one step of a task does to the host.\<close>

definition effect :: "pc \<Rightarrow> pc \<Rightarrow> host_view \<Rightarrow> host_view \<Rightarrow> bool" where
  "effect p p' v v' \<longleftrightarrow>
     v_addrs v' = v_addrs v - addrs_of p \<union> addrs_of p' \<and> (addrs_of p' - addrs_of p) \<inter> v_addrs v = {} \<and>
     v_rules v' + rules_of p = v_rules v + rules_of p' \<and>
     v_conts v' \<subseteq> v_conts v - conts_of p \<union> conts_of p' \<and>
     v_peers v' = v_peers v - peers_of p \<union> peers_of p'"

section \<open>Keeping the account\<close>

lemma Union_upd: "(\<Union>u. f ((ts(t := p)) u)) = f p \<union> (\<Union>u \<in> -{t}. f (ts u))"
  by (auto split: if_splits)

lemma Union_at: "(\<Union>u. f (ts u)) = f (ts t) \<union> (\<Union>u \<in> -{t}. f (ts u))"
  by auto

lemma sum_tasks_upd:
  fixes f :: "pc \<Rightarrow> 'a multiset"
  assumes "finite {u. ts u \<noteq> Absent}" "ts t \<noteq> Absent" "p \<noteq> Absent"
  shows "(\<Sum>u | (ts(t := p)) u \<noteq> Absent. f ((ts(t := p)) u)) + f (ts t) = (\<Sum>u | ts u \<noteq> Absent. f (ts u)) + f p"
proof -
  let ?D = "{u. ts u \<noteq> Absent}"
  have D: "{u. (ts(t := p)) u \<noteq> Absent} = ?D" using assms(2,3) by auto
  have "(\<Sum>u \<in> ?D - {t}. f ((ts(t := p)) u)) = (\<Sum>u \<in> ?D - {t}. f (ts u))"
    by (rule sum.cong) auto
  with assms(1,2) show ?thesis
    unfolding D using sum.remove [of ?D t "\<lambda>u. f ((ts(t := p)) u)"] sum.remove [of ?D t "\<lambda>u. f (ts u)"] by simp
qed

lemma accounted_step:
  assumes a: "accounted v0 ts v" and s: "apart v0 ts" and e: "effect (ts t) p v v'"
    and D: "finite {u. ts u \<noteq> Absent}" "ts t \<noteq> Absent" "p \<noteq> Absent"
  shows "accounted v0 (ts(t := p)) v'"
proof -
  have away: "addrs_of (ts t) \<inter> (v_addrs v0 \<union> (\<Union>u \<in> -{t}. addrs_of (ts u))) = {}"
    "peers_of (ts t) \<inter> (v_peers v0 \<union> (\<Union>u \<in> -{t}. peers_of (ts u))) = {}"
    using s unfolding apart_def by blast+
  have "v_addrs v' = v_addrs v0 \<union> (\<Union>u. addrs_of ((ts(t := p)) u))"
    using a e away(1) unfolding accounted_def effect_def Union_upd Union_at [of addrs_of ts t] by blast
  moreover have "v_peers v' = v_peers v0 \<union> (\<Union>u. peers_of ((ts(t := p)) u))"
    using a e away(2) unfolding accounted_def effect_def Union_upd Union_at [of peers_of ts t] by blast
  moreover have "v_conts v' \<subseteq> v_conts v0 \<union> (\<Union>u. conts_of ((ts(t := p)) u))"
    using a e unfolding accounted_def effect_def Union_upd Union_at [of conts_of ts t] by blast
  moreover have "v_rules v' + rules_of (ts t) =
      v_rules v0 + ((\<Sum>u | (ts(t := p)) u \<noteq> Absent. rules_of ((ts(t := p)) u)) + rules_of (ts t))"
    using a e unfolding sum_tasks_upd [OF D] accounted_def effect_def by (simp add: ac_simps)
  ultimately show ?thesis unfolding accounted_def by (simp add: add.assoc [symmetric])
qed

section \<open>Steps of tasks\<close>

text \<open>A step that fails leaves the task crashed.\<close>

definition crashed :: "pc \<Rightarrow> bool" where
  "crashed p = (case p of Crashed _ \<Rightarrow> True | Aborting _ \<Rightarrow> True | _ \<Rightarrow> False)"

lemma crashed_crash [simp]: "crashed (crash r a)"
  by (cases r) (simp_all add: crash_def crashed_def)

lemma effect_same:
  assumes "addr_of p' = addr_of p" "rules_of p' = rules_of p" "cont_of p' = cont_of p" "key_of p' = key_of p"
    and "addrs_of p \<subseteq> v_addrs v" "peers_of p \<subseteq> v_peers v"
  shows "effect p p' v v"
  using assms by (auto simp: effect_def traces_defs)

lemma step_starting_cases:
  assumes "step_starting E F req a pc sh = (p, sh')" "\<not> crashed p"
  obtains w pc' where "create_step E F (req_image req) a (req_ports req) pc (s_world sh) = (Done (Inl pc'), w)"
      "p = Starting req a pc'" "sh' = sh\<lparr>s_world := w\<rparr>"
    | w c where "create_step E F (req_image req) a (req_ports req) pc (s_world sh) = (Done (Inr (Inr c)), w)"
      "p = Started c a" "sh' = sh\<lparr>s_world := w\<rparr>"
  using assms
  by (auto simp: step_starting_def crashed_def crash_def split: prod.splits outcome.splits sum.splits)

lemma step_stopping_cases:
  assumes "step_stopping E c a pc sh = (p, sh')" "\<not> crashed p"
  obtains w pc' where "stop_step E c pc (s_world sh) = (Done (Inl pc'), w)" "p = Stopping c a pc'" "sh' = sh\<lparr>s_world := w\<rparr>"
    | w where "stop_step E c pc (s_world sh) = (Done (Inr ()), w)" "\<not> tracked p \<or> (\<exists>a. p = Releasing a)" "sh' = sh\<lparr>s_world := w\<rparr>"
  using assms
  by (auto simp: step_stopping_def crashed_def crash_def split: prod.splits outcome.splits sum.splits option.splits)

lemma no_traces:
  assumes "\<not> tracked p \<or> (\<exists>a. p = Releasing a)"
  shows "addr_of p = None" "rules_of p = {#}" "cont_of p = None" "key_of p = None"
  using assms by (cases p; auto)+

context host_laws
begin

text \<open>What the stages of a creation add.\<close>

lemma create_stage_effect:
  assumes "create_step E F img a ports pc w = (Done (Inl pc'), w')" "create_for a pc"
    and "addrs_of (Starting req a pc) \<subseteq> v_addrs (view w)"
  shows "effect (Starting req a pc) (Starting req a pc') (view w) (view w')"
  using assms
  by (cases pc; cases a)
    (auto simp: prog_Done run_checked_Done effect_def traces_defs split: if_splits
      dest!: connect ip_add create start inspect_bridge_view)

lemma create_end_effect:
  assumes "create_step E F img a ports pc w = (Done (Inr (Inr c)), w')" "create_for a pc"
    and "addrs_of (Starting req a pc) \<subseteq> v_addrs (view w)"
  shows "effect (Starting req a pc) (Started c a) (view w) (view w')"
  using assms
  by (cases pc; cases a)
    (auto simp: prog_Done run_checked_Done effect_def traces_defs rules_for_def split: if_splits
      dest!: connect start nat_append)

text \<open>What the stages of a shutdown remove.\<close>

lemma stop_stage_effect:
  assumes "stop_step E c pc w = (Done (Inl pc'), w')" "container_for c a" "stop_for c pc"
    and "addrs_of (Stopping c a pc) \<subseteq> v_addrs (view w)"
    and "\<And>i w. fst (docker_stop E i w) \<noteq> StopFailed"
  shows "effect (Stopping c a pc) (Stopping c a pc') (view w) (view w')"
proof -
  have down: "view v' = (view v)\<lparr>v_conts := v_conts (view v) - {i}\<rparr>" if "docker_stop E i v = (r, v')" for i v r v'
    using stop [OF that] assms(5) [of i v] that by simp
  show ?thesis
    using assms(1-4)
    by (cases pc)
      (auto simp: prog_Done run_checked_Done effect_def traces_defs rules_for_def container_for_def split: if_splits option.splits
        dest!: connect down nat_delete)
qed

lemma stop_end_effect:
  assumes "stop_step E c pc w = (Done (Inr ()), w')" "container_for c a" "stop_for c pc"
    and p: "\<not> tracked p \<or> (\<exists>a. p = Releasing a)"
    and "\<And>i w. fst (docker_stop E i w) \<noteq> StopFailed"
  shows "effect (Stopping c a pc) p (view w) (view w')"
proof -
  have down: "view v' = (view v)\<lparr>v_conts := v_conts (view v) - {i}\<rparr>" if "docker_stop E i v = (r, v')" for i v r v'
    using stop [OF that] assms(5) [of i v] that by simp
  show ?thesis
    using assms(1-3) no_traces [OF p]
    by (cases pc)
      (auto simp: prog_Done run_checked_Done effect_def traces_defs rules_for_def container_for_def split: if_splits option.splits
        dest!: connect down ip_del)
qed

lemma step_started_effect:
  assumes "step_started E F C itf now c a sh = (p, sh')" "\<not> crashed p"
    and "addrs_of (Started c a) \<subseteq> v_addrs (view (s_world sh))"
  shows "effect (Started c a) p (view (s_world sh)) (view (s_world sh'))"
proof (cases a)
  case None
  with assms show ?thesis by (auto simp: step_started_def traces_defs intro!: effect_same)
next
  case (Some addr)
  with assms(1,2) obtain k cfg w where
    w: "add_temp_peer E F C itf (cleanup_drop c) addr (s_world sh) = (Done (Inr (k, cfg)), w)"
      "p = Waiting c a (Some (k, cfg)) now" "sh' = sh\<lparr>s_world := w\<rparr>"
    by (auto simp: step_started_def crashed_def crash_def split: prod.splits outcome.splits sum.splits)
  from add_temp_peer_view [OF w(1)] w(2,3) assms(3) show ?thesis by (auto simp: effect_def traces_defs)
qed

lemma step_waiting_effect:
  assumes "step_waiting E c a k sh = (p, sh')" "\<not> crashed p"
    and "addrs_of (Waiting c a k since) \<subseteq> v_addrs (view (s_world sh))"
  shows "effect (Waiting c a k since) p (view (s_world sh)) (view (s_world sh'))"
proof (cases k)
  case None
  with assms show ?thesis by (auto simp: step_waiting_def traces_defs intro!: effect_same)
next
  case (Some x)
  obtain pk cfg where x: "x = (pk, cfg)" by fastforce
  with Some assms(1,2) obtain w where w: "wg_remove_peer E pk (s_world sh) = (True, w)" "p = Stopping c a AtStopConnect"
    "sh' = sh\<lparr>s_world := w\<rparr>"
    by (auto simp: step_waiting_def split: prod.splits bool.splits)
  from del_peer [OF w(1)] w(2,3) Some x assms(3) show ?thesis by (auto simp: effect_def traces_defs)
qed

lemma task_step_effect:
  assumes s: "task_step E F C itf cn now cause p0 sh = Some (p, sh')" "\<not> crashed p" and e: "equipped p0"
    and stop: "\<And>i w. fst (docker_stop E i w) \<noteq> StopFailed"
    and here: "addrs_of p0 \<subseteq> v_addrs (view (s_world sh))" "peers_of p0 \<subseteq> v_peers (view (s_world sh))"
  shows "effect p0 p (view (s_world sh)) (view (s_world sh'))"
proof (cases p0)
  case (Reading x)
  with s have "step_reading x = Some p" "sh' = sh" by auto
  with Reading show ?thesis
    by (auto simp: step_reading_def traces_defs intro!: effect_same split: handled.splits mode.splits)
next
  case (Probing req i)
  with s have "addr_of p = None" "rules_of p = {#}" "cont_of p = None" "key_of p = None" "s_world sh' = s_world sh"
    by (auto simp: step_probing_def crashed_def crash_def split: outcome.splits if_splits)
  with Probing show ?thesis by (auto simp: traces_defs intro!: effect_same)
next
  case (Starting req a pc)
  with s(1) have "step_starting E F req a pc sh = (p, sh')" by simp
  then show ?thesis
    using s(2)
    by (rule step_starting_cases) (use Starting e here in \<open>auto intro!: create_stage_effect create_end_effect\<close>)
next
  case (Started c a)
  with s here show ?thesis by (auto intro!: step_started_effect)
next
  case (Waiting c a k since)
  with s here show ?thesis by (auto intro!: step_waiting_effect split: if_splits)
next
  case (Stopping c a pc)
  with s(1) have "step_stopping E c a pc sh = (p, sh')" by simp
  then show ?thesis
    using s(2)
  proof (rule step_stopping_cases)
    fix w pc'
    assume "stop_step E c pc (s_world sh) = (Done (Inl pc'), w)" "p = Stopping c a pc'" "sh' = sh\<lparr>s_world := w\<rparr>"
    with stop_stage_effect [OF _ _ _ _ stop] Stopping e here show ?thesis by simp
  next
    fix w
    assume "stop_step E c pc (s_world sh) = (Done (Inr ()), w)" "\<not> tracked p \<or> (\<exists>a. p = Releasing a)" "sh' = sh\<lparr>s_world := w\<rparr>"
    with stop_end_effect [OF _ _ _ _ stop] Stopping e show ?thesis by simp
  qed
next
  case (Releasing a)
  with s have "addr_of p = None" "rules_of p = {#}" "cont_of p = None" "key_of p = None" "s_world sh' = s_world sh"
    by (auto simp: step_releasing_def crashed_def crash_def split: outcome.splits)
  with Releasing show ?thesis by (auto simp: traces_defs intro!: effect_same)
qed (use s in auto)

end

section \<open>Runs without failures\<close>

text \<open>
  A step in which nothing fails: no task crashes, the daemon keeps running, a new peer's key
  is new, and what happens on the host without the daemon is at most that containers end.
\<close>

definition smooth :: "('w \<Rightarrow> host_view) \<Rightarrow> 'w daemon \<Rightarrow> 'w daemon \<Rightarrow> bool" where
  "smooth view d d' \<longleftrightarrow> running d' \<and> (\<forall>t. \<not> crashed (d_tasks d' t)) \<and>
     (\<forall>t. key_of (d_tasks d t) = None \<longrightarrow> peers_of (d_tasks d' t) \<inter> v_peers (view (s_world (d_shared d))) = {}) \<and>
     (d_tasks d' = d_tasks d \<longrightarrow>
        (let v = view (s_world (d_shared d)); v' = view (s_world (d_shared d')) in
         v_addrs v' = v_addrs v \<and> v_rules v' = v_rules v \<and> v_conts v' \<subseteq> v_conts v \<and> v_peers v' = v_peers v))"

inductive smooth_run ::
  "'w env \<Rightarrow> features \<Rightarrow> crypto \<Rightarrow> interface \<Rightarrow> string \<Rightarrow> ('w \<Rightarrow> host_view) \<Rightarrow> 'w \<Rightarrow> 'w daemon \<Rightarrow> bool"
  for E F C itf path view w0 where
  start: "address_manager_new = Done m \<Longrightarrow> smooth_run E F C itf path view w0 (initial m w0)"
| step: "smooth_run E F C itf path view w0 d \<Longrightarrow> dstep E F C itf path d d' \<Longrightarrow> smooth view d d' \<Longrightarrow>
     smooth_run E F C itf path view w0 d'"

lemma smooth_run_reachable: "smooth_run E F C itf path view w0 d \<Longrightarrow> reachable E F C itf path d"
  by (induction rule: smooth_run.induct) (auto intro: reachable.intros)

text \<open>Addresses of sessions are apart because the guest addresses are.\<close>

lemma addrs_of_held: "addrs_of p \<subseteq> vpn_ip ` set_option (holds p)"
  by (cases p) (auto simp: traces_defs)

lemma reachable_addrs_apart:
  assumes "reachable E F C itf path d" "t \<noteq> u"
  shows "addrs_of (d_tasks d t) \<inter> addrs_of (d_tasks d u) = {}"
proof -
  have "inj_on (holders (d_tasks d)) (dom (holders (d_tasks d)))"
    using reachable_owned [OF assms(1)] by (simp add: owned_def)
  then have "a \<noteq> b" if "holds (d_tasks d t) = Some a" "holds (d_tasks d u) = Some b" for a b
    using that assms(2) by (auto simp: inj_on_def holders_def dom_def)
  then show ?thesis
    using addrs_of_held [of "d_tasks d t"] addrs_of_held [of "d_tasks d u"] by fastforce
qed

context host_laws
begin

lemma smooth_step:
  assumes a: "accounted v0 (d_tasks d) (view (s_world (d_shared d)))" "apart v0 (d_tasks d)"
    and r: "reachable E F C itf path d" and s: "dstep E F C itf path d d'" and q: "smooth view d d'"
    and stop: "\<And>i w. fst (docker_stop E i w) \<noteq> StopFailed"
  shows "accounted v0 (d_tasks d') (view (s_world (d_shared d'))) \<and> apart v0 (d_tasks d')"
proof -
  have r': "reachable E F C itf path d'" using reachable.step [OF r s] .
  have same: ?thesis if "d_tasks d' = d_tasks d"
    using that q a by (auto simp: smooth_def Let_def accounted_def)
  from s show ?thesis
  proof cases
    case (accept t x)
    have none: "addrs_of (d_tasks d' u) = addrs_of (d_tasks d u)" "rules_of (d_tasks d' u) = rules_of (d_tasks d u)"
      "conts_of (d_tasks d' u) = conts_of (d_tasks d u)" "peers_of (d_tasks d' u) = peers_of (d_tasks d u)" for u
      using accept by (simp_all add: traces_defs)
    have D: "{u. d_tasks d' u \<noteq> Absent} = insert t {u. d_tasks d u \<noteq> Absent}" using accept by auto
    have "rules_of (d_tasks d t) = {#}" using accept by (simp add: traces_defs)
    then have "(\<Sum>u | d_tasks d' u \<noteq> Absent. rules_of (d_tasks d' u)) = (\<Sum>u | d_tasks d u \<noteq> Absent. rules_of (d_tasks d u))"
      unfolding D none using reachable_finite [OF r] accept by (simp add: sum.insert)
    with a none accept show ?thesis unfolding accounted_def apart_def by simp
  next
    case (advance cause t x)
    obtain p sh where x: "x = (p, sh)" by fastforce
    have st: "task_step E F C itf (d_phase d = Draining) (d_now d) cause (d_tasks d t) (d_shared d) = Some (p, sh)"
      using advance x by simp
    have d': "d_tasks d' = (d_tasks d)(t := p)" "d_shared d' = sh" using advance x by (simp_all add: set_task_def)
    have "\<not> crashed p" using q d' unfolding smooth_def by (metis fun_upd_same)
    moreover have "addrs_of (d_tasks d t) \<subseteq> v_addrs (view (s_world (d_shared d)))"
      "peers_of (d_tasks d t) \<subseteq> v_peers (view (s_world (d_shared d)))"
      using a(1) unfolding accounted_def by blast+
    ultimately have e: "effect (d_tasks d t) p (view (s_world (d_shared d))) (view (s_world sh))"
      using task_step_effect [OF st _ reachable_equipped [OF r] stop] by blast
    let ?v = "view (s_world (d_shared d))"
    have v0: "v_addrs v0 \<subseteq> v_addrs ?v" "v_peers v0 \<subseteq> v_peers ?v" and peers: "\<And>u. peers_of (d_tasks d u) \<subseteq> v_peers ?v"
      using a(1) unfolding accounted_def by blast+
    have "accounted v0 (d_tasks d') (view (s_world (d_shared d')))"
      unfolding d' using accounted_step [OF a e reachable_finite [OF r]] task_step_present [OF st] by blast
    moreover have "addrs_of p \<inter> v_addrs v0 = {}"
      using e a(2) v0(1) unfolding effect_def apart_def by blast
    moreover have new: "peers_of p \<inter> v_peers ?v = {}"
    proof (cases "key_of (d_tasks d t)")
      case None
      with q d' show ?thesis unfolding smooth_def by (metis fun_upd_same)
    next
      case (Some k)
      with st have "key_of p = None"
        by (cases "d_tasks d t") (auto simp: step_waiting_def crash_def split: if_splits option.splits prod.splits bool.splits outcome.splits)
      then show ?thesis by (simp add: peers_of_def)
    qed
    moreover from new peers v0(2) have "peers_of p \<inter> peers_of (d_tasks d u) = {}" "peers_of p \<inter> v_peers v0 = {}" for u
      by blast+
    ultimately show ?thesis
      using a(2) reachable_addrs_apart [OF r'] unfolding d' apart_def by (simp add: Int_commute)
  qed (use same in simp_all)
qed

lemma smooth_run_accounted:
  assumes "smooth_run E F C itf path view w0 d" "\<And>i w. fst (docker_stop E i w) \<noteq> StopFailed"
  shows "accounted (view w0) (d_tasks d) (view (s_world (d_shared d))) \<and> apart (view w0) (d_tasks d)"
  using assms(1)
proof (induction rule: smooth_run.induct)
  case (start m)
  then show ?case by (simp add: initial_def accounted_def apart_def traces_defs)
next
  case (step d d')
  with smooth_step [OF _ _ smooth_run_reachable [OF step.hyps(1)] step.hyps(2,3) assms(2)] show ?case by blast
qed

end

section \<open>Properties\<close>

text \<open>C11. The daemon keeps the host clean. In every run in which nothing fails, however the single operations
  of its sessions interleave, the addresses on \<^verbatim>\<open>eth42\<close> and the WireGuard peers are those
  from before the daemon started and those that the sessions have put there so far, the
  redirections are those from before and one for every guest whose container is set up and not
  yet torn down, and every container that runs was there before or belongs to a session. So
  whenever no container task is left, the host is as it was.\<close>

theorem host_matches_sessions:
  assumes "host_laws E view" and "\<And>i w. fst (docker_stop E i w) \<noteq> StopFailed"
    and "smooth_run E F C itf path view w0 d"
  defines "v \<equiv> view (s_world (d_shared d))"
  shows "v_addrs v = v_addrs (view w0) \<union> (\<Union>t. addrs_of (d_tasks d t)) \<and>
    v_rules v = v_rules (view w0) + (\<Sum>t | d_tasks d t \<noteq> Absent. rules_of (d_tasks d t)) \<and>
    v_conts v \<subseteq> v_conts (view w0) \<union> (\<Union>t. conts_of (d_tasks d t)) \<and>
    v_peers v = v_peers (view w0) \<union> (\<Union>t. peers_of (d_tasks d t)) \<and>
    ((\<forall>t. \<not> tracked (d_tasks d t)) \<longrightarrow>
       v = (view w0)\<lparr>v_conts := v_conts v\<rparr> \<and> v_conts v \<subseteq> v_conts (view w0))"
proof -
  have a: "accounted (view w0) (d_tasks d) v"
    using host_laws.smooth_run_accounted [OF assms(1,3,2)] by (simp add: v_def)
  moreover have "v = (view w0)\<lparr>v_conts := v_conts v\<rparr> \<and> v_conts v \<subseteq> v_conts (view w0)"
    if "\<forall>t. \<not> tracked (d_tasks d t)"
    using a no_traces that by (cases v; cases "view w0") (simp add: accounted_def traces_defs)
  ultimately show ?thesis by (simp add: accounted_def)
qed

text \<open>The sample run, up to a guest's session, is such a run.\<close>

abbreviation sample_smooth :: "sim_host daemon \<Rightarrow> bool" where
  "sample_smooth \<equiv> smooth_run sim_env sample_features sample_crypto sample_interface ''socket'' sim_view (sample_host [''a''])"

lemma sample_smooth_advance:
  assumes "sample_smooth (sample_daemon p m w)"
    and "task_step sim_env sample_features sample_crypto sample_interface False 0 ContainerStopped p
      \<lparr>s_mgr = m, s_world = w\<rparr> = Some (p', \<lparr>s_mgr = m', s_world = w'\<rparr>)"
    and "\<not> crashed p'" "peers_of p' \<inter> v_peers (sim_view w) = {}"
  shows "sample_smooth (sample_daemon p' m' w')"
proof (rule smooth_run.step [OF assms(1)])
  have no: "\<not> is_Aborting p'" using assms(3) by (auto simp: crashed_def is_Aborting_def split: pc.splits)
  have "sample_step (sample_daemon p m w) (set_task (sample_daemon p m w) 0 (p', \<lparr>s_mgr = m', s_world = w'\<rparr>))"
    using assms(2) by (intro dstep.advance) (auto simp: sample_daemon_def running_def)
  moreover have "set_task (sample_daemon p m w) 0 (p', \<lparr>s_mgr = m', s_world = w'\<rparr>) = sample_daemon p' m' w'"
    using no by (simp add: set_task_def sample_daemon_def)
  ultimately show "sample_step (sample_daemon p m w) (sample_daemon p' m' w')" by simp
  have "p' \<noteq> p" using task_step_rank [OF assms(2)] by auto
  then have "d_tasks (sample_daemon p' m' w') \<noteq> d_tasks (sample_daemon p m w)"
    by (auto simp: sample_daemon_def fun_eq_iff)
  with assms(3,4) show "smooth sim_view (sample_daemon p m w) (sample_daemon p' m' w')"
    by (auto simp: smooth_def sample_daemon_def running_def crashed_def peers_of_def)
qed

lemma sample_smooth_started:
  assumes "container_create sim_env sample_features ''a'' (Some 1) [] (sample_host [''a'']) = (Done (Inr c), w)"
  shows "sample_smooth (sample_daemon (Started c (Some 1)) one_taken w)"
proof -
  let ?w = "sample_host [''a'']"
  have "initial fresh_manager ?w = sample_daemon Absent fresh_manager ?w"
    by (auto simp: initial_def sample_daemon_def)
  then have "sample_smooth (sample_daemon Absent fresh_manager ?w)"
    using smooth_run.start [OF fresh_manager_new] by metis
  moreover have "sample_step (sample_daemon Absent fresh_manager ?w) (sample_daemon (Reading (sample_bytes, False)) fresh_manager ?w)"
    using dstep.accept [of "sample_daemon Absent fresh_manager ?w" 0] by (simp add: sample_daemon_def)
  moreover have "smooth sim_view (sample_daemon Absent fresh_manager ?w) (sample_daemon (Reading (sample_bytes, False)) fresh_manager ?w)"
    by (auto simp: smooth_def sample_daemon_def running_def crashed_def peers_of_def)
  ultimately have "sample_smooth (sample_daemon (Reading (sample_bytes, False)) fresh_manager ?w)" by (rule smooth_run.step)
  then have "sample_smooth (sample_daemon (Probing sample_request 0) fresh_manager ?w)"
    by (rule sample_smooth_advance) (simp_all add: step_reading_def sample_parse sample_request_def crashed_def peers_of_def)
  then have start: "sample_smooth (sample_daemon (Starting sample_request (Some 1) AtConnect) one_taken ?w)"
    by (rule sample_smooth_advance)
      (simp_all add: step_probing_def fetch_or_true_def fresh_manager_def one_taken_def MAX_INSTANCES_def crashed_def peers_of_def)
  let ?Q = "\<lambda>p sh. sample_smooth (sample_daemon p (s_mgr sh) (s_world sh))"
  have "?Q (Started c (Some 1)) (\<lparr>s_mgr = one_taken, s_world = ?w\<rparr>\<lparr>s_world := w\<rparr>)"
  proof (rule follow_create [of sim_env sample_features sample_request _ AtConnect _ c w ?Q])
    show "create_run sim_env sample_features (req_image sample_request) (Some 1) (req_ports sample_request) AtConnect
        (s_world \<lparr>s_mgr = one_taken, s_world = ?w\<rparr>) = (Done (Inr c), w)"
      using assms by (simp add: create_run_eq sample_request_def)
    show "?Q (Starting sample_request (Some 1) AtConnect) \<lparr>s_mgr = one_taken, s_world = ?w\<rparr>"
      by (simp add: start)
    fix pc sh p sh'
    assume at: "?Q (Starting sample_request (Some 1) pc) sh"
      and step: "step_starting sim_env sample_features sample_request (Some 1) pc sh = (p, sh')"
      and p: "(\<exists>pc'. p = Starting sample_request (Some 1) pc') \<or> (\<exists>c. p = Started c (Some 1))"
    show "?Q p sh'"
    proof (rule sample_smooth_advance [OF at])
      show "task_step sim_env sample_features sample_crypto sample_interface False 0 ContainerStopped
          (Starting sample_request (Some 1) pc) \<lparr>s_mgr = s_mgr sh, s_world = s_world sh\<rparr> =
          Some (p, \<lparr>s_mgr = s_mgr sh', s_world = s_world sh'\<rparr>)"
        using step by (cases sh; cases sh') simp
      show "\<not> crashed p" "peers_of p \<inter> v_peers (sim_view (s_world sh)) = {}"
        using p by (auto simp: crashed_def peers_of_def)
    qed
  qed
  then show ?thesis by simp
qed

theorem host_matches_sessions_witness:
  "\<exists>d k. sample_smooth d \<and> v_addrs (sim_view (s_world (d_shared d))) = {vpn_ip 1} \<and>
     v_peers (sim_view (s_world (d_shared d))) = {k}"
proof -
  obtain w1 w2 w3 c k cfg where
    c: "container_create sim_env sample_features ''a'' (Some 1) [] (sample_host [''a'']) = (Done (Inr c), w1)" "cont_id c \<noteq> None"
      "map_option vpn_addr (cont_vpn c) = Some 1"
    and peer: "add_temp_peer sim_env sample_features sample_crypto sample_interface Panic 1 w1 = (Done (Inr (k, cfg)), w2)"
    using sample_session by fastforce
  have drop: "cleanup_drop c = Panic" using c(2) by (simp add: cleanup_drop_def container_drop_def assert_that_def)
  have empty: "v_peers (sim_view (sample_host [''a''])) = {}" "v_addrs (sim_view (sample_host [''a''])) = {}"
    by (simp_all add: sim_view_def sample_host_def)
  obtain i where "sim_view w1 = (vpn_view c (sim_view (sample_host [''a''])))\<lparr>v_conts := insert i (v_conts (sim_view (sample_host [''a''])))\<rparr>"
    by (rule sim.create_view [OF c(1)])
  then have "v_peers (sim_view w1) = {}" using empty(1) by (simp add: vpn_view_def split: option.split)
  then have d: "sample_smooth (sample_daemon (Waiting c (Some 1) (Some (k, cfg)) 0) one_taken w2)" (is "sample_smooth ?d")
    by (intro sample_smooth_advance [OF sample_smooth_started [OF c(1)]])
      (simp_all add: step_started_def drop peer crashed_def)
  have stop: "fst (docker_stop sim_env i w) \<noteq> StopFailed" for i w by (simp add: sim_env_fields)
  note v = host_matches_sessions [OF sim.host_laws_axioms stop d]
  have tasks: "(\<Union>t. addrs_of (d_tasks ?d t)) = {vpn_ip 1}" "(\<Union>t. peers_of (d_tasks ?d t)) = {k}"
  proof -
    obtain x where x: "cont_vpn c = Some x" "vpn_addr x = 1" using c(3) by auto
    have at: "d_tasks ?d = (\<lambda>_. Absent)(0 := Waiting c (Some 1) (Some (k, cfg)) 0)" by (simp add: sample_daemon_def)
    show "(\<Union>t. addrs_of (d_tasks ?d t)) = {vpn_ip 1}" "(\<Union>t. peers_of (d_tasks ?d t)) = {k}"
      unfolding at Union_upd using x by (simp_all add: traces_defs)
  qed
  from v d empty show ?thesis unfolding tasks by (intro exI [of _ ?d] exI [of _ k]) simp
qed

end
