(* ===== verification/Daemon_Life.thy ===== *)
theory Daemon_Life
  imports Challd_Props
begin

text \<open>
  The life of the daemon's process: which network devices and which files it makes when it
  starts, that its tasks leave them alone, that it takes them away when it ends, and what
  happens when it does not get that far.
\<close>

section \<open>Devices and files\<close>

record devices =
  dev_links :: "string set"
  dev_files :: "string set"

text \<open>
  What the operations do to them. \<^verbatim>\<open>ip link add\<close> and creating the WireGuard device
  succeed only for a new name, binding the socket only for a new path; deleting a dummy
  device fails only if there is none. Everything else leaves them alone, however it ends.
\<close>

locale device_laws =
  fixes E :: "'w env"
    and dev :: "'w \<Rightarrow> devices"
  assumes link_add: "run_command E ''ip'' [''link'', ''add'', n, ''type'', ''dummy''] w = (r, w') \<Longrightarrow>
      (r = Some True \<longrightarrow> n \<notin> dev_links (dev w)) \<and>
      dev w' = (if r = Some True then (dev w)\<lparr>dev_links := insert n (dev_links (dev w))\<rparr> else dev w)"
    and link_up: "run_command E ''ip'' [''link'', ''set'', ''dev'', n, ''up''] w = (r, w') \<Longrightarrow> dev w' = dev w"
    and link_delete: "run_command E ''ip'' [''link'', ''delete'', n, ''type'', ''dummy''] w = (r, w') \<Longrightarrow>
      dev w' = (if r = None then dev w else (dev w)\<lparr>dev_links := dev_links (dev w) - {n}\<rparr>)"
    and addr: "run_command E ''ip'' (''addr'' # args) w = (r, w') \<Longrightarrow> dev w' = dev w"
    and rules: "run_command E ''iptables'' args w = (r, w') \<Longrightarrow> dev w' = dev w"
    and owner: "run_command E ''chown'' args w = (r, w') \<Longrightarrow> dev w' = dev w"
    and rights: "run_command E ''chmod'' args w = (r, w') \<Longrightarrow> dev w' = dev w"
    and d_connect: "docker_connect E w = (c, w') \<Longrightarrow> dev w' = dev w"
    and d_create: "docker_create E b w = (i, w') \<Longrightarrow> dev w' = dev w"
    and d_start: "docker_start E j w = (s, w') \<Longrightarrow> dev w' = dev w"
    and d_inspect: "docker_inspect E j w = (net, w') \<Longrightarrow> dev w' = dev w"
    and d_stop: "docker_stop E j w = (res, w') \<Longrightarrow> dev w' = dev w"
    and w_open: "wg_open E name w = (s, w') \<Longrightarrow> dev w' = dev w"
    and w_create: "wg_create_interface E w = (s, w') \<Longrightarrow>
      (s \<longrightarrow> DEVICE_NAME \<notin> dev_links (dev w)) \<and>
      dev w' = (if s then (dev w)\<lparr>dev_links := insert DEVICE_NAME (dev_links (dev w))\<rparr> else dev w)"
    and w_configure: "wg_configure_interface E cfg w = (s, w') \<Longrightarrow> dev w' = dev w"
    and w_peer: "wg_configure_peer E peer w = (s, w') \<Longrightarrow> dev w' = dev w"
    and w_unpeer: "wg_remove_peer E k w = (s, w') \<Longrightarrow> dev w' = dev w"
    and w_remove: "wg_remove_interface E w = (s, w') \<Longrightarrow>
      dev w' = (if s then (dev w)\<lparr>dev_links := dev_links (dev w) - {DEVICE_NAME}\<rparr> else dev w)"
    and secret: "random_secret E w = (x, w') \<Longrightarrow> dev w' = dev w"
    and sigterm: "install_sigterm E w = (s, w') \<Longrightarrow> dev w' = dev w"
    and bind_socket: "socket_bind E p w = (s, w') \<Longrightarrow>
      (s \<longrightarrow> p \<notin> dev_files (dev w)) \<and>
      dev w' = (if s then (dev w)\<lparr>dev_files := insert p (dev_files (dev w))\<rparr> else dev w)"
    and unlink: "remove_file E p w = (s, w') \<Longrightarrow>
      dev w' = (if s then (dev w)\<lparr>dev_files := dev_files (dev w) - {p}\<rparr> else dev w)"

section \<open>The simulated host keeps the laws\<close>

definition sim_dev :: "sim_host \<Rightarrow> devices" where
  "sim_dev h = \<lparr>dev_links = set (sh_links h), dev_files = set (sh_files h)\<rparr>"

interpretation sim_devices: device_laws sim_env sim_dev
  by unfold_locales
    (auto simp: sim_dev_def sim_env_def sim_command_def sim_ip_link_def sim_ip_addr_def sim_iptables_def DEVICE_NAME_def
      split: if_splits list.splits)

section \<open>Tasks leave devices and files alone\<close>

text \<open>The devices and files are \<open>D\<close>.\<close>

definition has_devices :: "('w \<Rightarrow> devices) \<Rightarrow> devices \<Rightarrow> 'w \<Rightarrow> bool" where
  "has_devices dev D w \<longleftrightarrow> dev w = D"

context device_laws
begin

lemma keeps_calls [intro!]:
  "keeps (has_devices dev D) (run_checked E ''ip'' (''addr'' # args))"
  "keeps (has_devices dev D) (run_checked E ''iptables'' args)"
  "keeps (has_devices dev D) (call (docker_connect E))"
  "keeps (has_devices dev D) (call (docker_create E b))"
  "keeps (has_devices dev D) (call (docker_start E i))"
  "keeps (has_devices dev D) (call (docker_inspect E i))"
  "keeps (has_devices dev D) (call (docker_stop E i))"
  "keeps (has_devices dev D) (call (wg_configure_peer E peer))"
  "keeps (has_devices dev D) (call (random_secret E))"
  unfolding run_checked_def has_devices_def
  by (auto intro!: keeps_call dest: addr rules d_connect d_create d_start d_inspect d_stop w_peer secret)

lemma create_step_devices: "keeps (has_devices dev D) (create_step E F img a ports pc)"
  by (cases pc; cases a) (auto simp: inspect_bridge_def)

lemma stop_step_devices: "keeps (has_devices dev D) (stop_step E c pc)"
  by (cases pc) (auto split: option.split)

lemma add_temp_peer_devices: "keeps (has_devices dev D) (add_temp_peer E F C itf (cleanup_drop c) a)"
  unfolding add_temp_peer_def gen_keypair_def by (auto intro!: keeps_on_panic split: prod.split)

lemma task_step_devices:
  assumes "task_step E F C itf cn now cause p sh = Some (p', sh')"
  shows "dev (s_world sh') = dev (s_world sh)"
proof (cases p)
  case (Starting req a pc)
  with assms keepsD [OF create_step_devices, of "dev (s_world sh)" "s_world sh"] show ?thesis
    by (auto simp: step_starting_def has_devices_def split: prod.splits outcome.splits sum.splits)
next
  case (Started c a)
  with assms keepsD [OF add_temp_peer_devices, of "dev (s_world sh)" "s_world sh"] show ?thesis
    by (auto simp: step_started_def has_devices_def split: prod.splits outcome.splits sum.splits option.splits)
next
  case (Stopping c a pc)
  with assms keepsD [OF stop_step_devices, of "dev (s_world sh)" "s_world sh"] show ?thesis
    by (auto simp: step_stopping_def has_devices_def split: prod.splits outcome.splits sum.splits)
qed (use assms in \<open>auto simp: step_probing_def step_waiting_def step_releasing_def dest: w_unpeer
    split: prod.splits outcome.splits option.splits bool.splits if_splits\<close>)

end

section \<open>Start, life and end\<close>

text \<open>
  The states a process reaches that started with the pool \<open>m\<close> in the world \<open>w\<close>, when
  nobody else touches devices and files.
\<close>

inductive lived ::
  "'w env \<Rightarrow> features \<Rightarrow> crypto \<Rightarrow> interface \<Rightarrow> string \<Rightarrow> ('w \<Rightarrow> devices) \<Rightarrow> address_manager \<Rightarrow> 'w \<Rightarrow> 'w daemon \<Rightarrow> bool"
  for E F C itf path dev m w where
  start: "lived E F C itf path dev m w (initial m w)"
| step: "lived E F C itf path dev m w d \<Longrightarrow> dstep E F C itf path d d' \<Longrightarrow>
     (d_tasks d' = d_tasks d \<and> d_phase d' = d_phase d \<longrightarrow> dev (s_world (d_shared d')) = dev (s_world (d_shared d))) \<Longrightarrow>
     lived E F C itf path dev m w d'"

text \<open>So everything shown of reachable states holds of a process that was started.\<close>

lemma lived_reachable:
  "lived E F C itf path dev m w d \<Longrightarrow> address_manager_new = Done m \<Longrightarrow> reachable E F C itf path d"
  by (induction rule: lived.induct) (auto intro: reachable.intros)

lemma with_drop_Done: "with_drop p q w = (Done x, w') \<longleftrightarrow> (\<exists>w1. p w = (Done x, w1) \<and> q w1 = (Done (), w'))"
  by (auto simp: with_drop_def unwind_def bind_prog_Done split: prod.splits outcome.splits)

context device_laws
begin

lemma lived_devices:
  "lived E F C itf path dev m w d \<Longrightarrow> d_phase d \<noteq> Exited \<Longrightarrow> dev (s_world (d_shared d)) = dev w"
proof (induction rule: lived.induct)
  case start
  then show ?case by (simp add: initial_def)
next
  case (step d d')
  from step.hyps(2) show ?case
  proof cases
    case (advance cause t r)
    obtain p sh where r: "r = (p, sh)" by fastforce
    have "dev (s_world sh) = dev (s_world (d_shared d))" using task_step_devices advance r by blast
    with advance r step.IH show ?thesis by (auto simp: set_task_def running_def)
  qed (use step in \<open>auto simp: running_def\<close>)
qed

lemma main_init_devices:
  assumes "main_init E F C socket_var w = (Done (path, m, itf), w')"
  shows "address_manager_new = Done m" "path \<notin> dev_files (dev w)" "{''eth42'', DEVICE_NAME} \<inter> dev_links (dev w) = {}"
    "dev w' = \<lparr>dev_links = {''eth42'', DEVICE_NAME} \<union> dev_links (dev w), dev_files = insert path (dev_files (dev w))\<rparr>"
  using assms unfolding main_init_def dummy_create_def interface_new_def gen_keypair_def Let_def
  by (cases "dev w";
      auto simp: prog_Done run_checked_Done DEVICE_NAME_def insert_commute split: if_splits option.splits sum.splits
      dest!: link_add link_up sigterm w_open w_create secret w_configure bind_socket owner rights)+

lemma main_exit_devices:
  assumes "main_exit E path w = (Done (), w')"
  shows "dev w' = \<lparr>dev_links = dev_links (dev w) - {''eth42'', DEVICE_NAME}, dev_files = dev_files (dev w) - {path}\<rparr>"
  using assms unfolding main_exit_def dummy_drop_def interface_drop_def
  by (cases "dev w")
    (auto simp: with_drop_Done prog_Done split: if_splits option.splits dest!: link_delete w_remove unlink)

lemma main_init_blocked:
  assumes "''eth42'' \<in> dev_links (dev w)"
  shows "\<exists>w'. main_init E F C socket_var w = (Panic, w') \<and> dev w' = dev w"
proof -
  obtain r w' where r: "run_command E ''ip'' [''link'', ''add'', ''eth42'', ''type'', ''dummy''] w = (r, w')" by fastforce
  from link_add [OF r] assms have "r \<noteq> Some True" "dev w' = dev w" by auto
  moreover from this(1) r have "dummy_create E w = (Panic, w')"
    by (cases r) (auto simp: dummy_create_def run_checked_def prog_eval assert_that_def)
  ultimately show ?thesis by (simp add: main_init_def Let_def bind_prog_def [of "dummy_create E"])
qed

end

section \<open>Properties\<close>


text \<open>On the simulated host.\<close>

lemmas life_eval = main_init_def main_exit_def dummy_create_def dummy_drop_def interface_new_def interface_drop_def
  gen_keypair_def Let_def on_panic_def with_drop_def run_checked_def sim_env_def sim_command_def sim_ip_link_def
  ret_def lift_def prog_eval assert_that_def

lemma sample_init:
  "\<exists>itf w1 w2. main_init sim_env sample_features sample_crypto None (sample_host []) = (Done (''socket'', fresh_manager, itf), w1) \<and>
     main_exit sim_env ''socket'' w1 = (Done (), w2)"
  by (simp add: life_eval fresh_manager_new sample_host_def sample_features_def)


text \<open>
  One way to lose the process: Docker cannot be reached when a container is to be shut down.
\<close>

lemma unreachable_docker_aborts:
  assumes "docker_connect E (s_world sh) = (False, w)" "container_for c a"
  shows "step_stopping E c a AtStopConnect sh = (Aborting a, sh\<lparr>s_world := w\<rparr>)"
  using assms
  by (simp add: step_stopping_def prog_eval container_drop_def container_for_def assert_that_def lift_def crash_def)

text \<open>C33. A daemon that does not end in an orderly way cannot be started again. If its process is gone
  before it has taken its devices away, because a failure while a container was shut down
  aborted it or because it was killed, every later start panics and changes nothing, until
  somebody deletes the device by hand.\<close>

theorem lost_process_blocks_restart:
  assumes "device_laws E dev" and "main_init E F C socket_var w0 = (Done (path, m, itf), w1)"
    and "lived E F C itf path dev m w1 d" and "d_phase d \<noteq> Exited"
  shows "\<exists>w2. main_init E F' C' socket_var' (s_world (d_shared d)) = (Panic, w2) \<and> dev w2 = dev (s_world (d_shared d))"
proof -
  have "''eth42'' \<in> dev_links (dev (s_world (d_shared d)))"
    using device_laws.lived_devices [OF assms(1,3,4)] device_laws.main_init_devices(4) [OF assms(1,2)] by simp
  then show ?thesis by (rule device_laws.main_init_blocked [OF assms(1)])
qed

theorem lost_process_blocks_restart_witness:
  "\<exists>itf w1 w2. main_init sim_env sample_features sample_crypto None (sample_host []) = (Done (''socket'', fresh_manager, itf), w1) \<and>
     main_init sim_env sample_features sample_crypto (Some ''other'') w1 = (Panic, w2)"
proof -
  obtain itf w1 where
    w1: "main_init sim_env sample_features sample_crypto None (sample_host []) = (Done (''socket'', fresh_manager, itf), w1)"
    using sample_init by blast
  have "d_phase (initial fresh_manager w1) \<noteq> Exited" by (simp add: initial_def)
  from lost_process_blocks_restart [where F' = sample_features and C' = sample_crypto and socket_var' = "Some ''other''",
      OF sim_devices.device_laws_axioms w1 lived.start this] w1
  show ?thesis by (auto simp: initial_def)
qed

end
