(* ===== verification/Challd_Client.thy ===== *)
theory Challd_Client
  imports Prelude
begin

text \<open>
  The web server's end of the protocol with the daemon:
  \<^verbatim>\<open>ctf_archive/src/challd.rs\<close>, with the two small types of other modules its
  messages are built from. The socket is a parameter: whether it connects, and what the
  other side answers to a message.
\<close>

section \<open>Types\<close>

text \<open>\<^verbatim>\<open>guest::GuestCode\<close> and \<^verbatim>\<open>models::PortType\<close>.\<close>

datatype guest_code = GuestCode u32

datatype sql_port_type = SqlTcp | SqlUdp

definition RESPONSE_OK :: u8 where
  "RESPONSE_OK = 0"

datatype challd_error = Io | ResponseCode u8

datatype start_mode = Guest guest_code | StartDemo

fun guest_code_len :: "start_mode \<Rightarrow> nat" where
  "guest_code_len (Guest _) = 4"
| "guest_code_len StartDemo = 0"

fun mode_id :: "start_mode \<Rightarrow> u8" where
  "mode_id (Guest _) = 0"
| "mode_id StartDemo = 1"

text \<open>\<^verbatim>\<open>From<GuestCode> for StartMode\<close>.\<close>

definition from_guest_code :: "guest_code \<Rightarrow> start_mode" where
  "from_guest_code guest_code = Guest guest_code"

section \<open>The request\<close>

text \<open>The capacity \<^verbatim>\<open>start_container\<close> reserves for its message.\<close>

definition message_capacity :: "string \<Rightarrow> (u16 \<times> u16 \<times> sql_port_type) list \<Rightarrow> start_mode \<Rightarrow> nat" where
  "message_capacity image_name port_mappings start_mode =
     1 + guest_code_len start_mode + 1 + length image_name + 1 + length port_mappings * 5"

fun port_entry :: "u16 \<times> u16 \<times> sql_port_type \<Rightarrow> u8 list" where
  "port_entry (from_p, to_p, t) =
     le_bytes_u16 from_p @ le_bytes_u16 to_p @ [case t of SqlTcp \<Rightarrow> 0 | SqlUdp \<Rightarrow> 1]"

fun code_bytes :: "start_mode \<Rightarrow> u8 list" where
  "code_bytes (Guest (GuestCode c)) = le_bytes_u32 c"
| "code_bytes StartDemo = []"

text \<open>Both lengths are cast to one byte.\<close>

definition start_message :: "string \<Rightarrow> (u16 \<times> u16 \<times> sql_port_type) list \<Rightarrow> start_mode \<Rightarrow> u8 list" where
  "start_message image_name port_mappings start_mode =
     [mode_id start_mode] @ code_bytes start_mode @
     [as_u8 (length image_name)] @ as_bytes image_name @
     [as_u8 (length port_mappings)] @ concat (map port_entry port_mappings)"

section \<open>The answer\<close>

definition read_config :: "stream \<Rightarrow> (challd_error + string) outcome async" where
  "read_config s =
     (case bind_io (read_u16_le s) (\<lambda>(len, s). read_exact (unat len) s) of
        Pending \<Rightarrow> Pending
      | Ready None \<Rightarrow> Ready (Done (Inl Io))
      | Ready (Some (buf, s)) \<Rightarrow> Ready (bind_outcome (unwrap (from_utf8 buf)) (\<lambda>cfg. Done (Inr cfg))))"

definition read_response :: "start_mode \<Rightarrow> stream \<Rightarrow> (challd_error + string) outcome async" where
  "read_response start_mode s =
     (case read_u8 s of
        Pending \<Rightarrow> Pending
      | Ready None \<Rightarrow> Ready (Done (Inl Io))
      | Ready (Some (resp, s)) \<Rightarrow>
          if resp = RESPONSE_OK then
            (case start_mode of
               Guest _ \<Rightarrow> read_config s
             | StartDemo \<Rightarrow> Ready (Done (Inr [])))
          else Ready (Done (Inl (ResponseCode resp))))"

text \<open>
  The socket: \<open>sock_error_text\<close> is the text of the I/O error that just happened;
  \<open>sock_connect\<close> is \<^verbatim>\<open>UnixStream::connect\<close>; \<open>sock_send\<close> is
  \<^verbatim>\<open>write_all\<close>, \<open>None\<close> where it fails and otherwise the bytes the other
  side will answer.
\<close>

record 'w socket =
  sock_error_text :: "'w \<Rightarrow> string"
  sock_connect :: "string \<Rightarrow> 'w \<Rightarrow> bool \<times> 'w"
  sock_send :: "u8 list \<Rightarrow> 'w \<Rightarrow> stream option \<times> 'w"

text \<open>A step that may wait for ever returns \<open>Pending\<close>.\<close>

definition await :: "'a outcome async \<Rightarrow> ('w, 'a async) prog" where
  "await r = (case r of Pending \<Rightarrow> ret Pending | Ready x \<Rightarrow> bind_prog (lift x) (\<lambda>v. ret (Ready v)))"

definition start_container ::
  "'w socket \<Rightarrow> string \<Rightarrow> (u16 \<times> u16 \<times> sql_port_type) list \<Rightarrow> start_mode \<Rightarrow>
     ('w, (challd_error + string) async) prog" where
  "start_container S image_name port_mappings start_mode =
     (let message = start_message image_name port_mappings start_mode in
      bind_prog (call (sock_connect S ''/etc/challd/challd.sock'')) (\<lambda>connected.
      if \<not> connected then ret (Ready (Inl Io)) else
      bind_prog (call (sock_send S message)) (\<lambda>sent.
      (case sent of
         None \<Rightarrow> ret (Ready (Inl Io))
       | Some answer \<Rightarrow> await (read_response start_mode answer)))))"

text \<open>\<^verbatim>\<open>Display for ChalldError\<close>.\<close>

fun challd_error_text :: "string \<Rightarrow> challd_error \<Rightarrow> string" where
  "challd_error_text io_text Io = ''io error: '' @ io_text"
| "challd_error_text io_text (ResponseCode c) =
     ''response not OK, recieved code '' @ show_nat (unat c) @ '' instead''"

section \<open>Sizes\<close>

lemma length_port_entry [simp]: "length (port_entry p) = 5"
  by (cases p) simp

lemma length_port_entries: "length (concat (map port_entry ps)) = length ps * 5"
  by (induction ps) simp_all

lemma length_code_bytes: "length (code_bytes m) = guest_code_len m"
  by (cases m rule: code_bytes.cases) simp_all

lemma length_start_message: "length (start_message i ps m) = message_capacity i ps m"
  by (simp add: start_message_def message_capacity_def length_port_entries length_code_bytes)

end
