(* ===== verification/Protocol.thy ===== *)
theory Protocol
  imports Challd_Props Challd_Client
begin

text \<open>
  The two ends of the socket against each other: what the web server writes, the daemon
  reads back, and what the daemon answers, the web server reads back. The interface
  \<open>framing\<close> says what makes a request format self-delimiting; it is interpreted on the
  real encoder and decoder.
\<close>

locale framing =
  fixes encode :: "'r \<Rightarrow> u8 list"
    and decode :: "stream \<Rightarrow> 'q handled"
    and meaning :: "'r \<Rightarrow> 'q"
    and ok :: "'r \<Rightarrow> bool"
  assumes decode_encode: "ok r \<Longrightarrow> decode (encode r @ rest, eof) = Parsed (meaning r)"
begin

lemma encode_meaning:
  assumes "ok r" "ok r'" "encode r @ rest = encode r' @ rest'"
  shows "meaning r = meaning r'"
  using decode_encode [OF assms(1), of rest True] decode_encode [OF assms(2), of rest' True] assms(3)
  by simp

text \<open>Where different requests mean different things, the bytes determine the request.\<close>

lemma self_delimiting:
  assumes "inj_on meaning {r. ok r}" "ok r" "ok r'" "encode r @ rest = encode r' @ rest'"
  shows "r = r' \<and> rest = rest'"
proof -
  have "r = r'" using encode_meaning [OF assms(2-4)] assms(1-3) by (auto dest: inj_onD)
  with assms(4) show ?thesis by simp
qed

end

section \<open>Requests\<close>

fun daemon_type :: "sql_port_type \<Rightarrow> port_type" where
  "daemon_type SqlTcp = Tcp"
| "daemon_type SqlUdp = Udp"

fun daemon_mapping :: "u16 \<times> u16 \<times> sql_port_type \<Rightarrow> port_mapping" where
  "daemon_mapping (f, t, p) = \<lparr>from_port = f, to_port = t, mapping_type = daemon_type p\<rparr>"

fun daemon_mode :: "start_mode \<Rightarrow> mode" where
  "daemon_mode (Guest (GuestCode c)) = GuestRequest c"
| "daemon_mode StartDemo = Demo"

type_synonym start_request = "string \<times> (u16 \<times> u16 \<times> sql_port_type) list \<times> start_mode"

fun start_bytes :: "start_request \<Rightarrow> u8 list" where
  "start_bytes (i, ps, m) = start_message i ps m"

fun start_meaning :: "start_request \<Rightarrow> request" where
  "start_meaning (i, ps, m) = \<lparr>req_mode = daemon_mode m, req_image = i, req_ports = map daemon_mapping ps\<rparr>"

fun start_ok :: "start_request \<Rightarrow> bool" where
  "start_ok (i, ps, m) \<longleftrightarrow> rust_string i \<and> length i < 256 \<and> length ps < 10"

lemma port_entry_bytes: "port_entry p = mapping_bytes (daemon_mapping p)"
  by (cases p; cases "snd (snd p)") (auto simp: mapping_bytes_def)

lemma port_entries_bytes: "concat (map port_entry ps) = concat (map mapping_bytes (map daemon_mapping ps))"
  by (induction ps) (simp_all add: port_entry_bytes)

lemma read_mode_message:
  "read_mode (mode_id m # code_bytes m @ bs, eof) k = k (daemon_mode m, (bs, eof))"
  by (cases m rule: code_bytes.cases)
    (simp_all add: read_mode_def io_simps protocol_consts)

text \<open>The daemon reads as many mappings as the length byte says.\<close>

lemma port_mappings_read_message:
  "port_mappings_read (as_u8 (length ps) # concat (map port_entry ps) @ rest, eof) =
     (if length ps mod 256 < 10
      then Ready (Some (map daemon_mapping (take (length ps mod 256) ps),
             concat (map port_entry (drop (length ps mod 256) ps)) @ rest, eof))
      else Ready None)"
proof (cases "length ps mod 256 < 10")
  case False
  then show ?thesis by (simp add: port_mappings_read_def word_le_nat_alt unat_as_u8)
next
  case True
  let ?k = "length ps mod 256"
  have k: "length (map daemon_mapping (take ?k ps)) = ?k" by simp
  have "concat (map port_entry ps) =
      concat (map mapping_bytes (map daemon_mapping (take ?k ps))) @ concat (map port_entry (drop ?k ps))"
    unfolding port_entries_bytes [symmetric] concat_append [symmetric] map_append [symmetric] by simp
  with True show ?thesis
    using read_mappings_bytes [of "map daemon_mapping (take ?k ps)" "[]"
        "concat (map port_entry (drop ?k ps)) @ rest" eof, unfolded k]
    by (simp add: port_mappings_read_def word_le_nat_alt unat_as_u8)
qed

lemma parse_start_message:
  assumes "rust_string i" "length i < 256"
  shows "parse_request (start_message i ps m @ rest, eof) =
    (if length ps mod 256 < 10
     then Parsed \<lparr>req_mode = daemon_mode m, req_image = i,
            req_ports = map daemon_mapping (take (length ps mod 256) ps)\<rparr>
     else Reply RESULT_INVALID_PORT)"
proof -
  have image: "read_exact (unat (as_u8 (length i))) (as_bytes i @ bs, eof) = Ready (Some (as_bytes i, bs, eof))" for bs
    using assms(2) by (simp add: read_exact_append)
  show ?thesis
    unfolding parse_request_def start_message_def append_assoc append_Cons append_Nil read_mode_message
    by (simp add: handle_error_Ready image from_utf8_as_bytes [OF assms(1)] port_mappings_read_message)
      (simp add: handle_error_def)
qed

interpretation start_framing: framing start_bytes parse_request start_meaning start_ok
proof
  fix r :: start_request and rest eof
  assume ok: "start_ok r"
  obtain i ps m where r: "r = (i, ps, m)" by (cases r)
  with ok have "rust_string i" "length i < 256" "length ps < 10" by simp_all
  with parse_start_message [of i ps m rest eof] r
  show "parse_request (start_bytes r @ rest, eof) = Parsed (start_meaning r)" by simp
qed

lemma daemon_mapping_inject [simp]: "daemon_mapping p = daemon_mapping q \<longleftrightarrow> p = q"
  by (cases p; cases q; cases "snd (snd p)"; cases "snd (snd q)") auto

lemma daemon_mode_inject: "daemon_mode m = daemon_mode n \<longleftrightarrow> m = n"
  by (cases m rule: daemon_mode.cases; cases n rule: daemon_mode.cases) simp_all

lemma start_meaning_inj: "inj start_meaning"
proof (rule injI)
  fix r r' assume eq: "start_meaning r = start_meaning r'"
  obtain i ps m i' ps' m' where r: "r = (i, ps, m)" "r' = (i', ps', m')" by (cases r; cases r')
  from eq r have "i = i'" "m = m'" "map daemon_mapping ps = map daemon_mapping ps'"
    by (simp_all add: daemon_mode_inject)
  moreover have "inj daemon_mapping" by (rule injI) simp
  ultimately show "r = r'" using r by (simp add: inj_map_eq_map)
qed

section \<open>Answers\<close>

lemma read_response_config:
  assumes "rust_string s" "length s < 2 ^ 16"
  shows "read_response (Guest g) ([RESULT_OK] @ le_bytes_u16 (word_of_nat (length s)) @ as_bytes s, eof)
    = Ready (Done (Inr s))"
proof -
  have len: "unat (word_of_nat (length s) :: u16) = length s"
    using assms(2) by (simp add: unat_of_nat)
  have "read_exact (length s) (as_bytes s, eof) = Ready (Some (as_bytes s, [], eof))"
    using read_exact_append [of "as_bytes s" "length s" "[]" eof] by simp
  with assms(1) len show ?thesis
    by (simp add: read_response_def read_config_def RESULT_OK_def RESPONSE_OK_def read_u16_le_append)
qed

lemma read_response_code: "e \<noteq> RESULT_OK \<Longrightarrow> read_response m ([e], eof) = Ready (Done (Inl (ResponseCode e)))"
  by (simp add: read_response_def RESULT_OK_def RESPONSE_OK_def)

lemma read_response_demo: "read_response StartDemo ([RESULT_OK], eof) = Ready (Done (Inr []))"
  by (simp add: read_response_def RESULT_OK_def RESPONSE_OK_def)

text \<open>
  A configuration the daemon makes is short and plain ASCII, so its length fits the two
  bytes and its text is valid UTF-8. The keys are the 32 bytes of X25519.
\<close>

context base64_laws
begin

lemma peer_config_text:
  assumes "length (privkey kp) = 32" "b64_encode C = enc" "int_pubkey itf = enc hk" "length hk = 32"
  shows "is_ascii (serialize (peer_config F C itf kp a))"
    and "length (serialize (peer_config F C itf kp a)) < 256"
proof -
  have "unat a < 10 ^ 3" using u8_less [of a] by simp
  then have digits: "length (show_nat (unat a)) \<le> 3" by (intro show_nat_length) simp_all
  show "length (serialize (peer_config F C itf kp a)) < 256"
    using digits assms by (simp add: length_serialize peer_config_def enc_length)
  show "is_ascii (serialize (peer_config F C itf kp a))"
    using enc_ascii assms show_nat_ascii
    by (simp add: serialize_def peer_config_def)
      (simp add: is_ascii_def byte_of_def word_less_nat_alt)
qed

end

text \<open>What the daemon has promised a client that is still being answered.\<close>

fun answered :: "features \<Rightarrow> crypto \<Rightarrow> interface \<Rightarrow> pc \<Rightarrow> bool" where
  "answered F C itf (Rejected e) \<longleftrightarrow> e \<noteq> RESULT_OK"
| "answered F C itf (Waiting c a k since) \<longleftrightarrow>
     (\<forall>pk cfg. k = Some (pk, cfg) \<longrightarrow>
       (\<exists>kp addr. a = Some addr \<and> cfg = peer_config F C itf kp addr \<and> length (privkey kp) = 32))"
| "answered F C itf _ \<longleftrightarrow> True"

lemma answered_crash [simp]: "answered F C itf (crash r a)"
  by (cases r) (simp_all add: crash_def)

lemma add_temp_peer_config:
  assumes "add_temp_peer E F C itf d addr w = (Done (Inr (k, cfg)), w')"
    and "\<And>w. length (fst (random_secret E w)) = 32"
  shows "\<exists>kp. cfg = peer_config F C itf kp addr \<and> length (privkey kp) = 32"
proof -
  from assms(1) obtain kp w1 w2 where "gen_keypair E C w1 = (Done kp, w2)" "cfg = peer_config F C itf kp addr"
    by (auto simp: add_temp_peer_def prog_Done split: if_splits)
  moreover from this(1) have "length (privkey kp) = 32"
    using assms(2) by (auto simp: gen_keypair_def prog_Done dest!: arg_cong [of _ _ fst])
  ultimately show ?thesis by blast
qed

lemma task_step_answered:
  assumes s: "task_step E F C itf cn now cause p0 sh = Some (p, sh')"
    and k: "\<And>w. length (fst (random_secret E w)) = 32"
  shows "answered F C itf p"
proof (cases p0)
  case (Reading x)
  with s show ?thesis
    by (auto simp: step_reading_def protocol_consts dest!: parse_request_codes split: handled.splits mode.splits)
next
  case (Probing req i)
  with s show ?thesis by (auto simp: step_probing_def protocol_consts split: outcome.splits if_splits)
next
  case (Starting req a pc)
  with s show ?thesis by (auto simp: step_starting_def split: prod.splits outcome.splits sum.splits)
next
  case (Started c a)
  with s show ?thesis
    using add_temp_peer_config [OF _ k]
    by (auto simp: step_started_def split: prod.splits outcome.splits sum.splits option.splits)
next
  case (Waiting c a k since)
  with s show ?thesis by (auto simp: step_waiting_def split: prod.splits option.splits bool.splits if_splits)
next
  case (Stopping c a pc)
  with s show ?thesis by (auto simp: step_stopping_def split: prod.splits outcome.splits sum.splits option.splits)
next
  case (Releasing a)
  with s show ?thesis by (auto simp: step_releasing_def split: outcome.splits)
qed (use s in auto)

lemma reachable_answered:
  assumes "reachable E F C itf path d" "\<And>w. length (fst (random_secret E w)) = 32"
  shows "answered F C itf (d_tasks d t)"
  using assms(1)
proof (induction rule: reachable.induct)
  case (start m w)
  then show ?case by (simp add: initial_def)
next
  case (step d d')
  from dstep_task [OF step.hyps(2), of t] consider
    "d_tasks d' t = d_tasks d t" | s where "d_tasks d' t = Reading s"
    | cause sh' where "task_step E F C itf (d_phase d = Draining) (d_now d) cause (d_tasks d t) (d_shared d)
       = Some (d_tasks d' t, sh')"
    by metis
  then show ?case
    using step.IH by cases (simp, simp, rule task_step_answered [OF _ assms(2)])
qed

text \<open>
  The answer to a guest in any reachable state: it can be written, and the client reads back
  the text of a configuration for the guest's address.
\<close>

lemma reachable_config:
  assumes b64: "base64_laws (b64_encode C) dec" and key: "\<And>w. length (fst (random_secret E w)) = 32"
    and pub: "int_pubkey itf = b64_encode C hk" "length hk = 32"
    and r: "reachable E F C itf path d" and t: "d_tasks d t = Waiting c (Some a) (Some (pk, cfg)) since"
  shows "\<exists>bytes. ok_response (Some cfg) = Done bytes \<and> wgi_address (wgc_interface cfg) = guest_ip a \<and>
    (\<forall>g eof. read_response (Guest g) (bytes, eof) = Ready (Done (Inr (serialize cfg))))"
proof -
  from reachable_answered [OF r key, of t] t obtain kp where
    x: "cfg = peer_config F C itf kp a" "length (privkey kp) = 32" by auto
  note plain = base64_laws.peer_config_text [OF b64 x(2) refl pub, of F a, folded x(1)]
  have short: "length (serialize cfg) < 2 ^ 16" using plain(2) by simp
  have "wgi_address (wgc_interface cfg) = guest_ip a" using x by (simp add: peer_config_def guest_ip_def)
  moreover have "ok_response (Some cfg) =
      Done ([RESULT_OK] @ le_bytes_u16 (word_of_nat (length (serialize cfg))) @ as_bytes (serialize cfg))"
    using short by (simp add: ok_response_def Let_def)
  ultimately show ?thesis using read_response_config [OF ascii_rust_string [OF plain(1)] short] by blast
qed

section \<open>Properties\<close>

text \<open>C16. Whatever image and ports the web server sends (the image name at most 255 bytes of
  UTF-8), the daemon reads the same mode, guest code and image, and the same ports when there
  are fewer than ten. Because the number of ports is cast to one byte, a longer list is not
  always refused: the daemon sees the first \<^verbatim>\<open>len % 256\<close> ports if those are
  fewer than ten and answers \<^verbatim>\<open>INVALID_PORT\<close> otherwise. Bytes after the
  message do not matter.\<close>

theorem start_request_understood:
  assumes "rust_string i" and "length i < 256"
  shows "parse_request (start_message i ps m @ rest, eof) =
    (if length ps mod 256 < 10
     then Parsed \<lparr>req_mode = daemon_mode m, req_image = i,
            req_ports = map daemon_mapping (take (length ps mod 256) ps)\<rparr>
     else Reply RESULT_INVALID_PORT)"
  using assms by (rule parse_start_message)

theorem start_request_understood_witness:
  "parse_request (start_message ''nginx'' (replicate 257 (80, 80, SqlTcp)) StartDemo @ [], True) =
     Parsed \<lparr>req_mode = Demo, req_image = ''nginx'',
       req_ports = [\<lparr>from_port = 80, to_port = 80, mapping_type = Tcp\<rparr>]\<rparr>"
proof -
  have "is_ascii ''nginx''" by (simp add: is_ascii_def byte_of_def word_less_nat_alt)
  then have "rust_string ''nginx''" by (rule ascii_rust_string)
  from start_request_understood [OF this, of "replicate 257 (80, 80, SqlTcp)" StartDemo "[]" True]
  show ?thesis by (simp add: take_replicate)
qed

text \<open>The bytes of a start request determine the request: two requests the server may send
  (UTF-8 image of at most 255 bytes, fewer than ten ports) that share a prefix on the socket
  are the same request.\<close>

theorem start_requests_self_delimiting:
  assumes "start_ok r" and "start_ok r'" and "start_bytes r @ rest = start_bytes r' @ rest'"
  shows "r = r' \<and> rest = rest'"
  using start_framing.self_delimiting [OF inj_on_subset [OF start_meaning_inj] assms] by simp

theorem start_requests_self_delimiting_witness:
  "start_bytes (''a'', [], StartDemo) \<noteq> start_bytes (''a'', [(80, 80, SqlUdp)], StartDemo)"
proof
  have ok: "rust_string ''a''"
    by (rule ascii_rust_string) (simp add: is_ascii_def byte_of_def word_less_nat_alt)
  assume "start_bytes (''a'', [], StartDemo) = start_bytes (''a'', [(80, 80, SqlUdp)], StartDemo)"
  with start_requests_self_delimiting
    [of "(''a'', [], StartDemo)" "(''a'', [(80, 80, SqlUdp)], StartDemo)" "[]" "[]"] ok
  show False by simp
qed

text \<open>C15. Whatever the daemon's environment does, every answer it has for a client is one the web
  server's client code understands: a rejected request comes back as its result code, a demo as
  success, and a guest's answer as exactly the text of a configuration for the address that is
  attached to the connection. The answer's length always fits its two bytes, so writing it
  does not panic.\<close>

theorem daemon_answers_understood:
  assumes "base64_laws (b64_encode C) dec" and "\<And>w. length (fst (random_secret E w)) = 32"
    and "int_pubkey itf = b64_encode C hk" and "length hk = 32"
    and "reachable E F C itf path d" and "reply (d_tasks d t) = Some r"
  shows "\<exists>bytes. r = Done bytes \<and>
    (case d_tasks d t of
       Rejected e \<Rightarrow> read_response m (bytes, eof) = Ready (Done (Inl (ResponseCode e)))
     | Waiting c None _ _ \<Rightarrow> read_response StartDemo (bytes, eof) = Ready (Done (Inr []))
     | Waiting c (Some a) _ _ \<Rightarrow> (\<exists>cfg. wgi_address (wgc_interface cfg) = guest_ip a \<and>
         read_response (Guest g) (bytes, eof) = Ready (Done (Inr (serialize cfg))))
     | _ \<Rightarrow> False)"
proof (cases "d_tasks d t")
  case (Rejected e)
  with reachable_answered [OF assms(5,2), of t] assms(6) show ?thesis
    by (auto simp: reply_def read_response_code)
next
  case (Waiting c a k since)
  have eq: "k = None \<longleftrightarrow> a = None" using reachable_equipped [OF assms(5), of t] Waiting by simp
  show ?thesis
  proof (cases k)
    case None
    with Waiting eq assms(6) show ?thesis by (auto simp: reply_def ok_response_def read_response_demo)
  next
    case (Some x)
    with Waiting reachable_answered [OF assms(5,2), of t] obtain pk kp addr where
      x: "x = (pk, peer_config F C itf kp addr)" "a = Some addr" "length (privkey kp) = 32"
      by (cases x) auto
    with reachable_config [OF assms(1-5)] Waiting Some assms(6) x show ?thesis
      by (fastforce simp: reply_def)
  qed
qed (use assms(6) in \<open>auto simp: reply_def\<close>)

lemma sample_waiting:
  "\<exists>c k cfg w. sample_reachable (sample_daemon (Waiting c (Some 1) (Some (k, cfg)) 0) one_taken w)"
proof -
  obtain w1 w2 cfg c k where
    create: "container_create sim_env sample_features ''a'' (Some 1) [] (sample_host [''a'']) = (Done (Inr c), w1)"
    and c: "cont_id c \<noteq> None"
    and peer: "add_temp_peer sim_env sample_features sample_crypto sample_interface Panic 1 w1
      = (Done (Inr (k, cfg)), w2)"
    using sample_session by fastforce
  have drop: "cleanup_drop c = Panic" using c by (simp add: cleanup_drop_def container_drop_def assert_that_def)
  have "sample_reachable (sample_daemon (Waiting c (Some 1) (Some (k, cfg)) 0) one_taken w2)"
    by (rule sample_advance [OF sample_started [OF create]]) (simp_all add: step_started_def drop peer is_Aborting_def)
  then show ?thesis by blast
qed

theorem daemon_answers_understood_witness:
  "\<exists>d bytes cfg. sample_reachable d \<and> reply (d_tasks d 0) = Some (Done bytes) \<and>
     wgi_address (wgc_interface cfg) = guest_ip 1 \<and>
     read_response (Guest (GuestCode 7)) (bytes, True) = Ready (Done (Inr (serialize cfg)))"
proof -
  obtain c k cfg w where r: "sample_reachable (sample_daemon (Waiting c (Some 1) (Some (k, cfg)) 0) one_taken w)"
    using sample_waiting by blast
  let ?d = "sample_daemon (Waiting c (Some 1) (Some (k, cfg)) 0) one_taken w"
  have at: "d_tasks ?d 0 = Waiting c (Some 1) (Some (k, cfg)) 0" by (simp add: sample_daemon_def)
  then have reply: "reply (d_tasks ?d 0) = Some (ok_response (Some cfg))" by (simp add: reply_def)
  have laws: "base64_laws (b64_encode sample_crypto) rfc4648_decode"
    using rfc4648.base64_laws_axioms by (simp add: sample_crypto_def)
  have secret: "length (fst (random_secret sim_env w)) = 32" for w
    by (auto simp: sim_env_fields split: list.splits)
  have pub: "int_pubkey sample_interface = b64_encode sample_crypto (replicate 32 1)"
    by (simp add: sample_interface_def sample_crypto_def)
  from daemon_answers_understood [OF laws secret pub _ r reply, of _ True "GuestCode 7"] at r reply
  show ?thesis by fastforce
qed

end
