(* ===== verification/Date.thy ===== *)
theory Date
  imports Prelude
begin

text \<open>
  Dates of the API: \<^verbatim>\<open>ctf_archive/src/date.rs\<close>. The calendar is the
  \<^verbatim>\<open>chrono\<close> crate's, a parameter; the locale \<open>chrono_laws\<close> says what its
  constructor and accessors promise, and the proleptic Gregorian calendar keeps it.
\<close>

record date =
  date_year :: u16
  date_month :: u8
  date_day :: u8

text \<open>\<^verbatim>\<open>NaiveDate\<close>: constructor, accessors and order.\<close>

record 'd chrono =
  from_ymd_opt :: "int \<Rightarrow> nat \<Rightarrow> nat \<Rightarrow> 'd option"
  nd_year :: "'d \<Rightarrow> int"
  nd_month :: "'d \<Rightarrow> nat"
  nd_day :: "'d \<Rightarrow> nat"
  nd_le :: "'d \<Rightarrow> 'd \<Rightarrow> bool"

definition date_try_from :: "'d chrono \<Rightarrow> 'd \<Rightarrow> date option" where
  "date_try_from C d =
     (if 0 \<le> nd_year C d \<and> nd_year C d < 2 ^ 16 then
        Some \<lparr>date_year = word_of_int (nd_year C d), date_month = as_u8 (nd_month C d), date_day = as_u8 (nd_day C d)\<rparr>
      else None)"

definition date_try_into :: "'d chrono \<Rightarrow> date \<Rightarrow> 'd option" where
  "date_try_into C d = from_ymd_opt C (uint (date_year d)) (unat (date_month d)) (unat (date_day d))"

locale chrono_laws =
  fixes C :: "'d chrono"
  assumes fields: "from_ymd_opt C y m d = Some x \<Longrightarrow> nd_year C x = y \<and> nd_month C x = m \<and> nd_day C x = d"
begin

text \<open>A date that was accepted from the API is shown as it was given.\<close>

lemma try_from_into: "date_try_into C d = Some x \<Longrightarrow> date_try_from C x = Some d"
  using unsigned_less [of "date_year d", where ?'a = int] fields
  by (cases d) (auto simp: date_try_into_def date_try_from_def as_u8_def)

end

section \<open>The Gregorian calendar\<close>

definition leap_year :: "int \<Rightarrow> bool" where
  "leap_year y \<longleftrightarrow> 4 dvd y \<and> (\<not> 100 dvd y \<or> 400 dvd y)"

definition month_length :: "int \<Rightarrow> nat \<Rightarrow> nat" where
  "month_length y m =
     (if m = 2 then (if leap_year y then 29 else 28)
      else if m \<in> {4, 6, 9, 11} then 30 else if 1 \<le> m \<and> m \<le> 12 then 31 else 0)"

definition gregorian :: "(int \<times> nat \<times> nat) chrono" where
  "gregorian = \<lparr>
     from_ymd_opt = (\<lambda>y m d. if 1 \<le> d \<and> d \<le> month_length y m then Some (y, m, d) else None),
     nd_year = fst,
     nd_month = (\<lambda>x. fst (snd x)),
     nd_day = (\<lambda>x. snd (snd x)),
     nd_le = (\<lambda>(y, m, d) (y', m', d'). y < y' \<or> y = y' \<and> (m < m' \<or> m = m' \<and> d \<le> d'))\<rparr>"

interpretation gregorian: chrono_laws gregorian
  by unfold_locales (auto simp: gregorian_def split: if_splits)

end
