(* ===== verification/Database.thy ===== *)
theory Database
  imports Challd_Client Date "HOL-Library.Multiset"
begin

text \<open>
  The archive's database: the rows of \<^verbatim>\<open>ctf_archive/src/models.rs\<close> and
  \<^verbatim>\<open>schema.rs\<close>, the constraints of the migrations under
  \<^verbatim>\<open>ctf_archive/migrations\<close>, and the statements the handlers run. PostgreSQL and
  Diesel are a parameter: a record with one operation per statement, on a world of any
  type. The locale \<open>db_laws\<close> says what those operations promise about the tables.
\<close>

section \<open>Rows\<close>

record 'd new_ctf =
  nctf_name :: string
  nctf_start :: 'd
  nctf_end :: 'd

record new_category =
  ncat_name :: string
  ncat_ctf :: i32
  ncat_type :: string

record new_challenge =
  nch_name :: string
  nch_flag :: "string option"
  nch_category :: i32
  nch_description :: string
  nch_difficulty :: string
  nch_archive :: "u8 list option"
  nch_port_numbers :: "i16 list"
  nch_port_types :: "sql_port_type list"
  nch_instructions :: "string option"

record 'd ctf_row =
  ctf_id :: i32
  ctf_name :: string
  ctf_start :: 'd
  ctf_end :: 'd

record category_row =
  cat_id :: i32
  cat_name :: string
  cat_ctf :: i32
  cat_type :: string

record challenge_row =
  ch_id :: i32
  ch_name :: string
  ch_flag :: "string option"
  ch_category :: i32
  ch_description :: string
  ch_difficulty :: string
  ch_archive :: "u8 list option"
  ch_docker_image :: "string option"
  ch_port_numbers :: "i16 option list"
  ch_port_types :: "sql_port_type option list"
  ch_instructions :: "string option"

record 'd tables =
  t_ctfs :: "'d ctf_row list"
  t_categories :: "category_row list"
  t_challenges :: "challenge_row list"

section \<open>SQL\<close>

text \<open>
  A \<^verbatim>\<open>VARCHAR(n)\<close> column counts characters. A longer text is an error, except
  that superfluous trailing spaces are cut off.
\<close>

function varchar :: "nat \<Rightarrow> string \<Rightarrow> string option" where
  "varchar n s =
     (if char_count s \<le> n then Some s
      else if s \<noteq> [] \<and> last s = CHR '' '' then varchar n (butlast s) else None)"
  by pat_completeness auto
termination by (relation "measure (\<lambda>(n, s). length s)") auto

declare varchar.simps [simp del]

fun varchar_opt :: "nat \<Rightarrow> string option \<Rightarrow> string option option" where
  "varchar_opt n None = Some None"
| "varchar_opt n (Some s) = map_option Some (varchar n s)"

text \<open>
  Truth values are three-valued, \<open>None\<close> being NULL; a check fails only when it is false.
  \<^verbatim>\<open>array_length(a, d)\<close> is NULL unless \<open>a\<close> has a dimension number \<open>d\<close>, and
  dimensions are counted from 1.
\<close>

definition sql_cmp :: "(nat \<Rightarrow> nat \<Rightarrow> bool) \<Rightarrow> nat option \<Rightarrow> nat option \<Rightarrow> bool option" where
  "sql_cmp f a b = (case (a, b) of (Some x, Some y) \<Rightarrow> Some (f x y) | _ \<Rightarrow> None)"

definition array_length :: "'a list \<Rightarrow> nat \<Rightarrow> nat option" where
  "array_length xs d = (if d = 1 \<and> xs \<noteq> [] then Some (length xs) else None)"

definition check_ok :: "bool option \<Rightarrow> bool" where
  "check_ok b \<longleftrightarrow> b \<noteq> Some False"

section \<open>Constraints of the migrations\<close>

definition ends_after_start :: "'d chrono \<Rightarrow> 'd \<Rightarrow> 'd \<Rightarrow> bool option" where
  "ends_after_start C end_date start_date = Some (nd_le C start_date end_date)"

definition valid_category_type :: "string \<Rightarrow> bool option" where
  "valid_category_type t =
     Some (t = ''rev'' \<or> t = ''pwn'' \<or> t = ''web'' \<or> t = ''crypto'' \<or> t = ''stego'' \<or>
           t = ''forensics'' \<or> t = ''misc'')"

definition limited_port_number :: "'a list \<Rightarrow> bool option" where
  "limited_port_number port_numbers = sql_cmp (<) (array_length port_numbers 0) (Some 10)"

definition has_port_types :: "'a list \<Rightarrow> 'b list \<Rightarrow> bool option" where
  "has_port_types port_numbers port_types =
     sql_cmp (=) (array_length port_types 0) (array_length port_numbers 0)"

definition ports_checked :: "'a list \<Rightarrow> 'b list \<Rightarrow> bool" where
  "ports_checked nums types \<longleftrightarrow> check_ok (limited_port_number nums) \<and> check_ok (has_port_types nums types)"

text \<open>The row a new record becomes, each text cut to its column's size or refused.\<close>

definition store_ctf :: "i32 \<Rightarrow> 'd new_ctf \<Rightarrow> 'd ctf_row option" where
  "store_ctf i n =
     (case varchar 127 (nctf_name n) of
        Some name \<Rightarrow> Some \<lparr>ctf_id = i, ctf_name = name, ctf_start = nctf_start n, ctf_end = nctf_end n\<rparr>
      | None \<Rightarrow> None)"

definition store_category :: "i32 \<Rightarrow> new_category \<Rightarrow> category_row option" where
  "store_category i n =
     (case (varchar 63 (ncat_name n), varchar 63 (ncat_type n)) of
        (Some name, Some t) \<Rightarrow> Some \<lparr>cat_id = i, cat_name = name, cat_ctf = ncat_ctf n, cat_type = t\<rparr>
      | _ \<Rightarrow> None)"

definition store_challenge :: "i32 \<Rightarrow> new_challenge \<Rightarrow> challenge_row option" where
  "store_challenge i n =
     (case (varchar 63 (nch_name n), varchar_opt 127 (nch_flag n), varchar 2047 (nch_description n),
            varchar 31 (nch_difficulty n), varchar_opt 255 (nch_instructions n)) of
        (Some name, Some flag, Some description, Some difficulty, Some instructions) \<Rightarrow>
          Some \<lparr>ch_id = i, ch_name = name, ch_flag = flag, ch_category = nch_category n,
            ch_description = description, ch_difficulty = difficulty, ch_archive = nch_archive n,
            ch_docker_image = None, ch_port_numbers = map Some (nch_port_numbers n),
            ch_port_types = map Some (nch_port_types n), ch_instructions = instructions\<rparr>
      | _ \<Rightarrow> None)"

text \<open>Uniqueness and references. A category's name is unique over all CTFs.\<close>

definition ctf_unique :: "'d tables \<Rightarrow> 'd ctf_row \<Rightarrow> bool" where
  "ctf_unique T r \<longleftrightarrow> ctf_name r \<notin> ctf_name ` set (t_ctfs T)"

definition category_unique :: "'d tables \<Rightarrow> category_row \<Rightarrow> bool" where
  "category_unique T r \<longleftrightarrow> cat_name r \<notin> cat_name ` set (t_categories T) \<and>
     (cat_name r, cat_ctf r) \<notin> (\<lambda>c. (cat_name c, cat_ctf c)) ` set (t_categories T)"

definition category_refs :: "'d tables \<Rightarrow> category_row \<Rightarrow> bool" where
  "category_refs T r \<longleftrightarrow> cat_ctf r \<in> ctf_id ` set (t_ctfs T)"

definition challenge_unique :: "'d tables \<Rightarrow> challenge_row \<Rightarrow> bool" where
  "challenge_unique T r \<longleftrightarrow>
     (ch_name r, ch_category r) \<notin> (\<lambda>c. (ch_name c, ch_category c)) ` set (t_challenges T)"

definition challenge_refs :: "'d tables \<Rightarrow> challenge_row \<Rightarrow> bool" where
  "challenge_refs T r \<longleftrightarrow> ch_category r \<in> cat_id ` set (t_categories T)"

definition docker_unique :: "'d tables \<Rightarrow> i32 \<Rightarrow> string \<Rightarrow> bool" where
  "docker_unique T i img \<longleftrightarrow> (\<forall>r \<in> set (t_challenges T). ch_id r \<noteq> i \<longrightarrow> ch_docker_image r \<noteq> Some img)"

section \<open>Statements\<close>

datatype db_error = UniqueViolation | ForeignKeyViolation | CheckViolation | NotFound | OtherError

text \<open>
  One operation per statement of the handlers. \<open>pool_get\<close> is
  \<^verbatim>\<open>state.pool().get()\<close>; the updates return the number of rows they changed.
\<close>

record ('d, 'w) db =
  pool_get :: "'w \<Rightarrow> bool \<times> 'w"
  load_ctfs :: "'w \<Rightarrow> (db_error + (i32 \<times> string \<times> 'd \<times> 'd) list) \<times> 'w"
  insert_ctf :: "'d new_ctf \<Rightarrow> 'w \<Rightarrow> (db_error + i32) \<times> 'w"
  load_categories :: "i32 \<Rightarrow> 'w \<Rightarrow> (db_error + (i32 \<times> string \<times> string) list) \<times> 'w"
  insert_category :: "new_category \<Rightarrow> 'w \<Rightarrow> (db_error + i32) \<times> 'w"
  load_challenge_ids :: "i32 \<Rightarrow> 'w \<Rightarrow> (db_error + i32 list) \<times> 'w"
  find_challenge :: "i32 \<Rightarrow> 'w \<Rightarrow> (db_error + challenge_row) \<times> 'w"
  insert_challenge :: "new_challenge \<Rightarrow> 'w \<Rightarrow> (db_error + i32) \<times> 'w"
  update_docker :: "i32 \<Rightarrow> string \<Rightarrow> i16 list \<Rightarrow> sql_port_type list \<Rightarrow> 'w \<Rightarrow> (db_error + nat) \<times> 'w"
  update_instructions :: "i32 \<Rightarrow> string option \<Rightarrow> 'w \<Rightarrow> (db_error + nat) \<times> 'w"
  update_archive :: "i32 \<Rightarrow> u8 list option \<Rightarrow> 'w \<Rightarrow> (db_error + nat) \<times> 'w"

definition ids_of_category :: "'d tables \<Rightarrow> i32 \<Rightarrow> i32 list" where
  "ids_of_category T i = map ch_id (filter (\<lambda>r. ch_category r = i) (t_challenges T))"

definition find_row :: "'d tables \<Rightarrow> i32 \<Rightarrow> challenge_row option" where
  "find_row T i = find (\<lambda>r. ch_id r = i) (t_challenges T)"

definition change_row :: "i32 \<Rightarrow> (challenge_row \<Rightarrow> challenge_row) \<Rightarrow> 'd tables \<Rightarrow> 'd tables" where
  "change_row i f T = T\<lparr>t_challenges := map (\<lambda>r. if ch_id r = i then f r else r) (t_challenges T)\<rparr>"

definition set_docker :: "string \<Rightarrow> i16 list \<Rightarrow> sql_port_type list \<Rightarrow> challenge_row \<Rightarrow> challenge_row" where
  "set_docker img nums types r =
     r\<lparr>ch_docker_image := Some img, ch_port_numbers := map Some nums, ch_port_types := map Some types\<rparr>"

section \<open>What the statements promise\<close>

text \<open>
  An insertion that succeeds has added the stored form of the new row under a new id, and
  the row satisfies the table's checks, uniqueness and references. One that fails has
  changed nothing, and the kind of the error names a constraint the row breaks.
\<close>

definition insert_law ::
  "(i32 \<Rightarrow> 'r option) \<Rightarrow> (i32 \<Rightarrow> bool) \<Rightarrow> ('r \<Rightarrow> bool) \<Rightarrow> ('r \<Rightarrow> bool) \<Rightarrow> ('r \<Rightarrow> bool) \<Rightarrow> ('r \<Rightarrow> 't) \<Rightarrow>
     't \<Rightarrow> db_error + i32 \<Rightarrow> 't \<Rightarrow> bool" where
  "insert_law stored fresh checks unique refs add T r T' \<longleftrightarrow>
     (case r of
        Inr i \<Rightarrow> \<exists>row. stored i = Some row \<and> fresh i \<and> checks row \<and> unique row \<and> refs row \<and> T' = add row
      | Inl e \<Rightarrow> T' = T \<and> e \<noteq> NotFound \<and>
          (e = CheckViolation \<longrightarrow> (\<exists>i row. stored i = Some row \<and> \<not> checks row)) \<and>
          (e = UniqueViolation \<longrightarrow> (\<exists>i row. stored i = Some row \<and> \<not> unique row)) \<and>
          (e = ForeignKeyViolation \<longrightarrow> (\<exists>i row. stored i = Some row \<and> \<not> refs row)))"

text \<open>
  An update that succeeds has changed the row with the id, if there is one, and returned
  how many rows it changed; a missing row is no error.
\<close>

definition update_law ::
  "i32 \<Rightarrow> (challenge_row \<Rightarrow> challenge_row) option \<Rightarrow> bool \<Rightarrow> bool \<Rightarrow> 'd tables \<Rightarrow> db_error + nat \<Rightarrow> 'd tables \<Rightarrow> bool" where
  "update_law i change checks unique T r T' \<longleftrightarrow>
     (case r of
        Inr n \<Rightarrow> n = length (filter (\<lambda>r. ch_id r = i) (t_challenges T)) \<and>
          (if n = 0 then T' = T else (\<exists>f. change = Some f \<and> checks \<and> unique \<and> T' = change_row i f T))
      | Inl e \<Rightarrow> T' = T \<and> e \<noteq> NotFound \<and> (e = CheckViolation \<longrightarrow> \<not> checks) \<and> (e = UniqueViolation \<longrightarrow> \<not> unique))"

abbreviation ctf_columns :: "'d ctf_row \<Rightarrow> i32 \<times> string \<times> 'd \<times> 'd" where
  "ctf_columns r \<equiv> (ctf_id r, ctf_name r, ctf_start r, ctf_end r)"

abbreviation category_columns :: "category_row \<Rightarrow> i32 \<times> string \<times> string" where
  "category_columns r \<equiv> (cat_id r, cat_name r, cat_type r)"

definition insert_ctf_law :: "'d chrono \<Rightarrow> 'd new_ctf \<Rightarrow> 'd tables \<Rightarrow> db_error + i32 \<Rightarrow> 'd tables \<Rightarrow> bool" where
  "insert_ctf_law C n T = insert_law (\<lambda>i. store_ctf i n) (\<lambda>i. i \<notin> ctf_id ` set (t_ctfs T))
     (\<lambda>r. check_ok (ends_after_start C (ctf_end r) (ctf_start r))) (ctf_unique T) (\<lambda>_. True)
     (\<lambda>r. T\<lparr>t_ctfs := t_ctfs T @ [r]\<rparr>) T"

definition insert_category_law :: "new_category \<Rightarrow> 'd tables \<Rightarrow> db_error + i32 \<Rightarrow> 'd tables \<Rightarrow> bool" where
  "insert_category_law n T = insert_law (\<lambda>i. store_category i n) (\<lambda>i. i \<notin> cat_id ` set (t_categories T))
     (\<lambda>r. check_ok (valid_category_type (cat_type r))) (category_unique T) (category_refs T)
     (\<lambda>r. T\<lparr>t_categories := t_categories T @ [r]\<rparr>) T"

definition insert_challenge_law :: "new_challenge \<Rightarrow> 'd tables \<Rightarrow> db_error + i32 \<Rightarrow> 'd tables \<Rightarrow> bool" where
  "insert_challenge_law n T = insert_law (\<lambda>i. store_challenge i n) (\<lambda>i. i \<notin> ch_id ` set (t_challenges T))
     (\<lambda>r. ports_checked (ch_port_numbers r) (ch_port_types r)) (challenge_unique T) (challenge_refs T)
     (\<lambda>r. T\<lparr>t_challenges := t_challenges T @ [r]\<rparr>) T"

definition update_docker_law ::
  "i32 \<Rightarrow> string \<Rightarrow> i16 list \<Rightarrow> sql_port_type list \<Rightarrow> 'd tables \<Rightarrow> db_error + nat \<Rightarrow> 'd tables \<Rightarrow> bool" where
  "update_docker_law i img nums types T =
     update_law i (map_option (\<lambda>img. set_docker img nums types) (varchar 63 img)) (ports_checked nums types)
       (\<forall>img'. varchar 63 img = Some img' \<longrightarrow> docker_unique T i img') T"

definition update_instructions_law :: "i32 \<Rightarrow> string option \<Rightarrow> 'd tables \<Rightarrow> db_error + nat \<Rightarrow> 'd tables \<Rightarrow> bool" where
  "update_instructions_law i s T =
     update_law i (map_option (\<lambda>s. ch_instructions_update (\<lambda>_. s)) (varchar_opt 255 s)) True True T"

definition update_archive_law :: "i32 \<Rightarrow> u8 list option \<Rightarrow> 'd tables \<Rightarrow> db_error + nat \<Rightarrow> 'd tables \<Rightarrow> bool" where
  "update_archive_law i a T = update_law i (Some (ch_archive_update (\<lambda>_. a))) True True T"

text \<open>
  \<open>ok\<close> is the state of a healthy database, which every statement keeps. A query returns
  its rows in any order; looking up an id fails with \<open>NotFound\<close> only where there is no
  such row.
\<close>

locale db_laws =
  fixes D :: "('d, 'w) db"
    and C :: "'d chrono"
    and ok :: "'w \<Rightarrow> bool"
    and tables :: "'w \<Rightarrow> 'd tables"
  assumes get: "ok w \<Longrightarrow> pool_get D w = (b, w') \<Longrightarrow> ok w' \<and> tables w' = tables w"
    and ctfs: "ok w \<Longrightarrow> load_ctfs D w = (r, w') \<Longrightarrow> ok w' \<and> tables w' = tables w \<and>
      (\<forall>rows. r = Inr rows \<longrightarrow> mset rows = mset (map ctf_columns (t_ctfs (tables w))))"
    and categories: "ok w \<Longrightarrow> load_categories D i w = (q, w') \<Longrightarrow> ok w' \<and> tables w' = tables w \<and>
      (\<forall>rows. q = Inr rows \<longrightarrow>
        mset rows = mset (map category_columns (filter (\<lambda>c. cat_ctf c = i) (t_categories (tables w)))))"
    and challenge_ids: "ok w \<Longrightarrow> load_challenge_ids D i w = (l, w') \<Longrightarrow> ok w' \<and> tables w' = tables w \<and>
      (\<forall>ids. l = Inr ids \<longrightarrow> mset ids = mset (ids_of_category (tables w) i))"
    and found: "ok w \<Longrightarrow> find_challenge D i w = (f, w') \<Longrightarrow> ok w' \<and> tables w' = tables w \<and>
      (\<forall>row. f = Inr row \<longrightarrow> find_row (tables w) i = Some row) \<and>
      (f = Inl NotFound \<longrightarrow> find_row (tables w) i = None)"
    and ctf: "ok w \<Longrightarrow> insert_ctf D n w = (s, w') \<Longrightarrow> ok w' \<and> insert_ctf_law C n (tables w) s (tables w')"
    and category: "ok w \<Longrightarrow> insert_category D c w = (s, w') \<Longrightarrow> ok w' \<and> insert_category_law c (tables w) s (tables w')"
    and challenge: "ok w \<Longrightarrow> insert_challenge D h w = (s, w') \<Longrightarrow> ok w' \<and> insert_challenge_law h (tables w) s (tables w')"
    and docker: "ok w \<Longrightarrow> update_docker D i img nums types w = (u, w') \<Longrightarrow>
      ok w' \<and> update_docker_law i img nums types (tables w) u (tables w')"
    and instructions: "ok w \<Longrightarrow> update_instructions D i t w = (u, w') \<Longrightarrow>
      ok w' \<and> update_instructions_law i t (tables w) u (tables w')"
    and archive: "ok w \<Longrightarrow> update_archive D i a w = (u, w') \<Longrightarrow>
      ok w' \<and> update_archive_law i a (tables w) u (tables w')"

section \<open>The port constraints check nothing\<close>

text \<open>
  Both port constraints ask for dimension 0 of an array, which no array has: they are NULL
  on every row, so they never reject one.
\<close>

lemma port_constraints_null: "limited_port_number nums = None" "has_port_types nums types = None"
  by (simp_all add: limited_port_number_def has_port_types_def array_length_def sql_cmp_def)

lemma ports_checked_always: "ports_checked nums types"
  by (simp add: ports_checked_def check_ok_def port_constraints_null)

section \<open>Text that fits a column\<close>

lemma varchar_Some:
  "varchar n s = Some t \<Longrightarrow> char_count t \<le> n \<and> (\<exists>k. s = t @ replicate k (CHR '' ''))"
proof (induction n s rule: varchar.induct)
  case (1 n s)
  show ?case
  proof (cases "char_count s \<le> n")
    case True
    with 1(2) have "t = s" by (simp add: varchar.simps)
    with True show ?thesis by (metis append_Nil2 replicate_0)
  next
    case False
    with 1(2) have s: "s \<noteq> []" "last s = CHR '' ''" and v: "varchar n (butlast s) = Some t"
      by (auto simp: varchar.simps [of n s] split: if_splits)
    from "1.IH" [OF False _ v] s obtain k where k: "char_count t \<le> n" "butlast s = t @ replicate k (CHR '' '')" by blast
    with s have "s = t @ replicate (Suc k) (CHR '' '')"
      by (metis append_assoc append_butlast_last_id replicate_append_same replicate_Suc)
    with k(1) show ?thesis by blast
  qed
qed

lemma varchar_fits [simp]: "char_count s \<le> n \<Longrightarrow> varchar n s = Some s"
  by (simp add: varchar.simps)

lemma varchar_rust_string: "varchar n s = Some t \<Longrightarrow> rust_string s \<Longrightarrow> rust_string t"
  using varchar_Some [of n s t] rust_string_butlast by blast

end
