(* ===== verification/Jwt.thy ===== *)
theory Jwt
  imports Challd_Client
begin

text \<open>
  Sessions: \<^verbatim>\<open>ctf_archive/src/jwt.rs\<close>, with the HTTP vocabulary all handlers
  share. Tokens are made and checked by the \<^verbatim>\<open>jwt_simple\<close> crate, a parameter whose
  documented behaviour is the locale \<open>jwt_laws\<close>; what the sources add is which key and
  which header belong to which kind of claims, and the shape of the claims.
\<close>

section \<open>HTTP\<close>

datatype status =
  OK | CREATED | BAD_REQUEST | UNAUTHORIZED | FORBIDDEN | NOT_FOUND | CONFLICT | INTERNAL_SERVER_ERROR

text \<open>The first value of every header of a request.\<close>

type_synonym headers = "string \<rightharpoonup> u8 list"

text \<open>\<^verbatim>\<open>HeaderValue::to_str\<close>: only visible ASCII and tabs.\<close>

definition header_to_str :: "u8 list \<Rightarrow> string option" where
  "header_to_str bs =
     (if list_all (\<lambda>b. b = 9 \<or> (0x20 \<le> b \<and> b < 0x7F)) bs then Some (map char_of_byte bs) else None)"

section \<open>Claims\<close>

text \<open>
  A token carries a flat JSON object. \<open>JOther\<close> is any JSON value no claim has: a null, a
  fraction, an array or an object.
\<close>

datatype jval = JNum int | JBool bool | JStr string | JOther

type_synonym json_object = "(string \<times> jval) list"

text \<open>
  Reading a field as a derived \<^verbatim>\<open>Deserialize\<close> does: it has to occur exactly once;
  unknown fields are ignored.
\<close>

definition json_field :: "string \<Rightarrow> json_object \<Rightarrow> jval option" where
  "json_field n obj = (case filter (\<lambda>p. fst p = n) obj of [(_, v)] \<Rightarrow> Some v | _ \<Rightarrow> None)"

fun json_uint :: "nat \<Rightarrow> jval option \<Rightarrow> nat option" where
  "json_uint bound (Some (JNum n)) = (if 0 \<le> n \<and> n < int bound then Some (nat n) else None)"
| "json_uint bound _ = None"

fun json_bool :: "jval option \<Rightarrow> bool option" where
  "json_bool (Some (JBool b)) = Some b"
| "json_bool _ = None"

fun json_str :: "jval option \<Rightarrow> string option" where
  "json_str (Some (JStr s)) = Some s"
| "json_str _ = None"

record jwt_admin =
  admin_id :: u8
  can_docker :: bool
  can_create :: bool
  can_invite :: bool
  can_host_demo :: bool

record jwt_challenge =
  challenge :: string
  challenge_id :: u8

record jwt_user =
  user_code :: guest_code

definition admin_to_json :: "jwt_admin \<Rightarrow> json_object" where
  "admin_to_json a =
     [(''id'', JNum (uint (admin_id a))), (''can_docker'', JBool (can_docker a)),
      (''can_create'', JBool (can_create a)), (''can_invite'', JBool (can_invite a)),
      (''can_host_demo'', JBool (can_host_demo a))]"

definition admin_from_json :: "json_object \<Rightarrow> jwt_admin option" where
  "admin_from_json obj =
     (case (json_uint 256 (json_field ''id'' obj), json_bool (json_field ''can_docker'' obj),
            json_bool (json_field ''can_create'' obj), json_bool (json_field ''can_invite'' obj),
            json_bool (json_field ''can_host_demo'' obj)) of
        (Some i, Some d, Some c, Some v, Some h) \<Rightarrow>
          Some \<lparr>admin_id = word_of_nat i, can_docker = d, can_create = c, can_invite = v, can_host_demo = h\<rparr>
      | _ \<Rightarrow> None)"

definition challenge_to_json :: "jwt_challenge \<Rightarrow> json_object" where
  "challenge_to_json c = [(''challenge'', JStr (challenge c)), (''id'', JNum (uint (challenge_id c)))]"

definition challenge_from_json :: "json_object \<Rightarrow> jwt_challenge option" where
  "challenge_from_json obj =
     (case (json_str (json_field ''challenge'' obj), json_uint 256 (json_field ''id'' obj)) of
        (Some s, Some i) \<Rightarrow> Some \<lparr>challenge = s, challenge_id = word_of_nat i\<rparr>
      | _ \<Rightarrow> None)"

text \<open>A newtype such as \<^verbatim>\<open>GuestCode\<close> is written as the value it wraps.\<close>

definition user_to_json :: "jwt_user \<Rightarrow> json_object" where
  "user_to_json u = (case user_code u of GuestCode c \<Rightarrow> [(''code'', JNum (uint c))])"

definition user_from_json :: "json_object \<Rightarrow> jwt_user option" where
  "user_from_json obj =
     map_option (\<lambda>c. \<lparr>user_code = GuestCode (word_of_nat c)\<rparr>) (json_uint (2 ^ 32) (json_field ''code'' obj))"

section \<open>The library\<close>

text \<open>
  \<^verbatim>\<open>JWTClaims\<close> as far as the sources use it: the custom part and the times of
  issue and expiry, in seconds.
\<close>

record claims =
  custom :: json_object
  issued_at :: nat
  expires_at :: nat

definition with_custom_claims :: "json_object \<Rightarrow> nat \<Rightarrow> nat \<Rightarrow> claims" where
  "with_custom_claims c valid_for now = \<lparr>custom = c, issued_at = now, expires_at = now + valid_for\<rparr>"

record 'k jwt_lib =
  hs_authenticate :: "'k \<Rightarrow> claims \<Rightarrow> string option"
  hs_verify :: "'k \<Rightarrow> nat \<Rightarrow> string \<Rightarrow> json_object option"

text \<open>
  Making a token for plain claims succeeds. A token made with a key verifies under that key
  from its issue to its expiry, gives back the claims it was made from, and no longer
  verifies once the expiry and the library's time tolerance have passed. Tokens are visible
  ASCII.
\<close>

locale jwt_laws =
  fixes J :: "'k jwt_lib"
    and tolerance :: nat
  assumes auth_total: "hs_authenticate J k c \<noteq> None"
    and auth_verify: "hs_authenticate J k c = Some t \<Longrightarrow> issued_at c \<le> now \<Longrightarrow> now \<le> expires_at c \<Longrightarrow>
      hs_verify J k now t = Some (custom c)"
    and verify_auth: "hs_authenticate J k c = Some t \<Longrightarrow> hs_verify J k now t = Some j \<Longrightarrow>
      j = custom c \<and> now \<le> expires_at c + tolerance"
    and auth_visible: "hs_authenticate J k c = Some t \<Longrightarrow> header_to_str (as_bytes t) = Some t"

section \<open>Keys and extractors\<close>

record 'k jwt_keys =
  admin_key :: 'k
  challenge_key :: 'k
  user_key :: 'k

definition jwt_keys_generate :: "('w \<Rightarrow> 'k \<times> 'w) \<Rightarrow> 'w \<Rightarrow> 'k jwt_keys \<times> 'w" where
  "jwt_keys_generate gen w =
     (let (a, w) = gen w; (c, w) = gen w; (u, w) = gen w
      in (\<lparr>admin_key = a, challenge_key = c, user_key = u\<rparr>, w))"

text \<open>\<^verbatim>\<open>JWTKeys::authenticate\<close> at the three kinds of claims.\<close>

definition authenticate_admin :: "'k jwt_lib \<Rightarrow> 'k jwt_keys \<Rightarrow> jwt_admin \<Rightarrow> nat \<Rightarrow> nat \<Rightarrow> string option" where
  "authenticate_admin J K a valid_for now =
     hs_authenticate J (admin_key K) (with_custom_claims (admin_to_json a) valid_for now)"

definition authenticate_challenge ::
  "'k jwt_lib \<Rightarrow> 'k jwt_keys \<Rightarrow> jwt_challenge \<Rightarrow> nat \<Rightarrow> nat \<Rightarrow> string option" where
  "authenticate_challenge J K c valid_for now =
     hs_authenticate J (challenge_key K) (with_custom_claims (challenge_to_json c) valid_for now)"

definition authenticate_user :: "'k jwt_lib \<Rightarrow> 'k jwt_keys \<Rightarrow> jwt_user \<Rightarrow> nat \<Rightarrow> nat \<Rightarrow> string option" where
  "authenticate_user J K u valid_for now =
     hs_authenticate J (user_key K) (with_custom_claims (user_to_json u) valid_for now)"

text \<open>The extractor of \<^verbatim>\<open>impl_jwt!\<close> for a key, a header and a kind of claims.\<close>

definition from_request_parts ::
  "'k jwt_lib \<Rightarrow> 'k \<Rightarrow> string \<Rightarrow> (json_object \<Rightarrow> 'c option) \<Rightarrow> nat \<Rightarrow> headers \<Rightarrow> status + 'c" where
  "from_request_parts J key h from_json now hs =
     (case map_option header_to_str (hs h) of
        Some (Some jwt_header) \<Rightarrow>
          (case Option.bind (hs_verify J key now jwt_header) from_json of
             Some c \<Rightarrow> Inr c
           | None \<Rightarrow> Inl UNAUTHORIZED)
      | _ \<Rightarrow> Inl UNAUTHORIZED)"

definition challenge_from_request :: "'k jwt_lib \<Rightarrow> 'k jwt_keys \<Rightarrow> nat \<Rightarrow> headers \<Rightarrow> status + jwt_challenge" where
  "challenge_from_request J K = from_request_parts J (challenge_key K) ''challenge'' challenge_from_json"

definition admin_from_request :: "'k jwt_lib \<Rightarrow> 'k jwt_keys \<Rightarrow> nat \<Rightarrow> headers \<Rightarrow> status + jwt_admin" where
  "admin_from_request J K = from_request_parts J (admin_key K) ''admin_jwt'' admin_from_json"

definition user_from_request :: "'k jwt_lib \<Rightarrow> 'k jwt_keys \<Rightarrow> nat \<Rightarrow> headers \<Rightarrow> status + jwt_user" where
  "user_from_request J K = from_request_parts J (user_key K) ''user_jwt'' user_from_json"

section \<open>Round trips, and kinds that are never confused\<close>

lemma uint_bounds [simp]: "uint (w :: u8) < 256" "uint (v :: u32) < 4294967296"
  using unsigned_less [of w, where ?'a = int] unsigned_less [of v, where ?'a = int] by simp_all

lemma admin_json [simp]: "admin_from_json (admin_to_json a) = Some a"
  by (cases a) (simp add: admin_from_json_def admin_to_json_def json_field_def)

lemma challenge_json [simp]: "challenge_from_json (challenge_to_json c) = Some c"
  by (cases c) (simp add: challenge_from_json_def challenge_to_json_def json_field_def)

lemma user_json [simp]: "user_from_json (user_to_json u) = Some u"
  by (cases u; cases "user_code u") (auto simp: user_from_json_def user_to_json_def json_field_def)

lemma kinds_disjoint [simp]:
  "admin_from_json (challenge_to_json c) = None" "admin_from_json (user_to_json u) = None"
  "user_from_json (admin_to_json a) = None" "user_from_json (challenge_to_json c) = None"
  "challenge_from_json (admin_to_json a) = None" "challenge_from_json (user_to_json u) = None"
  by (simp_all add: admin_from_json_def challenge_from_json_def user_from_json_def admin_to_json_def
      challenge_to_json_def user_to_json_def json_field_def split: guest_code.splits)

lemma from_request_parts_Inr:
  "from_request_parts J key h from_json now hs = Inr c \<longleftrightarrow>
     (\<exists>bs t j. hs h = Some bs \<and> header_to_str bs = Some t \<and> hs_verify J key now t = Some j \<and> from_json j = Some c)"
  by (auto simp: from_request_parts_def bind_eq_Some_conv split: option.splits)

lemma from_request_parts_Inl:
  "from_request_parts J key h from_json now hs = Inl e \<Longrightarrow> e = UNAUTHORIZED"
  by (auto simp: from_request_parts_def split: option.splits)

section \<open>What holds of any library that keeps the laws\<close>

context jwt_laws
begin

lemma token_accepted:
  assumes "hs_authenticate J k (with_custom_claims j valid_for t0) = Some t" "from_json j = Some c"
    and "t0 \<le> now" "now \<le> t0 + valid_for"
  shows "from_request_parts J k h from_json now [h \<mapsto> as_bytes t] = Inr c"
  using assms auth_verify [OF assms(1), of now] auth_visible [OF assms(1)]
  by (auto simp: from_request_parts_Inr with_custom_claims_def)

lemma sessions_accepted:
  "authenticate_admin J K a d t0 = Some t \<Longrightarrow> t0 \<le> now \<Longrightarrow> now \<le> t0 + d \<Longrightarrow>
     admin_from_request J K now [''admin_jwt'' \<mapsto> as_bytes t] = Inr a"
  "authenticate_challenge J K ch d t0 = Some t \<Longrightarrow> t0 \<le> now \<Longrightarrow> now \<le> t0 + d \<Longrightarrow>
     challenge_from_request J K now [''challenge'' \<mapsto> as_bytes t] = Inr ch"
  "authenticate_user J K u d t0 = Some t \<Longrightarrow> t0 \<le> now \<Longrightarrow> now \<le> t0 + d \<Longrightarrow>
     user_from_request J K now [''user_jwt'' \<mapsto> as_bytes t] = Inr u"
  unfolding authenticate_admin_def authenticate_challenge_def authenticate_user_def admin_from_request_def
    challenge_from_request_def user_from_request_def
  by (rule token_accepted, assumption, simp, assumption, assumption)+

lemma token_says:
  assumes "hs_authenticate J k (with_custom_claims j valid_for t0) = Some t"
    and "hs_verify J k now t = Some j'"
  shows "j' = j \<and> now \<le> t0 + valid_for + tolerance"
  using verify_auth [OF assms] by (simp add: with_custom_claims_def)

end

end
