(* ===== verification/Ctfs.thy ===== *)
theory Ctfs
  imports Database Jwt
begin

text \<open>
  CTF events: \<^verbatim>\<open>ctf_archive/src/ctfs.rs\<close>. A handler gets its extracted arguments
  and acts on the world through the database operations; a panic ends the request.
\<close>

text \<open>\<^verbatim>\<open>state.pool().get().await.unwrap()\<close>, then the rest of a handler.\<close>

definition with_conn :: "('d, 'w) db \<Rightarrow> ('w, 'a) prog \<Rightarrow> ('w, 'a) prog" where
  "with_conn D p =
     bind_prog (call (pool_get D)) (\<lambda>got. bind_prog (lift (assert_that got)) (\<lambda>_. p))"

record ctf =
  view_id :: i32
  view_name :: string
  view_start :: date
  view_end :: date

definition ctf_of_row :: "'d chrono \<Rightarrow> i32 \<times> string \<times> 'd \<times> 'd \<Rightarrow> ctf outcome" where
  "ctf_of_row C row =
     (case row of (i, name, start_date, end_date) \<Rightarrow>
       bind_outcome (unwrap (date_try_from C start_date)) (\<lambda>s.
       bind_outcome (unwrap (date_try_from C end_date)) (\<lambda>e.
         Done \<lparr>view_id = i, view_name = name, view_start = s, view_end = e\<rparr>)))"

definition ctfs_list :: "('d, 'w) db \<Rightarrow> 'd chrono \<Rightarrow> ('w, ctf list) prog" where
  "ctfs_list D C =
     with_conn D (
       bind_prog (call (load_ctfs D)) (\<lambda>result.
       bind_prog (lift (case result of Inr ctfs \<Rightarrow> Done ctfs | Inl _ \<Rightarrow> Panic)) (\<lambda>ctfs.
         lift (map_outcome (ctf_of_row C) ctfs))))"

record create_ctf =
  cc_name :: string
  cc_start :: date
  cc_end :: date

text \<open>What the handlers answer to the result of an insertion.\<close>

definition ctf_insert_answer :: "db_error + i32 \<Rightarrow> status + status \<times> i32" where
  "ctf_insert_answer result =
     (case result of
        Inr i \<Rightarrow> Inr (CREATED, i)
      | Inl UniqueViolation \<Rightarrow> Inl CONFLICT
      | Inl _ \<Rightarrow> Inl INTERNAL_SERVER_ERROR)"

definition ctfs_create ::
  "('d, 'w) db \<Rightarrow> 'd chrono \<Rightarrow> jwt_admin \<Rightarrow> create_ctf \<Rightarrow> ('w, status + status \<times> i32) prog" where
  "ctfs_create D C admin c =
     (if \<not> can_create admin then ret (Inl FORBIDDEN) else
      with_conn D (
        bind_prog (lift (unwrap (date_try_into C (cc_start c)))) (\<lambda>s.
        bind_prog (lift (unwrap (date_try_into C (cc_end c)))) (\<lambda>e.
        bind_prog (call (insert_ctf D \<lparr>nctf_name = cc_name c, nctf_start = s, nctf_end = e\<rparr>)) (\<lambda>result.
          ret (ctf_insert_answer result))))))"

end
