(* ===== verification/Categories.thy ===== *)
theory Categories
  imports Ctfs
begin

text \<open>Categories of a CTF: \<^verbatim>\<open>ctf_archive/src/categories.rs\<close>.\<close>

datatype category_type =
  Reversing | Exploitation | Web | Cryptography | Stegonography | Forensics | Miscellaneous

definition category_type_parse :: "string \<Rightarrow> category_type option" where
  "category_type_parse t =
     (if t = ''rev'' then Some Reversing
      else if t = ''pwn'' then Some Exploitation
      else if t = ''web'' then Some Web
      else if t = ''crypto'' then Some Cryptography
      else if t = ''stego'' then Some Stegonography
      else if t = ''forensics'' then Some Forensics
      else if t = ''misc'' then Some Miscellaneous
      else None)"

fun category_type_as_str :: "category_type \<Rightarrow> string" where
  "category_type_as_str Reversing = ''rev''"
| "category_type_as_str Exploitation = ''pwn''"
| "category_type_as_str Web = ''web''"
| "category_type_as_str Cryptography = ''crypto''"
| "category_type_as_str Stegonography = ''stego''"
| "category_type_as_str Forensics = ''forensics''"
| "category_type_as_str Miscellaneous = ''misc''"

record category =
  category_id :: i32
  category_name :: string
  category_kind :: category_type

definition category_of_row :: "i32 \<times> string \<times> string \<Rightarrow> category outcome" where
  "category_of_row row =
     (case row of (i, name, t) \<Rightarrow>
       bind_outcome (unwrap (category_type_parse t)) (\<lambda>k.
         Done \<lparr>category_id = i, category_name = name, category_kind = k\<rparr>))"

definition categories_get :: "('d, 'w) db \<Rightarrow> i32 \<Rightarrow> ('w, status + category list) prog" where
  "categories_get D query_ctf_id =
     with_conn D (
       bind_prog (call (load_categories D query_ctf_id)) (\<lambda>result.
       (case result of
          Inl _ \<Rightarrow> ret (Inl INTERNAL_SERVER_ERROR)
        | Inr categories \<Rightarrow>
            bind_prog (lift (map_outcome category_of_row categories)) (\<lambda>cs. ret (Inr cs)))))"

record create_category =
  cat_req_name :: string
  cat_req_ctf :: i32
  cat_req_type :: category_type

text \<open>The answers of this handler and of the one that creates challenges.\<close>

definition insert_answer :: "db_error + i32 \<Rightarrow> status + status \<times> i32" where
  "insert_answer result =
     (case result of
        Inr i \<Rightarrow> Inr (CREATED, i)
      | Inl UniqueViolation \<Rightarrow> Inl CONFLICT
      | Inl ForeignKeyViolation \<Rightarrow> Inl NOT_FOUND
      | Inl _ \<Rightarrow> Inl INTERNAL_SERVER_ERROR)"

definition categories_create ::
  "('d, 'w) db \<Rightarrow> jwt_admin \<Rightarrow> create_category \<Rightarrow> ('w, status + status \<times> i32) prog" where
  "categories_create D admin c =
     (if \<not> can_create admin then ret (Inl FORBIDDEN) else
      with_conn D (
        bind_prog (call (insert_category D \<lparr>ncat_name = cat_req_name c, ncat_ctf = cat_req_ctf c,
            ncat_type = category_type_as_str (cat_req_type c)\<rparr>)) (\<lambda>result.
          ret (insert_answer result))))"

section \<open>Names of the types\<close>

lemma category_type_roundtrip [simp]: "category_type_parse (category_type_as_str t) = Some t"
  by (cases t) (simp_all add: category_type_parse_def)

lemma category_type_parse_Some: "category_type_parse s = Some t \<Longrightarrow> category_type_as_str t = s"
  by (auto simp: category_type_parse_def split: if_splits)

text \<open>The database's check admits exactly the names the parser knows.\<close>

lemma category_check_parses: "check_ok (valid_category_type t) \<longleftrightarrow> category_type_parse t \<noteq> None"
  by (simp add: check_ok_def valid_category_type_def category_type_parse_def)

end
