(* ===== verification/Challenges.thy ===== *)
theory Challenges
  imports Categories
begin

text \<open>
  Challenges: \<^verbatim>\<open>ctf_archive/src/challenges.rs\<close>. Beside the database, starting one
  talks to the daemon's socket.
\<close>

record challenge_meta =
  meta_id :: i32
  meta_name :: string
  meta_category_id :: i32
  meta_description :: string
  meta_difficulty :: string
  meta_instructions :: "string option"
  meta_has_archive :: bool

definition challenges_list :: "('d, 'w) db \<Rightarrow> i32 \<Rightarrow> ('w, status + i32 list) prog" where
  "challenges_list D query_category_id =
     with_conn D (
       bind_prog (call (load_challenge_ids D query_category_id)) (\<lambda>result.
         ret (case result of Inr challenges \<Rightarrow> Inr challenges | Inl _ \<Rightarrow> Inl INTERNAL_SERVER_ERROR)))"

text \<open>The answer to a failed lookup by id.\<close>

definition lookup_error :: "db_error \<Rightarrow> status" where
  "lookup_error e = (case e of NotFound \<Rightarrow> NOT_FOUND | _ \<Rightarrow> INTERNAL_SERVER_ERROR)"

text \<open>The category id of the answer is filled in from the query's challenge id.\<close>

definition get_metadata :: "('d, 'w) db \<Rightarrow> i32 \<Rightarrow> ('w, status + challenge_meta) prog" where
  "get_metadata D query_challenge_id =
     with_conn D (
       bind_prog (call (find_challenge D query_challenge_id)) (\<lambda>result.
         ret (case result of
            Inr r \<Rightarrow> Inr \<lparr>meta_id = ch_id r, meta_name = ch_name r, meta_category_id = query_challenge_id,
              meta_description = ch_description r, meta_difficulty = ch_difficulty r,
              meta_instructions = ch_instructions r, meta_has_archive = (ch_archive r \<noteq> None)\<rparr>
          | Inl e \<Rightarrow> Inl (lookup_error e))))"

section \<open>Uploads\<close>

text \<open>
  The first field of a multipart body: an error, none, or a field with its name, content
  type and, unless reading it fails, its bytes.
\<close>

datatype multipart = FieldError | NoField | Field "string option" "string option" "u8 list option"

definition upload :: "multipart \<Rightarrow> status + u8 list option" where
  "upload multi =
     (case multi of
        Field name content_type bytes \<Rightarrow>
          if name = Some ''zip_file'' \<and> content_type = Some ''application/zip'' then
            (case bytes of Some b \<Rightarrow> Inr (Some b) | None \<Rightarrow> Inl BAD_REQUEST)
          else Inl BAD_REQUEST
      | NoField \<Rightarrow> Inr None
      | FieldError \<Rightarrow> Inl BAD_REQUEST)"

record create_challenge =
  chq_name :: string
  chq_flag :: "string option"
  chq_category :: i32
  chq_description :: string
  chq_difficulty :: string
  chq_instructions :: "string option"

definition challenges_create ::
  "('d, 'w) db \<Rightarrow> create_challenge \<Rightarrow> jwt_admin \<Rightarrow> multipart \<Rightarrow> ('w, status + status \<times> i32) prog" where
  "challenges_create D q admin multi =
     (if \<not> can_create admin then ret (Inl FORBIDDEN) else
      (case upload multi of
         Inl e \<Rightarrow> ret (Inl e)
       | Inr archive \<Rightarrow>
           with_conn D (
             bind_prog (call (insert_challenge D \<lparr>nch_name = chq_name q, nch_flag = chq_flag q,
                 nch_category = chq_category q, nch_description = chq_description q,
                 nch_difficulty = chq_difficulty q, nch_archive = archive, nch_port_numbers = [],
                 nch_port_types = [], nch_instructions = chq_instructions q\<rparr>)) (\<lambda>result.
               ret (insert_answer result)))))"

text \<open>The content type of the answer is always \<^verbatim>\<open>application/zip\<close>.\<close>

definition get_archive :: "('d, 'w) db \<Rightarrow> i32 \<Rightarrow> ('w, status + string \<times> u8 list) prog" where
  "get_archive D query_challenge_id =
     with_conn D (
       bind_prog (call (find_challenge D query_challenge_id)) (\<lambda>result.
         ret (case result of
            Inr r \<Rightarrow> Inr (''application/zip'', case ch_archive r of Some a \<Rightarrow> a | None \<Rightarrow> [])
          | Inl e \<Rightarrow> Inl (lookup_error e))))"

text \<open>What the handlers answer to the result of an update of a single column.\<close>

definition update_answer :: "db_error + nat \<Rightarrow> status" where
  "update_answer result =
     (case result of
        Inr _ \<Rightarrow> OK
      | Inl NotFound \<Rightarrow> NOT_FOUND
      | Inl _ \<Rightarrow> INTERNAL_SERVER_ERROR)"

definition set_archive :: "('d, 'w) db \<Rightarrow> i32 \<Rightarrow> jwt_admin \<Rightarrow> multipart \<Rightarrow> ('w, status) prog" where
  "set_archive D query_challenge_id admin multi =
     (if \<not> can_create admin then ret FORBIDDEN else
      with_conn D (
        (case upload multi of
           Inl e \<Rightarrow> ret e
         | Inr archive \<Rightarrow>
             bind_prog (call (update_archive D query_challenge_id archive)) (\<lambda>result.
               ret (update_answer result)))))"

section \<open>Containers\<close>

definition not_hosted :: string where
  "not_hosted = ''the requested challenge is not configured to be hosted on this server''"

definition no_such_challenge :: string where
  "no_such_challenge = ''challenge with specified id does not exist''"

definition database_wrong :: string where
  "database_wrong = ''something went horribly wrong with the database''"

text \<open>
  The assertions before a start. \<^verbatim>\<open>map(Option::is_some).count()\<close> counts every
  element, so the second one repeats the first.
\<close>

definition assert_ports :: "i16 option list \<Rightarrow> sql_port_type option list \<Rightarrow> unit outcome" where
  "assert_ports nums types =
     bind_outcome (assert_that (length nums = length types)) (\<lambda>_.
       assert_that (length (map (\<lambda>n. n \<noteq> None) nums) = length (map (\<lambda>t. t \<noteq> None) types)))"

definition flatten :: "'a option list \<Rightarrow> 'a list" where
  "flatten xs = map the (filter (\<lambda>x. x \<noteq> None) xs)"

definition port_list :: "i16 option list \<Rightarrow> sql_port_type option list \<Rightarrow> (u16 \<times> u16 \<times> sql_port_type) list" where
  "port_list nums types = map (\<lambda>(n, t). (as_u16 n, as_u16 n, t)) (zip (flatten nums) (flatten types))"

text \<open>What becomes of the daemon's answer.\<close>

definition start_answer ::
  "'w socket \<Rightarrow> (challd_error + string) async \<Rightarrow> ('w, (status \<times> string + string) async) prog" where
  "start_answer S answer = (\<lambda>w.
     (Done (case answer of
        Pending \<Rightarrow> Pending
      | Ready (Inr cfg) \<Rightarrow> Ready (Inr cfg)
      | Ready (Inl e) \<Rightarrow>
          Ready (Inl (INTERNAL_SERVER_ERROR, challd_error_text (sock_error_text S w) e))), w))"

text \<open>
  The common part of \<^verbatim>\<open>start\<close> and \<^verbatim>\<open>host_demo\<close>: up to the
  call of \<^verbatim>\<open>start_container\<close>, with the image and its ports or the answer that
  ends the request; and as a whole.
\<close>

definition start_prepare ::
  "('d, 'w) db \<Rightarrow> i32 \<Rightarrow> ('w, status \<times> string + string \<times> (u16 \<times> u16 \<times> sql_port_type) list) prog" where
  "start_prepare D i =
     with_conn D (
       bind_prog (call (find_challenge D i)) (\<lambda>result.
       (case result of
          Inr r \<Rightarrow>
            (case ch_docker_image r of
               Some image_name \<Rightarrow>
                 bind_prog (lift (assert_ports (ch_port_numbers r) (ch_port_types r))) (\<lambda>_.
                   ret (Inr (image_name, port_list (ch_port_numbers r) (ch_port_types r))))
             | None \<Rightarrow> ret (Inl (NOT_FOUND, not_hosted)))
        | Inl NotFound \<Rightarrow> ret (Inl (NOT_FOUND, no_such_challenge))
        | Inl _ \<Rightarrow> ret (Inl (INTERNAL_SERVER_ERROR, database_wrong)))))"

definition start_challenge ::
  "('d, 'w) db \<Rightarrow> 'w socket \<Rightarrow> i32 \<Rightarrow> start_mode \<Rightarrow> ('w, (status \<times> string + string) async) prog" where
  "start_challenge D S i start_mode =
     bind_prog (start_prepare D i) (\<lambda>prepared.
     (case prepared of
        Inl e \<Rightarrow> ret (Ready (Inl e))
      | Inr (image_name, mappings) \<Rightarrow>
          bind_prog (start_container S image_name mappings start_mode) (start_answer S)))"

definition start_handler ::
  "('d, 'w) db \<Rightarrow> 'w socket \<Rightarrow> i32 \<Rightarrow> jwt_user \<Rightarrow> ('w, (status \<times> string + string) async) prog" where
  "start_handler D S query_challenge_id user =
     start_challenge D S query_challenge_id (from_guest_code (user_code user))"

definition host_demo ::
  "('d, 'w) db \<Rightarrow> 'w socket \<Rightarrow> i32 \<Rightarrow> jwt_admin \<Rightarrow> ('w, (status \<times> string + status) async) prog" where
  "host_demo D S query_challenge_id admin =
     (if \<not> can_host_demo admin
      then ret (Ready (Inl (FORBIDDEN, ''you do not have permission to perform this action'')))
      else bind_prog (start_challenge D S query_challenge_id StartDemo) (\<lambda>answer.
        ret (case answer of
           Pending \<Rightarrow> Pending
         | Ready (Inl e) \<Rightarrow> Ready (Inl e)
         | Ready (Inr _) \<Rightarrow> Ready (Inr OK))))"

datatype expose_port_type = ExposeTcp | ExposeUdp

fun sql_of_expose :: "expose_port_type \<Rightarrow> sql_port_type" where
  "sql_of_expose ExposeTcp = SqlTcp"
| "sql_of_expose ExposeUdp = SqlUdp"

definition docker_answer :: "db_error + nat \<Rightarrow> status" where
  "docker_answer result =
     (case result of
        Inr _ \<Rightarrow> OK
      | Inl UniqueViolation \<Rightarrow> CONFLICT
      | Inl CheckViolation \<Rightarrow> BAD_REQUEST
      | Inl NotFound \<Rightarrow> NOT_FOUND
      | Inl _ \<Rightarrow> INTERNAL_SERVER_ERROR)"

text \<open>The port map is its entries in the order the hash map yields them.\<close>

definition configure_docker ::
  "('d, 'w) db \<Rightarrow> jwt_admin \<Rightarrow> i32 \<Rightarrow> string \<Rightarrow> (u16 \<times> expose_port_type) list \<Rightarrow> ('w, status) prog" where
  "configure_docker D admin query_challenge_id image_name ports =
     (if \<not> can_docker admin then ret FORBIDDEN else
      let port_nums = map (\<lambda>(n, t). as_i16 n) ports;
          port_types = map (\<lambda>(n, t). sql_of_expose t) ports
      in with_conn D (
        bind_prog (call (update_docker D query_challenge_id image_name port_nums port_types)) (\<lambda>result.
          ret (docker_answer result))))"

section \<open>Flags and instructions\<close>

definition get_flag :: "('d, 'w) db \<Rightarrow> i32 \<Rightarrow> ('w, status + string) prog" where
  "get_flag D query_challenge_id =
     with_conn D (
       bind_prog (call (find_challenge D query_challenge_id)) (\<lambda>result.
         ret (case result of
            Inr r \<Rightarrow> (case ch_flag r of Some flag \<Rightarrow> Inr flag | None \<Rightarrow> Inl NOT_FOUND)
          | Inl e \<Rightarrow> Inl (lookup_error e))))"

text \<open>
  The extractor \<^verbatim>\<open>ConnectionInstructions\<close>: the whole body, or nothing for an
  empty one. \<open>None\<close> is a body that cannot be read.
\<close>

definition instructions_from_request :: "u8 list option \<Rightarrow> status \<times> string + string option" where
  "instructions_from_request body =
     (case body of
        None \<Rightarrow> Inl (BAD_REQUEST, ''invalid body'')
      | Some b \<Rightarrow>
          if b = [] then Inr None
          else (case from_utf8 b of Some s \<Rightarrow> Inr (Some s) | None \<Rightarrow> Inl (BAD_REQUEST, ''non-utf8 string'')))"

definition set_connection_instructions ::
  "('d, 'w) db \<Rightarrow> jwt_admin \<Rightarrow> i32 \<Rightarrow> string option \<Rightarrow> ('w, status) prog" where
  "set_connection_instructions D admin query_challenge_id instructions =
     (if \<not> can_create admin then ret FORBIDDEN else
      with_conn D (
        bind_prog (call (update_instructions D query_challenge_id instructions)) (\<lambda>result.
          ret (update_answer result))))"

end
