(* ===== verification/Auth.thy ===== *)
theory Auth
  imports Jwt Base64
begin

text \<open>
  Administrator login: \<^verbatim>\<open>ctf_archive/src/auth.rs\<close>. A client asks for a
  challenge, signs it with a P-256 key the server knows and gets a session token with the
  permissions of that key. The elliptic curve code, base64 and the random source are
  parameters.
\<close>

text \<open>
  \<open>sec1_valid\<close>: \<^verbatim>\<open>VerifyingKey::from_sec1_bytes\<close> accepts the bytes;
  \<open>sig_valid\<close>: \<^verbatim>\<open>Signature::from_slice\<close> accepts them;
  \<open>ecdsa_verify\<close>: the signature of a message verifies under a public key.
\<close>

record p256 =
  sec1_valid :: "u8 list \<Rightarrow> bool"
  sig_valid :: "u8 list \<Rightarrow> bool"
  ecdsa_verify :: "u8 list \<Rightarrow> u8 list \<Rightarrow> u8 list \<Rightarrow> bool"

record b64 =
  b64_enc :: "u8 list \<Rightarrow> string"
  b64_dec :: "string \<Rightarrow> u8 list option"

section \<open>The table of keys\<close>

text \<open>The macro \<^verbatim>\<open>hex!\<close>.\<close>

definition hex_digit :: "char \<Rightarrow> u8" where
  "hex_digit c = (if c \<in> set ''abcdef'' then byte_of c - 87 else byte_of c - 48)"

fun hex :: "string \<Rightarrow> u8 list" where
  "hex (a # b # cs) = (16 * hex_digit a + hex_digit b) # hex cs"
| "hex _ = []"

definition debug_pubkey :: string where
  "debug_pubkey =
     ''04d184cfb7cd2ad249bc41d20ae3484174d3a9f282bb3d7a1459fe109030983892'' @
     ''20765700ff4c2fbbbbb63c85aa15079bfc80b695d7124081aaa1710bb4a4f932''"

definition discord_pubkey :: string where
  "discord_pubkey =
     ''041f5b95b8a7c2e7d8db420f7a315049bffb9a5b772068786fc50d780c641da98b'' @
     ''805bf097c40424c326e4c75946c5dc29a5655a84d6dbf1e97ead065f43037829''"

text \<open>The arguments of \<^verbatim>\<open>admin_auth!\<close>: the claims of a row start with its id.\<close>

definition admin_auth :: "(u8 \<times> string \<times> jwt_admin) list" where
  "admin_auth =
     [(0, debug_pubkey, \<lparr>admin_id = 0, can_docker = True, can_create = True, can_invite = True, can_host_demo = True\<rparr>),
      (1, discord_pubkey, \<lparr>admin_id = 1, can_docker = False, can_create = False, can_invite = True, can_host_demo = False\<rparr>)]"

definition key_exists :: "u8 \<Rightarrow> bool" where
  "key_exists i \<longleftrightarrow> map_of admin_auth i \<noteq> None"

definition key_perms :: "p256 \<Rightarrow> u8 \<Rightarrow> u8 list \<Rightarrow> u8 list \<Rightarrow> (status + jwt_admin) outcome" where
  "key_perms P i chal sig_bytes =
     (case map_of admin_auth i of
        Some (pubkey, admin) \<Rightarrow>
          bind_outcome (assert_that (sec1_valid P (hex pubkey))) (\<lambda>_.
          if sig_valid P sig_bytes then
            if ecdsa_verify P (hex pubkey) chal sig_bytes then Done (Inr admin)
            else Done (Inl UNAUTHORIZED)
          else Done (Inl BAD_REQUEST))
      | None \<Rightarrow> Done (Inl INTERNAL_SERVER_ERROR))"

section \<open>Handlers\<close>

text \<open>\<open>rnd\<close> is what \<^verbatim>\<open>getrandom::fill\<close> puts into the 32 bytes, or its failure.\<close>

definition initiate_challenge ::
  "'k jwt_lib \<Rightarrow> 'k jwt_keys \<Rightarrow> b64 \<Rightarrow> nat \<Rightarrow> u8 list option \<Rightarrow> u8 \<Rightarrow> (status + string) outcome" where
  "initiate_challenge J K B now rnd login_id =
     (if \<not> key_exists login_id then Done (Inl NOT_FOUND)
      else (case rnd of
         None \<Rightarrow> Done (Inl INTERNAL_SERVER_ERROR)
       | Some bytes \<Rightarrow>
           bind_outcome (unwrap (authenticate_challenge J K
             \<lparr>challenge = b64_enc B bytes, challenge_id = login_id\<rparr> 10 now)) (\<lambda>t. Done (Inr t))))"

definition finish_challenge ::
  "'k jwt_lib \<Rightarrow> 'k jwt_keys \<Rightarrow> b64 \<Rightarrow> p256 \<Rightarrow> nat \<Rightarrow> jwt_challenge \<Rightarrow> string \<times> string \<Rightarrow>
     (status + string) outcome" where
  "finish_challenge J K B P now jwt_challenge response =
     (case (b64_dec B (fst response), b64_dec B (snd response)) of
        (Some r, Some s) \<Rightarrow>
          bind_outcome (unwrap (b64_dec B (challenge jwt_challenge))) (\<lambda>chal.
          bind_outcome (key_perms P (challenge_id jwt_challenge) chal (r @ s)) (\<lambda>perms.
          (case perms of
             Inl e \<Rightarrow> Done (Inl e)
           | Inr admin \<Rightarrow>
               bind_outcome (unwrap (authenticate_admin J K admin (30 * 60) now)) (\<lambda>t. Done (Inr t)))))
      | _ \<Rightarrow> Done (Inl BAD_REQUEST))"

section \<open>What a login proves\<close>

lemma key_perms_Inr:
  "key_perms P i chal sg = Done (Inr a) \<longleftrightarrow>
     (\<exists>pk. map_of admin_auth i = Some (pk, a) \<and> sec1_valid P (hex pk) \<and> sig_valid P sg \<and>
        ecdsa_verify P (hex pk) chal sg)"
  by (auto simp: key_perms_def bind_outcome_eq_Done split: option.splits if_splits)

lemma finish_challenge_Inr:
  "finish_challenge J K B P now c resp = Done (Inr t) \<longleftrightarrow>
     (\<exists>r s chal pk a. b64_dec B (fst resp) = Some r \<and> b64_dec B (snd resp) = Some s \<and>
        b64_dec B (challenge c) = Some chal \<and> map_of admin_auth (challenge_id c) = Some (pk, a) \<and>
        sec1_valid P (hex pk) \<and> sig_valid P (r @ s) \<and> ecdsa_verify P (hex pk) chal (r @ s) \<and>
        authenticate_admin J K a (30 * 60) now = Some t)"
proof -
  have "key_perms P i chal sg = Done p \<and> (case p of Inl e \<Rightarrow> Done (Inl e) | Inr a \<Rightarrow> f a) = Done (Inr t) \<longleftrightarrow>
      (\<exists>a. p = Inr a \<and> key_perms P i chal sg = Done (Inr a) \<and> f a = Done (Inr t))" for i chal sg p f
    by (cases p) auto
  then show ?thesis
    by (auto simp: finish_challenge_def bind_outcome_eq_Done key_perms_Inr split: option.splits)
qed

lemma admin_auth_ids: "map_of admin_auth i = Some (pk, a) \<Longrightarrow> admin_id a = i \<and> (i = 0 \<or> i = 1)"
  by (auto simp: admin_auth_def split: if_splits)

lemma admin_auth_powers:
  "map_of admin_auth i = Some (pk, a) \<Longrightarrow> can_create a \<or> can_docker a \<or> can_host_demo a \<Longrightarrow> i = 0"
  by (auto simp: admin_auth_def split: if_splits)

lemma admin_auth_key_sizes:
  "map_of admin_auth i = Some (pk, a) \<Longrightarrow> length (hex pk) = 65 \<and> hd (hex pk) = 4"
  by (auto simp: admin_auth_def debug_pubkey_def discord_pubkey_def hex_digit_def byte_of_def split: if_splits)

end
