(* ===== verification/Codes.thy ===== *)
theory Codes
  imports Prelude
begin

text \<open>
  The in-memory set with temporary members: \<^verbatim>\<open>ctf_archive/src/codes.rs\<close>.
  A member is a value in a hash set behind a mutex; every insertion also spawns a task that
  removes the value after a while, whether or not the value was removed or inserted again in
  between.
\<close>

text \<open>
  \<open>poisoned\<close> is the mutex's poison flag, set when a holder of the lock panics. The
  spawned tasks are the list of values and the times at which their sleep is over.
\<close>

record 'a in_memory_set =
  members :: "'a set"
  poisoned :: bool
  timers :: "('a \<times> nat) list"

definition in_memory_set_default :: "'a in_memory_set" where
  "in_memory_set_default = \<lparr>members = {}, poisoned = False, timers = []\<rparr>"

text \<open>\<^verbatim>\<open>self.set.lock().unwrap()\<close>.\<close>

definition lock :: "'a in_memory_set \<Rightarrow> unit outcome" where
  "lock s = assert_that (\<not> poisoned s)"

definition insert_temp :: "'a \<Rightarrow> nat \<Rightarrow> nat \<Rightarrow> 'a in_memory_set \<Rightarrow> 'a in_memory_set outcome" where
  "insert_temp val duration now s =
     bind_outcome (lock s) (\<lambda>_.
       Done (s\<lparr>members := insert val (members s), timers := timers s @ [(val, now + duration)]\<rparr>))"

text \<open>
  A spawned task whose sleep is over: it removes its value, or only logs when the lock is
  poisoned.
\<close>

definition fire_timer :: "nat \<Rightarrow> nat \<Rightarrow> 'a in_memory_set \<Rightarrow> 'a in_memory_set option" where
  "fire_timer i now s =
     (if i < length (timers s) \<and> snd (timers s ! i) \<le> now then
        Some (s\<lparr>members := (if poisoned s then members s else members s - {fst (timers s ! i)}),
                timers := take i (timers s) @ drop (Suc i) (timers s)\<rparr>)
      else None)"

definition set_remove :: "'a \<Rightarrow> 'a in_memory_set \<Rightarrow> (bool \<times> 'a in_memory_set) outcome" where
  "set_remove val s =
     bind_outcome (lock s) (\<lambda>_. Done (val \<in> members s, s\<lparr>members := members s - {val}\<rparr>))"

definition wipe :: "'a in_memory_set \<Rightarrow> 'a in_memory_set outcome" where
  "wipe s = bind_outcome (lock s) (\<lambda>_. Done (s\<lparr>members := {}\<rparr>))"

section \<open>The interface its clients use\<close>

text \<open>
  A client inserts, removes and wipes while time passes and values expire on their own. A
  run returns the values it removed successfully, in order.
\<close>

datatype 'a set_op = OpInsert 'a nat | OpRemove 'a | OpWipe | OpTimer nat | OpTick

fun set_apply ::
  "('a \<Rightarrow> nat \<Rightarrow> nat \<Rightarrow> 's \<Rightarrow> 's outcome) \<Rightarrow> ('a \<Rightarrow> 's \<Rightarrow> (bool \<times> 's) outcome) \<Rightarrow> ('s \<Rightarrow> 's outcome) \<Rightarrow>
   (nat \<Rightarrow> nat \<Rightarrow> 's \<Rightarrow> 's option) \<Rightarrow> 'a set_op \<Rightarrow> nat \<Rightarrow> 's \<Rightarrow> ('a list \<times> nat \<times> 's) outcome" where
  "set_apply ins rem wip tim (OpInsert v d) now s = bind_outcome (ins v d now s) (\<lambda>s. Done ([], now, s))"
| "set_apply ins rem wip tim (OpRemove v) now s =
     bind_outcome (rem v s) (\<lambda>(ok, s). Done (if ok then [v] else [], now, s))"
| "set_apply ins rem wip tim OpWipe now s = bind_outcome (wip s) (\<lambda>s. Done ([], now, s))"
| "set_apply ins rem wip tim (OpTimer i) now s =
     Done ([], now, case tim i now s of Some s \<Rightarrow> s | None \<Rightarrow> s)"
| "set_apply ins rem wip tim OpTick now s = Done ([], Suc now, s)"

fun set_run ::
  "('a \<Rightarrow> nat \<Rightarrow> nat \<Rightarrow> 's \<Rightarrow> 's outcome) \<Rightarrow> ('a \<Rightarrow> 's \<Rightarrow> (bool \<times> 's) outcome) \<Rightarrow> ('s \<Rightarrow> 's outcome) \<Rightarrow>
   (nat \<Rightarrow> nat \<Rightarrow> 's \<Rightarrow> 's option) \<Rightarrow> 'a set_op list \<Rightarrow> nat \<Rightarrow> 's \<Rightarrow> ('a list \<times> nat \<times> 's) outcome" where
  "set_run ins rem wip tim [] now s = Done ([], now, s)"
| "set_run ins rem wip tim (oper # ops) now s =
     bind_outcome (set_apply ins rem wip tim oper now s) (\<lambda>(us, now, s).
     bind_outcome (set_run ins rem wip tim ops now s) (\<lambda>(vs, r). Done (us @ vs, r)))"

definition inserts :: "'a \<Rightarrow> 'a set_op list \<Rightarrow> nat" where
  "inserts v ops = length (filter (\<lambda>oper. case oper of OpInsert u d \<Rightarrow> u = v | _ \<Rightarrow> False) ops)"

text \<open>
  The contract: the operations work on well-formed states, keep them well formed, and act on
  the abstract set \<open>elems\<close>; a member always has a timer that will remove it.
\<close>

locale temp_set =
  fixes wf :: "'s \<Rightarrow> bool"
    and elems :: "'s \<Rightarrow> 'a set"
    and ends :: "'s \<Rightarrow> ('a \<times> nat) set"
    and ins :: "'a \<Rightarrow> nat \<Rightarrow> nat \<Rightarrow> 's \<Rightarrow> 's outcome"
    and rem :: "'a \<Rightarrow> 's \<Rightarrow> (bool \<times> 's) outcome"
    and wip :: "'s \<Rightarrow> 's outcome"
    and tim :: "nat \<Rightarrow> nat \<Rightarrow> 's \<Rightarrow> 's option"
  assumes ins_law: "wf s \<Longrightarrow> \<exists>s'. ins v d now s = Done s' \<and> wf s' \<and> elems s' = insert v (elems s) \<and>
        ends s' = insert (v, now + d) (ends s)"
    and rem_law: "wf s \<Longrightarrow> \<exists>s'. rem v s = Done (v \<in> elems s, s') \<and> wf s' \<and> elems s' = elems s - {v} \<and>
        ends s' = ends s"
    and wip_law: "wf s \<Longrightarrow> \<exists>s'. wip s = Done s' \<and> wf s' \<and> elems s' = {} \<and> ends s' = ends s"
    and tim_law: "wf s \<Longrightarrow> tim i now s = Some s' \<Longrightarrow> wf s' \<and> (\<exists>v d. d \<le> now \<and>
        elems s' = elems s - {v} \<and> ends s - {(v, d)} \<subseteq> ends s' \<and> ends s' \<subseteq> ends s)"
    and covered: "wf s \<Longrightarrow> v \<in> elems s \<Longrightarrow> \<exists>d. (v, d) \<in> ends s"
begin

definition present :: "'s \<Rightarrow> 'a \<Rightarrow> nat" where
  "present s v = (if v \<in> elems s then 1 else 0)"

lemma apply_count:
  assumes "wf s"
  shows "\<exists>vs now' s'. set_apply ins rem wip tim oper now s = Done (vs, now', s') \<and> wf s' \<and>
    (\<forall>v. count_list vs v + present s' v \<le> inserts v [oper] + present s v)"
proof (cases oper)
  case (OpInsert v d)
  with ins_law [OF assms, of v d now] show ?thesis by (auto simp: present_def inserts_def)
next
  case (OpRemove v)
  with rem_law [OF assms, of v] show ?thesis by (auto simp: present_def inserts_def)
next
  case OpWipe
  with wip_law [OF assms] show ?thesis by (auto simp: present_def inserts_def)
next
  case (OpTimer i)
  with tim_law [OF assms, of i now] assms show ?thesis
    by (cases "tim i now s") (auto simp: present_def inserts_def)
next
  case OpTick
  with assms show ?thesis by (simp add: present_def inserts_def)
qed

text \<open>A value leaves the set through \<open>rem\<close> at most as often as it was inserted.\<close>

lemma run_count:
  assumes "wf s"
  shows "\<exists>vs now' s'. set_run ins rem wip tim ops now s = Done (vs, now', s') \<and> wf s' \<and>
    (\<forall>v. count_list vs v + present s' v \<le> inserts v ops + present s v)"
  using assms
proof (induction ops arbitrary: now s)
  case Nil
  then show ?case by (simp add: inserts_def)
next
  case (Cons oper ops)
  from apply_count [OF Cons.prems] obtain us n1 s1 where
    a: "set_apply ins rem wip tim oper now s = Done (us, n1, s1)" "wf s1"
    "\<And>v. count_list us v + present s1 v \<le> inserts v [oper] + present s v" by metis
  from Cons.IH [OF a(2)] obtain vs n2 s2 where
    r: "set_run ins rem wip tim ops n1 s1 = Done (vs, n2, s2)" "wf s2"
    "\<And>v. count_list vs v + present s2 v \<le> inserts v ops + present s1 v" by metis
  have "count_list (us @ vs) v + present s2 v \<le> inserts v (oper # ops) + present s v" for v
    using a(3) [of v] r(3) [of v] by (simp add: inserts_def split: if_splits)
  with a r show ?case by simp
qed

text \<open>Once the timers that are due have fired, no value outlives its last insertion.\<close>

lemma member_fresh:
  assumes "wf s" "v \<in> elems s" "\<And>u d. (u, d) \<in> ends s \<Longrightarrow> now < d"
  shows "\<exists>d. (v, d) \<in> ends s \<and> now < d"
  using covered [OF assms(1,2)] assms(3) by blast

end

text \<open>Well-formed: the lock is not poisoned and every member has a timer.\<close>

definition set_wf :: "'a in_memory_set \<Rightarrow> bool" where
  "set_wf s \<longleftrightarrow> \<not> poisoned s \<and> (\<forall>v \<in> members s. v \<in> fst ` set (timers s))"

lemma set_wf_default [simp]: "set_wf in_memory_set_default"
  by (simp add: set_wf_def in_memory_set_default_def)

lemma timers_split: "i < length xs \<Longrightarrow> set xs = insert (xs ! i) (set (take i xs @ drop (Suc i) xs))"
  using id_take_nth_drop [of i xs] by (metis Un_insert_right list.simps(15) set_append)

lemma fire_timer_wf:
  assumes "set_wf s" "fire_timer i now s = Some s'"
  shows "set_wf s' \<and> (\<exists>v d. d \<le> now \<and> members s' = members s - {v} \<and>
    set (timers s) - {(v, d)} \<subseteq> set (timers s') \<and> set (timers s') \<subseteq> set (timers s))"
proof -
  let ?ts = "take i (timers s) @ drop (Suc i) (timers s)"
  from assms have i: "i < length (timers s)" "snd (timers s ! i) \<le> now"
    and s': "members s' = members s - {fst (timers s ! i)}" "timers s' = ?ts" "\<not> poisoned s'"
    by (auto simp: fire_timer_def set_wf_def split: if_splits)
  note ts = timers_split [OF i(1)]
  have "v \<in> fst ` set ?ts" if "v \<in> members s'" for v
  proof -
    from that s' assms(1) have "v \<in> fst ` set (timers s)" "v \<noteq> fst (timers s ! i)"
      by (auto simp: set_wf_def)
    with ts show ?thesis by (metis image_insert insert_iff)
  qed
  with s' have "set_wf s'" by (simp add: set_wf_def)
  moreover have "set (timers s) - {(fst (timers s ! i), snd (timers s ! i))} \<subseteq> set (timers s')"
    "set (timers s') \<subseteq> set (timers s)"
    using ts s'(2) by auto
  ultimately show ?thesis using i(2) s'(1) by blast
qed

interpretation mem: temp_set set_wf members "\<lambda>s. set (timers s)" insert_temp set_remove wipe fire_timer
proof
  fix s s' :: "'a in_memory_set" and v :: 'a and d now i :: nat
  assume wf: "set_wf s"
  show "\<exists>s'. insert_temp v d now s = Done s' \<and> set_wf s' \<and> members s' = insert v (members s) \<and>
      set (timers s') = insert (v, now + d) (set (timers s))"
    using wf by (auto simp: insert_temp_def lock_def set_wf_def)
  show "\<exists>s'. set_remove v s = Done (v \<in> members s, s') \<and> set_wf s' \<and> members s' = members s - {v} \<and>
      set (timers s') = set (timers s)"
    using wf by (auto simp: set_remove_def lock_def set_wf_def)
  show "\<exists>s'. wipe s = Done s' \<and> set_wf s' \<and> members s' = {} \<and> set (timers s') = set (timers s)"
    using wf by (auto simp: wipe_def lock_def set_wf_def)
  show "set_wf s' \<and> (\<exists>v d. d \<le> now \<and> members s' = members s - {v} \<and>
      set (timers s) - {(v, d)} \<subseteq> set (timers s') \<and> set (timers s') \<subseteq> set (timers s))"
    if "fire_timer i now s = Some s'"
    using fire_timer_wf [OF wf that] .
  show "\<exists>d. (v, d) \<in> set (timers s)" if "v \<in> members s"
    using wf that by (force simp: set_wf_def)
qed

end
