(* ===== verification/Guest.thy ===== *)
theory Guest
  imports Jwt Codes
begin

text \<open>
  Invitations: \<^verbatim>\<open>ctf_archive/src/guest.rs\<close>. An administrator who may invite
  creates a random code, which is good for one user session within half an hour. The
  handlers work on the set of codes in the server's state.
\<close>

definition THIRTY_MINUTES_AS_SECS :: nat where
  "THIRTY_MINUTES_AS_SECS = 30 * 60"

text \<open>\<open>rnd\<close> is what \<^verbatim>\<open>getrandom::u32\<close> returns; the audit data is only logged.\<close>

definition generate_code ::
  "nat \<Rightarrow> jwt_admin \<Rightarrow> u32 option \<Rightarrow> guest_code in_memory_set \<Rightarrow>
     ((status + guest_code) \<times> guest_code in_memory_set) outcome" where
  "generate_code now admin rnd codes =
     (if \<not> can_invite admin then Done (Inl FORBIDDEN, codes)
      else (case rnd of
         None \<Rightarrow> Done (Inl INTERNAL_SERVER_ERROR, codes)
       | Some n \<Rightarrow>
           bind_outcome (insert_temp (GuestCode n) THIRTY_MINUTES_AS_SECS now codes) (\<lambda>codes.
             Done (Inr (GuestCode n), codes))))"

definition wipe_codes :: "guest_code in_memory_set \<Rightarrow> (status \<times> guest_code in_memory_set) outcome" where
  "wipe_codes codes = bind_outcome (wipe codes) (\<lambda>codes. Done (OK, codes))"

text \<open>A panic after the code was removed leaves it removed.\<close>

definition redeem_code ::
  "'k jwt_lib \<Rightarrow> 'k jwt_keys \<Rightarrow> nat \<Rightarrow> guest_code \<Rightarrow> guest_code in_memory_set \<Rightarrow>
     (status + string) outcome \<times> guest_code in_memory_set" where
  "redeem_code J K now code codes =
     (case set_remove code codes of
        Done (code_valid, codes) \<Rightarrow>
          (if code_valid then
             bind_outcome (unwrap (authenticate_user J K \<lparr>user_code = code\<rparr> (6 * 60 * 60) now)) (\<lambda>t. Done (Inr t))
           else Done (Inl UNAUTHORIZED), codes)
      | Panic \<Rightarrow> (Panic, codes)
      | Abort \<Rightarrow> (Abort, codes))"

section \<open>Behaviour on well-formed code sets\<close>

lemma generate_code_cases:
  assumes "set_wf codes"
  shows "\<exists>r codes'. generate_code now admin rnd codes = Done (r, codes') \<and> set_wf codes' \<and>
    (case r of Inl e \<Rightarrow> codes' = codes | Inr c \<Rightarrow> can_invite admin \<and> members codes' = insert c (members codes))"
  using mem.ins_law [OF assms] assms
  by (cases rnd) (auto simp: generate_code_def bind_outcome_eq_Done, metis bind_outcome.simps(1))

lemma wipe_codes_cases:
  assumes "set_wf codes"
  shows "\<exists>codes'. wipe_codes codes = Done (OK, codes') \<and> set_wf codes' \<and> members codes' = {}"
  using mem.wip_law [OF assms] by (auto simp: wipe_codes_def)

lemma redeem_code_cases:
  assumes "set_wf codes"
  shows "\<exists>codes'. set_remove code codes = Done (code \<in> members codes, codes') \<and> set_wf codes' \<and>
    members codes' = members codes - {code} \<and>
    redeem_code J K now code codes =
      (if code \<in> members codes then
         bind_outcome (unwrap (authenticate_user J K \<lparr>user_code = code\<rparr> (6 * 60 * 60) now)) (\<lambda>t. Done (Inr t))
       else Done (Inl UNAUTHORIZED), codes')"
  using mem.rem_law [OF assms, of code] by (auto simp: redeem_code_def)

end
