(* ===== verification/Routes.thy ===== *)
theory Routes
  imports Server
begin

text \<open>
  The router of \<^verbatim>\<open>ctf_archive/src/main.rs\<close>, and the API description that
  \<^verbatim>\<open>utoipa\<close> collects from the annotations of the handlers and from
  \<^verbatim>\<open>ctf_archive/src/security_addon.rs\<close>.
\<close>

section \<open>The router\<close>

datatype http_method = GET | POST | PUT | DELETE

datatype endpoint =
    EIndex
  | ECtfsList
  | ECtfsCreate
  | ECategoriesGet
  | ECategoriesCreate
  | EChallengesList
  | EGetMetadata
  | EChallengesCreate
  | EGetArchive
  | EStart
  | EConfigureDocker
  | EGetFlag
  | ESetConnectionInstructions
  | EHostDemo
  | ESetArchive
  | EInitiateChallenge
  | EFinishChallenge
  | EGenerateCode
  | EWipeCodes
  | ERedeemCode

definition routes :: "(string \<times> http_method \<times> endpoint) list" where
  "routes =
     [(''/'', GET, EIndex),
      (''/api/ctfs/list'', GET, ECtfsList),
      (''/api/ctfs/create'', POST, ECtfsCreate),
      (''/api/categories/get'', GET, ECategoriesGet),
      (''/api/categories/create'', POST, ECategoriesCreate),
      (''/api/challenges/list'', GET, EChallengesList),
      (''/api/challenges/get_metadata'', GET, EGetMetadata),
      (''/api/challenges/create'', POST, EChallengesCreate),
      (''/api/challenges/get_archive'', GET, EGetArchive),
      (''/api/challenges/start'', POST, EStart),
      (''/api/challenges/configure_docker'', PUT, EConfigureDocker),
      (''/api/challenges/get_flag'', GET, EGetFlag),
      (''/api/challenges/set_connection_instructions'', POST, ESetConnectionInstructions),
      (''/api/challenges/host_demo'', POST, EHostDemo),
      (''/api/challenges/set_archive'', PUT, ESetArchive),
      (''/api/auth/initiate_challenge'', POST, EInitiateChallenge),
      (''/api/auth/finish_challenge'', POST, EFinishChallenge),
      (''/api/guest/generate_code'', POST, EGenerateCode),
      (''/api/guest/wipe_codes'', DELETE, EWipeCodes),
      (''/api/guest/redeem_code'', POST, ERedeemCode)]"

text \<open>A known path with another method is answered 405, an unknown path 404.\<close>

datatype dispatched = Route endpoint | MethodNotAllowed | NoRoute

definition dispatch :: "http_method \<Rightarrow> string \<Rightarrow> dispatched" where
  "dispatch meth path =
     (case find (\<lambda>(p, m, e). p = path \<and> m = meth) routes of
        Some (p, m, e) \<Rightarrow> Route e
      | None \<Rightarrow> if path \<in> fst ` set routes then MethodNotAllowed else NoRoute)"

text \<open>The route a request of the server model goes to.\<close>

fun endpoint_of :: "api_request \<Rightarrow> endpoint" where
  "endpoint_of Index = EIndex"
| "endpoint_of CtfsList = ECtfsList"
| "endpoint_of (CtfsCreate _) = ECtfsCreate"
| "endpoint_of (CategoriesGet _) = ECategoriesGet"
| "endpoint_of (CategoriesCreate _) = ECategoriesCreate"
| "endpoint_of (ChallengesList _) = EChallengesList"
| "endpoint_of (GetMetadata _) = EGetMetadata"
| "endpoint_of (ChallengesCreate _ _) = EChallengesCreate"
| "endpoint_of (GetArchive _) = EGetArchive"
| "endpoint_of (Start _) = EStart"
| "endpoint_of (ConfigureDocker _ _) = EConfigureDocker"
| "endpoint_of (GetFlag _) = EGetFlag"
| "endpoint_of (SetConnectionInstructions _ _) = ESetConnectionInstructions"
| "endpoint_of (HostDemo _) = EHostDemo"
| "endpoint_of (SetArchive _ _) = ESetArchive"
| "endpoint_of (InitiateChallenge _) = EInitiateChallenge"
| "endpoint_of (FinishChallenge _) = EFinishChallenge"
| "endpoint_of (GenerateCode _) = EGenerateCode"
| "endpoint_of WipeCodes = EWipeCodes"
| "endpoint_of (RedeemCode _) = ERedeemCode"

section \<open>The API description\<close>

text \<open>
  What an annotation \<^verbatim>\<open>utoipa::path\<close> says of a handler: path and method, its
  query parameters (clause \<^verbatim>\<open>params\<close>), the status codes of its
  \<^verbatim>\<open>responses\<close> clause and the body of the answer on success, the scheme of its
  \<^verbatim>\<open>security\<close> clause and its tag. The definitions have the operations' ids as
  names.
\<close>

datatype param_type = PI32 | PString | POptString

datatype body_type =
    TString | TI32 | TU32 | TIds | TCtfs | TCategories | TChallenge | TBinary | TChallengeResponse

record operation =
  op_path :: string
  op_method :: http_method
  op_responses :: "status list"
  op_params :: "(string \<times> param_type) list"
  op_body :: "body_type option"
  op_security :: "string option"
  op_tag :: string

definition ctf_list :: operation where
  "ctf_list = \<lparr>op_path = ''list'', op_method = GET, op_responses = [OK],
     op_params = [], op_body = Some TCtfs,
     op_security = Some ''user_api_key'', op_tag = ''ctfs''\<rparr>"

definition ctf_create :: operation where
  "ctf_create = \<lparr>op_path = ''create'', op_method = POST, op_responses = [CREATED, FORBIDDEN, CONFLICT],
     op_params = [], op_body = Some TI32,
     op_security = Some ''admin_api_key'', op_tag = ''ctfs''\<rparr>"

definition category_get :: operation where
  "category_get = \<lparr>op_path = ''get'', op_method = GET, op_responses = [OK],
     op_params = [(''ctf_id'', PI32)], op_body = Some TCategories,
     op_security = Some ''user_api_key'', op_tag = ''categories''\<rparr>"

definition category_create :: operation where
  "category_create = \<lparr>op_path = ''create'', op_method = POST, op_responses = [CREATED, FORBIDDEN, CONFLICT, NOT_FOUND],
     op_params = [], op_body = Some TI32,
     op_security = Some ''admin_api_key'', op_tag = ''categories''\<rparr>"

definition challenge_list :: operation where
  "challenge_list = \<lparr>op_path = ''list'', op_method = GET, op_responses = [OK],
     op_params = [(''category_id'', PI32)], op_body = Some TIds,
     op_security = Some ''user_api_key'', op_tag = ''challenges''\<rparr>"

definition challenge_get_metadata :: operation where
  "challenge_get_metadata = \<lparr>op_path = ''get_metadata'', op_method = GET, op_responses = [OK, NOT_FOUND],
     op_params = [(''challenge_id'', PI32)], op_body = Some TChallenge,
     op_security = Some ''user_api_key'', op_tag = ''challenges''\<rparr>"

definition challenge_create :: operation where
  "challenge_create = \<lparr>op_path = ''create'', op_method = POST, op_responses = [CREATED, BAD_REQUEST, FORBIDDEN, CONFLICT, NOT_FOUND],
     op_params = [(''name'', PString), (''flag'', POptString), (''category_id'', PI32), (''description'', PString), (''difficulty'', PString)], op_body = Some TI32,
     op_security = Some ''admin_api_key'', op_tag = ''challenges''\<rparr>"

definition challenge_get_archive :: operation where
  "challenge_get_archive = \<lparr>op_path = ''get_archive'', op_method = GET, op_responses = [OK, NOT_FOUND],
     op_params = [(''challenge_id'', PI32)], op_body = Some TBinary,
     op_security = Some ''user_api_key'', op_tag = ''challenges''\<rparr>"

definition challenge_start :: operation where
  "challenge_start = \<lparr>op_path = ''start'', op_method = POST, op_responses = [OK, NOT_FOUND],
     op_params = [(''challenge_id'', PI32)], op_body = Some TString,
     op_security = Some ''user_api_key'', op_tag = ''challenges''\<rparr>"

definition challenge_configure_docker :: operation where
  "challenge_configure_docker = \<lparr>op_path = ''configure_docker'', op_method = PUT, op_responses = [OK, BAD_REQUEST, FORBIDDEN, CONFLICT, NOT_FOUND],
     op_params = [(''challenge_id'', PI32), (''image_name'', PString)], op_body = None,
     op_security = Some ''admin_api_key'', op_tag = ''challenges''\<rparr>"

definition challenge_get_flag :: operation where
  "challenge_get_flag = \<lparr>op_path = ''get_flag'', op_method = GET, op_responses = [OK, NOT_FOUND],
     op_params = [(''challenge_id'', PI32)], op_body = Some TString,
     op_security = Some ''user_api_key'', op_tag = ''challenges''\<rparr>"

definition challenge_set_connection_instructions :: operation where
  "challenge_set_connection_instructions = \<lparr>op_path = ''set_connection_instructions'', op_method = POST, op_responses = [OK, FORBIDDEN, NOT_FOUND],
     op_params = [(''challenge_id'', PI32)], op_body = None,
     op_security = Some ''admin_api_key'', op_tag = ''challenges''\<rparr>"

definition challenge_host_demo :: operation where
  "challenge_host_demo = \<lparr>op_path = ''host_demo'', op_method = POST, op_responses = [OK, FORBIDDEN, NOT_FOUND],
     op_params = [(''challenge_id'', PI32)], op_body = None,
     op_security = Some ''admin_api_key'', op_tag = ''challenges''\<rparr>"

definition challenge_set_archive :: operation where
  "challenge_set_archive = \<lparr>op_path = ''set_archive'', op_method = PUT, op_responses = [OK, BAD_REQUEST, FORBIDDEN, NOT_FOUND],
     op_params = [(''challenge_id'', PI32)], op_body = None,
     op_security = Some ''admin_api_key'', op_tag = ''challenges''\<rparr>"

definition auth_initiate_challenge :: operation where
  "auth_initiate_challenge = \<lparr>op_path = ''initiate_challenge'', op_method = POST, op_responses = [OK, NOT_FOUND],
     op_params = [], op_body = Some TString,
     op_security = None, op_tag = ''auth''\<rparr>"

definition auth_finish_challenge :: operation where
  "auth_finish_challenge = \<lparr>op_path = ''finish_challenge'', op_method = POST, op_responses = [OK, BAD_REQUEST, UNAUTHORIZED],
     op_params = [], op_body = Some TChallengeResponse,
     op_security = Some ''challenge'', op_tag = ''auth''\<rparr>"

definition guest_generate_code :: operation where
  "guest_generate_code = \<lparr>op_path = ''generate_code'', op_method = POST, op_responses = [OK, FORBIDDEN],
     op_params = [], op_body = Some TU32,
     op_security = Some ''admin_api_key'', op_tag = ''guest''\<rparr>"

definition guest_wipe_codes :: operation where
  "guest_wipe_codes = \<lparr>op_path = ''wipe_codes'', op_method = DELETE, op_responses = [OK],
     op_params = [], op_body = None,
     op_security = Some ''admin_api_key'', op_tag = ''guest''\<rparr>"

definition guest_redeem_code :: operation where
  "guest_redeem_code = \<lparr>op_path = ''redeem_code'', op_method = POST, op_responses = [OK, UNAUTHORIZED],
     op_params = [], op_body = None,
     op_security = None, op_tag = ''guest''\<rparr>"

text \<open>The \<^verbatim>\<open>paths\<close> clauses of the modules.\<close>

definition ctfs_api :: "(operation \<times> endpoint) list" where
  "ctfs_api =
     [(ctf_list, ECtfsList),
      (ctf_create, ECtfsCreate)]"

definition categories_api :: "(operation \<times> endpoint) list" where
  "categories_api =
     [(category_get, ECategoriesGet),
      (category_create, ECategoriesCreate)]"

definition challenges_api :: "(operation \<times> endpoint) list" where
  "challenges_api =
     [(challenge_list, EChallengesList),
      (challenge_get_metadata, EGetMetadata),
      (challenge_create, EChallengesCreate),
      (challenge_get_archive, EGetArchive),
      (challenge_start, EStart),
      (challenge_configure_docker, EConfigureDocker),
      (challenge_get_flag, EGetFlag),
      (challenge_set_connection_instructions, ESetConnectionInstructions),
      (challenge_host_demo, EHostDemo),
      (challenge_set_archive, ESetArchive)]"

definition auth_api :: "(operation \<times> endpoint) list" where
  "auth_api =
     [(auth_initiate_challenge, EInitiateChallenge),
      (auth_finish_challenge, EFinishChallenge)]"

definition guest_api :: "(operation \<times> endpoint) list" where
  "guest_api =
     [(guest_generate_code, EGenerateCode),
      (guest_wipe_codes, EWipeCodes),
      (guest_redeem_code, ERedeemCode)]"

text \<open>The \<^verbatim>\<open>nest\<close> clause of \<^verbatim>\<open>ApiDoc\<close>: full paths.\<close>

definition api_doc :: "(string \<times> operation \<times> endpoint) list" where
  "api_doc =
     concat (map (\<lambda>(prefix, api). map (\<lambda>(oper, e). (prefix @ op_path oper, oper, e)) api)
       [(''/api/ctfs/'', ctfs_api), (''/api/categories/'', categories_api),
        (''/api/challenges/'', challenges_api), (''/api/auth/'', auth_api), (''/api/guest/'', guest_api)])"

text \<open>The \<^verbatim>\<open>tags\<close> clause.\<close>

definition api_tags :: "string list" where
  "api_tags = [''ctfs'', ''categories'', ''challenges'', ''auth'']"

definition described :: "endpoint \<Rightarrow> operation option" where
  "described e = map_option (\<lambda>(p, oper, e'). oper) (find (\<lambda>(p, oper, e'). e' = e) api_doc)"

text \<open>\<^verbatim>\<open>SecurityAddon::modify\<close>: the header every scheme stands for.\<close>

definition security_schemes :: "string \<rightharpoonup> string" where
  "security_schemes =
     [''user_api_key'' \<mapsto> ''user_jwt'', ''admin_api_key'' \<mapsto> ''admin_jwt'', ''challenge'' \<mapsto> ''challenge'']"

definition documented_header :: "endpoint \<Rightarrow> string option" where
  "documented_header e = Option.bind (Option.bind (described e) op_security) security_schemes"

lemmas api_defs = ctfs_api_def categories_api_def challenges_api_def auth_api_def guest_api_def
  ctf_list_def
  ctf_create_def
  category_get_def
  category_create_def
  challenge_list_def
  challenge_get_metadata_def
  challenge_create_def
  challenge_get_archive_def
  challenge_start_def
  challenge_configure_docker_def
  challenge_get_flag_def
  challenge_set_connection_instructions_def
  challenge_host_demo_def
  challenge_set_archive_def
  auth_initiate_challenge_def
  auth_finish_challenge_def
  guest_generate_code_def
  guest_wipe_codes_def
  guest_redeem_code_def

section \<open>Headers\<close>

lemma missing_header [simp]:
  "hs ''user_jwt'' = None \<Longrightarrow> user_of c st hs = Inl UNAUTHORIZED"
  "hs ''admin_jwt'' = None \<Longrightarrow> admin_of c st hs = Inl UNAUTHORIZED"
  "hs ''challenge'' = None \<Longrightarrow> challenge_of c st hs = Inl UNAUTHORIZED"
  by (simp_all add: user_of_def admin_of_def challenge_of_def user_from_request_def admin_from_request_def
      challenge_from_request_def from_request_parts_def)

lemma documented_headers:
  "documented_header e =
     (if e \<in> {EIndex, EInitiateChallenge, ERedeemCode} then None
      else if e = EFinishChallenge then Some ''challenge''
      else if e \<in> {ECtfsList, ECategoriesGet, EChallengesList, EGetMetadata, EGetArchive, EStart, EGetFlag}
      then Some ''user_jwt'' else Some ''admin_jwt'')"
  by (cases e) (simp_all add: documented_header_def described_def api_doc_def api_defs security_schemes_def)

section \<open>Documented answers\<close>

text \<open>The index page is no operation of the API; it is always served.\<close>

definition documented_statuses :: "endpoint \<Rightarrow> status list" where
  "documented_statuses e = (case described e of Some oper \<Rightarrow> op_responses oper | None \<Rightarrow> [OK])"

lemma documented_statuses_eqs [simp]:
  "documented_statuses EIndex = [OK]"
  "documented_statuses ECtfsList = [OK]"
  "documented_statuses ECtfsCreate = [CREATED, FORBIDDEN, CONFLICT]"
  "documented_statuses ECategoriesGet = [OK]"
  "documented_statuses ECategoriesCreate = [CREATED, FORBIDDEN, CONFLICT, NOT_FOUND]"
  "documented_statuses EChallengesList = [OK]"
  "documented_statuses EGetMetadata = [OK, NOT_FOUND]"
  "documented_statuses EChallengesCreate = [CREATED, BAD_REQUEST, FORBIDDEN, CONFLICT, NOT_FOUND]"
  "documented_statuses EGetArchive = [OK, NOT_FOUND]"
  "documented_statuses EStart = [OK, NOT_FOUND]"
  "documented_statuses EConfigureDocker = [OK, BAD_REQUEST, FORBIDDEN, CONFLICT, NOT_FOUND]"
  "documented_statuses EGetFlag = [OK, NOT_FOUND]"
  "documented_statuses ESetConnectionInstructions = [OK, FORBIDDEN, NOT_FOUND]"
  "documented_statuses EHostDemo = [OK, FORBIDDEN, NOT_FOUND]"
  "documented_statuses ESetArchive = [OK, BAD_REQUEST, FORBIDDEN, NOT_FOUND]"
  "documented_statuses EInitiateChallenge = [OK, NOT_FOUND]"
  "documented_statuses EFinishChallenge = [OK, BAD_REQUEST, UNAUTHORIZED]"
  "documented_statuses EGenerateCode = [OK, FORBIDDEN]"
  "documented_statuses EWipeCodes = [OK]"
  "documented_statuses ERedeemCode = [OK, UNAUTHORIZED]"
  by (simp_all add: documented_statuses_def described_def api_doc_def api_defs)

text \<open>The status a handler's answer is sent with.\<close>

fun answer_status :: "api_answer \<Rightarrow> status option" where
  "answer_status (AStatus s) = Some s"
| "answer_status (AMessage s _) = Some s"
| "answer_status (ACreated s _) = Some s"
| "answer_status ARejected = None"
| "answer_status APanicked = None"
| "answer_status AWaiting = None"
| "answer_status _ = Some OK"

definition answers_within :: "status list \<Rightarrow> api_answer \<Rightarrow> bool" where
  "answers_within ss a \<longleftrightarrow> (case answer_status a of Some s \<Rightarrow> s \<in> set ss | None \<Rightarrow> True)"

lemma answers_within_simps [simp]:
  "answers_within ss (AStatus s) \<longleftrightarrow> s \<in> set ss" "answers_within ss (AMessage s m) \<longleftrightarrow> s \<in> set ss"
  "answers_within ss (ACreated s i) \<longleftrightarrow> s \<in> set ss" "answers_within ss ARejected" "answers_within ss APanicked"
  "answers_within ss AWaiting" "answers_within ss (AText t) \<longleftrightarrow> OK \<in> set ss" "answers_within ss (ACtfs cs) \<longleftrightarrow> OK \<in> set ss"
  "answers_within ss (ACategories ds) \<longleftrightarrow> OK \<in> set ss" "answers_within ss (AIds is) \<longleftrightarrow> OK \<in> set ss"
  "answers_within ss (AMeta n) \<longleftrightarrow> OK \<in> set ss" "answers_within ss (AFile u b) \<longleftrightarrow> OK \<in> set ss"
  "answers_within ss (ACode g) \<longleftrightarrow> OK \<in> set ss" "answers_within ss APage \<longleftrightarrow> OK \<in> set ss"
  by (simp_all add: answers_within_def)

lemma within_run_db: "returns (\<lambda>x. answers_within ss (f x)) p \<Longrightarrow> answers_within ss (fst (run_db st p f))"
  by (auto simp: run_db_def dest: returnsD split: prod.splits outcome.splits)

lemma within_extract_arg:
  "(\<And>x. answers_within ss (fst (k x))) \<Longrightarrow> answers_within ss (fst (extract_arg st arg k))"
  by (simp add: extract_arg_def split: option.split)

lemma claims_unauthorized:
  "user_of c st hs = Inl e \<Longrightarrow> e = UNAUTHORIZED" "admin_of c st hs = Inl e \<Longrightarrow> e = UNAUTHORIZED"
  "challenge_of c st hs = Inl e \<Longrightarrow> e = UNAUTHORIZED"
  by (auto simp: user_of_def admin_of_def challenge_of_def user_from_request_def admin_from_request_def
      challenge_from_request_def dest: from_request_parts_Inl)

lemma within_claims:
  assumes "UNAUTHORIZED \<in> set ss"
  shows "(\<And>x. answers_within ss (fst (k x))) \<Longrightarrow> answers_within ss (fst (extract_claims st (user_of c st' hs) k))"
    and "(\<And>x. answers_within ss (fst (l x))) \<Longrightarrow> answers_within ss (fst (extract_claims st (admin_of c st' hs) l))"
    and "(\<And>x. answers_within ss (fst (m x))) \<Longrightarrow> answers_within ss (fst (extract_claims st (challenge_of c st' hs) m))"
  using assms by (auto simp: extract_claims_def split: sum.split dest: claims_unauthorized)

lemma within_run_pure: "(\<And>x. r = Done x \<Longrightarrow> answers_within ss (fst (f x))) \<Longrightarrow> answers_within ss (fst (run_pure st r f))"
  by (simp add: run_pure_def split: outcome.split)

lemmas within_intros = within_run_db within_extract_arg within_claims within_run_pure

lemma returns_with_conn: "returns Q p \<Longrightarrow> returns Q (with_conn D p)"
  unfolding with_conn_def by (intro returns_bind)

lemma returns_lift: "(\<And>x. r = Done x \<Longrightarrow> Q x) \<Longrightarrow> returns Q (lift r)"
  by (simp add: returns_def)

lemma returns_pure: "(\<And>w x. f w = Done x \<Longrightarrow> Q x) \<Longrightarrow> returns Q (\<lambda>w. (f w, w))"
  by (auto simp: returns_def)

lemmas returns_intros = returns_with_conn returns_bind returns_lift returns_pure

end
