(* ===== verification/Requests.thy ===== *)
theory Requests
  imports Routes "HOL-Library.Sublist"
begin

text \<open>
  An HTTP request on its way to a handler: the router chooses the handler, and the handler's
  extractors read its arguments from the query string and the body. The query structs of
  \<^verbatim>\<open>categories.rs\<close> and \<^verbatim>\<open>challenges.rs\<close> are modelled field by field. How
  a query string is cut into keys and values, and how bodies are read, is the work of crates
  and a parameter.
\<close>

section \<open>Query structs\<close>

type_synonym query = "(string \<times> string) list"

text \<open>
  A field of a struct that derives \<^verbatim>\<open>Deserialize\<close> must be given exactly once, an
  optional one at most once; other keys are ignored.
\<close>

definition field :: "string \<Rightarrow> query \<Rightarrow> string option" where
  "field n q = (case filter (\<lambda>kv. fst kv = n) q of [kv] \<Rightarrow> Some (snd kv) | _ \<Rightarrow> None)"

definition opt_field :: "string \<Rightarrow> query \<Rightarrow> string option option" where
  "opt_field n q =
     (case filter (\<lambda>kv. fst kv = n) q of
        [] \<Rightarrow> Some None
      | [kv] \<Rightarrow> Some (Some (snd kv))
      | _ \<Rightarrow> None)"

text \<open>\<^verbatim>\<open>i32::from_str\<close>: an optional sign and decimal digits, within the range.\<close>

definition parse_i32 :: "string \<Rightarrow> i32 option" where
  "parse_i32 s =
     (let (neg, ds) =
        (case s of
           [] \<Rightarrow> (False, [])
         | c # cs \<Rightarrow> if c = CHR ''-'' then (True, cs) else if c = CHR ''+'' then (False, cs) else (False, s));
        n = int (read_nat ds);
        i = (if neg then - n else n)
      in if ds \<noteq> [] \<and> list_all is_digit ds \<and> - (2 ^ 31) \<le> i \<and> i < 2 ^ 31 then Some i else None)"

definition i32_field :: "string \<Rightarrow> query \<Rightarrow> i32 option" where
  "i32_field n q = Option.bind (field n q) parse_i32"

definition get_category_query :: "query \<Rightarrow> i32 option" where
  "get_category_query q = i32_field ''ctf_id'' q"

definition list_challenge_query :: "query \<Rightarrow> i32 option" where
  "list_challenge_query q = i32_field ''category_id'' q"

definition challenge_by_id_query :: "query \<Rightarrow> i32 option" where
  "challenge_by_id_query q = i32_field ''challenge_id'' q"

definition create_challenge_query :: "query \<Rightarrow> create_challenge option" where
  "create_challenge_query q =
     Option.bind (field ''name'' q) (\<lambda>name.
     Option.bind (opt_field ''flag'' q) (\<lambda>flag.
     Option.bind (i32_field ''category_id'' q) (\<lambda>category_id.
     Option.bind (field ''description'' q) (\<lambda>description.
     Option.bind (field ''difficulty'' q) (\<lambda>difficulty.
     Option.bind (opt_field ''connection_instructions'' q) (\<lambda>connection_instructions.
       Some \<lparr>chq_name = name, chq_flag = flag, chq_category = category_id, chq_description = description,
         chq_difficulty = difficulty, chq_instructions = connection_instructions\<rparr>))))))"

definition configure_docker_query :: "query \<Rightarrow> (i32 \<times> string) option" where
  "configure_docker_query q =
     Option.bind (i32_field ''challenge_id'' q) (\<lambda>challenge_id.
     Option.bind (field ''image_name'' q) (\<lambda>image_name.
       Some (challenge_id, image_name)))"

section \<open>Requests\<close>

record http_request =
  h_method :: http_method
  h_path :: string
  h_query :: string
  h_headers :: headers
  h_body :: "u8 list"

text \<open>
  The crates: the pairs of a query string, and what the body extractors of the handlers make
  of a request, \<open>None\<close> if they reject it.
\<close>

record http_lib =
  query_pairs :: "string \<Rightarrow> query"
  json_ctf :: "http_request \<Rightarrow> create_ctf option"
  json_category :: "http_request \<Rightarrow> create_category option"
  json_ports :: "http_request \<Rightarrow> (u16 \<times> expose_port_type) list option"
  json_key_id :: "http_request \<Rightarrow> u8 option"
  json_signature :: "http_request \<Rightarrow> (string \<times> string) option"
  json_code :: "http_request \<Rightarrow> guest_code option"
  multipart_body :: "http_request \<Rightarrow> multipart option"
  text_body :: "http_request \<Rightarrow> string option"
  bytes_body :: "http_request \<Rightarrow> u8 list option"

text \<open>The arguments of the handlers.\<close>

fun decode :: "http_lib \<Rightarrow> http_request \<Rightarrow> endpoint \<Rightarrow> api_request" where
  "decode L r EIndex = Index"
| "decode L r ECtfsList = CtfsList"
| "decode L r ECtfsCreate = CtfsCreate (json_ctf L r)"
| "decode L r ECategoriesGet = CategoriesGet (get_category_query (query_pairs L (h_query r)))"
| "decode L r ECategoriesCreate = CategoriesCreate (json_category L r)"
| "decode L r EChallengesList = ChallengesList (list_challenge_query (query_pairs L (h_query r)))"
| "decode L r EGetMetadata = GetMetadata (challenge_by_id_query (query_pairs L (h_query r)))"
| "decode L r EChallengesCreate =
     ChallengesCreate (create_challenge_query (query_pairs L (h_query r))) (multipart_body L r)"
| "decode L r EGetArchive = GetArchive (challenge_by_id_query (query_pairs L (h_query r)))"
| "decode L r EStart = Start (challenge_by_id_query (query_pairs L (h_query r)))"
| "decode L r EConfigureDocker =
     ConfigureDocker (configure_docker_query (query_pairs L (h_query r))) (json_ports L r)"
| "decode L r EGetFlag = GetFlag (challenge_by_id_query (query_pairs L (h_query r)))"
| "decode L r ESetConnectionInstructions =
     SetConnectionInstructions (challenge_by_id_query (query_pairs L (h_query r))) (bytes_body L r)"
| "decode L r EHostDemo = HostDemo (challenge_by_id_query (query_pairs L (h_query r)))"
| "decode L r ESetArchive = SetArchive (challenge_by_id_query (query_pairs L (h_query r))) (multipart_body L r)"
| "decode L r EInitiateChallenge = InitiateChallenge (json_key_id L r)"
| "decode L r EFinishChallenge = FinishChallenge (json_signature L r)"
| "decode L r EGenerateCode = GenerateCode (text_body L r)"
| "decode L r EWipeCodes = WipeCodes"
| "decode L r ERedeemCode = RedeemCode (json_code L r)"

text \<open>
  The whole site: the routes of the API with the state, and merged with them the pages of the
  API description.
\<close>

definition SWAGGER_PATH :: string where "SWAGGER_PATH = ''/swagger''"

definition OPENAPI_PATH :: string where "OPENAPI_PATH = ''/api/openapi.json''"

definition docs_path :: "string \<Rightarrow> bool" where
  "docs_path path \<longleftrightarrow> path = OPENAPI_PATH \<or> path = SWAGGER_PATH \<or> prefix (SWAGGER_PATH @ ''/'') path"

datatype served = Answer api_answer | DocsPage | NotAllowed | NotFound

definition serve ::
  "('k, 'd, 'w) config \<Rightarrow> http_lib \<Rightarrow> ('k, 'w) app \<Rightarrow> randomness \<Rightarrow> http_request \<Rightarrow> served \<times> ('k, 'w) app" where
  "serve c L st rnd r =
     (case dispatch (h_method r) (h_path r) of
        Route e \<Rightarrow> map_prod Answer id (handle c st (h_headers r) rnd (decode L r e))
      | MethodNotAllowed \<Rightarrow> (NotAllowed, st)
      | NoRoute \<Rightarrow>
          (if \<not> docs_path (h_path r) then NotFound else if h_method r = GET then DocsPage else NotAllowed, st))"

text \<open>
  The settings of \<^verbatim>\<open>CorsLayer\<close>: pages of any origin may use any method and header.
  A new layer does not allow credentials.
\<close>

record cors_layer =
  any_origin :: bool
  any_method :: bool
  any_header :: bool
  credentials :: bool

definition cors :: cors_layer where
  "cors = \<lparr>any_origin = True, any_method = True, any_header = True, credentials = False\<rparr>"

text \<open>
  The comment at this place says that security does not rely on cookies. It does not: of all
  headers, only those with the tokens have any influence.
\<close>

lemma handle_headers:
  assumes "hs ''user_jwt'' = hs' ''user_jwt''" "hs ''admin_jwt'' = hs' ''admin_jwt''" "hs ''challenge'' = hs' ''challenge''"
  shows "handle c st hs rnd req = handle c st hs' rnd req"
proof -
  have "user_of c st hs = user_of c st hs'" "admin_of c st hs = admin_of c st hs'" "challenge_of c st hs = challenge_of c st hs'"
    using assms
    by (simp_all add: user_of_def admin_of_def challenge_of_def user_from_request_def admin_from_request_def
        challenge_from_request_def from_request_parts_def)
  then show ?thesis by (cases req) simp_all
qed

text \<open>A request that is served is a request of a run, or changes nothing.\<close>

lemma serve_run:
  assumes "run c st0 st log" "unforged (cfg_jwt c) (app_keys st) (app_now st) log (h_headers r)"
    and "serve c L st rnd r = (ans, st')"
  shows "\<exists>log'. run c st0 st' log' \<and> take (length log) log' = log"
proof (cases "dispatch (h_method r) (h_path r)")
  case (Route e)
  obtain a where "handle c st (h_headers r) rnd (decode L r e) = (a, st')"
    using Route assms(3) by (cases "handle c st (h_headers r) rnd (decode L r e)") (auto simp: serve_def simp del: handle.simps)
  from run.request [OF assms(1,2) this] show ?thesis by (intro exI conjI) (assumption, simp)
qed (use assms(1,3) in \<open>auto simp: serve_def\<close>)

section \<open>Numbers\<close>

definition show_i32 :: "i32 \<Rightarrow> string" where
  "show_i32 i = (if i < 0 then CHR ''-'' # show_nat (nat (- i)) else show_nat (nat i))"

lemma show_nat_no_sign: "show_nat n = c # cs \<Longrightarrow> c \<noteq> CHR ''-'' \<and> c \<noteq> CHR ''+''"
  using show_nat_digits [of n] by (auto simp: is_digit_def)

text \<open>What a client prints in decimal is read back, and nothing outside the range is read.\<close>

lemma parse_i32_show:
  assumes "- (2 ^ 31) \<le> i" "i < 2 ^ 31"
  shows "parse_i32 (show_i32 i) = Some i"
proof (cases "i < 0")
  case True
  with assms show ?thesis
    by (simp add: parse_i32_def show_i32_def show_nat_not_Nil show_nat_digits read_nat_show_nat)
next
  case False
  obtain c cs where s: "show_nat (nat i) = c # cs" using show_nat_not_Nil by (cases "show_nat (nat i)") auto
  have "list_all is_digit (c # cs)" "int (read_nat (c # cs)) = i"
    using show_nat_digits [of "nat i"] read_nat_show_nat [of "nat i"] False by (simp_all add: s)
  with False assms show_nat_no_sign [OF s] show ?thesis
    by (simp add: parse_i32_def show_i32_def s)
qed

lemma parse_i32_range: "parse_i32 s = Some i \<Longrightarrow> - (2 ^ 31) \<le> i \<and> i < 2 ^ 31"
  by (auto simp: parse_i32_def Let_def split: prod.splits if_splits)

section \<open>Where requests go\<close>

lemma endpoint_of_decode [simp]: "endpoint_of (decode L r e) = e"
  by (cases e) simp_all

lemma docs_path_apart: "docs_path p \<Longrightarrow> p \<notin> fst ` set routes"
  by (auto simp: docs_path_def OPENAPI_PATH_def SWAGGER_PATH_def routes_def)

section \<open>Documented parameters\<close>

fun param_ok :: "query \<Rightarrow> string \<times> param_type \<Rightarrow> bool" where
  "param_ok q (n, PI32) \<longleftrightarrow> i32_field n q \<noteq> None"
| "param_ok q (n, PString) \<longleftrightarrow> field n q \<noteq> None"
| "param_ok q (n, POptString) \<longleftrightarrow> opt_field n q \<noteq> None"

text \<open>Whether the query extractor of a request's handler succeeded.\<close>

fun query_accepted :: "api_request \<Rightarrow> bool" where
  "query_accepted (CategoriesGet q) \<longleftrightarrow> q \<noteq> None"
| "query_accepted (ChallengesList q) \<longleftrightarrow> q \<noteq> None"
| "query_accepted (GetMetadata q) \<longleftrightarrow> q \<noteq> None"
| "query_accepted (ChallengesCreate q _) \<longleftrightarrow> q \<noteq> None"
| "query_accepted (GetArchive q) \<longleftrightarrow> q \<noteq> None"
| "query_accepted (Start q) \<longleftrightarrow> q \<noteq> None"
| "query_accepted (ConfigureDocker q _) \<longleftrightarrow> q \<noteq> None"
| "query_accepted (GetFlag q) \<longleftrightarrow> q \<noteq> None"
| "query_accepted (SetConnectionInstructions q _) \<longleftrightarrow> q \<noteq> None"
| "query_accepted (HostDemo q) \<longleftrightarrow> q \<noteq> None"
| "query_accepted (SetArchive q _) \<longleftrightarrow> q \<noteq> None"
| "query_accepted _ \<longleftrightarrow> True"

lemmas query_structs = get_category_query_def list_challenge_query_def challenge_by_id_query_def
  create_challenge_query_def configure_docker_query_def

lemma decode_accepted:
  assumes "described e = Some oper"
  shows "query_accepted (decode L r e) \<longleftrightarrow>
    list_all (param_ok (query_pairs L (h_query r))) (op_params oper) \<and>
    (e = EChallengesCreate \<longrightarrow> opt_field ''connection_instructions'' (query_pairs L (h_query r)) \<noteq> None)"
  using assms
  by (cases e) (auto simp: described_def api_doc_def api_defs query_structs bind_eq_Some_conv)

lemma handle_not_accepted:
  "\<not> query_accepted req \<Longrightarrow> handle c st hs rnd req \<in> {(AStatus UNAUTHORIZED, st), (ARejected, st)}"
  by (cases req) (auto simp: extract_arg_def extract_claims_def dest: claims_unauthorized split: sum.splits option.splits)

section \<open>Documented bodies\<close>

text \<open>The type of the body an answer on success carries.\<close>

fun answer_body :: "api_answer \<Rightarrow> body_type option" where
  "answer_body (AText _) = Some TString"
| "answer_body (ACreated _ _) = Some TI32"
| "answer_body (ACtfs _) = Some TCtfs"
| "answer_body (ACategories _) = Some TCategories"
| "answer_body (AIds _) = Some TIds"
| "answer_body (AMeta _) = Some TChallenge"
| "answer_body (AFile _ _) = Some TBinary"
| "answer_body (ACode _) = Some TU32"
| "answer_body _ = None"

definition documented_body :: "endpoint \<Rightarrow> body_type option" where
  "documented_body e = Option.bind (described e) op_body"

definition body_within :: "body_type option \<Rightarrow> api_answer \<Rightarrow> bool" where
  "body_within b a \<longleftrightarrow> answer_body a = None \<or> answer_body a = b"

lemma body_within_simps [simp]:
  "answer_body a = None \<Longrightarrow> body_within b a" "answer_body a = Some t \<Longrightarrow> body_within b a \<longleftrightarrow> b = Some t"
  by (auto simp: body_within_def)

lemma documented_bodies:
  "documented_body e = (case e of
     ECtfsList \<Rightarrow> Some TCtfs | ECategoriesGet \<Rightarrow> Some TCategories | EChallengesList \<Rightarrow> Some TIds
   | EGetMetadata \<Rightarrow> Some TChallenge | EGetArchive \<Rightarrow> Some TBinary | EGenerateCode \<Rightarrow> Some TU32
   | EFinishChallenge \<Rightarrow> Some TChallengeResponse | EStart \<Rightarrow> Some TString | EGetFlag \<Rightarrow> Some TString
   | EInitiateChallenge \<Rightarrow> Some TString | ECtfsCreate \<Rightarrow> Some TI32 | ECategoriesCreate \<Rightarrow> Some TI32
   | EChallengesCreate \<Rightarrow> Some TI32 | _ \<Rightarrow> None)"
  by (cases e) (simp_all add: documented_body_def described_def api_doc_def api_defs)

lemma body_within_answer_or: "(\<And>x. body_within b (f x)) \<Longrightarrow> body_within b (answer_or f r)"
  by (cases r) (simp_all add: body_within_def)

lemma body_within_answer_start: "(\<And>x. body_within b (f x)) \<Longrightarrow> body_within b (answer_start f r)"
  by (cases "(f, r)" rule: answer_start.cases) (simp_all add: body_within_def)

lemma body_within_run:
  "(\<And>x. body_within b (f x)) \<Longrightarrow> body_within b (fst (run_db st p f))"
  "(\<And>x. body_within b (fst (g x))) \<Longrightarrow> body_within b (fst (run_pure st r g))"
  "(\<And>x. body_within b (fst (h x))) \<Longrightarrow> body_within b (fst (extract_arg st arg h))"
  "(\<And>x. body_within b (fst (k x))) \<Longrightarrow> body_within b (fst (extract_claims st cl k))"
  by (auto simp: run_db_def run_pure_def extract_arg_def extract_claims_def body_within_def
      split: prod.split outcome.split option.split sum.split)

lemmas body_within_intros = body_within_answer_or body_within_answer_start body_within_run

end
