(* ===== verification/Server_Sessions.thy ===== *)
theory Server_Sessions
  imports Server
begin

text \<open>
  Where sessions come from. Following a run of the server, what its log proves about the
  tokens clients hold: administrators signed a challenge, users redeemed an invitation, and
  no invitation was redeemed more often than it was issued.
\<close>

lemmas handle_defs = extract_arg_def extract_claims_def run_db_def run_pure_def

lemma handle_frame:
  "handle c st hs rnd req = (ans, st') \<Longrightarrow> app_keys st' = app_keys st \<and> app_now st' = app_now st"
  by (cases req) (auto simp: handle_defs split: option.splits sum.splits prod.splits outcome.splits)

lemma run_keys: "run c st0 st log \<Longrightarrow> app_keys st = app_keys st0"
  by (induction rule: run.induct) (auto dest: handle_frame)

section \<open>What an entry of the log proves\<close>

definition entry_proves ::
  "('k, 'd, 'w) config \<Rightarrow> 'k jwt_keys \<Rightarrow> nat \<Rightarrow> headers \<Rightarrow> randomness \<Rightarrow> api_request \<Rightarrow> api_answer \<Rightarrow> bool" where
  "entry_proves c K now hs rnd req ans \<longleftrightarrow>
     (\<forall>body t. req = InitiateChallenge body \<and> ans = AText t \<longrightarrow>
       (\<exists>i bytes. body = Some i \<and> rnd_bytes rnd = Some bytes \<and>
          authenticate_challenge (cfg_jwt c) K \<lparr>challenge = b64_enc (cfg_b64 c) bytes, challenge_id = i\<rparr> 10 now = Some t)) \<and>
     (\<forall>body t. req = FinishChallenge body \<and> ans = AText t \<longrightarrow>
       (\<exists>ch resp. body = Some resp \<and> challenge_from_request (cfg_jwt c) K now hs = Inr ch \<and>
          finish_challenge (cfg_jwt c) K (cfg_b64 c) (cfg_p256 c) now ch resp = Done (Inr t))) \<and>
     (\<forall>body t. req = RedeemCode body \<and> ans = AText t \<longrightarrow>
       (\<exists>code. body = Some code \<and> authenticate_user (cfg_jwt c) K \<lparr>user_code = code\<rparr> (6 * 60 * 60) now = Some t)) \<and>
     (\<forall>code. ans = ACode code \<longrightarrow>
       (\<exists>body admin. req = GenerateCode body \<and> admin_from_request (cfg_jwt c) K now hs = Inr admin \<and> can_invite admin))"

abbreviation entry_ok :: "('k, 'd, 'w) config \<Rightarrow> 'k jwt_keys \<Rightarrow> log_entry \<Rightarrow> bool" where
  "entry_ok c K e \<equiv> entry_proves c K (e_now e) (e_headers e) (e_rnd e) (e_req e) (e_ans e)"

lemma answer_or_AText: "answer_or AText r = AText t \<longleftrightarrow> r = Inr t"
  by (cases r) simp_all

lemma answer_or_ACode: "answer_or ACode r = ACode t \<longleftrightarrow> r = Inr t"
  by (cases r) simp_all

lemma answer_or_not_ACode: "(\<And>x. f x \<noteq> ACode y) \<Longrightarrow> answer_or f r \<noteq> ACode y"
  by (cases r) simp_all

lemma answer_start_not_ACode: "(\<And>x. f x \<noteq> ACode y) \<Longrightarrow> answer_start f r \<noteq> ACode y"
  by (cases "(f, r)" rule: answer_start.cases) simp_all

lemma not_code [simp]:
  "answer_or created r \<noteq> ACode x" "answer_or AText q \<noteq> ACode x" "answer_or ACategories s \<noteq> ACode x"
  "answer_or AIds u \<noteq> ACode x" "answer_or AMeta v \<noteq> ACode x" "answer_or (\<lambda>(t, b). AFile t b) z \<noteq> ACode x"
  "answer_start AText p \<noteq> ACode x" "answer_start AStatus o' \<noteq> ACode x"
  by (simp_all add: answer_or_not_ACode answer_start_not_ACode created_def split: prod.split)

lemma initiate_challenge_Inr:
  "initiate_challenge J K B now rnd i = Done (Inr t) \<longleftrightarrow>
     key_exists i \<and> (\<exists>bytes. rnd = Some bytes \<and>
       authenticate_challenge J K \<lparr>challenge = b64_enc B bytes, challenge_id = i\<rparr> 10 now = Some t)"
  by (auto simp: initiate_challenge_def bind_outcome_eq_Done split: option.splits)

lemma generate_code_Inr:
  "generate_code now admin rnd codes = Done (Inr x, codes') \<Longrightarrow> can_invite admin"
  by (auto simp: generate_code_def split: if_splits)

lemma redeem_code_Inr:
  "redeem_code J K now code codes = (Done (Inr t), codes') \<Longrightarrow>
     authenticate_user J K \<lparr>user_code = code\<rparr> (6 * 60 * 60) now = Some t"
  by (auto simp: redeem_code_def bind_outcome_eq_Done split: outcome.splits prod.splits if_splits)

lemma handle_code_answer:
  assumes "handle c st hs rnd req = (ACode x, st')"
  shows "\<exists>body. req = GenerateCode body"
  using assms
  by (cases req) (auto simp: handle_defs not_code split: option.splits sum.splits prod.splits outcome.splits)

lemma handle_proves:
  assumes "handle c st hs rnd req = (ans, st')"
  shows "entry_proves c (app_keys st) (app_now st) hs rnd req ans"
  unfolding entry_proves_def
proof (intro conjI allI impI; (elim conjE)?)
  fix body t assume "req = InitiateChallenge body" "ans = AText t"
  with assms show "\<exists>i bytes. body = Some i \<and> rnd_bytes rnd = Some bytes \<and>
      authenticate_challenge (cfg_jwt c) (app_keys st) \<lparr>challenge = b64_enc (cfg_b64 c) bytes, challenge_id = i\<rparr> 10 (app_now st) = Some t"
    by (auto simp: handle_defs answer_or_AText initiate_challenge_Inr split: option.splits outcome.splits)
next
  fix body t assume "req = FinishChallenge body" "ans = AText t"
  with assms show "\<exists>ch resp. body = Some resp \<and> challenge_from_request (cfg_jwt c) (app_keys st) (app_now st) hs = Inr ch \<and>
      finish_challenge (cfg_jwt c) (app_keys st) (cfg_b64 c) (cfg_p256 c) (app_now st) ch resp = Done (Inr t)"
    by (auto simp: handle_defs challenge_of_def answer_or_AText split: option.splits sum.splits outcome.splits)
next
  fix body t assume "req = RedeemCode body" "ans = AText t"
  with assms show "\<exists>code. body = Some code \<and>
      authenticate_user (cfg_jwt c) (app_keys st) \<lparr>user_code = code\<rparr> (6 * 60 * 60) (app_now st) = Some t"
    by (auto simp: handle_defs answer_or_AText dest!: redeem_code_Inr split: option.splits prod.splits outcome.splits)
next
  fix x assume a: "ans = ACode x"
  then obtain body where b: "req = GenerateCode body" using handle_code_answer assms by blast
  with assms a show "\<exists>body admin. req = GenerateCode body \<and>
      admin_from_request (cfg_jwt c) (app_keys st) (app_now st) hs = Inr admin \<and> can_invite admin"
    by (auto simp: handle_defs admin_of_def answer_or_ACode dest!: generate_code_Inr
        split: option.splits sum.splits prod.splits outcome.splits)
qed

text \<open>Every entry proves its claim, and was made by a request that forged nothing.\<close>

lemma run_log:
  assumes "run c st0 st log" "n < length log"
  shows "entry_ok c (app_keys st0) (log ! n) \<and>
    unforged (cfg_jwt c) (app_keys st0) (e_now (log ! n)) (take n log) (e_headers (log ! n))"
  using assms
proof (induction arbitrary: n rule: run.induct)
  case (request st log hs rnd req ans st')
  show ?case
  proof (cases "n < length log")
    case True
    with request.IH show ?thesis by (simp add: nth_append)
  next
    case False
    with request.prems have "n = length log" by simp
    with request.hyps handle_proves [OF request.hyps(3)] run_keys [OF request.hyps(1)] show ?thesis by simp
  qed
qed auto

section \<open>Tokens and the entries that issued them\<close>

lemma unforgedD:
  assumes "unforged J K now log hs" "from_request_parts J k h from_json now hs = Inr x"
    and "k \<in> {admin_key K, challenge_key K, user_key K}"
  shows "\<exists>t j. issued K log k t \<and> hs_verify J k now t = Some j \<and> from_json j = Some x"
  using assms unfolding unforged_def from_request_parts_Inr by fastforce

text \<open>The signature a login shows: by the key of the row whose permissions it grants.\<close>

definition login_proof :: "('k, 'd, 'w) config \<Rightarrow> jwt_challenge \<Rightarrow> string \<times> string \<Rightarrow> jwt_admin \<Rightarrow> bool" where
  "login_proof c ch resp a \<longleftrightarrow>
     (\<exists>chal pk r s. b64_dec (cfg_b64 c) (challenge ch) = Some chal \<and>
        b64_dec (cfg_b64 c) (fst resp) = Some r \<and> b64_dec (cfg_b64 c) (snd resp) = Some s \<and>
        map_of admin_auth (challenge_id ch) = Some (pk, a) \<and> ecdsa_verify (cfg_p256 c) (hex pk) chal (r @ s))"

lemma finish_challenge_login:
  assumes "finish_challenge J K (cfg_b64 c) (cfg_p256 c) now ch resp = Done (Inr t)"
  shows "\<exists>a. login_proof c ch resp a \<and> authenticate_admin J K a (30 * 60) now = Some t"
  using assms unfolding finish_challenge_Inr login_proof_def by blast

text \<open>
  An issued token was made from claims of the kind of its route: whatever the keys are, only
  an entry of the right kind can have made a token that reads as a given kind of claims.
\<close>

lemma issued_entry:
  assumes "issued K log k t"
  obtains n where "n < length log" "signing_key K (e_req (log ! n)) = Some k" "e_ans (log ! n) = AText t"
  using assms by (auto simp: issued_def in_set_conv_nth)

context jwt_laws
begin

lemma issued_claims:
  assumes "cfg_jwt c = J" "entry_ok c K e" "signing_key K (e_req e) = Some k" "e_ans e = AText t"
    and "hs_verify J k now t = Some j"
  shows "(\<exists>i bytes. e_req e = InitiateChallenge (Some i) \<and> rnd_bytes (e_rnd e) = Some bytes \<and>
      j = challenge_to_json \<lparr>challenge = b64_enc (cfg_b64 c) bytes, challenge_id = i\<rparr> \<and> now \<le> e_now e + 10 + tolerance) \<or>
    (\<exists>resp ch a. e_req e = FinishChallenge (Some resp) \<and> challenge_from_request J K (e_now e) (e_headers e) = Inr ch \<and>
      login_proof c ch resp a \<and> j = admin_to_json a \<and> now \<le> e_now e + 30 * 60 + tolerance) \<or>
    (\<exists>code. e_req e = RedeemCode (Some code) \<and> j = user_to_json \<lparr>user_code = code\<rparr> \<and>
      now \<le> e_now e + 6 * 60 * 60 + tolerance)"
proof (cases "e_req e")
  case (InitiateChallenge body)
  with assms obtain i bytes where e: "body = Some i" "rnd_bytes (e_rnd e) = Some bytes"
    "hs_authenticate J k (with_custom_claims
       (challenge_to_json \<lparr>challenge = b64_enc (cfg_b64 c) bytes, challenge_id = i\<rparr>) 10 (e_now e)) = Some t"
    by (auto simp: entry_proves_def authenticate_challenge_def)
  from token_says [OF e(3) assms(5)] e InitiateChallenge show ?thesis by simp
next
  case (FinishChallenge body)
  with assms obtain ch resp a where e: "body = Some resp" "challenge_from_request J K (e_now e) (e_headers e) = Inr ch"
    "login_proof c ch resp a" "authenticate_admin J K a (30 * 60) (e_now e) = Some t" and k: "k = admin_key K"
    using finish_challenge_login [of J K c "e_now e"] by (fastforce simp: entry_proves_def)
  from e(4) k have "hs_authenticate J k (with_custom_claims (admin_to_json a) (30 * 60) (e_now e)) = Some t"
    by (simp add: authenticate_admin_def)
  from token_says [OF this assms(5)] e FinishChallenge show ?thesis by blast
next
  case (RedeemCode body)
  with assms obtain code where e: "body = Some code"
    "hs_authenticate J k (with_custom_claims (user_to_json \<lparr>user_code = code\<rparr>) (6 * 60 * 60) (e_now e)) = Some t"
    by (auto simp: entry_proves_def authenticate_user_def)
  from token_says [OF e(2) assms(5)] e RedeemCode show ?thesis by simp
qed (use assms(3) in simp_all)

end

section \<open>Where accepted claims come from\<close>

text \<open>The log of a run with the facts \<open>run_log\<close> gives about each entry.\<close>

definition log_ok :: "('k, 'd, 'w) config \<Rightarrow> 'k jwt_keys \<Rightarrow> log_entry list \<Rightarrow> bool" where
  "log_ok c K log \<longleftrightarrow> (\<forall>n < length log. entry_ok c K (log ! n) \<and>
     unforged (cfg_jwt c) K (e_now (log ! n)) (take n log) (e_headers (log ! n)))"

lemma run_log_ok: "run c st0 st log \<Longrightarrow> log_ok c (app_keys st0) log"
  using run_log unfolding log_ok_def by blast

lemma log_ok_take: "log_ok c K log \<Longrightarrow> log_ok c K (take n log)"
  by (simp add: log_ok_def min_def)

context jwt_laws
begin

lemma accepted_entry:
  assumes "cfg_jwt c = J" "log_ok c K log" "unforged J K now log hs"
    and "from_request_parts J k h from_json now hs = Inr x" "k \<in> {admin_key K, challenge_key K, user_key K}"
  obtains n j t where "n < length log" "entry_ok c K (log ! n)" "signing_key K (e_req (log ! n)) = Some k"
    "e_ans (log ! n) = AText t" "hs_verify J k now t = Some j" "from_json j = Some x"
proof -
  from unforgedD [OF assms(3-5)] obtain t j where
    t: "issued K log k t" "hs_verify J k now t = Some j" "from_json j = Some x" by blast
  from t(1) obtain n where "n < length log" "signing_key K (e_req (log ! n)) = Some k" "e_ans (log ! n) = AText t"
    by (rule issued_entry)
  with t assms(2) that show thesis by (auto simp: log_ok_def)
qed

lemma accepted_user:
  assumes "cfg_jwt c = J" "log_ok c K log" "unforged J K now log hs" "user_from_request J K now hs = Inr u"
  shows "\<exists>e \<in> set log. \<exists>t. e_req e = RedeemCode (Some (user_code u)) \<and> e_ans e = AText t \<and>
    now \<le> e_now e + 6 * 60 * 60 + tolerance"
proof -
  from assms(4) have "from_request_parts J (user_key K) ''user_jwt'' user_from_json now hs = Inr u"
    by (simp add: user_from_request_def)
  then obtain n j t where e: "n < length log" "entry_ok c K (log ! n)"
    "signing_key K (e_req (log ! n)) = Some (user_key K)"
    "e_ans (log ! n) = AText t" "hs_verify J (user_key K) now t = Some j" "user_from_json j = Some u"
    by (rule accepted_entry [OF assms(1-3)]) simp_all
  from issued_claims [OF assms(1) e(2-5)] e(4,6) show ?thesis
    by (intro bexI [OF _ nth_mem [OF e(1)]]) auto
qed

lemma accepted_challenge:
  assumes "cfg_jwt c = J" "log_ok c K log" "unforged J K now log hs" "challenge_from_request J K now hs = Inr ch"
  shows "\<exists>e \<in> set log. \<exists>bytes. e_req e = InitiateChallenge (Some (challenge_id ch)) \<and>
    rnd_bytes (e_rnd e) = Some bytes \<and> challenge ch = b64_enc (cfg_b64 c) bytes \<and> now \<le> e_now e + 10 + tolerance"
proof -
  from assms(4) have "from_request_parts J (challenge_key K) ''challenge'' challenge_from_json now hs = Inr ch"
    by (simp add: challenge_from_request_def)
  then obtain n j t where e: "n < length log" "entry_ok c K (log ! n)"
    "signing_key K (e_req (log ! n)) = Some (challenge_key K)"
    "e_ans (log ! n) = AText t" "hs_verify J (challenge_key K) now t = Some j" "challenge_from_json j = Some ch"
    by (rule accepted_entry [OF assms(1-3)]) simp_all
  from issued_claims [OF assms(1) e(2-5)] e(6) show ?thesis
    by (intro bexI [OF _ nth_mem [OF e(1)]]) auto
qed

text \<open>
  An administrator's session goes back to a login, and the login to a challenge for the same
  key: the server drew the bytes, and a signature of exactly those bytes verified.
\<close>

lemma accepted_admin:
  assumes c: "cfg_jwt c = J" and log: "log_ok c K log" and u: "unforged J K now log hs"
    and a: "admin_from_request J K now hs = Inr a"
    and b64: "\<And>bytes. b64_dec (cfg_b64 c) (b64_enc (cfg_b64 c) bytes) = Some bytes"
  shows "\<exists>m n pk bytes resp r s. m < n \<and> n < length log \<and>
    e_req (log ! m) = InitiateChallenge (Some (admin_id a)) \<and> rnd_bytes (e_rnd (log ! m)) = Some bytes \<and>
    e_req (log ! n) = FinishChallenge (Some resp) \<and>
    b64_dec (cfg_b64 c) (fst resp) = Some r \<and> b64_dec (cfg_b64 c) (snd resp) = Some s \<and>
    map_of admin_auth (admin_id a) = Some (pk, a) \<and> ecdsa_verify (cfg_p256 c) (hex pk) bytes (r @ s) \<and>
    e_now (log ! n) \<le> e_now (log ! m) + 10 + tolerance \<and> now \<le> e_now (log ! n) + 30 * 60 + tolerance"
proof -
  from a have "from_request_parts J (admin_key K) ''admin_jwt'' admin_from_json now hs = Inr a"
    by (simp add: admin_from_request_def)
  then obtain n j t where e: "n < length log" "entry_ok c K (log ! n)"
    "signing_key K (e_req (log ! n)) = Some (admin_key K)"
    "e_ans (log ! n) = AText t" "hs_verify J (admin_key K) now t = Some j" "admin_from_json j = Some a"
    by (rule accepted_entry [OF c log u]) simp_all
  let ?e = "log ! n"
  from issued_claims [OF c e(2-5)] e(6) obtain resp ch where
    login: "e_req ?e = FinishChallenge (Some resp)" "challenge_from_request J K (e_now ?e) (e_headers ?e) = Inr ch"
      "login_proof c ch resp a" "now \<le> e_now ?e + 30 * 60 + tolerance"
    by auto
  have "unforged J K (e_now ?e) (take n log) (e_headers ?e)" using log e(1) c by (simp add: log_ok_def)
  from accepted_challenge [OF c log_ok_take [OF log] this login(2)] obtain m bytes where
    asked: "m < n" "e_req (log ! m) = InitiateChallenge (Some (challenge_id ch))"
      "rnd_bytes (e_rnd (log ! m)) = Some bytes" "challenge ch = b64_enc (cfg_b64 c) bytes"
      "e_now ?e \<le> e_now (log ! m) + 10 + tolerance"
    by (auto simp: in_set_conv_nth)
  from login(3) b64 asked(4) obtain pk r s where
    sig: "map_of admin_auth (challenge_id ch) = Some (pk, a)" "ecdsa_verify (cfg_p256 c) (hex pk) bytes (r @ s)"
      "b64_dec (cfg_b64 c) (fst resp) = Some r" "b64_dec (cfg_b64 c) (snd resp) = Some s"
    by (auto simp: login_proof_def)
  have id: "challenge_id ch = admin_id a" using admin_auth_ids [OF sig(1)] by simp
  show ?thesis
    by (intro exI conjI) (rule asked(1), rule e(1), rule asked(2) [unfolded id], rule asked(3), rule login(1), rule sig(3),
        rule sig(4), rule sig(1) [unfolded id], rule sig(2), rule asked(5), rule login(4))
qed

end

section \<open>Invitations are counted\<close>

definition redeems :: "guest_code \<Rightarrow> log_entry \<Rightarrow> bool" where
  "redeems code e \<longleftrightarrow> e_req e = RedeemCode (Some code) \<and> (\<exists>t. e_ans e = AText t)"

definition generates :: "guest_code \<Rightarrow> log_entry \<Rightarrow> bool" where
  "generates code e \<longleftrightarrow> e_ans e = ACode code"

definition open_codes :: "('k, 'w) app \<Rightarrow> guest_code \<Rightarrow> nat" where
  "open_codes st code = (if code \<in> members (app_codes st) then 1 else 0)"

lemma handle_codes_frame:
  assumes "handle c st hs rnd req = (ans, st')"
  shows "app_codes st' = app_codes st \<or> req = WipeCodes \<or> (\<exists>b. req = GenerateCode b) \<or> (\<exists>b. req = RedeemCode b)"
  using assms
  by (cases req) (auto simp: handle_defs split: option.splits sum.splits prod.splits outcome.splits)

text \<open>One request: the codes stay well formed and the count below stays balanced.\<close>

definition balanced :: "('k, 'w) app \<Rightarrow> ('k, 'w) app \<Rightarrow> log_entry \<Rightarrow> bool" where
  "balanced st st' e \<longleftrightarrow> set_wf (app_codes st') \<and>
     (\<forall>code. (if redeems code e then 1 else 0) + open_codes st' code
        \<le> (if generates code e then 1 else 0) + open_codes st code)"

lemma handle_generate:
  assumes wf: "set_wf (app_codes st)" and h: "handle c st hs rnd (GenerateCode b) = (ans, st')"
    and e: "e_req e = GenerateCode b" "e_ans e = ans"
  shows "balanced st st' e"
proof -
  have "st' = st \<or> (\<exists>a r codes. generate_code (app_now st) a (rnd_u32 rnd) (app_codes st) = Done (r, codes) \<and>
      ans = answer_or ACode r \<and> st' = st\<lparr>app_codes := codes\<rparr>)"
    using h by (auto simp: handle_defs split: option.splits sum.splits outcome.splits)
  then consider "st' = st" | a r codes where "generate_code (app_now st) a (rnd_u32 rnd) (app_codes st) = Done (r, codes)"
    "ans = answer_or ACode r" "st' = st\<lparr>app_codes := codes\<rparr>" by blast
  then show ?thesis
  proof cases
    case 1
    with wf e show ?thesis by (simp add: balanced_def redeems_def)
  next
    case 2
    with generate_code_cases [OF wf, of "app_now st" a "rnd_u32 rnd"] e wf show ?thesis
      by (cases r) (auto simp: balanced_def redeems_def generates_def open_codes_def)
  qed
qed

lemma handle_redeem:
  assumes wf: "set_wf (app_codes st)" and h: "handle c st hs rnd (RedeemCode b) = (ans, st')"
    and e: "e_req e = RedeemCode b" "e_ans e = ans"
  shows "balanced st st' e"
proof (cases b)
  case None
  with h have "st' = st" by (simp add: handle_defs)
  with wf e None show ?thesis by (simp add: balanced_def redeems_def)
next
  case (Some code)
  from redeem_code_cases [OF wf, of code "cfg_jwt c" "app_keys st" "app_now st"] obtain codes where
    codes: "set_wf codes" "members codes = members (app_codes st) - {code}"
    and r: "redeem_code (cfg_jwt c) (app_keys st) (app_now st) code (app_codes st) =
      (if code \<in> members (app_codes st) then
         bind_outcome (unwrap (authenticate_user (cfg_jwt c) (app_keys st) \<lparr>user_code = code\<rparr> (6 * 60 * 60) (app_now st)))
           (\<lambda>t. Done (Inr t))
       else Done (Inl UNAUTHORIZED), codes)"
    by (elim exE conjE) (rule that; assumption)
  with h Some have st': "st' = st\<lparr>app_codes := codes\<rparr>"
    and no: "code \<notin> members (app_codes st) \<Longrightarrow> ans = AStatus UNAUTHORIZED"
    by (auto simp: handle_defs split: outcome.splits if_splits)
  have "(if redeems x e then 1 else 0) + open_codes st' x \<le> open_codes st x" for x
  proof (cases "x = code")
    case True
    with no e codes(2) st' show ?thesis
      by (cases "code \<in> members (app_codes st)") (simp_all add: redeems_def open_codes_def)
  next
    case False
    with e Some codes(2) st' show ?thesis by (simp add: redeems_def open_codes_def)
  qed
  with codes(1) st' show ?thesis by (simp add: balanced_def trans_le_add2)
qed

lemma handle_balanced:
  assumes wf: "set_wf (app_codes st)" and h: "handle c st hs rnd req = (ans, st')"
    and e: "e_req e = req" "e_ans e = ans"
  shows "balanced st st' e"
proof -
  consider "app_codes st' = app_codes st" "\<forall>b. req \<noteq> RedeemCode b" | "req = WipeCodes"
    | b where "req = GenerateCode b" | b where "req = RedeemCode b"
    using handle_codes_frame [OF h] by blast
  then show ?thesis
  proof cases
    case 1
    with wf e show ?thesis by (simp add: balanced_def redeems_def open_codes_def)
  next
    case 2
    with h wipe_codes_cases [OF wf] wf e show ?thesis
      by (auto simp: balanced_def redeems_def open_codes_def handle_defs split: sum.splits outcome.splits)
  next
    case 3
    with handle_generate [OF wf, of c hs rnd b ans st' e] h e show ?thesis by simp
  next
    case 4
    with handle_redeem [OF wf, of c hs rnd b ans st' e] h e show ?thesis by simp
  qed
qed

lemma run_balanced:
  assumes "run c st0 st log"
  shows "set_wf (app_codes st) \<and>
    length (filter (redeems code) log) + open_codes st code \<le> length (filter (generates code) log)"
  using assms
proof (induction rule: run.induct)
  case start
  then show ?case by (simp add: open_codes_def) (simp add: in_memory_set_default_def)
next
  case (request st log hs rnd req ans st')
  let ?e = "\<lparr>e_now = app_now st, e_headers = hs, e_rnd = rnd, e_req = req, e_ans = ans\<rparr>"
  from handle_balanced [of st c hs rnd req ans st' ?e] request have "balanced st st' ?e" by simp
  then have "set_wf (app_codes st')" "(if redeems code ?e then 1 else 0) + open_codes st' code
      \<le> (if generates code ?e then 1 else 0) + open_codes st code"
    unfolding balanced_def by blast+
  with request.IH show ?case by (simp split: if_splits)
next
  case (expire st log i codes)
  from fire_timer_wf [OF _ expire.hyps(2)] expire.IH have "set_wf codes" "members codes \<subseteq> members (app_codes st)"
    by auto
  with expire.IH show ?case by (auto simp: open_codes_def split: if_splits)
qed (simp_all add: open_codes_def)

section \<open>Invitations expire\<close>

text \<open>Every timer of the code set belongs to an invitation of the log.\<close>

definition timers_logged :: "('k, 'w) app \<Rightarrow> log_entry list \<Rightarrow> bool" where
  "timers_logged st log \<longleftrightarrow>
     (\<forall>(code, d) \<in> set (timers (app_codes st)). \<exists>e \<in> set log. generates code e \<and> d = e_now e + THIRTY_MINUTES_AS_SECS)"

lemma timers_logged_mono:
  "timers_logged st log \<Longrightarrow> set (timers (app_codes st')) \<subseteq> set (timers (app_codes st)) \<Longrightarrow> timers_logged st' (log @ log')"
  unfolding timers_logged_def by fastforce

lemma handle_timers:
  assumes "handle c st hs rnd req = (ans, st')"
  shows "timers (app_codes st') = timers (app_codes st) \<or>
    (\<exists>code. ans = ACode code \<and>
       timers (app_codes st') = timers (app_codes st) @ [(code, app_now st + THIRTY_MINUTES_AS_SECS)])"
  using assms
  by (cases req) (auto simp: handle_defs generate_code_def insert_temp_def wipe_codes_def wipe_def redeem_code_def
      set_remove_def bind_outcome_eq_Done split: option.splits sum.splits prod.splits outcome.splits if_splits)

lemma run_timers:
  assumes "run c st0 st log"
  shows "timers_logged st log"
  using assms
proof (induction rule: run.induct)
  case start
  then show ?case by (simp add: timers_logged_def in_memory_set_default_def)
next
  case (request st log hs rnd req ans st')
  let ?e = "\<lparr>e_now = app_now st, e_headers = hs, e_rnd = rnd, e_req = req, e_ans = ans\<rparr>"
  from handle_timers [OF request.hyps(3)] consider "timers (app_codes st') = timers (app_codes st)"
    | code where "generates code ?e"
      "timers (app_codes st') = timers (app_codes st) @ [(code, e_now ?e + THIRTY_MINUTES_AS_SECS)]"
    by (auto simp: generates_def)
  then show ?case
  proof cases
    case 1
    with timers_logged_mono [OF request.IH, of st'] show ?thesis by (simp only: order_refl)
  next
    case 2
    with timers_logged_mono [OF request.IH, of st "[?e]"] show ?thesis
      unfolding timers_logged_def by auto
  qed
next
  case (expire st log i codes)
  then have "set (timers codes) \<subseteq> set (timers (app_codes st))"
    by (auto simp: fire_timer_def split: if_splits dest: in_set_takeD in_set_dropD)
  with timers_logged_mono [OF expire.IH, of "st\<lparr>app_codes := codes\<rparr>" "[]"] show ?case by simp
qed (simp_all add: timers_logged_def)

section \<open>Prefixes of a log\<close>

lemma run_take: "run c st0 st log \<Longrightarrow> \<exists>st'. run c st0 st' (take n log)"
proof (induction rule: run.induct)
  case start
  then show ?case using run.start by fastforce
next
  case (request st log hs rnd req ans st')
  show ?case
  proof (cases "n \<le> length log")
    case True
    with request.IH show ?thesis by simp
  next
    case False
    with run.request [OF request.hyps] show ?thesis by auto
  qed
qed blast+

text \<open>Before a code is redeemed, it was generated by somebody who may invite.\<close>

lemma redeemed_invited:
  assumes r: "run c st0 st log" and n: "n < length log" "redeems code (log ! n)"
  shows "\<exists>m < n. generates code (log ! m)"
proof -
  obtain st' where p: "run c st0 st' (take (Suc n) log)" using run_take [OF r] by blast
  have "log ! n \<in> set (filter (redeems code) (take (Suc n) log))"
    using n by (simp add: take_Suc_conv_app_nth)
  then have "0 < length (filter (redeems code) (take (Suc n) log))" by (rule length_pos_if_in_set)
  with run_balanced [OF p, of code] have "0 < length (filter (generates code) (take (Suc n) log))" by linarith
  then have "filter (generates code) (take (Suc n) log) \<noteq> []" by (simp only: length_greater_0_conv not_False_eq_True)
  then obtain m where m: "m < length (take (Suc n) log)" "generates code (take (Suc n) log ! m)"
    by (auto simp: filter_empty_conv in_set_conv_nth)
  have "m \<noteq> n" using m n by (auto simp: redeems_def generates_def)
  with m n(1) show ?thesis by (intro exI [of _ m]) simp
qed

section \<open>What an accepted session proves\<close>

text \<open>
  The history behind a user's session: the code was redeemed recently, and before that an
  administrator who may invite generated it. The history behind a session of the first
  administrator: a challenge for key 0 was signed with that key at a recent login.
\<close>

definition user_invited ::
  "('k, 'd, 'w) config \<Rightarrow> 'k jwt_keys \<Rightarrow> nat \<Rightarrow> log_entry list \<Rightarrow> nat \<Rightarrow> guest_code \<Rightarrow> bool" where
  "user_invited c K tolerance log now code \<longleftrightarrow>
     (\<exists>m n. m < n \<and> n < length log \<and> e_ans (log ! m) = ACode code \<and>
        e_req (log ! n) = RedeemCode (Some code) \<and> now \<le> e_now (log ! n) + 6 * 60 * 60 + tolerance \<and>
        (\<exists>body admin. e_req (log ! m) = GenerateCode body \<and> can_invite admin \<and>
           admin_from_request (cfg_jwt c) K (e_now (log ! m)) (e_headers (log ! m)) = Inr admin))"

definition first_key_signed :: "('k, 'd, 'w) config \<Rightarrow> nat \<Rightarrow> log_entry list \<Rightarrow> nat \<Rightarrow> bool" where
  "first_key_signed c tolerance log now \<longleftrightarrow>
     (\<exists>m n bytes resp r s. m < n \<and> n < length log \<and>
        e_req (log ! m) = InitiateChallenge (Some 0) \<and> rnd_bytes (e_rnd (log ! m)) = Some bytes \<and>
        e_req (log ! n) = FinishChallenge (Some resp) \<and>
        b64_dec (cfg_b64 c) (fst resp) = Some r \<and> b64_dec (cfg_b64 c) (snd resp) = Some s \<and>
        ecdsa_verify (cfg_p256 c) (hex debug_pubkey) bytes (r @ s) \<and>
        now \<le> e_now (log ! n) + 30 * 60 + tolerance)"

lemma user_session_invited:
  assumes J: "jwt_laws (cfg_jwt c) tolerance" and r: "run c st0 st log"
    and f: "unforged (cfg_jwt c) (app_keys st) (app_now st) log hs" and u: "user_of c st hs = Inr u"
  shows "user_invited c (app_keys st) tolerance log (app_now st) (user_code u)"
proof -
  have log: "log_ok c (app_keys st) log" using run_log_ok [OF r] run_keys [OF r] by simp
  from u have "user_from_request (cfg_jwt c) (app_keys st) (app_now st) hs = Inr u" by (simp add: user_of_def)
  from jwt_laws.accepted_user [OF J refl log f this] obtain n t where
    n: "n < length log" "e_req (log ! n) = RedeemCode (Some (user_code u))" "e_ans (log ! n) = AText t"
      "app_now st \<le> e_now (log ! n) + 6 * 60 * 60 + tolerance"
    by (auto simp: in_set_conv_nth)
  then have "redeems (user_code u) (log ! n)" by (simp add: redeems_def)
  from redeemed_invited [OF r n(1) this] obtain m where
    m: "m < n" "e_ans (log ! m) = ACode (user_code u)" by (auto simp: generates_def)
  with n(1) log have "entry_ok c (app_keys st) (log ! m)" unfolding log_ok_def by (meson less_trans)
  with m(2) have "\<exists>body admin. e_req (log ! m) = GenerateCode body \<and>
      admin_from_request (cfg_jwt c) (app_keys st) (e_now (log ! m)) (e_headers (log ! m)) = Inr admin \<and> can_invite admin"
    by (simp add: entry_proves_def)
  with m n show ?thesis unfolding user_invited_def by blast
qed

lemma powerful_session_signed:
  assumes J: "jwt_laws (cfg_jwt c) tolerance" and r: "run c st0 st log"
    and f: "unforged (cfg_jwt c) (app_keys st) (app_now st) log hs" and a: "admin_of c st hs = Inr a"
    and b64: "\<And>bytes. b64_dec (cfg_b64 c) (b64_enc (cfg_b64 c) bytes) = Some bytes"
    and power: "can_create a \<or> can_docker a \<or> can_host_demo a"
  shows "admin_id a = 0 \<and> first_key_signed c tolerance log (app_now st)"
proof -
  have log: "log_ok c (app_keys st) log" using run_log_ok [OF r] run_keys [OF r] by simp
  from a have "admin_from_request (cfg_jwt c) (app_keys st) (app_now st) hs = Inr a" by (simp add: admin_of_def)
  from jwt_laws.accepted_admin [OF J refl log f this b64] obtain m n pk bytes resp r s where
    p: "m < n" "n < length log" "e_req (log ! m) = InitiateChallenge (Some (admin_id a))"
      "rnd_bytes (e_rnd (log ! m)) = Some bytes" "e_req (log ! n) = FinishChallenge (Some resp)"
      "b64_dec (cfg_b64 c) (fst resp) = Some r" "b64_dec (cfg_b64 c) (snd resp) = Some s"
    and key: "map_of admin_auth (admin_id a) = Some (pk, a)" "ecdsa_verify (cfg_p256 c) (hex pk) bytes (r @ s)"
    and t: "app_now st \<le> e_now (log ! n) + 30 * 60 + tolerance"
    by (elim exE conjE) (rule that; assumption)
  have id: "admin_id a = 0" using admin_auth_powers [OF key(1)] power by blast
  with key(1) have "pk = debug_pubkey" by (simp add: admin_auth_def)
  with id p key(2) t show ?thesis unfolding first_key_signed_def by (intro conjI exI) simp_all
qed

end
