(* ===== verification/Archive.thy ===== *)
theory Archive
  imports Challenges
begin

text \<open>
  The invariant of the archive's data, beyond what single rows promise, and that every
  handler keeps it. Part of it is enforced by the database (keys, references, checks), part
  of it only by the handlers: stored dates can be shown again, port lists have equal
  lengths and no NULLs, image names are short.
\<close>

section \<open>The invariant\<close>

definition ctfs_ok :: "'d chrono \<Rightarrow> 'd tables \<Rightarrow> bool" where
  "ctfs_ok C T \<longleftrightarrow> distinct (map ctf_id (t_ctfs T)) \<and> distinct (map ctf_name (t_ctfs T)) \<and>
     (\<forall>r \<in> set (t_ctfs T). nd_le C (ctf_start r) (ctf_end r) \<and>
        date_try_from C (ctf_start r) \<noteq> None \<and> date_try_from C (ctf_end r) \<noteq> None)"

definition categories_ok :: "'d tables \<Rightarrow> bool" where
  "categories_ok T \<longleftrightarrow> distinct (map cat_id (t_categories T)) \<and> distinct (map cat_name (t_categories T)) \<and>
     (\<forall>r \<in> set (t_categories T). category_type_parse (cat_type r) \<noteq> None \<and> cat_ctf r \<in> ctf_id ` set (t_ctfs T))"

definition row_ok :: "challenge_row \<Rightarrow> bool" where
  "row_ok r \<longleftrightarrow> None \<notin> set (ch_port_numbers r) \<and> None \<notin> set (ch_port_types r) \<and>
     length (ch_port_numbers r) = length (ch_port_types r) \<and>
     (\<forall>img. ch_docker_image r = Some img \<longrightarrow> rust_string img \<and> char_count img \<le> 63)"

text \<open>No image belongs to two challenges.\<close>

definition images_unique :: "challenge_row list \<Rightarrow> bool" where
  "images_unique rows \<longleftrightarrow>
     (\<forall>r \<in> set rows. \<forall>r' \<in> set rows. \<forall>img.
        ch_docker_image r = Some img \<and> ch_docker_image r' = Some img \<longrightarrow> ch_id r = ch_id r')"

definition challenges_ok :: "'d tables \<Rightarrow> bool" where
  "challenges_ok T \<longleftrightarrow> distinct (map ch_id (t_challenges T)) \<and>
     distinct (map (\<lambda>r. (ch_name r, ch_category r)) (t_challenges T)) \<and>
     images_unique (t_challenges T) \<and>
     (\<forall>r \<in> set (t_challenges T). row_ok r \<and> ch_category r \<in> cat_id ` set (t_categories T))"

definition archive_ok :: "'d chrono \<Rightarrow> 'd tables \<Rightarrow> bool" where
  "archive_ok C T \<longleftrightarrow> ctfs_ok C T \<and> categories_ok T \<and> challenges_ok T"

lemma archive_ok_empty: "archive_ok C \<lparr>t_ctfs = [], t_categories = [], t_challenges = []\<rparr>"
  by (simp add: archive_ok_def ctfs_ok_def categories_ok_def challenges_ok_def images_unique_def)

section \<open>Rows keep it\<close>

lemma images_unique_snoc: "images_unique rows \<Longrightarrow> ch_docker_image row = None \<Longrightarrow> images_unique (rows @ [row])"
  by (auto simp: images_unique_def)

lemma archive_ok_ctf:
  assumes "archive_ok C T" "insert_ctf_law C n T r T'"
    and "date_try_from C (nctf_start n) \<noteq> None" "date_try_from C (nctf_end n) \<noteq> None"
  shows "archive_ok C T'"
proof (cases r)
  case (Inl e)
  with assms(1,2) show ?thesis by (simp add: insert_ctf_law_def insert_law_def)
next
  case (Inr i)
  with assms(2) obtain row where row: "store_ctf i n = Some row" "i \<notin> ctf_id ` set (t_ctfs T)"
    "nd_le C (ctf_start row) (ctf_end row)" "ctf_name row \<notin> ctf_name ` set (t_ctfs T)"
    "T' = T\<lparr>t_ctfs := t_ctfs T @ [row]\<rparr>"
    by (auto simp: insert_ctf_law_def insert_law_def check_ok_def ends_after_start_def ctf_unique_def)
  from row(1) have "ctf_id row = i" "ctf_start row = nctf_start n" "ctf_end row = nctf_end n"
    by (auto simp: store_ctf_def split: option.splits)
  with row assms(1,3,4) have "ctfs_ok C T'" by (simp add: archive_ok_def ctfs_ok_def)
  moreover have "categories_ok T'" "challenges_ok T'"
    using row(5) assms(1) by (auto simp: archive_ok_def categories_ok_def challenges_ok_def)
  ultimately show ?thesis by (simp add: archive_ok_def)
qed

lemma archive_ok_category:
  assumes "archive_ok C T" "insert_category_law n T r T'"
  shows "archive_ok C T'"
proof (cases r)
  case (Inl e)
  with assms(1,2) show ?thesis by (simp add: insert_category_law_def insert_law_def)
next
  case (Inr i)
  with assms(2) obtain row where row: "store_category i n = Some row" "i \<notin> cat_id ` set (t_categories T)"
    "category_type_parse (cat_type row) \<noteq> None" "cat_name row \<notin> cat_name ` set (t_categories T)"
    "cat_ctf row \<in> ctf_id ` set (t_ctfs T)" "T' = T\<lparr>t_categories := t_categories T @ [row]\<rparr>"
    by (auto simp: insert_category_law_def insert_law_def category_check_parses category_unique_def category_refs_def)
  from row(1) have "cat_id row = i" by (auto simp: store_category_def split: option.splits)
  with row assms(1) have "categories_ok T'" by (simp add: archive_ok_def categories_ok_def)
  moreover have "ctfs_ok C T'" "challenges_ok T'"
    using row(6) assms(1) by (auto simp: archive_ok_def ctfs_ok_def challenges_ok_def)
  ultimately show ?thesis by (simp add: archive_ok_def)
qed

lemma archive_ok_challenge:
  assumes "archive_ok C T" "insert_challenge_law n T r T'" "length (nch_port_numbers n) = length (nch_port_types n)"
  shows "archive_ok C T'"
proof (cases r)
  case (Inl e)
  with assms(1,2) show ?thesis by (simp add: insert_challenge_law_def insert_law_def)
next
  case (Inr i)
  with assms(2) obtain row where row: "store_challenge i n = Some row" "i \<notin> ch_id ` set (t_challenges T)"
    "(ch_name row, ch_category row) \<notin> (\<lambda>c. (ch_name c, ch_category c)) ` set (t_challenges T)"
    "ch_category row \<in> cat_id ` set (t_categories T)" "T' = T\<lparr>t_challenges := t_challenges T @ [row]\<rparr>"
    by (auto simp: insert_challenge_law_def insert_law_def challenge_unique_def challenge_refs_def)
  from row(1) have "ch_id row = i" "ch_docker_image row = None" "row_ok row"
    using assms(3) by (auto simp: store_challenge_def row_ok_def split: option.splits)
  moreover have "challenges_ok T" using assms(1) by (simp add: archive_ok_def)
  ultimately have "challenges_ok T'"
    using row(2-5) by (auto simp: challenges_ok_def images_unique_snoc)
  with row(5) assms(1) show ?thesis by (simp add: archive_ok_def ctfs_ok_def categories_ok_def)
qed

text \<open>Changing one row, for a change that keeps its keys.\<close>

lemma images_unique_change:
  assumes "images_unique (t_challenges T)" "\<And>r. ch_id (f r) = ch_id r"
    and img: "\<And>r. ch_docker_image (f r) = ch_docker_image r \<or>
      (\<exists>i'. ch_docker_image (f r) = Some i' \<and> docker_unique T i i')"
  shows "images_unique (t_challenges (change_row i f T))"
proof -
  let ?g = "\<lambda>r. if ch_id r = i then f r else r"
  have iu: "ch_id r = ch_id s" if "r \<in> set (t_challenges T)" "s \<in> set (t_challenges T)"
    "ch_docker_image r = Some j" "ch_docker_image s = Some j" for r s j
    using assms(1) that unfolding images_unique_def by blast
  have g: "ch_id (?g r) = ch_id (?g s)"
    if rs: "r \<in> set (t_challenges T)" "s \<in> set (t_challenges T)"
      and eq: "ch_docker_image (?g r) = Some j" "ch_docker_image (?g s) = Some j" for r s j
  proof (cases "ch_id r = i \<longleftrightarrow> ch_id s = i")
    case True
    with assms(2) rs eq iu [of r s j] show ?thesis by (cases "ch_id r = i") simp_all
  next
    case False
    then obtain x y where xy: "x \<in> set (t_challenges T)" "y \<in> set (t_challenges T)" "ch_id x = i" "ch_id y \<noteq> i"
      "ch_docker_image (f x) = Some j" "ch_docker_image y = Some j" "{x, y} = {r, s}"
      using rs eq by (cases "ch_id r = i") (force, force)
    with img [of x] have "ch_docker_image x = Some j" by (auto simp: docker_unique_def)
    with xy iu [of x y j] show ?thesis by simp
  qed
  have rows: "set (t_challenges (change_row i f T)) = ?g ` set (t_challenges T)" by (simp add: change_row_def)
  show ?thesis
    unfolding images_unique_def rows
  proof (intro ballI allI impI)
    fix x y j assume "x \<in> ?g ` set (t_challenges T)" "y \<in> ?g ` set (t_challenges T)"
      and eq: "ch_docker_image x = Some j \<and> ch_docker_image y = Some j"
    then obtain r s where "x = ?g r" "y = ?g s" "r \<in> set (t_challenges T)" "s \<in> set (t_challenges T)"
      by (elim imageE)
    with g eq show "ch_id x = ch_id y" by blast
  qed
qed

lemma challenges_ok_change:
  assumes ok: "challenges_ok T"
    and keep: "\<And>r. ch_id (f r) = ch_id r \<and> ch_name (f r) = ch_name r \<and> ch_category (f r) = ch_category r"
    and row: "\<And>r. row_ok r \<Longrightarrow> row_ok (f r)"
    and img: "\<And>r. ch_docker_image (f r) = ch_docker_image r \<or>
      (\<exists>i'. ch_docker_image (f r) = Some i' \<and> docker_unique T i i')"
  shows "challenges_ok (change_row i f T)"
proof -
  let ?g = "\<lambda>r. if ch_id r = i then f r else r"
  have rows: "t_challenges (change_row i f T) = map ?g (t_challenges T)" "t_categories (change_row i f T) = t_categories T"
    by (simp_all add: change_row_def)
  have "map ch_id (map ?g (t_challenges T)) = map ch_id (t_challenges T)"
    "map (\<lambda>r. (ch_name r, ch_category r)) (map ?g (t_challenges T)) = map (\<lambda>r. (ch_name r, ch_category r)) (t_challenges T)"
    using keep by auto
  moreover have "images_unique (t_challenges (change_row i f T))"
    using ok keep img by (intro images_unique_change) (simp_all add: challenges_ok_def)
  moreover have "\<forall>r \<in> set (map ?g (t_challenges T)). row_ok r \<and> ch_category r \<in> cat_id ` set (t_categories T)"
    using ok row keep by (auto simp: challenges_ok_def)
  ultimately show ?thesis using ok unfolding challenges_ok_def rows by presburger
qed

lemma archive_ok_change:
  "archive_ok C T \<Longrightarrow> challenges_ok (change_row i f T) \<Longrightarrow> archive_ok C (change_row i f T)"
  by (simp add: archive_ok_def ctfs_ok_def categories_ok_def change_row_def)

lemma archive_ok_docker:
  assumes "archive_ok C T" "update_docker_law i img nums types T r T'"
    and "rust_string img" "length nums = length types"
  shows "archive_ok C T'"
proof -
  from assms(2) consider "T' = T"
    | img' where "varchar 63 img = Some img'" "docker_unique T i img'" "T' = change_row i (set_docker img' nums types) T"
    by (auto simp: update_docker_law_def update_law_def split: sum.splits if_splits)
  then show ?thesis
  proof cases
    case 2
    have "rust_string img' \<and> char_count img' \<le> 63"
      using varchar_rust_string [OF 2(1) assms(3)] varchar_Some [OF 2(1)] by blast
    moreover have "challenges_ok T" using assms(1) by (simp add: archive_ok_def)
    ultimately have "challenges_ok (change_row i (set_docker img' nums types) T)"
      using 2(2) assms(4) by (intro challenges_ok_change) (auto simp: set_docker_def row_ok_def)
    with archive_ok_change [OF assms(1)] 2(3) show ?thesis by simp
  qed (use assms(1) in simp)
qed

lemma archive_ok_instructions:
  assumes "archive_ok C T" "update_instructions_law i s T r T'"
  shows "archive_ok C T'"
proof -
  from assms(2) consider "T' = T" | t where "T' = change_row i (ch_instructions_update (\<lambda>_. t)) T"
    by (auto simp: update_instructions_law_def update_law_def split: sum.splits if_splits)
  moreover have "challenges_ok (change_row i (ch_instructions_update (\<lambda>_. t)) T)" for t
    using assms(1) by (intro challenges_ok_change) (auto simp: row_ok_def archive_ok_def)
  ultimately show ?thesis using archive_ok_change [OF assms(1)] assms(1) by cases simp_all
qed

lemma archive_ok_archive:
  assumes "archive_ok C T" "update_archive_law i a T r T'"
  shows "archive_ok C T'"
proof -
  from assms(2) consider "T' = T" | "T' = change_row i (ch_archive_update (\<lambda>_. a)) T"
    by (auto simp: update_archive_law_def update_law_def split: sum.splits if_splits)
  moreover have "challenges_ok (change_row i (ch_archive_update (\<lambda>_. a)) T)"
    using assms(1) by (intro challenges_ok_change) (auto simp: row_ok_def archive_ok_def)
  ultimately show ?thesis using archive_ok_change [OF assms(1)] assms(1) by cases simp_all
qed

section \<open>Handlers keep it\<close>

text \<open>The database next to the daemon's socket: talking to the daemon leaves the tables alone.\<close>

locale archive_world = db_laws D C ok tables + chrono_laws C
  for D :: "('d, 'w) db" and C :: "'d chrono" and ok :: "'w \<Rightarrow> bool" and tables :: "'w \<Rightarrow> 'd tables" +
  fixes S :: "'w socket"
  assumes connect: "ok w \<Longrightarrow> sock_connect S path w = (b, w') \<Longrightarrow> ok w' \<and> tables w' = tables w"
    and send: "ok w \<Longrightarrow> sock_send S msg w = (a, w') \<Longrightarrow> ok w' \<and> tables w' = tables w"
begin

definition good :: "'w \<Rightarrow> bool" where
  "good w \<longleftrightarrow> ok w \<and> archive_ok C (tables w)"

definition same :: "'d tables \<Rightarrow> 'w \<Rightarrow> bool" where
  "same T w \<longleftrightarrow> ok w \<and> tables w = T"

lemma same_good: "keeps (same (tables w)) p \<Longrightarrow> good w \<Longrightarrow> p w = (r, w') \<Longrightarrow> good w'"
  using keepsD [of "same (tables w)" p w r w'] by (simp add: same_def good_def)

lemma keeps_same_good: "(\<And>T. keeps (same T) p) \<Longrightarrow> keeps good p"
  using same_good unfolding keeps_def by (metis prod.collapse)

text \<open>Statements that only read.\<close>

lemma same_calls [intro!]:
  "keeps (same T) (call (pool_get D))" "keeps (same T) (call (load_ctfs D))"
  "keeps (same T) (call (load_categories D i))" "keeps (same T) (call (load_challenge_ids D i))"
  "keeps (same T) (call (find_challenge D i))" "keeps (same T) (call (sock_connect S path))"
  "keeps (same T) (call (sock_send S msg))"
  by (rule keeps_call, simp add: same_def, metis get ctfs categories challenge_ids found connect send)+

lemma same_with_conn [intro!]: "keeps (same T) p \<Longrightarrow> keeps (same T) (with_conn D p)"
  unfolding with_conn_def by blast

lemma good_with_conn [intro!]: "keeps good p \<Longrightarrow> keeps good (with_conn D p)"
  unfolding with_conn_def using keeps_same_good [OF same_calls(1)] by blast

lemma same_await [intro!]: "keeps (same T) (await r)"
  unfolding await_def by (cases r) (simp_all, blast+)

lemma same_start_container [intro!]: "keeps (same T) (start_container S i ps m)"
  unfolding start_container_def Let_def by (auto split: option.split)

lemma keeps_pure [intro!]: "keeps P (\<lambda>w. (f w, w))"
  by (simp add: keeps_def)

lemma same_start_prepare [intro!]: "keeps (same T) (start_prepare D i)"
  unfolding start_prepare_def by (auto split: sum.split option.split db_error.split)

lemma same_start_challenge [intro!]: "keeps (same T) (start_challenge D S i m)"
  unfolding start_challenge_def start_answer_def by (auto split: sum.split)

lemma readers_same:
  "keeps (same T) (ctfs_list D C)" "keeps (same T) (categories_get D i)" "keeps (same T) (challenges_list D i)"
  "keeps (same T) (get_metadata D i)" "keeps (same T) (get_archive D i)" "keeps (same T) (get_flag D i)"
  "keeps (same T) (start_handler D S i u)" "keeps (same T) (host_demo D S i a)"
  unfolding ctfs_list_def categories_get_def challenges_list_def get_metadata_def get_archive_def get_flag_def
    start_handler_def host_demo_def
  by (auto split: sum.split)

text \<open>Statements that write.\<close>

lemma insert_ctf_good:
  "date_try_into C s = Some x \<Longrightarrow> date_try_into C e = Some y \<Longrightarrow>
     keeps good (call (insert_ctf D \<lparr>nctf_name = n, nctf_start = x, nctf_end = y\<rparr>))"
proof (rule keeps_call)
  fix w r w'
  assume d: "date_try_into C s = Some x" "date_try_into C e = Some y" and "good w"
    and i: "insert_ctf D \<lparr>nctf_name = n, nctf_start = x, nctf_end = y\<rparr> w = (r, w')"
  let ?n = "\<lparr>nctf_name = n, nctf_start = x, nctf_end = y\<rparr>"
  from \<open>good w\<close> i have "ok w'" "insert_ctf_law C ?n (tables w) r (tables w')" "archive_ok C (tables w)"
    using ctf by (auto simp: good_def)
  with archive_ok_ctf [of C "tables w" ?n r "tables w'"] try_from_into [OF d(1)] try_from_into [OF d(2)]
  show "good w'" by (simp add: good_def)
qed

lemma insert_category_good: "keeps good (call (insert_category D n))"
  by (rule keeps_call) (metis good_def category archive_ok_category)

lemma insert_challenge_good:
  "length (nch_port_numbers n) = length (nch_port_types n) \<Longrightarrow> keeps good (call (insert_challenge D n))"
  by (rule keeps_call) (metis good_def challenge archive_ok_challenge)

lemma update_docker_good:
  "rust_string img \<Longrightarrow> length nums = length types \<Longrightarrow> keeps good (call (update_docker D i img nums types))"
  by (rule keeps_call) (metis good_def docker archive_ok_docker)

lemma update_instructions_good: "keeps good (call (update_instructions D i s))"
  by (rule keeps_call) (metis good_def instructions archive_ok_instructions)

lemma update_archive_good: "keeps good (call (update_archive D i a))"
  by (rule keeps_call) (metis good_def archive archive_ok_archive)

lemma keeps_unwrap: "(\<And>v. r = Some v \<Longrightarrow> keeps P (f v)) \<Longrightarrow> keeps P (bind_prog (lift (unwrap r)) f)"
  by (cases r) (auto simp: keeps_def)

lemma ctfs_create_good: "keeps good (ctfs_create D C a c)"
  unfolding ctfs_create_def
  by (auto intro!: keeps_unwrap simp del: unwrap_simps intro: insert_ctf_good)

lemma categories_create_good: "keeps good (categories_create D a c)"
  unfolding categories_create_def by (auto intro!: insert_category_good)

lemma challenges_create_good: "keeps good (challenges_create D q a m)"
  unfolding challenges_create_def by (auto intro!: insert_challenge_good split: sum.split)

lemma configure_docker_good: "rust_string img \<Longrightarrow> keeps good (configure_docker D a i img ps)"
  unfolding configure_docker_def Let_def by (auto intro!: update_docker_good)

lemma set_connection_instructions_good: "keeps good (set_connection_instructions D a i s)"
  unfolding set_connection_instructions_def by (auto intro!: update_instructions_good)

lemma set_archive_good: "keeps good (set_archive D i a m)"
  unfolding set_archive_def by (auto intro!: update_archive_good split: sum.split)

lemmas handlers_good = ctfs_create_good categories_create_good challenges_create_good
  set_connection_instructions_good set_archive_good readers_same [THEN keeps_same_good]

end

end
