(* ===== verification/Pg.thy ===== *)
theory Pg
  imports Archive
begin

text \<open>
  A database that keeps the laws: tables as lists, ids from one sequence per table, the
  constraints checked in PostgreSQL's order (column sizes, checks, uniqueness, references).
  A sequence moves on even when the insertion then fails. Beside it a socket whose other
  end answers with a fixed function and remembers what it was sent.
\<close>

record 'd pg =
  pg_tables :: "'d tables"
  pg_ctf_seq :: i32
  pg_category_seq :: i32
  pg_challenge_seq :: i32
  pg_pool :: bool
  pg_sent :: "u8 list list"

definition pg_empty :: "'d pg" where
  "pg_empty = \<lparr>pg_tables = \<lparr>t_ctfs = [], t_categories = [], t_challenges = []\<rparr>,
     pg_ctf_seq = 1, pg_category_seq = 1, pg_challenge_seq = 1, pg_pool = True, pg_sent = []\<rparr>"

definition pg_insert ::
  "(i32 \<Rightarrow> 'r option) \<Rightarrow> ('r \<Rightarrow> bool) \<Rightarrow> ('r \<Rightarrow> bool) \<Rightarrow> ('r \<Rightarrow> bool) \<Rightarrow> ('r \<Rightarrow> 't) \<Rightarrow> i32 \<Rightarrow> 't \<Rightarrow>
     (db_error + i32) \<times> 't" where
  "pg_insert stored checks unique refs add i T =
     (if i \<ge> 2 ^ 31 then (Inl OtherError, T)
      else (case stored i of
         None \<Rightarrow> (Inl OtherError, T)
       | Some row \<Rightarrow>
           if \<not> checks row then (Inl CheckViolation, T)
           else if \<not> unique row then (Inl UniqueViolation, T)
           else if \<not> refs row then (Inl ForeignKeyViolation, T)
           else (Inr i, add row)))"

lemma pg_insert_law:
  "pg_insert stored checks unique refs add i T = (r, T') \<Longrightarrow> fresh i \<Longrightarrow>
     insert_law stored fresh checks unique refs add T r T'"
  by (auto simp: pg_insert_def insert_law_def split: if_splits option.splits) blast+

definition pg_update ::
  "i32 \<Rightarrow> (challenge_row \<Rightarrow> challenge_row) option \<Rightarrow> bool \<Rightarrow> bool \<Rightarrow> 'd tables \<Rightarrow> (db_error + nat) \<times> 'd tables" where
  "pg_update i change checks unique T =
     (let n = length (filter (\<lambda>r. ch_id r = i) (t_challenges T)) in
      if n = 0 then (Inr 0, T)
      else (case change of
         None \<Rightarrow> (Inl OtherError, T)
       | Some f \<Rightarrow>
           if \<not> checks then (Inl CheckViolation, T)
           else if \<not> unique then (Inl UniqueViolation, T)
           else (Inr n, change_row i f T)))"

lemma pg_update_law: "pg_update i change checks unique T = (r, T') \<Longrightarrow> update_law i change checks unique T r T'"
  by (auto simp: pg_update_def update_law_def Let_def split: if_splits option.splits)

text \<open>Run on the tables of the world.\<close>

definition on_tables :: "('d tables \<Rightarrow> 'a \<times> 'd tables) \<Rightarrow> 'd pg \<Rightarrow> 'a \<times> 'd pg" where
  "on_tables f w = (let (r, T) = f (pg_tables w) in (r, w\<lparr>pg_tables := T\<rparr>))"

definition docker_fits :: "'d tables \<Rightarrow> i32 \<Rightarrow> string \<Rightarrow> bool" where
  "docker_fits T i img = (case varchar 63 img of Some img' \<Rightarrow> docker_unique T i img' | None \<Rightarrow> True)"

definition pg_db :: "'d chrono \<Rightarrow> ('d, 'd pg) db" where
  "pg_db C = \<lparr>
     pool_get = (\<lambda>w. (pg_pool w, w)),
     load_ctfs = (\<lambda>w. (Inr (map ctf_columns (t_ctfs (pg_tables w))), w)),
     insert_ctf = (\<lambda>n w. on_tables (\<lambda>T. pg_insert (\<lambda>i. store_ctf i n)
       (\<lambda>r. check_ok (ends_after_start C (ctf_end r) (ctf_start r))) (ctf_unique T) (\<lambda>_. True)
       (\<lambda>r. T\<lparr>t_ctfs := t_ctfs T @ [r]\<rparr>) (pg_ctf_seq w) T) (w\<lparr>pg_ctf_seq := pg_ctf_seq w + 1\<rparr>)),
     load_categories = (\<lambda>i w.
       (Inr (map category_columns (filter (\<lambda>c. cat_ctf c = i) (t_categories (pg_tables w)))), w)),
     insert_category = (\<lambda>n w. on_tables (\<lambda>T. pg_insert (\<lambda>i. store_category i n)
       (\<lambda>r. check_ok (valid_category_type (cat_type r))) (category_unique T) (category_refs T)
       (\<lambda>r. T\<lparr>t_categories := t_categories T @ [r]\<rparr>) (pg_category_seq w) T) (w\<lparr>pg_category_seq := pg_category_seq w + 1\<rparr>)),
     load_challenge_ids = (\<lambda>i w. (Inr (ids_of_category (pg_tables w) i), w)),
     find_challenge = (\<lambda>i w.
       (case find_row (pg_tables w) i of Some r \<Rightarrow> Inr r | None \<Rightarrow> Inl NotFound, w)),
     insert_challenge = (\<lambda>n w. on_tables (\<lambda>T. pg_insert (\<lambda>i. store_challenge i n)
       (\<lambda>r. ports_checked (ch_port_numbers r) (ch_port_types r)) (challenge_unique T) (challenge_refs T)
       (\<lambda>r. T\<lparr>t_challenges := t_challenges T @ [r]\<rparr>) (pg_challenge_seq w) T) (w\<lparr>pg_challenge_seq := pg_challenge_seq w + 1\<rparr>)),
     update_docker = (\<lambda>i img nums types. on_tables (\<lambda>T.
       pg_update i (map_option (\<lambda>img. set_docker img nums types) (varchar 63 img)) (ports_checked nums types)
         (docker_fits T i img) T)),
     update_instructions = (\<lambda>i s. on_tables
       (pg_update i (map_option (\<lambda>s. ch_instructions_update (\<lambda>_. s)) (varchar_opt 255 s)) True True)),
     update_archive = (\<lambda>i a. on_tables (pg_update i (Some (ch_archive_update (\<lambda>_. a))) True True))\<rparr>"

definition pg_socket :: "(u8 list \<Rightarrow> stream) \<Rightarrow> 'd pg socket" where
  "pg_socket answer = \<lparr>
     sock_error_text = (\<lambda>_. ''Connection refused''),
     sock_connect = (\<lambda>path w. (path = ''/etc/challd/challd.sock'', w)),
     sock_send = (\<lambda>msg w. (Some (answer msg), w\<lparr>pg_sent := pg_sent w @ [msg]\<rparr>))\<rparr>"

text \<open>The sequences are ahead of every id in use.\<close>

definition pg_ok :: "'d pg \<Rightarrow> bool" where
  "pg_ok w \<longleftrightarrow> (\<forall>r \<in> set (t_ctfs (pg_tables w)). ctf_id r < pg_ctf_seq w) \<and>
     (\<forall>r \<in> set (t_categories (pg_tables w)). cat_id r < pg_category_seq w) \<and>
     (\<forall>r \<in> set (t_challenges (pg_tables w)). ch_id r < pg_challenge_seq w)"

lemma pg_ok_empty [simp]: "pg_ok pg_empty"
  by (simp add: pg_ok_def pg_empty_def)

lemma on_tables_eq: "on_tables f w = (r, w') \<longleftrightarrow> (\<exists>T. f (pg_tables w) = (r, T) \<and> w' = w\<lparr>pg_tables := T\<rparr>)"
  by (auto simp: on_tables_def split: prod.splits)

lemma pg_insert_result:
  "pg_insert stored checks unique refs add i T = (r, T') \<Longrightarrow> T' = T \<or> (\<exists>row. stored i = Some row \<and> T' = add row)"
  by (auto simp: pg_insert_def split: if_splits option.splits)

lemma store_ids:
  "store_ctf i n = Some r \<Longrightarrow> ctf_id r = i" "store_category i c = Some s \<Longrightarrow> cat_id s = i"
  "store_challenge i h = Some t \<Longrightarrow> ch_id t = i"
  by (auto simp: store_ctf_def store_category_def store_challenge_def split: option.splits)

lemma pg_insert_ctf:
  assumes "pg_ok w" "insert_ctf (pg_db C) n w = (r, w')"
  shows "pg_ok w' \<and> insert_ctf_law C n (pg_tables w) r (pg_tables w')"
proof -
  let ?T = "pg_tables w"
  from assms(2) obtain T where t: "pg_insert (\<lambda>i. store_ctf i n)
       (\<lambda>r. check_ok (ends_after_start C (ctf_end r) (ctf_start r))) (ctf_unique ?T) (\<lambda>_. True)
       (\<lambda>r. ?T\<lparr>t_ctfs := t_ctfs ?T @ [r]\<rparr>) (pg_ctf_seq w) ?T = (r, T)"
    "w' = w\<lparr>pg_ctf_seq := pg_ctf_seq w + 1, pg_tables := T\<rparr>"
    by (auto simp: pg_db_def on_tables_eq)
  have "pg_ctf_seq w \<notin> ctf_id ` set (t_ctfs ?T)" using assms(1) by (auto simp: pg_ok_def)
  then have "insert_ctf_law C n ?T r T"
    using pg_insert_law [OF t(1), of "\<lambda>i. i \<notin> ctf_id ` set (t_ctfs ?T)"] by (simp add: insert_ctf_law_def)
  moreover have "pg_ok w'"
    using pg_insert_result [OF t(1)] assms(1) t(2) by (auto simp: pg_ok_def less_imp_le dest!: store_ids)
  ultimately show ?thesis using t(2) by simp
qed

lemma pg_insert_category:
  assumes "pg_ok w" "insert_category (pg_db C) n w = (r, w')"
  shows "pg_ok w' \<and> insert_category_law n (pg_tables w) r (pg_tables w')"
proof -
  let ?T = "pg_tables w"
  from assms(2) obtain T where t: "pg_insert (\<lambda>i. store_category i n)
       (\<lambda>r. check_ok (valid_category_type (cat_type r))) (category_unique ?T) (category_refs ?T)
       (\<lambda>r. ?T\<lparr>t_categories := t_categories ?T @ [r]\<rparr>) (pg_category_seq w) ?T = (r, T)"
    "w' = w\<lparr>pg_category_seq := pg_category_seq w + 1, pg_tables := T\<rparr>"
    by (auto simp: pg_db_def on_tables_eq)
  have "pg_category_seq w \<notin> cat_id ` set (t_categories ?T)" using assms(1) by (auto simp: pg_ok_def)
  then have "insert_category_law n ?T r T"
    using pg_insert_law [OF t(1), of "\<lambda>i. i \<notin> cat_id ` set (t_categories ?T)"] by (simp add: insert_category_law_def)
  moreover have "pg_ok w'"
    using pg_insert_result [OF t(1)] assms(1) t(2) by (auto simp: pg_ok_def less_imp_le dest!: store_ids)
  ultimately show ?thesis using t(2) by simp
qed

lemma pg_insert_challenge:
  assumes "pg_ok w" "insert_challenge (pg_db C) n w = (r, w')"
  shows "pg_ok w' \<and> insert_challenge_law n (pg_tables w) r (pg_tables w')"
proof -
  let ?T = "pg_tables w"
  from assms(2) obtain T where t: "pg_insert (\<lambda>i. store_challenge i n)
       (\<lambda>r. ports_checked (ch_port_numbers r) (ch_port_types r)) (challenge_unique ?T) (challenge_refs ?T)
       (\<lambda>r. ?T\<lparr>t_challenges := t_challenges ?T @ [r]\<rparr>) (pg_challenge_seq w) ?T = (r, T)"
    "w' = w\<lparr>pg_challenge_seq := pg_challenge_seq w + 1, pg_tables := T\<rparr>"
    by (auto simp: pg_db_def on_tables_eq)
  have "pg_challenge_seq w \<notin> ch_id ` set (t_challenges ?T)" using assms(1) by (auto simp: pg_ok_def)
  then have "insert_challenge_law n ?T r T"
    using pg_insert_law [OF t(1), of "\<lambda>i. i \<notin> ch_id ` set (t_challenges ?T)"] by (simp add: insert_challenge_law_def)
  moreover have "pg_ok w'"
    using pg_insert_result [OF t(1)] assms(1) t(2) by (auto simp: pg_ok_def less_imp_le dest!: store_ids)
  ultimately show ?thesis using t(2) by simp
qed

lemma pg_update_ok:
  assumes "pg_update i change checks unique (pg_tables w) = (r, T)" "pg_ok w"
    and "\<forall>f. change = Some f \<longrightarrow> (\<forall>x. ch_id (f x) = ch_id x)"
  shows "pg_ok (w\<lparr>pg_tables := T\<rparr>)"
  using assms by (auto simp: pg_update_def pg_ok_def change_row_def Let_def split: if_splits option.splits)

lemma docker_fits_iff: "docker_fits T i img \<longleftrightarrow> (\<forall>img'. varchar 63 img = Some img' \<longrightarrow> docker_unique T i img')"
  by (auto simp: docker_fits_def split: option.splits)

lemma on_tables_update:
  assumes "pg_ok w" "on_tables (\<lambda>T. pg_update i change checks (unique T) T) w = (u, w')"
    and "\<forall>f. change = Some f \<longrightarrow> (\<forall>x. ch_id (f x) = ch_id x)"
  shows "pg_ok w' \<and> update_law i change checks (unique (pg_tables w)) (pg_tables w) u (pg_tables w')"
proof -
  from assms(2) obtain T where t: "pg_update i change checks (unique (pg_tables w)) (pg_tables w) = (u, T)"
    "w' = w\<lparr>pg_tables := T\<rparr>"
    by (auto simp: on_tables_eq)
  from pg_update_ok [OF t(1) assms(1,3)] pg_update_law [OF t(1)] t(2) show ?thesis by simp
qed

lemma pg_update_docker:
  assumes "pg_ok w" "update_docker (pg_db C) i img nums types w = (u, w')"
  shows "pg_ok w' \<and> update_docker_law i img nums types (pg_tables w) u (pg_tables w')"
proof -
  let ?change = "map_option (\<lambda>img. set_docker img nums types) (varchar 63 img)"
  have "\<forall>f. ?change = Some f \<longrightarrow> (\<forall>x. ch_id (f x) = ch_id x)" by (auto simp: set_docker_def)
  moreover have "on_tables (\<lambda>T. pg_update i ?change (ports_checked nums types) (docker_fits T i img) T) w = (u, w')"
    using assms(2) by (simp add: pg_db_def)
  ultimately show ?thesis
    using on_tables_update [of w i ?change "ports_checked nums types" "\<lambda>T. docker_fits T i img" u w'] assms(1)
    unfolding update_docker_law_def docker_fits_iff [symmetric] by blast
qed

lemma pg_update_instructions:
  assumes "pg_ok w" "update_instructions (pg_db C) i t w = (u, w')"
  shows "pg_ok w' \<and> update_instructions_law i t (pg_tables w) u (pg_tables w')"
proof -
  let ?change = "map_option (\<lambda>s. ch_instructions_update (\<lambda>_. s)) (varchar_opt 255 t)"
  have "\<forall>f. ?change = Some f \<longrightarrow> (\<forall>x. ch_id (f x) = ch_id x)" by (auto simp: set_docker_def)
  moreover have "on_tables (\<lambda>T. pg_update i ?change (True) (True) T) w = (u, w')"
    using assms(2) by (simp add: pg_db_def)
  ultimately show ?thesis
    using on_tables_update [of w i ?change "True" "\<lambda>T. True" u w'] assms(1)
    unfolding update_instructions_law_def by blast
qed

lemma pg_update_archive:
  assumes "pg_ok w" "update_archive (pg_db C) i a w = (u, w')"
  shows "pg_ok w' \<and> update_archive_law i a (pg_tables w) u (pg_tables w')"
proof -
  let ?change = "Some (ch_archive_update (\<lambda>_. a))"
  have "\<forall>f. ?change = Some f \<longrightarrow> (\<forall>x. ch_id (f x) = ch_id x)" by (auto simp: set_docker_def)
  moreover have "on_tables (\<lambda>T. pg_update i ?change (True) (True) T) w = (u, w')"
    using assms(2) by (simp add: pg_db_def)
  ultimately show ?thesis
    using on_tables_update [of w i ?change "True" "\<lambda>T. True" u w'] assms(1)
    unfolding update_archive_law_def by blast
qed

lemmas pg_statements = pg_insert_ctf pg_insert_category pg_insert_challenge
  pg_update_docker pg_update_instructions pg_update_archive

interpretation pg_database: db_laws "pg_db gregorian" gregorian pg_ok pg_tables
  by (unfold_locales; ((rule pg_statements, assumption, assumption) | auto simp: pg_db_def pg_ok_def split: option.splits))

interpretation pg: archive_world "pg_db gregorian" gregorian pg_ok pg_tables "pg_socket answer"
  by unfold_locales (auto simp: pg_socket_def pg_ok_def)

end
