(* ===== verification/Server_Data.thy ===== *)
theory Server_Data
  imports Server_Sessions Pg
begin

text \<open>
  What requests do to the archive's data: every run of the server keeps the archive's
  invariant, and only an administrator with the right permission changes anything.
\<close>

text \<open>Image names of requests are Rust strings, by their type.\<close>

fun request_strings_ok :: "api_request \<Rightarrow> bool" where
  "request_strings_ok (ConfigureDocker (Some (i, image_name)) body) \<longleftrightarrow> rust_string image_name"
| "request_strings_ok req \<longleftrightarrow> True"

section \<open>Following the world through a handler\<close>

definition leaves :: "('w \<Rightarrow> bool) \<Rightarrow> api_answer \<times> ('k, 'w) app \<Rightarrow> bool" where
  "leaves P r \<longleftrightarrow> P (app_world (snd r))"

lemma leaves_here [simp]: "leaves P (x, st) \<longleftrightarrow> P (app_world st)"
  by (simp add: leaves_def)

lemma leaves_run_db: "keeps P p \<Longrightarrow> P (app_world st) \<Longrightarrow> leaves P (run_db st p f)"
  by (auto simp: keeps_def leaves_def run_db_def split: prod.splits outcome.splits)

lemma leaves_extract_arg:
  "P (app_world st) \<Longrightarrow> (\<And>x. arg = Some x \<Longrightarrow> leaves P (k x)) \<Longrightarrow> leaves P (extract_arg st arg k)"
  by (simp add: extract_arg_def split: option.split)

lemma leaves_extract_claims:
  "P (app_world st) \<Longrightarrow> (\<And>x. r = Inr x \<Longrightarrow> leaves P (k x)) \<Longrightarrow> leaves P (extract_claims st r k)"
  by (simp add: extract_claims_def split: sum.split)

lemma leaves_run_pure:
  "P (app_world st) \<Longrightarrow> (\<And>x. leaves P (f x)) \<Longrightarrow> leaves P (run_pure st r f)"
  by (simp add: run_pure_def split: outcome.split)

lemmas leaves_intros = leaves_extract_arg leaves_extract_claims leaves_run_pure leaves_run_db

text \<open>Requests that reach no database handler leave the world as it is.\<close>

lemma leaves_login:
  assumes "P (app_world st)"
  shows "leaves P (handle c st hs rnd (InitiateChallenge b))" "leaves P (handle c st hs rnd (FinishChallenge p))"
    "leaves P (handle c st hs rnd (GenerateCode g))" "leaves P (handle c st hs rnd WipeCodes)"
    "leaves P (handle c st hs rnd (RedeemCode r))" "leaves P (handle c st hs rnd Index)"
  using assms
  by (simp_all add: leaves_def handle_defs split: option.split sum.split outcome.split prod.split)

context archive_world
begin

definition uses :: "('k, 'd, 'w) config \<Rightarrow> bool" where
  "uses c \<longleftrightarrow> cfg_db c = D \<and> cfg_chrono c = C \<and> cfg_socket c = S"

lemma usesD: "uses c \<Longrightarrow> cfg_db c = D" "uses c \<Longrightarrow> cfg_chrono c = C" "uses c \<Longrightarrow> cfg_socket c = S"
  by (simp_all add: uses_def)

lemma handle_good:
  assumes c: "uses c" and g: "good (app_world st)" and r: "request_strings_ok req"
  shows "leaves good (handle c st hs rnd req)"
proof (cases req)
  case (ConfigureDocker q b)
  with g r show ?thesis
    by (auto simp: usesD [OF c] intro!: leaves_intros configure_docker_good)
next
  case (SetConnectionInstructions q b)
  with g show ?thesis
    by (auto simp: usesD [OF c] intro!: leaves_intros handlers_good split: sum.split)
qed (use g in \<open>auto simp: usesD [OF c] simp del: handle.simps(16-20) intro!: leaves_intros leaves_login handlers_good\<close>)

text \<open>Without the permission to create or to configure images, a handler only reads.\<close>

lemma unprivileged_same:
  "\<not> can_create a \<Longrightarrow> keeps (same T) (ctfs_create D C a x)"
  "\<not> can_create a \<Longrightarrow> keeps (same T) (categories_create D a y)"
  "\<not> can_create a \<Longrightarrow> keeps (same T) (challenges_create D q a m)"
  "\<not> can_create a \<Longrightarrow> keeps (same T) (set_connection_instructions D a i s)"
  "\<not> can_create a \<Longrightarrow> keeps (same T) (set_archive D i a m)"
  "\<not> can_docker a \<Longrightarrow> keeps (same T) (configure_docker D a i img ps)"
  by (auto simp: ctfs_create_def categories_create_def challenges_create_def set_connection_instructions_def
      set_archive_def configure_docker_def)

lemma handle_same:
  assumes c: "uses c" and g: "same T (app_world st)"
    and a: "\<And>a. admin_of c st hs = Inr a \<Longrightarrow> \<not> can_create a \<and> \<not> can_docker a"
  shows "leaves (same T) (handle c st hs rnd req)"
proof (cases req)
  case (SetConnectionInstructions q b)
  with g a show ?thesis
    by (auto simp: usesD [OF c] intro!: leaves_intros unprivileged_same split: sum.split)
qed (use g a in \<open>auto simp: usesD [OF c] simp del: handle.simps(16-20)
    intro!: leaves_intros leaves_login unprivileged_same readers_same\<close>)

lemma starting_same:
  assumes c: "uses c" and s: "starting c st hs req = Some (m, img, ps, w)" and g: "same T (app_world st)"
  shows "same T w"
proof -
  from s obtain i where "start_prepare D i (app_world st) = (Done (Inr (img, ps)), w)"
    by (auto simp: starting_def usesD [OF c] split: option.splits prod.splits outcome.splits sum.splits)
  with keepsD [OF same_start_prepare g] show ?thesis .
qed

lemma run_good:
  assumes "run c st0 st log" "uses c" "good (app_world st0)" "\<forall>e \<in> set log. request_strings_ok (e_req e)"
  shows "good (app_world st)"
  using assms
proof (induction rule: run.induct)
  case (request st log hs rnd req ans st')
  then have "good (app_world st)" "request_strings_ok req" by auto
  with handle_good [OF request.prems(1), of st req hs rnd] request.hyps(3) show ?case by (simp add: leaves_def)
next
  case (begin_start st log hs req m img ps w)
  then have "good (app_world st)" by simp
  with starting_same [OF begin_start.prems(1) begin_start.hyps(3)] show ?case by (auto simp: good_def same_def)
qed simp_all

end

end
