(* ===== verification/Jwt_Sim.thy ===== *)
theory Jwt_Sim
  imports Jwt
begin

text \<open>
  A token library that keeps \<open>jwt_laws\<close>, so that the laws can hold together. A token
  is its key and claims spelled out in decimal numbers: it authenticates nothing, but it
  is made, checked and expires as the laws say.
\<close>

section \<open>Claims as numbers\<close>

type_synonym 'a dec = "nat list \<Rightarrow> ('a \<times> nat list) option"

definition enc_str :: "string \<Rightarrow> nat list" where
  "enc_str s = length s # map of_char s"

fun dec_str :: "string dec" where
  "dec_str (n # ns) = Some (map char_of (take n ns), drop n ns)"
| "dec_str [] = None"

fun enc_val :: "jval \<Rightarrow> nat list" where
  "enc_val (JNum i) = (if i < 0 then [0, nat (- i)] else [1, nat i])"
| "enc_val (JBool b) = [if b then 2 else 3]"
| "enc_val (JStr s) = 4 # enc_str s"
| "enc_val JOther = [5]"

definition dec_val :: "jval dec" where
  "dec_val ns =
     (case ns of
        [] \<Rightarrow> None
      | t # r \<Rightarrow>
          if t = 0 then (case r of n # r \<Rightarrow> Some (JNum (- int n), r) | [] \<Rightarrow> None)
          else if t = 1 then (case r of n # r \<Rightarrow> Some (JNum (int n), r) | [] \<Rightarrow> None)
          else if t = 2 then Some (JBool True, r)
          else if t = 3 then Some (JBool False, r)
          else if t = 4 then map_option (\<lambda>(s, r). (JStr s, r)) (dec_str r)
          else Some (JOther, r))"

fun enc_fields :: "json_object \<Rightarrow> nat list" where
  "enc_fields [] = []"
| "enc_fields ((n, v) # fs) = enc_str n @ enc_val v @ enc_fields fs"

fun dec_fields :: "nat \<Rightarrow> json_object dec" where
  "dec_fields 0 ns = Some ([], ns)"
| "dec_fields (Suc k) ns =
     (case dec_str ns of None \<Rightarrow> None | Some (n, ns) \<Rightarrow>
       (case dec_val ns of None \<Rightarrow> None | Some (v, ns) \<Rightarrow>
         map_option (\<lambda>(fs, ns). ((n, v) # fs, ns)) (dec_fields k ns)))"

definition enc_token :: "nat \<Rightarrow> claims \<Rightarrow> nat list" where
  "enc_token k c = [k, issued_at c, expires_at c, length (custom c)] @ enc_fields (custom c)"

definition dec_token :: "nat list \<Rightarrow> (nat \<times> claims) option" where
  "dec_token ns =
     (case ns of
        k # i # e # l # r \<Rightarrow>
          map_option (\<lambda>(fs, _). (k, \<lparr>custom = fs, issued_at = i, expires_at = e\<rparr>)) (dec_fields l r)
      | _ \<Rightarrow> None)"

lemma dec_str_enc [simp]: "dec_str (enc_str s @ r) = Some (s, r)"
  by (simp add: enc_str_def comp_def)

lemma dec_val_enc [simp]: "dec_val (enc_val v @ r) = Some (v, r)"
  by (cases v) (simp_all add: dec_val_def)

lemma dec_fields_enc [simp]: "dec_fields (length fs) (enc_fields fs @ r) = Some (fs, r)"
  by (induction fs rule: enc_fields.induct) simp_all

lemma dec_token_enc [simp]: "dec_token (enc_token k c) = Some (k, c)"
  using dec_fields_enc [of "custom c" "[]"] by (cases c) (simp add: dec_token_def enc_token_def)

section \<open>Numbers as text\<close>

fun enc_nats :: "nat list \<Rightarrow> string" where
  "enc_nats [] = []"
| "enc_nats (n # ns) = show_nat n @ ''.'' @ enc_nats ns"

fun dec_nats :: "string \<Rightarrow> string \<Rightarrow> nat list" where
  "dec_nats acc [] = []"
| "dec_nats acc (c # cs) =
     (if c = CHR ''.'' then read_nat (rev acc) # dec_nats [] cs else dec_nats (c # acc) cs)"

definition digit :: "char \<Rightarrow> bool" where
  "digit c \<longleftrightarrow> c \<in> set ''0123456789''"

lemma show_nat_digit: "list_all digit (show_nat n)"
proof (induction n rule: show_nat.induct)
  case (1 n)
  have "digit (''0123456789'' ! d)" if "d < 10" for d
    using nth_mem [of d "''0123456789''"] that by (simp add: digit_def)
  with 1 show ?case by (subst show_nat.simps) auto
qed

lemma dec_nats_digits:
  "list_all digit s \<Longrightarrow> dec_nats acc (s @ ''.'' @ r) = read_nat (rev acc @ s) # dec_nats [] r"
  by (induction s arbitrary: acc) (auto simp: digit_def)

lemma dec_nats_enc [simp]: "dec_nats [] (enc_nats ns) = ns"
proof (induction ns)
  case (Cons n ns)
  then show ?case
    using dec_nats_digits [OF show_nat_digit, of "[]" n "enc_nats ns"] by (simp add: read_nat_show_nat)
qed simp

definition visible :: "char \<Rightarrow> bool" where
  "visible c \<longleftrightarrow> byte_of c = 9 \<or> (0x20 \<le> byte_of c \<and> byte_of c < 0x7F)"

lemma header_to_str_visible: "list_all visible s \<Longrightarrow> header_to_str (as_bytes s) = Some s"
  by (auto simp: header_to_str_def as_bytes_def visible_def list_all_iff comp_def)

lemma digit_visible: "digit c \<Longrightarrow> visible c"
  by (auto simp: digit_def visible_def byte_of_def word_less_nat_alt word_le_nat_alt)

lemma enc_nats_visible: "list_all visible (enc_nats ns)"
proof (induction ns)
  case (Cons n ns)
  have "visible CHR ''.''" by (simp add: visible_def byte_of_def word_less_nat_alt word_le_nat_alt)
  with Cons show_nat_digit [of n] digit_visible show ?case by (auto simp: list_all_iff)
qed simp

section \<open>The library\<close>

definition sim_jwt :: "nat jwt_lib" where
  "sim_jwt = \<lparr>
     hs_authenticate = (\<lambda>k c. Some (enc_nats (enc_token k c))),
     hs_verify = (\<lambda>k now t.
       case dec_token (dec_nats [] t) of
         Some (k', c) \<Rightarrow>
           if k' = k \<and> issued_at c \<le> now \<and> now \<le> expires_at c + 900 then Some (custom c) else None
       | None \<Rightarrow> None)\<rparr>"

interpretation sim_jwt: jwt_laws sim_jwt 900
  by unfold_locales
    (auto simp: sim_jwt_def header_to_str_visible enc_nats_visible split: if_splits)

end
