(* ===== verification/Sample.thy ===== *)
theory Sample
  imports Server_Data Jwt_Sim
begin

text \<open>
  A complete instance of the server's parameters, and a run of the server on it: an
  administrator logs in, invites a guest, and the guest redeems the invitation. It shows
  that the hypotheses of the properties about runs hold together.
\<close>

section \<open>An instance of the parameters\<close>

text \<open>The signature of a message is the message itself, under every key.\<close>

definition sample_config :: "(u8 list \<Rightarrow> stream) \<Rightarrow> (nat, int \<times> nat \<times> nat, (int \<times> nat \<times> nat) pg) config" where
  "sample_config answer = \<lparr>
     cfg_jwt = sim_jwt,
     cfg_b64 = \<lparr>b64_enc = rfc4648_encode, b64_dec = rfc4648_decode\<rparr>,
     cfg_p256 = \<lparr>sec1_valid = (\<lambda>k. length k = 65), sig_valid = (\<lambda>_. True), ecdsa_verify = (\<lambda>k m s. s = m)\<rparr>,
     cfg_chrono = gregorian,
     cfg_db = pg_db gregorian,
     cfg_socket = pg_socket answer\<rparr>"

definition sample_keys :: "nat jwt_keys" where
  "sample_keys = \<lparr>admin_key = 1, challenge_key = 2, user_key = 3\<rparr>"

definition sample_app :: "guest_code in_memory_set \<Rightarrow> 'w \<Rightarrow> (nat, 'w) app" where
  "sample_app codes w = \<lparr>app_keys = sample_keys, app_codes = codes, app_world = w, app_now = 0\<rparr>"

lemma sample_config_fields [simp]:
  "cfg_jwt (sample_config f) = sim_jwt" "b64_enc (cfg_b64 (sample_config f)) = rfc4648_encode"
  "b64_dec (cfg_b64 (sample_config f)) = rfc4648_decode" "cfg_chrono (sample_config f) = gregorian"
  "cfg_db (sample_config f) = pg_db gregorian" "cfg_socket (sample_config f) = pg_socket f"
  "sec1_valid (cfg_p256 (sample_config f)) = (\<lambda>k. length k = 65)"
  "sig_valid (cfg_p256 (sample_config f)) = (\<lambda>_. True)"
  "ecdsa_verify (cfg_p256 (sample_config f)) = (\<lambda>k m s. s = m)"
  by (simp_all add: sample_config_def)

lemma sample_app_fields [simp]:
  "app_keys (sample_app s w) = sample_keys" "app_codes (sample_app s w) = s" "app_world (sample_app s w) = w"
  "app_now (sample_app s w) = 0"
  by (simp_all add: sample_app_def)

lemma sample_keys_fields [simp]:
  "admin_key sample_keys = 1" "challenge_key sample_keys = 2" "user_key sample_keys = 3"
  by (simp_all add: sample_keys_def)

lemma sample_app_updates [simp]:
  "(sample_app s w)\<lparr>app_codes := s'\<rparr> = sample_app s' w" "(sample_app s w)\<lparr>app_world := w'\<rparr> = sample_app s w'"
  by (simp_all add: sample_app_def)

lemma sample_uses: "pg.uses f (sample_config f)"
  by (simp add: pg.uses_def)

section \<open>Its tokens\<close>

definition sim_token :: "nat \<Rightarrow> json_object \<Rightarrow> nat \<Rightarrow> string" where
  "sim_token k j valid_for = enc_nats (enc_token k (with_custom_claims j valid_for 0))"

lemma sim_token_made: "hs_authenticate sim_jwt k (with_custom_claims j valid_for 0) = Some (sim_token k j valid_for)"
  by (simp add: sim_jwt_def sim_token_def)

lemma sim_token_read: "hs_verify sim_jwt k 0 (sim_token k' j valid_for) = (if k' = k then Some j else None)"
  by (simp add: sim_jwt_def sim_token_def with_custom_claims_def)

lemma sim_token_header: "header_to_str (as_bytes (sim_token k j valid_for)) = Some (sim_token k j valid_for)"
  by (simp add: sim_token_def header_to_str_visible enc_nats_visible)

lemma sim_token_claims:
  "from_request_parts sim_jwt k h from_json 0 [h \<mapsto> as_bytes (sim_token k j valid_for)] =
     (case from_json j of Some x \<Rightarrow> Inr x | None \<Rightarrow> Inl UNAUTHORIZED)"
  by (simp add: from_request_parts_def sim_token_header sim_token_read split: option.split)

text \<open>A request that shows one token the server issued forges nothing.\<close>

lemma sample_unforged:
  assumes "issued sample_keys log k (sim_token k j valid_for)"
  shows "unforged sim_jwt sample_keys 0 log [h \<mapsto> as_bytes (sim_token k j valid_for)]"
  using assms by (auto simp: unforged_def sim_token_header sim_token_read split: if_splits)

lemma sample_unforged_none: "unforged sim_jwt sample_keys 0 log Map.empty"
  by (simp add: unforged_def)

section \<open>A run\<close>

definition sample_random :: randomness where
  "sample_random = \<lparr>rnd_bytes = Some [7], rnd_u32 = Some 42\<rparr>"

definition sample_admin :: jwt_admin where
  "sample_admin = \<lparr>admin_id = 0, can_docker = True, can_create = True, can_invite = True, can_host_demo = True\<rparr>"

definition sample_challenge :: jwt_challenge where
  "sample_challenge = \<lparr>challenge = rfc4648_encode [7], challenge_id = 0\<rparr>"

definition challenge_token :: string where
  "challenge_token = sim_token 2 (challenge_to_json sample_challenge) 10"

definition admin_token :: string where
  "admin_token = sim_token 1 (admin_to_json sample_admin) (30 * 60)"

definition user_token :: string where
  "user_token = sim_token 3 (user_to_json \<lparr>user_code = GuestCode 42\<rparr>) (6 * 60 * 60)"

definition challenge_headers :: headers where
  "challenge_headers = [''challenge'' \<mapsto> as_bytes challenge_token]"

definition admin_headers :: headers where
  "admin_headers = [''admin_jwt'' \<mapsto> as_bytes admin_token]"

definition user_headers :: headers where
  "user_headers = [''user_jwt'' \<mapsto> as_bytes user_token]"

lemma sample_claims [simp]:
  "challenge_of (sample_config f) (sample_app s w) challenge_headers = Inr sample_challenge"
  "admin_of (sample_config f) (sample_app s w) admin_headers = Inr sample_admin"
  "user_of (sample_config f) (sample_app s w) user_headers = Inr \<lparr>user_code = GuestCode 42\<rparr>"
  by (simp_all add: challenge_of_def admin_of_def user_of_def challenge_from_request_def admin_from_request_def
      user_from_request_def challenge_headers_def admin_headers_def user_headers_def challenge_token_def
      admin_token_def user_token_def sim_token_claims)

lemma sample_initiate:
  "handle (sample_config f) (sample_app s w) Map.empty sample_random (InitiateChallenge (Some 0)) =
     (AText challenge_token, sample_app s w)"
  by (simp add: extract_arg_def run_pure_def initiate_challenge_def key_exists_def admin_auth_def sample_random_def
      authenticate_challenge_def sim_token_made challenge_token_def sample_challenge_def)

lemma sample_finish:
  "handle (sample_config f) (sample_app s w) challenge_headers sample_random (FinishChallenge (Some (rfc4648_encode [7], []))) =
     (AText admin_token, sample_app s w)"
proof -
  have key: "map_of admin_auth 0 = Some (debug_pubkey, sample_admin)" by (simp add: admin_auth_def sample_admin_def)
  have "length (hex debug_pubkey) = 65" using admin_auth_key_sizes [OF key] by simp
  with key have "finish_challenge sim_jwt sample_keys (cfg_b64 (sample_config f)) (cfg_p256 (sample_config f)) 0
      sample_challenge (rfc4648_encode [7], []) = Done (Inr admin_token)"
    unfolding finish_challenge_Inr
    by (simp add: sample_challenge_def rfc4648.dec_enc authenticate_admin_def sim_token_made admin_token_def)
  then show ?thesis by (simp add: extract_arg_def extract_claims_def run_pure_def)
qed

abbreviation one_code :: "guest_code in_memory_set" where
  "one_code \<equiv> \<lparr>members = {GuestCode 42}, poisoned = False, timers = [(GuestCode 42, 1800)]\<rparr>"

abbreviation used_code :: "guest_code in_memory_set" where
  "used_code \<equiv> \<lparr>members = {}, poisoned = False, timers = [(GuestCode 42, 1800)]\<rparr>"

lemma sample_generate:
  "handle (sample_config f) (sample_app in_memory_set_default w) admin_headers sample_random (GenerateCode (Some [])) =
     (ACode (GuestCode 42), sample_app one_code w)"
  by (simp add: extract_arg_def extract_claims_def run_pure_def generate_code_def sample_admin_def sample_random_def
      insert_temp_def lock_def in_memory_set_default_def THIRTY_MINUTES_AS_SECS_def)

lemma sample_redeem:
  "handle (sample_config f) (sample_app one_code w) Map.empty sample_random (RedeemCode (Some (GuestCode 42))) =
     (AText user_token, sample_app used_code w)"
  by (simp add: extract_arg_def run_pure_def redeem_code_def set_remove_def lock_def authenticate_user_def
      sim_token_made user_token_def)

definition sample_entry :: "headers \<Rightarrow> api_request \<Rightarrow> api_answer \<Rightarrow> log_entry" where
  "sample_entry hs req ans = \<lparr>e_now = 0, e_headers = hs, e_rnd = sample_random, e_req = req, e_ans = ans\<rparr>"

definition admin_log :: "log_entry list" where
  "admin_log =
     [sample_entry Map.empty (InitiateChallenge (Some 0)) (AText challenge_token),
      sample_entry challenge_headers (FinishChallenge (Some (rfc4648_encode [7], []))) (AText admin_token)]"

definition invited_log :: "log_entry list" where
  "invited_log = admin_log @ [sample_entry admin_headers (GenerateCode (Some [])) (ACode (GuestCode 42))]"

definition redeemed_log :: "log_entry list" where
  "redeemed_log = invited_log @
     [sample_entry Map.empty (RedeemCode (Some (GuestCode 42))) (AText user_token)]"

lemma sample_issued:
  "sample_entry hs req (AText t) \<in> set log \<Longrightarrow> signing_key sample_keys req = Some k \<Longrightarrow> issued sample_keys log k t"
  unfolding issued_def by (force simp: sample_entry_def)

lemma admin_unforged: "set admin_log \<subseteq> set log \<Longrightarrow> unforged sim_jwt sample_keys 0 log admin_headers"
  unfolding admin_headers_def admin_token_def
  by (rule sample_unforged, fold admin_token_def, rule sample_issued) (auto simp: admin_log_def)

lemma user_unforged: "set redeemed_log \<subseteq> set log \<Longrightarrow> unforged sim_jwt sample_keys 0 log user_headers"
  unfolding user_headers_def user_token_def
  by (rule sample_unforged, fold user_token_def, rule sample_issued) (auto simp: redeemed_log_def)

lemma sample_request:
  assumes "run (sample_config f) st0 (sample_app s w) log" "unforged sim_jwt sample_keys 0 log hs"
    and "handle (sample_config f) (sample_app s w) hs sample_random req = (ans, st')"
  shows "run (sample_config f) st0 st' (log @ [sample_entry hs req ans])"
  using run.request [OF assms(1), of hs sample_random req ans st'] assms(2,3) by (simp add: sample_entry_def)

abbreviation sample_start :: "'w \<Rightarrow> (nat, 'w) app" where
  "sample_start w \<equiv> sample_app in_memory_set_default w"

lemma admin_run: "run (sample_config f) (sample_start w) (sample_start w) admin_log"
proof -
  have "run (sample_config f) (sample_start w) (sample_start w) []" by (rule run.start) simp
  from sample_request [OF this sample_unforged_none sample_initiate]
  have a: "run (sample_config f) (sample_start w) (sample_start w)
      [sample_entry Map.empty (InitiateChallenge (Some 0)) (AText challenge_token)]" (is "run _ _ _ ?log")
    by simp
  have "unforged sim_jwt sample_keys 0 ?log challenge_headers"
    unfolding challenge_headers_def challenge_token_def
    by (rule sample_unforged, fold challenge_token_def, rule sample_issued) auto
  from sample_request [OF a this sample_finish] show ?thesis by (simp add: admin_log_def)
qed

lemma invited_run: "run (sample_config f) (sample_start w) (sample_app one_code w) invited_log"
  unfolding invited_log_def
  by (rule sample_request [OF admin_run admin_unforged sample_generate]) simp

lemma redeemed_run: "run (sample_config f) (sample_start w) (sample_app used_code w) redeemed_log"
  unfolding redeemed_log_def
  by (rule sample_request [OF invited_run sample_unforged_none sample_redeem])

end
