(* ===== verification/Route_Props.thy ===== *)
theory Route_Props
  imports Requests Sample
begin

text \<open>
  Properties of the routes: the API description matches the router and the extractors, and
  the handlers answer with the documented status codes.
\<close>


text \<open>C23. The documented security schemes are enforced. If an operation's description names a
  scheme and the request lacks the header that scheme stands for, the request is answered with
  \<^verbatim>\<open>UNAUTHORIZED\<close>, or rejected by a query extractor before, and nothing of the
  server's state changes.\<close>

theorem documented_security_enforced:
  assumes "documented_header (endpoint_of req) = Some h" and "hs h = None"
  shows "handle c st hs rnd req \<in> {(AStatus UNAUTHORIZED, st), (ARejected, st)}"
  using assms unfolding documented_headers
  by (cases req) (auto simp: extract_claims_def extract_arg_def split: option.split)

theorem documented_security_enforced_witness:
  "handle (sample_config (\<lambda>_. ([], True))) (sample_start pg_empty) Map.empty sample_random WipeCodes
     \<in> {(AStatus UNAUTHORIZED, sample_start pg_empty), (ARejected, sample_start pg_empty)}"
proof (rule documented_security_enforced)
  show "documented_header (endpoint_of WipeCodes) = Some ''admin_jwt''" by (simp add: documented_headers)
qed simp

section \<open>Parameters\<close>

text \<open>C24. The documented query parameters are what the handlers read. An HTTP request that is routed
  to a documented operation gets past the query extractor of its handler exactly if every
  documented parameter is given as documented: once, an optional one at most once, and a
  number as a decimal within 32 bits. The one exception is the creation of a challenge, which
  also reads an undocumented parameter. A request with a missing or malformed parameter is
  turned away without any effect.\<close>

theorem documented_parameters_enforced:
  fixes L :: http_lib and r :: http_request
  assumes "dispatch (h_method r) (h_path r) = Route e" and "described e = Some oper"
  defines "q \<equiv> query_pairs L (h_query r)"
  shows "(query_accepted (decode L r e) \<longleftrightarrow> list_all (param_ok q) (op_params oper) \<and>
      (e = EChallengesCreate \<longrightarrow> opt_field ''connection_instructions'' q \<noteq> None)) \<and>
    (\<not> list_all (param_ok q) (op_params oper) \<longrightarrow>
      serve c L st rnd r \<in> {(Answer (AStatus UNAUTHORIZED), st), (Answer ARejected, st)})"
proof -
  have a: "query_accepted (decode L r e) \<longleftrightarrow> list_all (param_ok q) (op_params oper) \<and>
      (e = EChallengesCreate \<longrightarrow> opt_field ''connection_instructions'' q \<noteq> None)"
    unfolding q_def by (rule decode_accepted [OF assms(2)])
  moreover have "serve c L st rnd r \<in> {(Answer (AStatus UNAUTHORIZED), st), (Answer ARejected, st)}"
    if "\<not> list_all (param_ok q) (op_params oper)"
  proof -
    have "\<not> query_accepted (decode L r e)" using a that by blast
    from handle_not_accepted [OF this, of c st "h_headers r" rnd] show ?thesis
      using assms(1) by (auto simp: serve_def simp del: handle.simps)
  qed
  ultimately show ?thesis by blast
qed

text \<open>A plain reading of query strings, without escapes, and no bodies at all.\<close>

fun split_pairs :: "string \<Rightarrow> string list" where
  "split_pairs [] = [[]]"
| "split_pairs (c # cs) =
     (if c = CHR ''&'' then [] # split_pairs cs
      else (case split_pairs cs of [] \<Rightarrow> [[c]] | p # ps \<Rightarrow> (c # p) # ps))"

definition sample_http :: http_lib where
  "sample_http = \<lparr>
     query_pairs = (\<lambda>s. map (\<lambda>kv. (takeWhile (\<lambda>c. c \<noteq> CHR ''='') kv, drop 1 (dropWhile (\<lambda>c. c \<noteq> CHR ''='') kv)))
       (split_pairs s)),
     json_ctf = (\<lambda>_. None), json_category = (\<lambda>_. None), json_ports = (\<lambda>_. None), json_key_id = (\<lambda>_. None),
     json_signature = (\<lambda>_. None), json_code = (\<lambda>_. None), multipart_body = (\<lambda>_. None), text_body = (\<lambda>_. None),
     bytes_body = (\<lambda>_. None)\<rparr>"

definition flag_request :: "string \<Rightarrow> http_request" where
  "flag_request s = \<lparr>h_method = GET, h_path = ''/api/challenges/get_flag'', h_query = s, h_headers = Map.empty, h_body = []\<rparr>"

theorem documented_parameters_enforced_witness:
  "query_accepted (decode sample_http (flag_request ''challenge_id=-7&x=y'') EGetFlag) \<and>
   \<not> query_accepted (decode sample_http (flag_request ''challenge_id=2147483648'') EGetFlag) \<and>
   serve (sample_config (\<lambda>_. ([], True))) sample_http (sample_start pg_empty) sample_random (flag_request ''x=y'')
     \<in> {(Answer (AStatus UNAUTHORIZED), sample_start pg_empty), (Answer ARejected, sample_start pg_empty)}"
proof -
  have d: "dispatch (h_method (flag_request s)) (h_path (flag_request s)) = Route EGetFlag" for s
    by (simp add: flag_request_def dispatch_def routes_def)
  have o: "described EGetFlag = Some challenge_get_flag"
    by (simp add: described_def api_doc_def api_defs)
  note enforced = documented_parameters_enforced [OF d o, of sample_http]
  have q: "query_pairs sample_http (h_query (flag_request s)) =
      map (\<lambda>kv. (takeWhile (\<lambda>c. c \<noteq> CHR ''='') kv, drop 1 (dropWhile (\<lambda>c. c \<noteq> CHR ''='') kv))) (split_pairs s)" for s
    by (simp add: sample_http_def flag_request_def)
  have "list_all (param_ok (query_pairs sample_http (h_query (flag_request ''challenge_id=-7&x=y'')))) (op_params challenge_get_flag)"
    "\<not> list_all (param_ok (query_pairs sample_http (h_query (flag_request ''challenge_id=2147483648'')))) (op_params challenge_get_flag)"
    "\<not> list_all (param_ok (query_pairs sample_http (h_query (flag_request ''x=y'')))) (op_params challenge_get_flag)"
    by (simp_all add: q challenge_get_flag_def i32_field_def field_def parse_i32_def is_digit_def read_nat_def digit_value_def)
  with enforced show ?thesis by blast
qed

section \<open>Bodies\<close>


section \<open>Status codes\<close>



lemma created_within [simp]: "answers_within ss (created r) \<longleftrightarrow> fst r \<in> set ss"
  by (simp add: created_def)












end
