(* ===== verification/Session_Props.thy ===== *)
theory Session_Props
  imports Sample
begin

text \<open>
  Properties of sessions: who can hold one, what that proves about the past of the server,
  and that those who should get one do.
\<close>

section \<open>Soundness\<close>

text \<open>C9. An administrator's session is backed by a signature. Whenever the server accepts a request
  as coming from an administrator, its log holds a login, and before that a challenge for the
  same key: the challenge's random bytes were signed by that key, the signature came with the
  login, the permissions are those of the key's row, and the session is at most 30 minutes
  old, the login at most 10 seconds younger than the challenge (up to the token library's
  tolerance).\<close>

theorem admin_sessions_signed:
  assumes "jwt_laws (cfg_jwt c) tolerance" and "\<And>bytes. b64_dec (cfg_b64 c) (b64_enc (cfg_b64 c) bytes) = Some bytes"
    and "run c st0 st log" and "unforged (cfg_jwt c) (app_keys st) (app_now st) log hs"
    and "admin_of c st hs = Inr a"
  shows "\<exists>m n pk bytes resp r s. m < n \<and> n < length log \<and>
    e_req (log ! m) = InitiateChallenge (Some (admin_id a)) \<and> rnd_bytes (e_rnd (log ! m)) = Some bytes \<and>
    e_req (log ! n) = FinishChallenge (Some resp) \<and>
    b64_dec (cfg_b64 c) (fst resp) = Some r \<and> b64_dec (cfg_b64 c) (snd resp) = Some s \<and>
    map_of admin_auth (admin_id a) = Some (pk, a) \<and> ecdsa_verify (cfg_p256 c) (hex pk) bytes (r @ s) \<and>
    e_now (log ! n) \<le> e_now (log ! m) + 10 + tolerance \<and> app_now st \<le> e_now (log ! n) + 30 * 60 + tolerance"
proof -
  have log: "log_ok c (app_keys st) log" using run_log_ok [OF assms(3)] run_keys [OF assms(3)] by simp
  from assms(5) have "admin_from_request (cfg_jwt c) (app_keys st) (app_now st) hs = Inr a"
    by (simp add: admin_of_def)
  from jwt_laws.accepted_admin [OF assms(1) refl log assms(4) this assms(2)] show ?thesis .
qed

theorem admin_sessions_signed_witness:
  "\<exists>m n. m < n \<and> n < length admin_log \<and> e_req (admin_log ! m) = InitiateChallenge (Some 0) \<and>
     (\<exists>resp. e_req (admin_log ! n) = FinishChallenge (Some resp))"
proof -
  let ?c = "sample_config (\<lambda>_. ([], True))"
  have b64: "b64_dec (cfg_b64 ?c) (b64_enc (cfg_b64 ?c) bytes) = Some bytes" for bytes
    by (simp add: rfc4648.dec_enc)
  have u: "unforged (cfg_jwt ?c) (app_keys (sample_start pg_empty)) (app_now (sample_start pg_empty)) admin_log admin_headers"
    by (simp add: admin_unforged)
  have "jwt_laws (cfg_jwt ?c) 900" by (simp add: sim_jwt.jwt_laws_axioms)
  from admin_sessions_signed [OF this b64 admin_run u sample_claims(2)] show ?thesis
    by (fastforce simp: sample_admin_def)
qed

text \<open>C17. A user's session comes from an invitation. Whenever the server accepts a request as coming
  from a user, its log holds the redemption of that user's code, at most six hours old up to
  the library's tolerance, and before it the creation of the code by an administrator with
  the permission to invite.\<close>

theorem user_sessions_invited:
  assumes "jwt_laws (cfg_jwt c) tolerance"
    and "run c st0 st log" and "unforged (cfg_jwt c) (app_keys st) (app_now st) log hs"
    and "user_of c st hs = Inr u"
  shows "\<exists>m n. m < n \<and> n < length log \<and> e_ans (log ! m) = ACode (user_code u) \<and>
    e_req (log ! n) = RedeemCode (Some (user_code u)) \<and> app_now st \<le> e_now (log ! n) + 6 * 60 * 60 + tolerance \<and>
    (\<exists>body admin. e_req (log ! m) = GenerateCode body \<and> can_invite admin \<and>
       admin_from_request (cfg_jwt c) (app_keys st) (e_now (log ! m)) (e_headers (log ! m)) = Inr admin)"
  using user_session_invited [OF assms] unfolding user_invited_def .

theorem user_sessions_invited_witness:
  "\<exists>m n. m < n \<and> n < length redeemed_log \<and> e_ans (redeemed_log ! m) = ACode (GuestCode 42) \<and>
     e_req (redeemed_log ! n) = RedeemCode (Some (GuestCode 42))"
proof -
  let ?c = "sample_config (\<lambda>_. ([], True))" and ?st = "sample_app used_code pg_empty"
  have u: "unforged (cfg_jwt ?c) (app_keys ?st) (app_now ?st) redeemed_log user_headers"
    by (simp add: user_unforged)
  have "jwt_laws (cfg_jwt ?c) 900" by (simp add: sim_jwt.jwt_laws_axioms)
  from user_sessions_invited [OF this redeemed_run u sample_claims(3)] show ?thesis by fastforce
qed

text \<open>C8. Invitations are good for one session each. In every run of the server, a code has been
  redeemed successfully at most as often as it was generated, and if it can still be redeemed,
  less often.\<close>

theorem invitation_used_once:
  assumes "run c st0 st log"
  shows "length (filter (\<lambda>e. e_req e = RedeemCode (Some code) \<and> (\<exists>t. e_ans e = AText t)) log)
      + (if code \<in> members (app_codes st) then 1 else 0)
    \<le> length (filter (\<lambda>e. e_ans e = ACode code) log)"
  using run_balanced [OF assms, of code]
  unfolding redeems_def [abs_def] generates_def [abs_def] open_codes_def by simp

theorem invitation_used_once_witness:
  "length (filter (\<lambda>e. e_req e = RedeemCode (Some (GuestCode 42)) \<and> (\<exists>t. e_ans e = AText t)) invited_log) + 1
     \<le> length (filter (\<lambda>e. e_ans e = ACode (GuestCode 42)) invited_log)"
  using invitation_used_once [OF invited_run [of "\<lambda>_. ([], True)" pg_empty], of "GuestCode 42"] by simp

text \<open>C31. Invitations expire. As long as no timer task is overdue, a code that can still be redeemed
  was generated less than thirty minutes ago.\<close>

theorem invitations_expire:
  assumes "run c st0 st log" and "code \<in> members (app_codes st)"
    and "list_all (\<lambda>(v, d). app_now st < d) (timers (app_codes st))"
  shows "\<exists>e \<in> set log. e_ans e = ACode code \<and> app_now st < e_now e + 30 * 60"
proof -
  have "set_wf (app_codes st)" using run_balanced [OF assms(1)] by blast
  from mem.member_fresh [OF this assms(2), of "app_now st"] assms(3)
  obtain d where d: "(code, d) \<in> set (timers (app_codes st))" "app_now st < d"
    by (auto simp: list_all_iff)
  with run_timers [OF assms(1)] show ?thesis
    by (auto simp: timers_logged_def generates_def THIRTY_MINUTES_AS_SECS_def)
qed

theorem invitations_expire_witness:
  "\<exists>e \<in> set invited_log. e_ans e = ACode (GuestCode 42) \<and> 0 < e_now e + 30 * 60"
  using invitations_expire [OF invited_run [of "\<lambda>_. ([], True)" pg_empty], of "GuestCode 42"] by simp

text \<open>The three kinds of claims are never confused: each kind is read back as it was written,
  and is not readable as another kind, so that even under one and the same key a token of one
  kind is no token of another.\<close>

theorem claim_kinds_distinct:
  "admin_from_json (admin_to_json a) = Some a \<and> challenge_from_json (challenge_to_json ch) = Some ch \<and>
   user_from_json (user_to_json u) = Some u \<and>
   admin_from_json (challenge_to_json ch) = None \<and> admin_from_json (user_to_json u) = None \<and>
   user_from_json (admin_to_json a) = None \<and> user_from_json (challenge_to_json ch) = None \<and>
   challenge_from_json (admin_to_json a) = None \<and> challenge_from_json (user_to_json u) = None"
  by (intro conjI) (rule admin_json challenge_json user_json kinds_disjoint)+

section \<open>Completeness\<close>

text \<open>C21. Logging in works. A client that knows a key of the table gets a challenge, signs its bytes
  within ten seconds, and is then accepted with the permissions of that key for thirty
  minutes. Neither request panics or changes the server's state.\<close>

theorem login_gives_session:
  assumes "jwt_laws (cfg_jwt c) tolerance"
    and b64: "\<And>bytes. b64_dec (cfg_b64 c) (b64_enc (cfg_b64 c) bytes) = Some bytes"
    and key: "map_of admin_auth i = Some (pk, a)" "sec1_valid (cfg_p256 c) (hex pk)"
    and rnd: "rnd_bytes rnd = Some bytes"
    and sig: "sig_valid (cfg_p256 c) (r @ s)" "ecdsa_verify (cfg_p256 c) (hex pk) bytes (r @ s)"
    and time: "app_now st \<le> t1" "t1 \<le> app_now st + 10" "t1 \<le> t2" "t2 \<le> t1 + 30 * 60"
  shows "\<exists>ch tok. handle c st hs rnd (InitiateChallenge (Some i)) = (AText ch, st) \<and>
    handle c (st\<lparr>app_now := t1\<rparr>) [''challenge'' \<mapsto> as_bytes ch] rnd'
      (FinishChallenge (Some (b64_enc (cfg_b64 c) r, b64_enc (cfg_b64 c) s))) = (AText tok, st\<lparr>app_now := t1\<rparr>) \<and>
    admin_of c (st\<lparr>app_now := t2\<rparr>) [''admin_jwt'' \<mapsto> as_bytes tok] = Inr a"
proof -
  let ?ch = "\<lparr>challenge = b64_enc (cfg_b64 c) bytes, challenge_id = i\<rparr>"
  obtain ch where ch: "authenticate_challenge (cfg_jwt c) (app_keys st) ?ch 10 (app_now st) = Some ch"
    using jwt_laws.auth_total [OF assms(1)] by (fastforce simp: authenticate_challenge_def)
  obtain tok where tok: "authenticate_admin (cfg_jwt c) (app_keys st) a (30 * 60) t1 = Some tok"
    using jwt_laws.auth_total [OF assms(1)] by (fastforce simp: authenticate_admin_def)
  have "initiate_challenge (cfg_jwt c) (app_keys st) (cfg_b64 c) (app_now st) (rnd_bytes rnd) i = Done (Inr ch)"
    using key(1) rnd ch by (simp add: initiate_challenge_Inr key_exists_def)
  moreover have "challenge_of c (st\<lparr>app_now := t1\<rparr>) [''challenge'' \<mapsto> as_bytes ch] = Inr ?ch"
    using jwt_laws.sessions_accepted(2) [OF assms(1) ch] time by (simp add: challenge_of_def)
  moreover have "finish_challenge (cfg_jwt c) (app_keys st) (cfg_b64 c) (cfg_p256 c) t1 ?ch
      (b64_enc (cfg_b64 c) r, b64_enc (cfg_b64 c) s) = Done (Inr tok)"
    unfolding finish_challenge_Inr using b64 key sig tok by auto
  moreover have "admin_of c (st\<lparr>app_now := t2\<rparr>) [''admin_jwt'' \<mapsto> as_bytes tok] = Inr a"
    using jwt_laws.sessions_accepted(1) [OF assms(1) tok] time by (simp add: admin_of_def)
  ultimately show ?thesis by (simp add: handle_defs)
qed

theorem login_gives_session_witness:
  "\<exists>ch tok. handle (sample_config (\<lambda>_. ([], True))) (sample_start pg_empty) Map.empty sample_random
      (InitiateChallenge (Some 0)) = (AText ch, sample_start pg_empty) \<and>
     admin_of (sample_config (\<lambda>_. ([], True))) ((sample_start pg_empty)\<lparr>app_now := 1800\<rparr>)
      [''admin_jwt'' \<mapsto> as_bytes tok] = Inr sample_admin"
proof -
  let ?c = "sample_config (\<lambda>_. ([], True))"
  have key: "map_of admin_auth 0 = Some (debug_pubkey, sample_admin)" by (simp add: admin_auth_def sample_admin_def)
  have "sec1_valid (cfg_p256 ?c) (hex debug_pubkey)" using admin_auth_key_sizes [OF key] by simp
  moreover have "jwt_laws (cfg_jwt ?c) 900" by (simp add: sim_jwt.jwt_laws_axioms)
  ultimately show ?thesis
    using login_gives_session [of ?c 900 0 debug_pubkey sample_admin sample_random "[7]" "[7]" "[]"
        "sample_start pg_empty" 9 1800 Map.empty sample_random] key
    by (auto simp: rfc4648.dec_enc sample_random_def simp del: handle.simps)
qed

text \<open>C22. Inviting works. An administrator with the permission to invite gets a code; as long as it is
  in the set, redeeming it takes it out of the set and gives a session as the user of that
  code, which is accepted for six hours. A second redemption is refused.\<close>

theorem invitation_gives_session:
  assumes "jwt_laws (cfg_jwt c) tolerance" and "run c st0 st log"
    and admin: "admin_of c st hs = Inr a" "can_invite a" and rnd: "rnd_u32 rnd = Some n"
    and st': "app_codes st' = app_codes (snd (handle c st hs rnd (GenerateCode (Some body))))"
    and time: "app_now st' \<le> t" "t \<le> app_now st' + 6 * 60 * 60"
  shows "fst (handle c st hs rnd (GenerateCode (Some body))) = ACode (GuestCode n) \<and>
    (\<exists>tok st''. handle c st' hs' rnd' (RedeemCode (Some (GuestCode n))) = (AText tok, st'') \<and>
       user_of c (st''\<lparr>app_now := t\<rparr>) [''user_jwt'' \<mapsto> as_bytes tok] = Inr \<lparr>user_code = GuestCode n\<rparr> \<and>
       handle c st'' hs'' rnd'' (RedeemCode (Some (GuestCode n))) = (AStatus UNAUTHORIZED, st''))"
proof -
  have "set_wf (app_codes st)" using run_balanced [OF assms(2)] by blast
  with mem.ins_law [of "app_codes st" "GuestCode n" THIRTY_MINUTES_AS_SECS "app_now st"] obtain codes where
    codes: "insert_temp (GuestCode n) THIRTY_MINUTES_AS_SECS (app_now st) (app_codes st) = Done codes"
      "set_wf codes" "GuestCode n \<in> members codes" by auto
  then have gen: "handle c st hs rnd (GenerateCode (Some body)) = (ACode (GuestCode n), st\<lparr>app_codes := codes\<rparr>)"
    using admin rnd by (simp add: handle_defs generate_code_def)
  obtain tok where tok: "authenticate_user (cfg_jwt c) (app_keys st') \<lparr>user_code = GuestCode n\<rparr> (6 * 60 * 60) (app_now st') = Some tok"
    using jwt_laws.auth_total [OF assms(1)] by (fastforce simp: authenticate_user_def)
  from mem.rem_law [OF codes(2), of "GuestCode n"] codes(3) obtain codes' where
    codes': "set_remove (GuestCode n) codes = Done (True, codes')" "set_wf codes'" "GuestCode n \<notin> members codes'"
    by auto
  let ?st'' = "st'\<lparr>app_codes := codes'\<rparr>"
  have "handle c st' hs' rnd' (RedeemCode (Some (GuestCode n))) = (AText tok, ?st'')"
    using st' gen codes'(1) tok by (simp add: handle_defs redeem_code_def)
  moreover have "user_of c (?st''\<lparr>app_now := t\<rparr>) [''user_jwt'' \<mapsto> as_bytes tok] = Inr \<lparr>user_code = GuestCode n\<rparr>"
    using jwt_laws.sessions_accepted(3) [OF assms(1) tok] time by (simp add: user_of_def)
  moreover have "set_remove (GuestCode n) codes' = Done (False, codes')"
    using codes'(2,3) by (simp add: set_remove_def lock_def set_wf_def)
  then have "handle c ?st'' hs'' rnd'' (RedeemCode (Some (GuestCode n))) = (AStatus UNAUTHORIZED, ?st'')"
    by (simp add: handle_defs redeem_code_def)
  ultimately show ?thesis using gen by (metis fst_conv)
qed

theorem invitation_gives_session_witness:
  "\<exists>tok st''. handle (sample_config (\<lambda>_. ([], True))) (sample_app one_code pg_empty) Map.empty sample_random
      (RedeemCode (Some (GuestCode 42))) = (AText tok, st'') \<and>
     user_of (sample_config (\<lambda>_. ([], True))) (st''\<lparr>app_now := 21600\<rparr>) [''user_jwt'' \<mapsto> as_bytes tok]
       = Inr \<lparr>user_code = GuestCode 42\<rparr>"
proof -
  let ?c = "sample_config (\<lambda>_. ([], True))" and ?st = "sample_start pg_empty" and ?st' = "sample_app one_code pg_empty"
  have st': "app_codes ?st' = app_codes (snd (handle ?c ?st admin_headers sample_random (GenerateCode (Some []))))"
    unfolding sample_generate by simp
  have laws: "jwt_laws (cfg_jwt ?c) 900" by (simp add: sim_jwt.jwt_laws_axioms)
  have "can_invite sample_admin" "rnd_u32 sample_random = Some 42" by (simp_all add: sample_admin_def sample_random_def)
  from invitation_gives_session [OF laws admin_run sample_claims(2) this st', of 21600 Map.empty sample_random
      Map.empty sample_random]
  show ?thesis by (simp del: handle.simps) blast
qed

section \<open>Permissions\<close>




text \<open>The keys of the table: their ids are the claims' ids, every key has the 65 bytes of an
  uncompressed point, only the first may create, configure images or host demonstrations, and
  both may invite.\<close>

theorem admin_table:
  "list_all (\<lambda>(i, pk, a). admin_id a = i \<and> length (hex pk) = 65 \<and> hd (hex pk) = 4 \<and> can_invite a \<and>
     (i = 0 \<or> \<not> can_create a \<and> \<not> can_docker a \<and> \<not> can_host_demo a)) admin_auth \<and>
   distinct (map fst admin_auth)"
proof -
  have "length (hex debug_pubkey) = 65 \<and> hd (hex debug_pubkey) = 4"
    by (rule admin_auth_key_sizes [of 0]) (simp add: admin_auth_def)
  moreover have "length (hex discord_pubkey) = 65 \<and> hd (hex discord_pubkey) = 4"
    by (rule admin_auth_key_sizes [of 1]) (simp add: admin_auth_def)
  ultimately show ?thesis by (simp add: admin_auth_def)
qed

end
