(* ===== verification/Archive_Behaviour.thy ===== *)
theory Archive_Behaviour
  imports Archive Protocol
begin

text \<open>
  What the handlers return on an archive that satisfies the invariant, for every database
  that keeps the laws.
\<close>

section \<open>Lookups in the tables\<close>

lemma find_row_Some: "find_row T i = Some r \<Longrightarrow> r \<in> set (t_challenges T) \<and> ch_id r = i"
  by (auto simp: find_row_def find_Some_iff)

lemma find_row_None: "find_row T i = None \<longleftrightarrow> i \<notin> ch_id ` set (t_challenges T)"
  by (auto simp: find_row_def find_None_iff)

lemma find_append: "find P (xs @ ys) = (case find P xs of Some x \<Rightarrow> Some x | None \<Rightarrow> find P ys)"
  by (induction xs) simp_all

lemma find_row_snoc:
  "i \<notin> ch_id ` set (t_challenges T) \<Longrightarrow> ch_id r = i \<Longrightarrow>
     find_row (T\<lparr>t_challenges := t_challenges T @ [r]\<rparr>) i = Some r"
  using find_row_None [of T i] by (auto simp: find_row_def find_append)

lemma find_row_change:
  assumes "\<And>r. ch_id (f r) = ch_id r"
  shows "find_row (change_row i f T) i = map_option f (find_row T i)"
proof -
  have "find (\<lambda>r. ch_id r = i) (map (\<lambda>r. if ch_id r = i then f r else r) rows) =
      map_option f (find (\<lambda>r. ch_id r = i) rows)" for rows
    by (induction rows) (auto simp: assms)
  then show ?thesis by (simp add: find_row_def change_row_def)
qed

lemma rows_of_id: "find_row T i = None \<Longrightarrow> length (filter (\<lambda>r. ch_id r = i) (t_challenges T)) = 0"
  by (auto simp: find_row_None filter_empty_conv)

lemma rows_of_id_pos: "find_row T i = Some r \<Longrightarrow> length (filter (\<lambda>r. ch_id r = i) (t_challenges T)) \<noteq> 0"
  using find_row_Some [of T i r] by (auto simp: filter_empty_conv)

section \<open>What clients are shown\<close>

definition ctf_view :: "'d chrono \<Rightarrow> 'd ctf_row \<Rightarrow> ctf" where
  "ctf_view C r = \<lparr>view_id = ctf_id r, view_name = ctf_name r,
     view_start = the (date_try_from C (ctf_start r)), view_end = the (date_try_from C (ctf_end r))\<rparr>"

definition category_view :: "category_row \<Rightarrow> category" where
  "category_view r = \<lparr>category_id = cat_id r, category_name = cat_name r,
     category_kind = the (category_type_parse (cat_type r))\<rparr>"

text \<open>Mapping a handler's conversion over rows the database returned in some order.\<close>

lemma map_outcome_rows:
  assumes "mset rows = mset (map cols rs)" "\<And>r. r \<in> set rs \<Longrightarrow> f (cols r) = Done (view r)"
  shows "\<exists>xs. map_outcome f rows = Done xs \<and> mset xs = mset (map view rs)"
proof -
  let ?g = "\<lambda>x. case f x of Done y \<Rightarrow> y"
  from assms(1) have rows: "set rows = cols ` set rs" by (metis set_map set_mset_mset)
  then have "map_outcome f rows = Done (map ?g rows)"
    using assms(2) by (intro map_outcome_Done) auto
  moreover have "mset (map ?g rows) = image_mset (\<lambda>r. ?g (cols r)) (mset rs)"
    by (simp add: assms(1) multiset.map_comp comp_def)
  moreover have "image_mset (\<lambda>r. ?g (cols r)) (mset rs) = image_mset view (mset rs)"
    using assms(2) by (intro image_mset_cong) simp
  ultimately show ?thesis by simp
qed

section \<open>Ports\<close>

lemma flatten_Some [simp]: "flatten (map Some xs) = xs"
  by (induction xs) (simp_all add: flatten_def)

lemma assert_ports_ok: "length nums = length types \<Longrightarrow> assert_ports nums types = Done ()"
  by (simp add: assert_ports_def)

definition exposed :: "(u16 \<times> expose_port_type) list \<Rightarrow> (u16 \<times> u16 \<times> sql_port_type) list" where
  "exposed ports = map (\<lambda>(n, t). (n, n, sql_of_expose t)) ports"

text \<open>The round trip of a port through the signed column.\<close>

lemma port_list_stored:
  "port_list (map Some (map (\<lambda>(n, t). as_i16 n) ports)) (map Some (map (\<lambda>(n, t). sql_of_expose t) ports)) = exposed ports"
  unfolding port_list_def flatten_Some exposed_def
  by (induction ports) (simp_all add: split_beta)

lemma with_conn_True: "pool_get D w = (True, w') \<Longrightarrow> with_conn D p w = p w'"
  by (simp add: with_conn_def prog_eval)

lemma with_conn_Done: "with_conn D p w = (Done x, w'') \<longleftrightarrow> (\<exists>w'. pool_get D w = (True, w') \<and> p w' = (Done x, w''))"
  by (auto simp: with_conn_def prog_Done)

lemma insert_answers_Inr:
  "Inr (s, i) = ctf_insert_answer r \<longleftrightarrow> r = Inr i \<and> s = CREATED"
  "Inr (s, i) = insert_answer r \<longleftrightarrow> r = Inr i \<and> s = CREATED"
  by (auto simp: ctf_insert_answer_def insert_answer_def split: sum.split db_error.split)

lemma update_answers:
  "OK = docker_answer u \<longleftrightarrow> (\<exists>k. u = Inr k)" "OK = update_answer u \<longleftrightarrow> (\<exists>k. u = Inr k)"
  "NOT_FOUND = docker_answer u \<longleftrightarrow> u = Inl NotFound" "NOT_FOUND = update_answer u \<longleftrightarrow> u = Inl NotFound"
  "BAD_REQUEST = docker_answer u \<longleftrightarrow> u = Inl CheckViolation"
  by (auto simp: docker_answer_def update_answer_def split: sum.split db_error.split)

lemmas update_answers_sym = update_answers [THEN iffD1, OF sym]

lemma configure_docker_Done:
  "configure_docker D a i img ports w = (Done s, w') \<longleftrightarrow>
     (if can_docker a then \<exists>w1 u. pool_get D w = (True, w1) \<and>
        update_docker D i img (map (\<lambda>(n, t). as_i16 n) ports) (map (\<lambda>(n, t). sql_of_expose t) ports) w1 = (u, w') \<and>
        s = docker_answer u
      else s = FORBIDDEN \<and> w' = w)"
  by (auto simp: configure_docker_def Let_def with_conn_Done prog_Done)

lemma set_connection_instructions_Done:
  "set_connection_instructions D a i t w = (Done s, w') \<longleftrightarrow>
     (if can_create a then \<exists>w1 u. pool_get D w = (True, w1) \<and> update_instructions D i t w1 = (u, w') \<and> s = update_answer u
      else s = FORBIDDEN \<and> w' = w)"
  by (auto simp: set_connection_instructions_def with_conn_Done prog_Done)

lemma set_archive_Done:
  "set_archive D i a m w = (Done s, w') \<longleftrightarrow>
     (if can_create a then \<exists>w1. pool_get D w = (True, w1) \<and>
        (case upload m of
           Inl e \<Rightarrow> s = e \<and> w' = w1
         | Inr b \<Rightarrow> \<exists>u. update_archive D i b w1 = (u, w') \<and> s = update_answer u)
      else s = FORBIDDEN \<and> w' = w)"
  by (auto simp: set_archive_def with_conn_Done prog_Done split: sum.split)

lemma upload_error: "upload m = Inl e \<Longrightarrow> e = BAD_REQUEST"
  by (auto simp: upload_def split: multipart.splits if_splits option.splits)

context archive_world
begin

lemma good_ok: "good w \<Longrightarrow> ok w" and good_archive: "good w \<Longrightarrow> archive_ok C (tables w)"
  by (simp_all add: good_def)

lemma ctfs_list_shows:
  assumes "good w" "pool_get D w = (True, w1)" "load_ctfs D w1 = (Inr rows, w2)"
  shows "\<exists>cs. ctfs_list D C w = (Done cs, w2) \<and> mset cs = mset (map (ctf_view C) (t_ctfs (tables w)))"
proof -
  have "ok w1" "tables w1 = tables w" using get [OF good_ok [OF assms(1)] assms(2)] by simp_all
  with ctfs [OF _ assms(3)] have rows: "mset rows = mset (map ctf_columns (t_ctfs (tables w)))" by simp
  have "ctf_of_row C (ctf_columns r) = Done (ctf_view C r)" if "r \<in> set (t_ctfs (tables w))" for r
    using good_archive [OF assms(1)] that by (auto simp: archive_ok_def ctfs_ok_def ctf_of_row_def ctf_view_def)
  from map_outcome_rows [OF rows, of "ctf_of_row C" "ctf_view C", OF this] assms(2,3) show ?thesis
    by (auto simp: ctfs_list_def with_conn_True prog_eval lift_def)
qed

lemma categories_get_shows:
  assumes "good w" "pool_get D w = (True, w1)" "load_categories D i w1 = (Inr rows, w2)"
  shows "\<exists>cs. categories_get D i w = (Done (Inr cs), w2) \<and>
    mset cs = mset (map category_view (filter (\<lambda>r. cat_ctf r = i) (t_categories (tables w))))"
proof -
  let ?rs = "filter (\<lambda>r. cat_ctf r = i) (t_categories (tables w))"
  have "ok w1" "tables w1 = tables w" using get [OF good_ok [OF assms(1)] assms(2)] by simp_all
  with categories [OF _ assms(3)] have rows: "mset rows = mset (map category_columns ?rs)" by simp
  have "category_of_row (category_columns r) = Done (category_view r)" if "r \<in> set ?rs" for r
    using good_archive [OF assms(1)] that
    by (auto simp: archive_ok_def categories_ok_def category_of_row_def category_view_def)
  from map_outcome_rows [OF rows, of category_of_row category_view, OF this] assms(2,3) show ?thesis
    by (auto simp: categories_get_def with_conn_True prog_eval ret_def)
qed

text \<open>Creating rows.\<close>

lemma ctfs_create_adds:
  assumes "ok w" "ctfs_create D C a cc w = (Done (Inr (s, i)), w')"
  shows "\<exists>name x y. s = CREATED \<and> can_create a \<and> varchar 127 (cc_name cc) = Some name \<and>
    date_try_into C (cc_start cc) = Some x \<and> date_try_into C (cc_end cc) = Some y \<and> nd_le C x y \<and>
    name \<notin> ctf_name ` set (t_ctfs (tables w)) \<and>
    tables w' = (tables w)\<lparr>t_ctfs := t_ctfs (tables w) @ [\<lparr>ctf_id = i, ctf_name = name, ctf_start = x, ctf_end = y\<rparr>]\<rparr>"
proof -
  from assms(2) obtain x y w1 where x: "can_create a" "date_try_into C (cc_start cc) = Some x"
    "date_try_into C (cc_end cc) = Some y" "pool_get D w = (True, w1)"
    "insert_ctf D \<lparr>nctf_name = cc_name cc, nctf_start = x, nctf_end = y\<rparr> w1 = (Inr i, w')" "s = CREATED"
    by (auto simp: ctfs_create_def with_conn_Done prog_Done insert_answers_Inr split: if_splits)
  have "ok w1" "tables w1 = tables w" using get [OF assms(1) x(4)] by simp_all
  with ctf [OF _ x(5)] have "insert_ctf_law C \<lparr>nctf_name = cc_name cc, nctf_start = x, nctf_end = y\<rparr> (tables w) (Inr i) (tables w')"
    by simp
  with x show ?thesis
    by (auto simp: insert_ctf_law_def insert_law_def store_ctf_def check_ok_def ends_after_start_def ctf_unique_def
        split: option.splits)
qed

lemma challenges_create_adds:
  assumes "ok w" "challenges_create D q a m w = (Done (Inr (s, i)), w')"
  shows "\<exists>row archive. s = CREATED \<and> can_create a \<and> upload m = Inr archive \<and>
    store_challenge i \<lparr>nch_name = chq_name q, nch_flag = chq_flag q, nch_category = chq_category q,
      nch_description = chq_description q, nch_difficulty = chq_difficulty q, nch_archive = archive,
      nch_port_numbers = [], nch_port_types = [], nch_instructions = chq_instructions q\<rparr> = Some row \<and>
    find_row (tables w') i = Some row \<and> ok w'"
proof -
  let ?n = "\<lambda>archive. \<lparr>nch_name = chq_name q, nch_flag = chq_flag q, nch_category = chq_category q,
      nch_description = chq_description q, nch_difficulty = chq_difficulty q, nch_archive = archive,
      nch_port_numbers = [], nch_port_types = [], nch_instructions = chq_instructions q\<rparr>"
  from assms(2) obtain archive w1 where x: "can_create a" "upload m = Inr archive" "pool_get D w = (True, w1)"
    "insert_challenge D (?n archive) w1 = (Inr i, w')" "s = CREATED"
    by (auto simp: challenges_create_def with_conn_Done prog_Done insert_answers_Inr
        split: if_splits sum.splits)
  have "ok w1" "tables w1 = tables w" using get [OF assms(1) x(3)] by simp_all
  with challenge [OF _ x(4)] have w': "ok w'" and "insert_challenge_law (?n archive) (tables w) (Inr i) (tables w')"
    by simp_all
  then obtain row where row: "store_challenge i (?n archive) = Some row" "i \<notin> ch_id ` set (t_challenges (tables w))"
    "tables w' = (tables w)\<lparr>t_challenges := t_challenges (tables w) @ [row]\<rparr>"
    by (auto simp: insert_challenge_law_def insert_law_def)
  have "ch_id row = i" using row(1) by (auto simp: store_challenge_def split: option.splits)
  with find_row_snoc [OF row(2) this] row x w' show ?thesis by auto
qed

text \<open>Reading one challenge: every handler that looks up an id sees the row of the tables.\<close>

lemma find_challenge_row:
  assumes "ok w" "pool_get D w = (True, w1)" "find_challenge D i w1 = (f, w2)"
  shows "(\<forall>row. f = Inr row \<longrightarrow> find_row (tables w) i = Some row) \<and> (f = Inl NotFound \<longrightarrow> find_row (tables w) i = None) \<and>
    tables w2 = tables w \<and> ok w2"
  using get [OF assms(1,2)] found [OF _ assms(3)] by auto

text \<open>Updates.\<close>

lemma updates_missing:
  assumes "ok w" "find_row (tables w) i = None"
  shows "update_docker D i img nums types w = (u, w') \<Longrightarrow> tables w' = tables w \<and> u \<noteq> Inl NotFound"
    and "update_instructions D i t w = (u, w') \<Longrightarrow> tables w' = tables w \<and> u \<noteq> Inl NotFound"
    and "update_archive D i b w = (u, w') \<Longrightarrow> tables w' = tables w \<and> u \<noteq> Inl NotFound"
  using docker [OF assms(1), of i img nums types u w'] instructions [OF assms(1), of i t u w']
    archive [OF assms(1), of i b u w'] rows_of_id [OF assms(2)]
  by (auto simp: update_docker_law_def update_instructions_law_def update_archive_law_def update_law_def split: sum.splits)

lemma configure_docker_stores:
  assumes "ok w" "configure_docker D a i img ports w = (Done OK, w')" "find_row (tables w) i = Some row"
  shows "\<exists>img'. varchar 63 img = Some img' \<and> ok w' \<and> find_row (tables w') i =
    Some (set_docker img' (map (\<lambda>(n, t). as_i16 n) ports) (map (\<lambda>(n, t). sql_of_expose t) ports) row)"
proof -
  let ?nums = "map (\<lambda>(n, t). as_i16 n) ports" and ?types = "map (\<lambda>(n, t). sql_of_expose t) ports"
  from assms(2) obtain w1 k where x: "pool_get D w = (True, w1)" "update_docker D i img ?nums ?types w1 = (Inr k, w')"
    by (auto simp: configure_docker_Done update_answers split: if_splits)
  have "ok w1" "tables w1 = tables w" using get [OF assms(1) x(1)] by simp_all
  with docker [OF _ x(2)] have w': "ok w'" and "update_docker_law i img ?nums ?types (tables w) (Inr k) (tables w')"
    by simp_all
  then obtain img' where "varchar 63 img = Some img'" "tables w' = change_row i (set_docker img' ?nums ?types) (tables w)"
    using rows_of_id_pos [OF assms(3)] by (auto simp: update_docker_law_def update_law_def)
  with find_row_change [of "set_docker img' ?nums ?types" i "tables w"] assms(3) w' show ?thesis
    by (auto simp: set_docker_def)
qed

lemma set_archive_stores:
  assumes "ok w" "set_archive D i a m w = (Done OK, w')" "find_row (tables w) i = Some row"
  shows "\<exists>b. upload m = Inr b \<and> ok w' \<and> find_row (tables w') i = Some (row\<lparr>ch_archive := b\<rparr>)"
proof -
  from assms(2) obtain w1 k b where x: "upload m = Inr b" "pool_get D w = (True, w1)" "update_archive D i b w1 = (Inr k, w')"
    by (cases "upload m") (auto simp: set_archive_Done update_answers split: if_splits dest: upload_error)
  have "ok w1" "tables w1 = tables w" using get [OF assms(1) x(2)] by simp_all
  with archive [OF _ x(3)] have w': "ok w'" and "update_archive_law i b (tables w) (Inr k) (tables w')"
    by simp_all
  then have "tables w' = change_row i (ch_archive_update (\<lambda>_. b)) (tables w)"
    using rows_of_id_pos [OF assms(3)] by (auto simp: update_archive_law_def update_law_def)
  with find_row_change [of "ch_archive_update (\<lambda>_. b)" i "tables w"] assms(3) w' x(1) show ?thesis by simp
qed

text \<open>
  Updating a challenge that does not exist, and what any result of configuring images means:
  a missing row is never reported, nor are the ports ever refused.
\<close>

lemma missing_row_answers:
  assumes "ok w" "find_row (tables w) i = None"
    and "p \<in> {configure_docker D a i img ports, set_connection_instructions D a i t, set_archive D i a m}"
    and "p w = (Done s, w')"
  shows "s \<noteq> NOT_FOUND \<and> tables w' = tables w"
proof -
  have w1: "ok w1 \<and> find_row (tables w1) i = None \<and> tables w1 = tables w" if "pool_get D w = (b, w1)" for b w1
    using get [OF assms(1) that] assms(2) by simp
  from assms(3) consider (docker) "p = configure_docker D a i img ports"
    | (instr) "p = set_connection_instructions D a i t" | (arch) "p = set_archive D i a m" by blast
  then show ?thesis
  proof cases
    case docker
    with assms(4) show ?thesis
      by (auto simp: configure_docker_Done update_answers split: if_splits 
          dest!: w1 updates_missing(1) [rotated 2] update_answers_sym)
  next
    case instr
    with assms(4) show ?thesis
      by (auto simp: set_connection_instructions_Done update_answers split: if_splits
          dest!: w1 updates_missing(2) [rotated 2] update_answers_sym)
  next
    case arch
    with assms(4) show ?thesis
      by (cases "upload m") (auto simp: set_archive_Done update_answers split: if_splits
          dest!: upload_error w1 updates_missing(3) [rotated 2] update_answers_sym)
  qed
qed

lemma ports_never_refused:
  assumes "ok w" "configure_docker D a i img ports w = (Done s, w')"
  shows "s \<noteq> BAD_REQUEST"
proof
  let ?nums = "map (\<lambda>(n, t). as_i16 n) ports" and ?types = "map (\<lambda>(n, t). sql_of_expose t) ports"
  assume "s = BAD_REQUEST"
  with assms(2) obtain w1 where x: "pool_get D w = (True, w1)"
    "update_docker D i img ?nums ?types w1 = (Inl CheckViolation, w')"
    by (auto simp: configure_docker_Done update_answers split: if_splits)
  have "ok w1" using get [OF assms(1) x(1)] by simp
  from docker [OF this x(2)] show False
    by (simp add: update_docker_law_def update_law_def ports_checked_always)
qed

text \<open>A start: what is looked up, and that the assertions on it hold.\<close>

lemma start_prepare_row:
  assumes "good w" "pool_get D w = (True, w1)" "find_challenge D i w1 = (Inr row, w2)" "ch_docker_image row = Some img"
  shows "start_prepare D i w = (Done (Inr (img, port_list (ch_port_numbers row) (ch_port_types row))), w2)"
proof -
  have "find_row (tables w) i = Some row" using find_challenge_row [OF good_ok [OF assms(1)] assms(2,3)] by simp
  from find_row_Some [OF this] good_archive [OF assms(1)] have "row_ok row"
    by (auto simp: archive_ok_def challenges_ok_def)
  then have "assert_ports (ch_port_numbers row) (ch_port_types row) = Done ()"
    by (intro assert_ports_ok) (simp add: row_ok_def)
  with assms show ?thesis by (simp add: start_prepare_def with_conn_True prog_eval ret_def)
qed

lemma start_prepare_total:
  assumes "good w" "pool_get D w = (True, w1)"
  shows "\<exists>r w2. start_prepare D i w = (Done r, w2)"
proof -
  obtain f w2 where f: "find_challenge D i w1 = (f, w2)" by (metis surj_pair)
  show ?thesis
  proof (cases "\<exists>row img. f = Inr row \<and> ch_docker_image row = Some img")
    case True
    with start_prepare_row [OF assms] f show ?thesis by blast
  next
    case False
    with f assms(2) show ?thesis
      by (cases f) (auto simp: start_prepare_def with_conn_True prog_eval ret_def split: db_error.split option.split)
  qed
qed

lemma start_prepare_found:
  assumes "ok w" "start_prepare D i w = (Done (Inr (img, ps)), w')"
  shows "\<exists>row. find_row (tables w) i = Some row \<and> ch_docker_image row = Some img \<and>
    ps = port_list (ch_port_numbers row) (ch_port_types row)"
proof -
  from assms(2) obtain w1 where w1: "pool_get D w = (True, w1)"
    by (auto simp: start_prepare_def with_conn_Done)
  obtain f w2 where f: "find_challenge D i w1 = (f, w2)" by (metis surj_pair)
  from assms(2) w1 f obtain row where w: "f = Inr row" "w' = w2"
    "ch_docker_image row = Some img" "ps = port_list (ch_port_numbers row) (ch_port_types row)"
    by (cases f) (auto simp: start_prepare_def with_conn_True prog_Done split: db_error.splits option.splits)
  from find_challenge_row [OF assms(1) w1] f w show ?thesis by blast
qed

end

end
