(* ===== verification/Archive_Props.thy ===== *)
theory Archive_Props
  imports Archive_Behaviour Sample
begin

text \<open>
  Properties of the archive: its data and who may change them, what clients are shown, and
  how a challenge gets from the database to the daemon. They hold for every database and
  socket that keep the laws of \<open>archive_world\<close>.
\<close>

section \<open>A small archive\<close>

definition sample_row :: challenge_row where
  "sample_row = \<lparr>ch_id = 1, ch_name = ''heap'', ch_flag = Some ''flag'', ch_category = 1, ch_description = [],
     ch_difficulty = ''hard'', ch_archive = None, ch_docker_image = None, ch_port_numbers = [], ch_port_types = [],
     ch_instructions = None\<rparr>"

definition sample_pg :: "challenge_row list \<Rightarrow> (int \<times> nat \<times> nat) pg" where
  "sample_pg rows = \<lparr>pg_tables = \<lparr>
       t_ctfs = [\<lparr>ctf_id = 1, ctf_name = ''A'', ctf_start = (2024, 2, 28), ctf_end = (2024, 2, 29)\<rparr>],
       t_categories = [\<lparr>cat_id = 1, cat_name = ''binaries'', cat_ctf = 1, cat_type = ''pwn''\<rparr>],
       t_challenges = rows\<rparr>,
     pg_ctf_seq = 2, pg_category_seq = 2, pg_challenge_seq = 2, pg_pool = True, pg_sent = []\<rparr>"

lemma sample_pg_ok: "pg_ok (sample_pg [])" "pg_ok (sample_pg [sample_row])"
  "archive_ok gregorian (pg_tables (sample_pg []))" "archive_ok gregorian (pg_tables (sample_pg [sample_row]))"
  by (simp_all add: pg_ok_def sample_pg_def sample_row_def archive_ok_def ctfs_ok_def categories_ok_def challenges_ok_def
      images_unique_def row_ok_def category_type_parse_def date_try_from_def gregorian_def)

abbreviation quiet :: "u8 list \<Rightarrow> stream" where
  "quiet \<equiv> \<lambda>_. ([], True)"

lemma pg_laws: "archive_world (pg_db gregorian) gregorian pg_ok pg_tables (pg_socket f)"
  by (rule pg.archive_world_axioms)

lemma sample_laws: "archive_world (cfg_db (sample_config f)) (cfg_chrono (sample_config f)) pg_ok pg_tables (cfg_socket (sample_config f))"
  by (simp add: pg_laws)

lemma ascii_chars: "is_ascii s \<Longrightarrow> char_count s = length s"
proof -
  assume "is_ascii s"
  then have "filter (\<lambda>b. \<not> is_cont b) (as_bytes s) = as_bytes s"
    by (auto simp: filter_id_conv is_ascii_def as_bytes_def list_all_iff lead_not_cont)
  then show ?thesis by (simp add: char_count_def as_bytes_def)
qed

definition sample_ctf :: create_ctf where
  "sample_ctf = \<lparr>cc_name = ''B'', cc_start = \<lparr>date_year = 2023, date_month = 12, date_day = 31\<rparr>,
     cc_end = \<lparr>date_year = 2024, date_month = 1, date_day = 1\<rparr>\<rparr>"

lemma sample_ctf_created:
  "ctfs_create (pg_db gregorian) gregorian sample_admin sample_ctf pg_empty = (Done (Inr (CREATED, 1)),
     pg_empty\<lparr>pg_ctf_seq := 2, pg_tables := \<lparr>
       t_ctfs = [\<lparr>ctf_id = 1, ctf_name = ''B'', ctf_start = (2023, 12, 31), ctf_end = (2024, 1, 1)\<rparr>],
       t_categories = [], t_challenges = []\<rparr>\<rparr>)"
proof -
  have "char_count ''B'' = 1"
    by (subst ascii_chars) (simp_all add: is_ascii_def byte_of_def word_less_nat_alt)
  then show ?thesis
    by (simp add: ctfs_create_def sample_admin_def with_conn_def prog_eval pg_db_def pg_empty_def date_try_into_def
        gregorian_def month_length_def sample_ctf_def on_tables_def pg_insert_def store_ctf_def check_ok_def
        ends_after_start_def ctf_unique_def ctf_insert_answer_def ret_def)
qed

lemma sample_ctf_run:
  "\<exists>w. run (sample_config quiet) (sample_start pg_empty) (sample_start w)
       (admin_log @ [sample_entry admin_headers (CtfsCreate (Some sample_ctf)) (ACreated CREATED 1)]) \<and>
     handle (sample_config quiet) (sample_start pg_empty) admin_headers sample_random (CtfsCreate (Some sample_ctf))
       = (ACreated CREATED 1, sample_start w) \<and> t_ctfs (pg_tables w) \<noteq> t_ctfs (pg_tables pg_empty)"
proof -
  obtain w where w: "ctfs_create (pg_db gregorian) gregorian sample_admin sample_ctf pg_empty = (Done (Inr (CREATED, 1)), w)"
    "t_ctfs (pg_tables w) \<noteq> t_ctfs (pg_tables pg_empty)"
    using sample_ctf_created by (simp add: pg_empty_def)
  then have h: "handle (sample_config quiet) (sample_start pg_empty) admin_headers sample_random (CtfsCreate (Some sample_ctf))
      = (ACreated CREATED 1, sample_start w)"
    by (simp add: handle_defs created_def)
  from sample_request [OF admin_run admin_unforged h] w(2) h show ?thesis by auto
qed

section \<open>The data\<close>

text \<open>C13. Every run of the server keeps the archive consistent. Whatever requests arrive, in whatever
  order, with or without valid sessions: names and ids stay unique, every category belongs to
  an existing CTF and every challenge to an existing category, dates are in order and can be
  shown, category types can be parsed, port lists have equal lengths without NULLs, no image
  belongs to two challenges, and image names have at most 63 characters.\<close>

theorem archive_invariant:
  assumes "archive_world (cfg_db c) (cfg_chrono c) ok tables (cfg_socket c)" and "run c st0 st log"
    and "ok (app_world st0)" and "archive_ok (cfg_chrono c) (tables (app_world st0))"
    and "list_all (\<lambda>e. request_strings_ok (e_req e)) log"
  shows "ok (app_world st) \<and> archive_ok (cfg_chrono c) (tables (app_world st))"
proof -
  note laws = archive_world.uses_def [OF assms(1)] archive_world.good_def [OF assms(1)]
  from archive_world.run_good [OF assms(1,2)] assms(3-5) show ?thesis
    unfolding laws list_all_iff by blast
qed

theorem archive_invariant_witness:
  "\<exists>w :: (int \<times> nat \<times> nat) pg. t_ctfs (pg_tables w) \<noteq> t_ctfs (pg_tables pg_empty) \<and> archive_ok gregorian (pg_tables w)"
proof -
  obtain w where w: "run (sample_config quiet) (sample_start pg_empty) (sample_start w)
      (admin_log @ [sample_entry admin_headers (CtfsCreate (Some sample_ctf)) (ACreated CREATED 1)])"
    "t_ctfs (pg_tables w) \<noteq> t_ctfs (pg_tables pg_empty)"
    using sample_ctf_run by blast
  have "archive_ok gregorian (pg_tables pg_empty)" using archive_ok_empty by (simp add: pg_empty_def)
  with archive_invariant [OF sample_laws w(1)] w(2) show ?thesis
    by (auto simp: admin_log_def sample_entry_def)
qed

text \<open>C3. Only the holder of the first key changes the archive. If a request changes anything in the
  database, it carries a session of the administrator with id 0, and the log shows that the
  random bytes of a challenge for that id were signed with the first key of the table at the
  login that opened the session.\<close>

theorem only_full_admin_changes:
  assumes "archive_world (cfg_db c) (cfg_chrono c) ok tables (cfg_socket c)" and "jwt_laws (cfg_jwt c) tolerance"
    and "\<And>bytes. b64_dec (cfg_b64 c) (b64_enc (cfg_b64 c) bytes) = Some bytes"
    and "run c st0 st log" and "unforged (cfg_jwt c) (app_keys st) (app_now st) log hs" and "ok (app_world st)"
    and "tables (app_world (snd (handle c st hs rnd req))) \<noteq> tables (app_world st)"
  shows "\<exists>a m n bytes resp r s. admin_of c st hs = Inr a \<and> admin_id a = 0 \<and> m < n \<and> n < length log \<and>
    e_req (log ! m) = InitiateChallenge (Some 0) \<and> rnd_bytes (e_rnd (log ! m)) = Some bytes \<and>
    e_req (log ! n) = FinishChallenge (Some resp) \<and>
    b64_dec (cfg_b64 c) (fst resp) = Some r \<and> b64_dec (cfg_b64 c) (snd resp) = Some s \<and>
    ecdsa_verify (cfg_p256 c) (hex debug_pubkey) bytes (r @ s) \<and>
    app_now st \<le> e_now (log ! n) + 30 * 60 + tolerance"
proof -
  note laws = archive_world.uses_def [OF assms(1)] archive_world.same_def [OF assms(1)]
  obtain a where a: "admin_of c st hs = Inr a" "can_create a \<or> can_docker a"
    using archive_world.handle_same [OF assms(1), of c "tables (app_world st)" st hs rnd req] assms(6,7)
    by (auto simp: laws leaves_def)
  then have "admin_id a = 0 \<and> first_key_signed c tolerance log (app_now st)"
    using powerful_session_signed [OF assms(2,4,5) a(1) assms(3)] by blast
  with a(1) show ?thesis unfolding first_key_signed_def by blast
qed

theorem only_full_admin_changes_witness:
  "\<exists>m n. m < n \<and> n < length admin_log \<and> e_req (admin_log ! m) = InitiateChallenge (Some 0)"
proof -
  let ?c = "sample_config quiet" and ?st = "sample_start pg_empty"
  have b64: "b64_dec (cfg_b64 ?c) (b64_enc (cfg_b64 ?c) bytes) = Some bytes" for bytes
    by (simp add: rfc4648.dec_enc)
  have u: "unforged (cfg_jwt ?c) (app_keys ?st) (app_now ?st) admin_log admin_headers" by (simp add: admin_unforged)
  have j: "jwt_laws (cfg_jwt ?c) 900" by (simp add: sim_jwt.jwt_laws_axioms)
  obtain w where w: "handle ?c ?st admin_headers sample_random (CtfsCreate (Some sample_ctf)) = (ACreated CREATED 1, sample_start w)"
    "t_ctfs (pg_tables w) \<noteq> t_ctfs (pg_tables pg_empty)"
    using sample_ctf_run by blast
  then have "pg_tables (app_world (snd (handle ?c ?st admin_headers sample_random (CtfsCreate (Some sample_ctf)))))
      \<noteq> pg_tables (app_world ?st)"
    by (auto simp del: handle.simps)
  from only_full_admin_changes [OF sample_laws j b64 admin_run u _ this] show ?thesis by auto
qed

end
