(* ===== verification/Handler_Props.thy ===== *)
theory Handler_Props
  imports Archive_Props
begin

text \<open>
  Properties of the single handlers on a consistent archive: what they show, what they
  store, and the answers they give where the archive or the request is unusual.
\<close>

lemma archive_good:
  assumes "archive_world D C ok tables S"
  shows "archive_world.good C ok tables w \<longleftrightarrow> ok w \<and> archive_ok C (tables w)"
  by (rule archive_world.good_def [OF assms])

section \<open>Listings\<close>

text \<open>C19. Listings show the tables. On a consistent archive, if the pool gives a connection and the
  query succeeds, the lists of CTFs and of a CTF's categories do not panic on a date or a
  category type, and hold exactly the rows, each converted field by field.\<close>

theorem listings_show_tables:
  assumes "archive_world D C ok tables S" and "ok w" and "archive_ok C (tables w)"
    and "pool_get D w = (True, w1)" and "load_ctfs D w1 = (Inr rows, w2)" and "load_categories D i w1 = (Inr rows', w2')"
  shows "\<exists>cs cats. ctfs_list D C w = (Done cs, w2) \<and> categories_get D i w = (Done (Inr cats), w2') \<and>
    mset cs = mset (map (ctf_view C) (t_ctfs (tables w))) \<and>
    mset cats = mset (map category_view (filter (\<lambda>r. cat_ctf r = i) (t_categories (tables w))))"
  using archive_world.ctfs_list_shows [OF assms(1) _ assms(4,5)]
    archive_world.categories_get_shows [OF assms(1) _ assms(4,6)] assms(2,3)
  unfolding archive_good [OF assms(1)] by blast

theorem listings_show_tables_witness:
  "\<exists>cs cats w. ctfs_list (pg_db gregorian) gregorian (sample_pg []) = (Done cs, w) \<and>
     categories_get (pg_db gregorian) 1 (sample_pg []) = (Done (Inr cats), w) \<and>
     mset cats = mset (map category_view (t_categories (pg_tables (sample_pg []))))"
proof -
  let ?w = "sample_pg []"
  have "pool_get (pg_db gregorian) ?w = (True, ?w)" by (simp add: pg_db_def sample_pg_def)
  moreover have "load_ctfs (pg_db gregorian) ?w = (Inr (map ctf_columns (t_ctfs (pg_tables ?w))), ?w)"
    "load_categories (pg_db gregorian) 1 ?w =
      (Inr (map category_columns (filter (\<lambda>c. cat_ctf c = 1) (t_categories (pg_tables ?w)))), ?w)"
    by (simp_all add: pg_db_def)
  ultimately have "\<exists>cs cats. ctfs_list (pg_db gregorian) gregorian ?w = (Done cs, ?w) \<and>
      categories_get (pg_db gregorian) 1 ?w = (Done (Inr cats), ?w) \<and>
      mset cs = mset (map (ctf_view gregorian) (t_ctfs (pg_tables ?w))) \<and>
      mset cats = mset (map category_view (filter (\<lambda>r. cat_ctf r = 1) (t_categories (pg_tables ?w))))"
    by (rule listings_show_tables [OF pg_laws sample_pg_ok(1,3)])
  then show ?thesis by (auto simp: sample_pg_def)
qed

text \<open>C28. A CTF that was created is listed as it was given: with the id of the answer, its name (up to
  trailing blanks beyond 127 characters) and exactly the client's dates, next to what was
  listed before. Its end is not before its start.\<close>

theorem created_ctf_listed:
  assumes "archive_world D C ok tables S" and "ok w" and "archive_ok C (tables w)"
    and "ctfs_create D C a cc w = (Done (Inr (s, i)), w1)"
    and "pool_get D w1 = (True, w2)" and "load_ctfs D w2 = (Inr rows, w3)"
  shows "\<exists>name cs k x y. s = CREATED \<and> ctfs_list D C w1 = (Done cs, w3) \<and> cc_name cc = name @ replicate k (CHR '' '') \<and>
    mset cs = add_mset \<lparr>view_id = i, view_name = name, view_start = cc_start cc, view_end = cc_end cc\<rparr>
      (mset (map (ctf_view C) (t_ctfs (tables w)))) \<and>
    date_try_into C (cc_start cc) = Some x \<and> date_try_into C (cc_end cc) = Some y \<and> nd_le C x y"
proof -
  from archive_world.ctfs_create_adds [OF assms(1,2,4)] obtain name x y where
    n: "s = CREATED" "varchar 127 (cc_name cc) = Some name"
      "date_try_into C (cc_start cc) = Some x" "date_try_into C (cc_end cc) = Some y" "nd_le C x y"
    and t: "tables w1 = (tables w)\<lparr>t_ctfs := t_ctfs (tables w) @ [\<lparr>ctf_id = i, ctf_name = name, ctf_start = x, ctf_end = y\<rparr>]\<rparr>"
    by blast
  have "chrono_laws C" using assms(1) by (simp add: archive_world_def)
  with n have v: "ctf_view C \<lparr>ctf_id = i, ctf_name = name, ctf_start = x, ctf_end = y\<rparr> =
      \<lparr>view_id = i, view_name = name, view_start = cc_start cc, view_end = cc_end cc\<rparr>"
    by (simp add: ctf_view_def chrono_laws.try_from_into)
  have "ok w1 \<and> archive_ok C (tables w1)"
    using keepsD [OF archive_world.ctfs_create_good [OF assms(1)] _ assms(4)] assms(2,3)
    unfolding archive_good [OF assms(1)] by blast
  with archive_world.ctfs_list_shows [OF assms(1) _ assms(5,6)] obtain cs where
    "ctfs_list D C w1 = (Done cs, w3)" "mset cs = mset (map (ctf_view C) (t_ctfs (tables w1)))"
    unfolding archive_good [OF assms(1)] by blast
  with t v n varchar_Some [OF n(2)] show ?thesis by (intro exI [of _ name] exI [of _ cs]) auto
qed

theorem created_ctf_listed_witness:
  "\<exists>w1 w3 cs. ctfs_create (pg_db gregorian) gregorian sample_admin sample_ctf pg_empty = (Done (Inr (CREATED, 1)), w1) \<and>
     ctfs_list (pg_db gregorian) gregorian w1 = (Done cs, w3) \<and> (\<exists>c \<in># mset cs. view_start c = cc_start sample_ctf)"
proof -
  obtain w1 where w1: "ctfs_create (pg_db gregorian) gregorian sample_admin sample_ctf pg_empty = (Done (Inr (CREATED, 1)), w1)"
    "pg_pool w1"
    using sample_ctf_created by (simp add: pg_empty_def)
  have ok: "pg_ok pg_empty" "archive_ok gregorian (pg_tables pg_empty)"
    using archive_ok_empty by simp_all (simp add: pg_empty_def)
  have "pool_get (pg_db gregorian) w1 = (True, w1)" using w1(2) by (simp add: pg_db_def)
  moreover have "load_ctfs (pg_db gregorian) w1 = (Inr (map ctf_columns (t_ctfs (pg_tables w1))), w1)"
    by (simp add: pg_db_def)
  ultimately obtain name cs k where "ctfs_list (pg_db gregorian) gregorian w1 = (Done cs, w1)"
    "mset cs = add_mset \<lparr>view_id = 1, view_name = name, view_start = cc_start sample_ctf, view_end = cc_end sample_ctf\<rparr>
      (mset (map (ctf_view gregorian) (t_ctfs (pg_tables pg_empty))))"
    using created_ctf_listed [OF pg_laws ok w1(1)] by blast
  with w1(1) show ?thesis by (intro exI conjI) (assumption, assumption, simp)
qed

text \<open>A date that is no calendar day panics. The handler that creates CTFs unwraps the conversion
  of the client's dates, so an administrator's request with a start date such as the 30th of
  February ends in a panic instead of an error answer; nothing is stored.\<close>

theorem invalid_date_panics:
  assumes "date_try_into C (cc_start cc) = None" and "can_create a" and "pool_get D w = (True, w1)"
  shows "ctfs_create D C a cc w = (Panic, w1)"
  using assms by (simp add: ctfs_create_def with_conn_True)

theorem invalid_date_panics_witness:
  "ctfs_create (pg_db gregorian) gregorian sample_admin
     (sample_ctf\<lparr>cc_start := \<lparr>date_year = 2024, date_month = 2, date_day = 30\<rparr>\<rparr>) pg_empty = (Panic, pg_empty)"
proof (rule invalid_date_panics)
  show "date_try_into gregorian (cc_start (sample_ctf\<lparr>cc_start := \<lparr>date_year = 2024, date_month = 2, date_day = 30\<rparr>\<rparr>)) = None"
    by (simp add: date_try_into_def gregorian_def month_length_def leap_year_def)
qed (simp_all add: sample_admin_def pg_db_def pg_empty_def)

text \<open>The types of categories: the database's check admits exactly the names the parser knows, and
  parsing inverts printing, so reading a stored category never fails on its type.\<close>

theorem category_names_agree:
  "(check_ok (valid_category_type t) \<longleftrightarrow> (\<exists>k. category_type_parse t = Some k)) \<and>
   (category_type_parse t = Some k \<longleftrightarrow> t = category_type_as_str k)"
  using category_check_parses [of t] category_type_parse_Some [of t k] by auto

section \<open>Challenges\<close>

text \<open>C27. A challenge that was created is read back. Later lookups of the answered id, if they
  reach the database, give its flag, its archive (an empty one for none) and its metadata,
  with texts up to trailing blanks beyond the columns' sizes; but the category id in the
  metadata is the challenge's own id, whatever its category.\<close>

theorem created_challenge_read:
  assumes "archive_world D C ok tables S" and "ok w"
    and "challenges_create D q a m w = (Done (Inr (s, i)), w1)"
    and "pool_get D w1 = (True, w2)" and "find_challenge D i w2 = (Inr row, w3)"
  shows "\<exists>name description difficulty flag instructions archive.
    varchar 63 (chq_name q) = Some name \<and> varchar 2047 (chq_description q) = Some description \<and>
    varchar 31 (chq_difficulty q) = Some difficulty \<and> varchar_opt 127 (chq_flag q) = Some flag \<and>
    varchar_opt 255 (chq_instructions q) = Some instructions \<and> upload m = Inr archive \<and>
    get_flag D i w1 = (Done (case flag of Some f \<Rightarrow> Inr f | None \<Rightarrow> Inl NOT_FOUND), w3) \<and>
    get_archive D i w1 = (Done (Inr (''application/zip'', case archive of Some b \<Rightarrow> b | None \<Rightarrow> [])), w3) \<and>
    get_metadata D i w1 = (Done (Inr \<lparr>meta_id = i, meta_name = name, meta_category_id = i,
      meta_description = description, meta_difficulty = difficulty, meta_instructions = instructions,
      meta_has_archive = (archive \<noteq> None)\<rparr>), w3)"
proof -
  from archive_world.challenges_create_adds [OF assms(1-3)] obtain archive row' where
    n: "upload m = Inr archive" "ok w1" "find_row (tables w1) i = Some row'"
    and st: "store_challenge i \<lparr>nch_name = chq_name q, nch_flag = chq_flag q, nch_category = chq_category q,
      nch_description = chq_description q, nch_difficulty = chq_difficulty q, nch_archive = archive,
      nch_port_numbers = [], nch_port_types = [], nch_instructions = chq_instructions q\<rparr> = Some row'"
    by blast
  have "row' = row" using archive_world.find_challenge_row [OF assms(1) n(2) assms(4,5)] n(3) by simp
  with st n(1) assms(4,5) show ?thesis
    by (auto simp: store_challenge_def get_flag_def get_archive_def get_metadata_def with_conn_True prog_eval ret_def
        split: option.splits)
qed

lemmas char_eval = char_count_def as_bytes_def is_cont_def byte_of_def word_le_nat_alt word_less_nat_alt

definition sample_question :: create_challenge where
  "sample_question = \<lparr>chq_name = ''rop'', chq_flag = Some ''f'', chq_category = 1, chq_description = [],
     chq_difficulty = [], chq_instructions = None\<rparr>"

theorem created_challenge_read_witness:
  "\<exists>w1 w3. challenges_create (pg_db gregorian) sample_question sample_admin NoField (sample_pg []) = (Done (Inr (CREATED, 2)), w1) \<and>
     get_flag (pg_db gregorian) 2 w1 = (Done (Inr ''f''), w3)"
proof -
  let ?D = "pg_db gregorian"
  obtain w1 row where c: "challenges_create ?D sample_question sample_admin NoField (sample_pg []) = (Done (Inr (CREATED, 2)), w1)"
    and r: "pool_get ?D w1 = (True, w1)" "find_challenge ?D 2 w1 = (Inr row, w1)"
    by (simp add: challenges_create_def sample_admin_def upload_def with_conn_def prog_eval pg_db_def sample_pg_def
        sample_question_def on_tables_def pg_insert_def store_challenge_def check_ok_def ports_checked_always
        challenge_unique_def challenge_refs_def insert_answer_def ret_def find_row_def char_eval)
  from created_challenge_read [OF pg_laws sample_pg_ok(1) c r] c show ?thesis
    by (auto simp: sample_question_def char_eval)
qed

text \<open>C29. An uploaded archive is downloaded again. After \<^verbatim>\<open>set_archive\<close> answers
  \<^verbatim>\<open>OK\<close> for an existing challenge, \<^verbatim>\<open>get_archive\<close> serves exactly
  the uploaded bytes (none for a request without a file).\<close>

theorem uploaded_archive_read:
  assumes "archive_world D C ok tables S" and "ok w" and "find_row (tables w) i = Some old"
    and "set_archive D i a m w = (Done OK, w1)"
    and "pool_get D w1 = (True, w2)" and "find_challenge D i w2 = (Inr row, w3)"
  shows "\<exists>archive. upload m = Inr archive \<and>
    get_archive D i w1 = (Done (Inr (''application/zip'', case archive of Some b \<Rightarrow> b | None \<Rightarrow> [])), w3)"
proof -
  from archive_world.set_archive_stores [OF assms(1,2,4,3)] obtain b where
    b: "upload m = Inr b" "ok w1" "find_row (tables w1) i = Some (old\<lparr>ch_archive := b\<rparr>)" by blast
  from archive_world.find_challenge_row [OF assms(1) b(2) assms(5,6)] b(3) have "row = old\<lparr>ch_archive := b\<rparr>" by simp
  with b(1) assms(5,6) show ?thesis by (simp add: get_archive_def with_conn_True prog_eval ret_def)
qed

theorem uploaded_archive_read_witness:
  "\<exists>w1 w3. set_archive (pg_db gregorian) 1 sample_admin
       (Field (Some ''zip_file'') (Some ''application/zip'') (Some [80, 75])) (sample_pg [sample_row]) = (Done OK, w1) \<and>
     get_archive (pg_db gregorian) 1 w1 = (Done (Inr (''application/zip'', [80, 75])), w3)"
proof -
  let ?D = "pg_db gregorian" and ?w = "sample_pg [sample_row]"
    and ?m = "Field (Some ''zip_file'') (Some ''application/zip'') (Some [80, 75])"
  have old: "find_row (pg_tables ?w) 1 = Some sample_row" by (simp add: find_row_def sample_pg_def sample_row_def)
  obtain w1 row where c: "set_archive ?D 1 sample_admin ?m ?w = (Done OK, w1)"
    and r: "pool_get ?D w1 = (True, w1)" "find_challenge ?D 1 w1 = (Inr row, w1)"
    by (simp add: set_archive_def sample_admin_def upload_def with_conn_def prog_eval pg_db_def sample_pg_def
        sample_row_def on_tables_def pg_update_def update_answer_def ret_def find_row_def change_row_def)
  from uploaded_archive_read [OF pg_laws sample_pg_ok(2) old c r] c show ?thesis by (auto simp: upload_def)
qed

section \<open>From the database to the daemon\<close>

text \<open>C7. What an administrator configures is what the daemon starts. After
  \<^verbatim>\<open>configure_docker\<close> has answered \<^verbatim>\<open>OK\<close> for an existing challenge,
  starting it (as a user or as a demonstration) passes all assertions, sends exactly that
  image and those ports, although ports are stored in a signed column, and the daemon's parser
  reads them back. The image name loses at most trailing blanks. As the number of ports is not
  limited anywhere before, the daemon refuses ten to 255 of them, and reads a prefix of more.\<close>

theorem configured_image_started:
  assumes "archive_world D C ok tables S" and "ok w" and "archive_ok C (tables w)" and "rust_string img"
    and "configure_docker D a i img ports w = (Done OK, w1)" and "find_row (tables w) i = Some old"
    and "pool_get D w1 = (True, w2)" and "find_challenge D i w2 = (Inr row, w3)"
  shows "\<exists>img' k. img = img' @ replicate k (CHR '' '') \<and>
    start_challenge D S i m w1 = bind_prog (start_container S img' (exposed ports) m) (start_answer S) w3 \<and>
    parse_request (start_message img' (exposed ports) m @ rest, eof) =
      (if length ports mod 256 < 10
       then Parsed \<lparr>req_mode = daemon_mode m, req_image = img',
              req_ports = map daemon_mapping (take (length ports mod 256) (exposed ports))\<rparr>
       else Reply RESULT_INVALID_PORT)"
proof -
  let ?nums = "map (\<lambda>(n, t). as_i16 n) ports" and ?types = "map (\<lambda>(n, t). sql_of_expose t) ports"
  from archive_world.configure_docker_stores [OF assms(1,2,5,6)] obtain img' where
    img': "varchar 63 img = Some img'" "ok w1" "find_row (tables w1) i = Some (set_docker img' ?nums ?types old)"
    by blast
  from archive_world.find_challenge_row [OF assms(1) img'(2) assms(7,8)] img'(3)
  have row: "ch_docker_image row = Some img'" "ch_port_numbers row = map Some ?nums" "ch_port_types row = map Some ?types"
    by (auto simp: set_docker_def)
  have "archive_world.good C ok tables w1"
    using keepsD [OF archive_world.configure_docker_good [OF assms(1,4)] _ assms(5)] assms(2,3)
    unfolding archive_good [OF assms(1)] by blast
  from archive_world.start_prepare_row [OF assms(1) this assms(7,8) row(1)]
  have "start_prepare D i w1 = (Done (Inr (img', exposed ports)), w3)" unfolding row(2,3) port_list_stored .
  then have "start_challenge D S i m w1 = bind_prog (start_container S img' (exposed ports) m) (start_answer S) w3"
    by (simp add: start_challenge_def bind_prog_def)
  moreover have "rust_string img'" using varchar_rust_string [OF img'(1) assms(4)] .
  moreover have "length img' < 256"
    using rust_string_length_bound [OF \<open>rust_string img'\<close>] varchar_Some [OF img'(1)] by simp
  ultimately show ?thesis
    using parse_start_message [of img' "exposed ports" m rest eof] varchar_Some [OF img'(1)] by (auto simp: exposed_def)
qed

theorem configured_image_started_witness:
  "\<exists>w1 w3. configure_docker (pg_db gregorian) sample_admin 1 ''n'' [(40000, ExposeUdp)] (sample_pg [sample_row]) = (Done OK, w1) \<and>
     start_challenge (pg_db gregorian) (pg_socket quiet) 1 StartDemo w1 =
       bind_prog (start_container (pg_socket quiet) ''n'' [(40000, 40000, SqlUdp)] StartDemo) (start_answer (pg_socket quiet)) w3"
proof -
  let ?D = "pg_db gregorian" and ?w = "sample_pg [sample_row]"
  have old: "find_row (pg_tables ?w) 1 = Some sample_row" by (simp add: find_row_def sample_pg_def sample_row_def)
  have n: "rust_string ''n''" by (rule ascii_rust_string) (simp add: is_ascii_def char_eval)
  obtain w1 row where c: "configure_docker ?D sample_admin 1 ''n'' [(40000, ExposeUdp)] ?w = (Done OK, w1)"
    and r: "pool_get ?D w1 = (True, w1)" "find_challenge ?D 1 w1 = (Inr row, w1)"
    by (simp add: configure_docker_def sample_admin_def with_conn_def prog_eval pg_db_def sample_pg_def
        sample_row_def on_tables_def pg_update_def docker_answer_def ret_def find_row_def change_row_def
        ports_checked_always docker_fits_def docker_unique_def set_docker_def char_eval)
  from configured_image_started [OF pg_laws sample_pg_ok(2,4) n c old r, of quiet StartDemo "[]" True] obtain img k where
    img: "''n'' = img @ replicate k (CHR '' '')" and st: "start_challenge ?D (pg_socket quiet) 1 StartDemo w1 =
      bind_prog (start_container (pg_socket quiet) img [(40000, 40000, SqlUdp)] StartDemo) (start_answer (pg_socket quiet)) w1"
    by (auto simp: exposed_def)
  have "img = ''n''" using img by (cases k) (simp_all add: replicate_append_same [symmetric] append_eq_Cons_conv Cons_eq_append_conv)
  with st c show ?thesis by blast
qed



text \<open>The length the web server reserves for a start message is exactly the length of the
  message.\<close>

theorem message_capacity_exact:
  "length (start_message image_name port_mappings start_mode) = message_capacity image_name port_mappings start_mode"
  by (rule length_start_message)

section \<open>Answers that never come\<close>

text \<open>C39. Updating a challenge that does not exist is not reported. The three handlers that update a
  challenge answer \<^verbatim>\<open>NOT_FOUND\<close> only to an error the database does not raise for
  an update: without such a row they change nothing and still do not answer
  \<^verbatim>\<open>NOT_FOUND\<close>.\<close>

theorem missing_row_unreported:
  assumes "archive_world D C ok tables S" and "ok w" and "find_row (tables w) i = None"
    and "p \<in> {configure_docker D a i img ports, set_connection_instructions D a i t, set_archive D i a m}"
    and "p w = (Done s, w')"
  shows "s \<noteq> NOT_FOUND \<and> tables w' = tables w"
  by (rule archive_world.missing_row_answers [OF assms])

theorem missing_row_unreported_witness:
  "\<exists>w'. set_connection_instructions (pg_db gregorian) sample_admin 9 None (sample_pg []) = (Done OK, w') \<and>
     pg_tables w' = pg_tables (sample_pg [])"
proof -
  have none: "find_row (pg_tables (sample_pg [])) 9 = None" by (simp add: find_row_def sample_pg_def)
  obtain w' where w': "set_connection_instructions (pg_db gregorian) sample_admin 9 None (sample_pg []) = (Done OK, w')"
    by (simp add: set_connection_instructions_def sample_admin_def with_conn_def prog_eval pg_db_def sample_pg_def
        on_tables_def pg_update_def update_answer_def ret_def)
  from missing_row_unreported [OF pg_laws sample_pg_ok(1) none, of
      "set_connection_instructions (pg_db gregorian) sample_admin 9 None" sample_admin "[]" "[]" None NoField OK w'] w'
  show ?thesis by simp
qed

text \<open>C40. Ports are never refused. The port constraints of the database ask for a dimension arrays do
  not have and so never fail: configuring an image never answers \<^verbatim>\<open>BAD_REQUEST\<close>,
  however many ports there are.\<close>

theorem port_limit_unenforced:
  assumes "archive_world D C ok tables S" and "ok w" and "configure_docker D a i img ports w = (Done s, w')"
  shows "s \<noteq> BAD_REQUEST"
  by (rule archive_world.ports_never_refused [OF assms])

theorem port_limit_unenforced_witness:
  "fst (configure_docker (pg_db gregorian) sample_admin 1 ''n'' (replicate 20 (80, ExposeTcp)) (sample_pg [sample_row]))
     \<noteq> Done BAD_REQUEST"
  using port_limit_unenforced [OF pg_laws sample_pg_ok(2), of sample_admin 1 "''n''" "replicate 20 (80, ExposeTcp)"]
  by (metis prod.collapse)

end
