(* ===== verification/Framing.thy ===== *)
theory Framing
  imports Protocol
begin

text \<open>
  Connections that break off. What either end of the socket makes of a prefix of a message
  is what it makes of the whole message, or an error: readers consume from the front and
  never look beyond what they need. The facts are built up reader by reader, following the
  structure of the code.
\<close>

section \<open>Readers\<close>

definition incremental :: "(stream \<Rightarrow> ('a \<times> stream) io) \<Rightarrow> bool" where
  "incremental R \<longleftrightarrow> (\<forall>bs eof x rem. R (bs, eof) = Ready (Some (x, rem)) \<longrightarrow>
     (\<forall>tail eof'. R (bs @ tail, eof') = Ready (Some (x, (fst rem @ tail, eof')))))"

named_theorems incremental_intros

lemma incrementalI:
  "(\<And>bs eof x rem e tail eof'. R (bs, eof) = Ready (Some (x, rem, e)) \<Longrightarrow>
     R (bs @ tail, eof') = Ready (Some (x, (rem @ tail, eof')))) \<Longrightarrow> incremental R"
  unfolding incremental_def by (metis fst_conv surj_pair)

lemma incrementalD:
  "incremental R \<Longrightarrow> R (bs, eof) = Ready (Some (x, rem)) \<Longrightarrow> R (bs @ tail, eof') = Ready (Some (x, (fst rem @ tail, eof')))"
  unfolding incremental_def by blast

lemma incremental_return [incremental_intros]: "incremental (\<lambda>s. Ready (Some (x, s)))"
  by (rule incrementalI) simp

lemma incremental_fail [incremental_intros]: "incremental (\<lambda>s. Ready None)"
  by (rule incrementalI) simp

lemma incremental_bind [incremental_intros]:
  assumes "incremental R" "\<And>x. incremental (f x)"
  shows "incremental (\<lambda>s. bind_io (R s) (\<lambda>(x, s). f x s))"
proof (rule incrementalI)
  fix bs eof y rem e tail eof'
  assume "bind_io (R (bs, eof)) (\<lambda>(x, s). f x s) = Ready (Some (y, rem, e))"
  then obtain x bs1 e1 where "R (bs, eof) = Ready (Some (x, bs1, e1))" "f x (bs1, e1) = Ready (Some (y, rem, e))"
    by (auto simp: bind_io_eq_Some)
  from incrementalD [OF assms(1) this(1)] incrementalD [OF assms(2) this(2)]
  show "bind_io (R (bs @ tail, eof')) (\<lambda>(x, s). f x s) = Ready (Some (y, rem @ tail, eof'))" by simp
qed

lemma incremental_if [incremental_intros]: "incremental R \<Longrightarrow> incremental R' \<Longrightarrow> incremental (\<lambda>s. if b then R s else R' s)"
  by (cases b) simp_all

lemma incremental_read_exact [incremental_intros]: "incremental (read_exact n)"
  by (rule incrementalI) (auto simp: read_exact_def split: if_splits)

lemma incremental_read_u8 [incremental_intros]: "incremental read_u8"
proof (rule incrementalI)
  fix bs eof x rem e tail eof'
  assume "read_u8 (bs, eof) = Ready (Some (x, rem, e))"
  then show "read_u8 (bs @ tail, eof') = Ready (Some (x, (rem @ tail, eof')))"
    by (cases bs) (auto split: if_splits)
qed

lemma incremental_read_u16_le [incremental_intros]: "incremental read_u16_le"
  unfolding read_u16_le_def by (intro incremental_intros)

lemma incremental_read_u32_le [incremental_intros]: "incremental read_u32_le"
  unfolding read_u32_le_def by (intro incremental_intros)

lemma incremental_read_mapping [incremental_intros]: "incremental read_mapping"
  unfolding read_mapping_def by (intro incremental_intros)

lemma incremental_read_mappings [incremental_intros]: "incremental (read_mappings n acc)"
proof (induction n arbitrary: acc)
  case 0
  show ?case by (rule incrementalI) simp
next
  case (Suc n)
  have "read_mappings (Suc n) acc = (\<lambda>s. bind_io (read_mapping s) (\<lambda>(m, s). read_mappings n (acc @ [m]) s))"
    by auto
  with Suc.IH show ?case by (simp add: incremental_bind [OF incremental_read_mapping])
qed

lemma incremental_port_mappings_read [incremental_intros]: "incremental port_mappings_read"
  unfolding port_mappings_read_def by (intro incremental_intros)

section \<open>The daemon's end\<close>

definition steady :: "(stream \<Rightarrow> 'a handled) \<Rightarrow> bool" where
  "steady H \<longleftrightarrow> (\<forall>bs eof y. H (bs, eof) = Parsed y \<longrightarrow> (\<forall>tail eof'. H (bs @ tail, eof') = Parsed y))"

lemma steadyD: "steady H \<Longrightarrow> H (bs, eof) = Parsed y \<Longrightarrow> H (bs @ tail, eof') = Parsed y"
  unfolding steady_def by blast

lemma steady_const: "steady (\<lambda>s. h)"
  by (simp add: steady_def)

lemma steady_handle_error:
  assumes "incremental R" "\<And>x. steady (k x)"
  shows "steady (\<lambda>s. handle_error (R s) e (\<lambda>(x, s). k x s))"
  unfolding steady_def
proof (intro allI impI)
  fix bs eof y tail eof'
  assume "handle_error (R (bs, eof)) e (\<lambda>(x, s). k x s) = Parsed y"
  then obtain x bs1 e1 where "R (bs, eof) = Ready (Some (x, bs1, e1))" "k x (bs1, e1) = Parsed y"
    by (auto simp: handle_error_Parsed)
  from incrementalD [OF assms(1) this(1)] steadyD [OF assms(2) this(2)]
  show "handle_error (R (bs @ tail, eof')) e (\<lambda>(x, s). k x s) = Parsed y" by (simp add: handle_error_Ready)
qed

lemma steady_if: "steady H \<Longrightarrow> steady H' \<Longrightarrow> steady (\<lambda>s. if b then H s else H' s)"
  by (cases b) simp_all

lemma steady_option: "steady H \<Longrightarrow> (\<And>v. steady (H' v)) \<Longrightarrow> steady (\<lambda>s. case x of None \<Rightarrow> H s | Some v \<Rightarrow> H' v s)"
  by (cases x) simp_all

lemmas steady_intros = steady_const steady_handle_error steady_if steady_option

lemma steady_read_mode:
  assumes "\<And>m. steady (k m)"
  shows "steady (\<lambda>s. read_mode s (\<lambda>(m, s). k m s))"
proof -
  have "steady (\<lambda>s. k m s)" for m using assms [of m] by simp
  then show ?thesis unfolding read_mode_def by (auto intro!: steady_intros incremental_intros)
qed

text \<open>A request that arrived in part is not understood, or understood as the whole one.\<close>

lemma steady_parse_request: "steady parse_request"
  unfolding parse_request_def by (intro steady_read_mode steady_intros incremental_intros)

lemma parse_request_take:
  assumes "parse_request (take n msg, eof) = Parsed req"
  shows "parse_request (msg, eof') = Parsed req"
  using steadyD [OF steady_parse_request assms, of "drop n msg" eof'] by simp

section \<open>The web server's end\<close>

lemma read_config_append:
  assumes "read_config (bs, eof) = Ready (Done (Inr s))"
  shows "read_config (bs @ tail, eof') = Ready (Done (Inr s))"
proof -
  let ?R = "\<lambda>s. bind_io (read_u16_le s) (\<lambda>(len, s). read_exact (unat len) s)"
  have R: "incremental ?R" by (intro incremental_intros)
  from assms obtain buf rem where b: "?R (bs, eof) = Ready (Some (buf, rem))" "from_utf8 buf = Some s"
    by (auto simp: read_config_def bind_outcome_eq_Done split: async.splits option.splits)
  from incrementalD [OF R b(1)] b(2) show ?thesis by (simp add: read_config_def)
qed

lemma read_response_append:
  assumes "read_response m (bs, eof) = Ready (Done (Inr s))"
  shows "read_response m (bs @ tail, eof') = Ready (Done (Inr s))"
proof (cases bs)
  case Nil
  with assms show ?thesis by (simp add: read_response_def split: if_splits)
next
  case (Cons b bs')
  with assms show ?thesis
    by (auto simp: read_response_def read_config_append split: if_splits start_mode.splits)
qed

lemma read_response_take:
  assumes "read_response m (take n bs, eof) = Ready (Done (Inr s))"
  shows "read_response m (bs, eof') = Ready (Done (Inr s))"
  using read_response_append [OF assms, of "drop n bs" eof'] by simp

end
