(* ===== verification/System.thy ===== *)
theory System
  imports Framing Archive_Behaviour Server_Data
begin

text \<open>
  The web server and the daemon together. A start splits into the steps the two processes
  take: the request is accepted and its image looked up, the connection to the daemon is
  made and the message sent, the daemon works, the answer is read back; in between anything
  else may happen in either process. The web server is the only client of the socket, which
  only the group \<^verbatim>\<open>challd\<close> may open.
\<close>

section \<open>State\<close>

text \<open>
  A start that was accepted: the request, the server's state and the length of its log at
  that moment, what is sent, the daemon's task that has the connection, and the answer.
\<close>

record ('k, 'w) start_call =
  sc_headers :: headers
  sc_req :: api_request
  sc_app :: "('k, 'w) app"
  sc_seen :: nat
  sc_mode :: start_mode
  sc_image :: string
  sc_ports :: "(u16 \<times> u16 \<times> sql_port_type) list"
  sc_task :: "nat option"
  sc_answer :: "api_answer option"

text \<open>What the two processes are configured with.\<close>

record ('k, 'd, 'w, 'v) deployment =
  dep_server :: "('k, 'd, 'w) config"
  dep_env :: "'v env"
  dep_features :: features
  dep_crypto :: crypto
  dep_interface :: interface
  dep_path :: string

text \<open>\<open>sys_sent\<close> is what the daemon has written to each connection.\<close>

record ('k, 'w, 'v) system =
  sys_app :: "('k, 'w) app"
  sys_log :: "log_entry list"
  sys_starts :: "('k, 'w) start_call list"
  sys_daemon :: "'v daemon"
  sys_sent :: "nat \<rightharpoonup> u8 list"

definition call_message :: "('k, 'w) start_call \<Rightarrow> u8 list" where
  "call_message x = start_message (sc_image x) (sc_ports x) (sc_mode x)"

text \<open>The daemon's answers stay in the socket when its task goes on.\<close>

definition collect :: "(nat \<Rightarrow> pc) \<Rightarrow> (nat \<rightharpoonup> u8 list) \<Rightarrow> nat \<rightharpoonup> u8 list" where
  "collect ts sent t = (case reply (ts t) of Some (Done bytes) \<Rightarrow> Some bytes | _ \<Rightarrow> sent t)"

text \<open>
  What the client is told when the daemon's stream ends after the given bytes;
  \<open>io_text\<close> is the text of an I/O error.
\<close>

definition failed :: "string \<Rightarrow> ('k, 'w) start_call \<Rightarrow> challd_error \<Rightarrow> api_answer" where
  "failed io_text x e = start_result (sc_req x) (Ready (Inl (INTERNAL_SERVER_ERROR, challd_error_text io_text e)))"

definition received :: "string \<Rightarrow> ('k, 'w) start_call \<Rightarrow> u8 list \<Rightarrow> api_answer option" where
  "received io_text x bytes =
     (case read_response (sc_mode x) (bytes, True) of
        Ready (Done (Inr cfg)) \<Rightarrow> Some (start_result (sc_req x) (Ready (Inr cfg)))
      | Ready (Done (Inl e)) \<Rightarrow> Some (failed io_text x e)
      | Ready _ \<Rightarrow> Some APanicked
      | Pending \<Rightarrow> None)"

section \<open>Steps\<close>

text \<open>
  \<open>connect\<close> hands the daemon the message, or a prefix of it when the sender goes away;
  \<open>finish\<close> ends a start with what the daemon has written so far, all of it or a prefix when
  the connection breaks. A client that goes away leaves its start without an answer.
\<close>

inductive sstep ::
  "('k, 'd, 'w, 'v) deployment \<Rightarrow> ('k, 'w, 'v) system \<Rightarrow> ('k, 'w, 'v) system \<Rightarrow> bool"
  for P :: "('k, 'd, 'w, 'v) deployment" where
  request: "unforged (cfg_jwt (dep_server P)) (app_keys (sys_app s)) (app_now (sys_app s)) (sys_log s) hs \<Longrightarrow>
     starting (dep_server P) (sys_app s) hs req = None \<Longrightarrow>
     handle (dep_server P) (sys_app s) hs rnd req = (ans, st') \<Longrightarrow>
     sstep P s (s\<lparr>sys_app := st', sys_log := sys_log s @
       [\<lparr>e_now = app_now (sys_app s), e_headers = hs, e_rnd = rnd, e_req = req, e_ans = ans\<rparr>]\<rparr>)"
| begin_start: "unforged (cfg_jwt (dep_server P)) (app_keys (sys_app s)) (app_now (sys_app s)) (sys_log s) hs \<Longrightarrow>
     starting (dep_server P) (sys_app s) hs req = Some (m, img, ps, w) \<Longrightarrow>
     sstep P s (s\<lparr>sys_app := (sys_app s)\<lparr>app_world := w\<rparr>, sys_starts := sys_starts s @
       [\<lparr>sc_headers = hs, sc_req = req, sc_app = sys_app s, sc_seen = length (sys_log s),
         sc_mode = m, sc_image = img, sc_ports = ps, sc_task = None, sc_answer = None\<rparr>]\<rparr>)"
| connect: "i < length (sys_starts s) \<Longrightarrow> sc_task (sys_starts s ! i) = None \<Longrightarrow> sc_answer (sys_starts s ! i) = None \<Longrightarrow>
     d_phase (sys_daemon s) = Serving \<Longrightarrow> d_tasks (sys_daemon s) t = Absent \<Longrightarrow>
     sstep P s (s\<lparr>sys_starts := (sys_starts s)[i := (sys_starts s ! i)\<lparr>sc_task := Some t\<rparr>],
       sys_daemon := (sys_daemon s)\<lparr>d_tasks := (d_tasks (sys_daemon s))
         (t := Reading (take n (call_message (sys_starts s ! i)), eof))\<rparr>\<rparr>)"
| unreachable: "i < length (sys_starts s) \<Longrightarrow> sc_task (sys_starts s ! i) = None \<Longrightarrow> sc_answer (sys_starts s ! i) = None \<Longrightarrow>
     sstep P s (s\<lparr>sys_starts := (sys_starts s)[i := (sys_starts s ! i)
       \<lparr>sc_answer := Some (failed io_text (sys_starts s ! i) Io)\<rparr>]\<rparr>)"
| finish: "i < length (sys_starts s) \<Longrightarrow> sc_task (sys_starts s ! i) = Some t \<Longrightarrow> sc_answer (sys_starts s ! i) = None \<Longrightarrow>
     received io_text (sys_starts s ! i) (take n (case sys_sent s t of Some bytes \<Rightarrow> bytes | None \<Rightarrow> [])) = Some a \<Longrightarrow>
     sstep P s (s\<lparr>sys_starts := (sys_starts s)[i := (sys_starts s ! i)\<lparr>sc_answer := Some a\<rparr>]\<rparr>)"
| daemon: "dstep (dep_env P) (dep_features P) (dep_crypto P) (dep_interface P) (dep_path P) (sys_daemon s) d \<Longrightarrow>
     (\<And>t. d_tasks (sys_daemon s) t = Absent \<Longrightarrow> d_tasks d t = Absent) \<Longrightarrow>
     sstep P s (s\<lparr>sys_daemon := d, sys_sent := collect (d_tasks d) (sys_sent s)\<rparr>)"
| expire: "fire_timer i (app_now (sys_app s)) (app_codes (sys_app s)) = Some codes \<Longrightarrow>
     sstep P s (s\<lparr>sys_app := (sys_app s)\<lparr>app_codes := codes\<rparr>\<rparr>)"
| tick: "sstep P s (s\<lparr>sys_app := (sys_app s)\<lparr>app_now := Suc (app_now (sys_app s))\<rparr>\<rparr>)"

inductive_cases sstepE: "sstep P s s'"

definition system_start :: "('k, 'w) app \<Rightarrow> address_manager \<Rightarrow> 'v \<Rightarrow> ('k, 'w, 'v) system" where
  "system_start st m v = \<lparr>sys_app = st, sys_log = [], sys_starts = [], sys_daemon = initial m v, sys_sent = Map.empty\<rparr>"

inductive deployed ::
  "('k, 'd, 'w, 'v) deployment \<Rightarrow> ('k, 'w) app \<Rightarrow> ('k, 'w, 'v) system \<Rightarrow> bool"
  for P :: "('k, 'd, 'w, 'v) deployment" and st0 :: "('k, 'w) app" where
  start: "app_codes st0 = in_memory_set_default \<Longrightarrow> address_manager_new = Done m \<Longrightarrow> deployed P st0 (system_start st0 m v)"
| step: "deployed P st0 s \<Longrightarrow> sstep P s s' \<Longrightarrow> deployed P st0 s'"

section \<open>Each process runs as on its own\<close>

abbreviation dep_reachable :: "('k, 'd, 'w, 'v) deployment \<Rightarrow> 'v daemon \<Rightarrow> bool" where
  "dep_reachable P \<equiv> reachable (dep_env P) (dep_features P) (dep_crypto P) (dep_interface P) (dep_path P)"

lemma deployed_run: "deployed P st0 s \<Longrightarrow> run (dep_server P) st0 (sys_app s) (sys_log s)"
proof (induction rule: deployed.induct)
  case (start m v)
  then show ?case by (simp add: system_start_def run.start)
next
  case (step s s')
  from step.hyps(2) show ?case
  proof cases
    case (request hs req rnd ans st')
    with run.request [OF step.IH] show ?thesis by simp
  next
    case (begin_start hs req m img ps w)
    with run.begin_start [OF step.IH] show ?thesis by simp
  next
    case (expire i codes)
    with run.expire [OF step.IH] show ?thesis by simp
  next
    case tick
    with run.tick [OF step.IH] show ?thesis by simp
  qed (use step.IH in simp_all)
qed

lemma deployed_reachable: "deployed P st0 s \<Longrightarrow> dep_reachable P (sys_daemon s)"
proof (induction rule: deployed.induct)
  case (start m v)
  then show ?case by (simp add: system_start_def reachable.start)
next
  case (step s s')
  from step.hyps(2) show ?case
  proof cases
    case (connect i t n eof)
    with reachable.step [OF step.IH dstep.accept] show ?thesis by simp
  next
    case (daemon d)
    with reachable.step [OF step.IH] show ?thesis by simp
  qed (use step.IH in simp_all)
qed

text \<open>The two halves of a start make up the handler.\<close>

lemma starting_cases:
  assumes "starting c st hs req = Some (m, img, ps, w)"
  obtains i where "start_of c st hs req = Some (i, m)"
    "start_prepare (cfg_db c) i (app_world st) = (Done (Inr (img, ps)), w)"
  using assms by (auto simp: starting_def split: option.splits prod.splits outcome.splits sum.splits)

lemma start_of_cases:
  assumes "start_of c st hs req = Some (i, m)"
  obtains user where "req = Start (Some i)" "user_of c st hs = Inr user" "m = from_guest_code (user_code user)"
    | admin where "req = HostDemo (Some i)" "admin_of c st hs = Inr admin" "can_host_demo admin" "m = StartDemo"
  using assms by (auto simp: start_of_def split: api_request.splits option.splits sum.splits if_splits)

lemma start_challenge_prepared:
  "start_prepare D i w = (Done (Inr (img, ps)), w') \<Longrightarrow>
     start_challenge D S i m w = bind_prog (start_container S img ps m) (start_answer S) w'"
  by (simp add: start_challenge_def bind_prog_def)

lemma handle_starting:
  assumes "starting c st hs req = Some (m, img, ps, w)"
  shows "handle c st hs rnd req =
    run_db (st\<lparr>app_world := w\<rparr>) (bind_prog (start_container (cfg_socket c) img ps m) (start_answer (cfg_socket c)))
      (start_result req)"
proof -
  from assms obtain i where o: "start_of c st hs req = Some (i, m)"
    and p: "start_prepare (cfg_db c) i (app_world st) = (Done (Inr (img, ps)), w)"
    by (rule starting_cases)
  let ?k = "bind_prog (start_container (cfg_socket c) img ps m) (start_answer (cfg_socket c)) w"
  obtain r w' where k: "?k = (r, w')" by fastforce
  note start = start_challenge_prepared [OF p, of "cfg_socket c" m, unfolded k]
  from o consider user where "req = Start (Some i)" "user_of c st hs = Inr user" "m = from_guest_code (user_code user)"
    | admin where "req = HostDemo (Some i)" "admin_of c st hs = Inr admin" "can_host_demo admin" "m = StartDemo"
    by (rule start_of_cases)
  then show ?thesis
  proof cases
    case 1
    with start k show ?thesis
      by (cases r) (simp_all add: handle_defs start_handler_def start_result_def)
  next
    case 2
    have "answer_start AStatus (case x of Pending \<Rightarrow> Pending | Ready (Inl e) \<Rightarrow> Ready (Inl e) | Ready (Inr _) \<Rightarrow> Ready (Inr OK))
        = answer_start (\<lambda>_. AStatus OK) x" for x :: "(status \<times> string + string) async"
      by (cases "((\<lambda>_ :: string. AStatus OK), x)" rule: answer_start.cases) simp_all
    with 2 start k show ?thesis
      by (cases r) (simp_all add: handle_defs host_demo_def start_result_def bind_prog_def ret_def)
  qed
qed

lemma start_challenge_refused:
  assumes "\<And>img ps w'. start_prepare D i w \<noteq> (Done (Inr (img, ps)), w')"
  shows "start_challenge D S i m w = start_challenge D S' i m w"
proof (cases "start_prepare D i w")
  case (Pair r w')
  with assms show ?thesis
    by (cases r) (auto simp: start_challenge_def bind_prog_def split: sum.split)
qed

lemma handle_not_starting:
  assumes "starting c st hs req = None"
  shows "handle (c\<lparr>cfg_socket := S\<rparr>) st hs rnd req = handle c st hs rnd req"
proof -
  have claims: "user_of (c\<lparr>cfg_socket := S\<rparr>) st hs = user_of c st hs"
    "admin_of (c\<lparr>cfg_socket := S\<rparr>) st hs = admin_of c st hs"
    "challenge_of (c\<lparr>cfg_socket := S\<rparr>) st hs = challenge_of c st hs"
    by (simp_all add: user_of_def admin_of_def challenge_of_def)
  have same: "start_challenge (cfg_db c) S i m (app_world st) = start_challenge (cfg_db c) (cfg_socket c) i m (app_world st)"
    if "start_of c st hs req = Some (i, m)" for i m
    using assms that by (intro start_challenge_refused) (auto simp: starting_def)
  show ?thesis
  proof (cases req)
    case (Start q)
    with same show ?thesis
      by (cases q; cases "user_of c st hs") (simp_all add: claims handle_defs start_handler_def start_of_def)
  next
    case (HostDemo q)
    with same show ?thesis
      by (cases q; cases "admin_of c st hs")
        (auto simp: claims handle_defs host_demo_def start_of_def bind_prog_def)
  next
    case (SetConnectionInstructions q b)
    then show ?thesis by (cases "instructions_from_request b") (simp_all add: claims split: prod.split)
  qed (simp_all add: claims)
qed

end
