(* ===== verification/System_Invariant.thy ===== *)
theory System_Invariant
  imports System
begin

text \<open>
  What holds whenever the web server and the daemon run together: every task of the daemon
  belongs to one accepted start and works on its message, and what a guest was told is the
  configuration for the address its task holds.
\<close>

section \<open>Where a start comes from\<close>

text \<open>A start was accepted at a point of the server's run, by a request that forged nothing.\<close>

definition traced :: "('k, 'd, 'w) config \<Rightarrow> ('k, 'w) app \<Rightarrow> log_entry list \<Rightarrow> ('k, 'w) start_call \<Rightarrow> bool" where
  "traced c st0 log x \<longleftrightarrow> sc_seen x \<le> length log \<and> run c st0 (sc_app x) (take (sc_seen x) log) \<and>
     unforged (cfg_jwt c) (app_keys (sc_app x)) (app_now (sc_app x)) (take (sc_seen x) log) (sc_headers x) \<and>
     (\<exists>w. starting c (sc_app x) (sc_headers x) (sc_req x) = Some (sc_mode x, sc_image x, sc_ports x, w))"

lemma traced_append: "traced c st0 log x \<Longrightarrow> traced c st0 (log @ log') x"
  by (simp add: traced_def)

lemma traced_updates [simp]:
  "traced c st0 log (x\<lparr>sc_task := t\<rparr>) = traced c st0 log x"
  "traced c st0 log (x\<lparr>sc_answer := a\<rparr>) = traced c st0 log x"
  by (simp_all add: traced_def)

lemma deployed_traced:
  "deployed P st0 s \<Longrightarrow> list_all (traced (dep_server P) st0 (sys_log s)) (sys_starts s)"
proof (induction rule: deployed.induct)
  case (start m v)
  then show ?case by (simp add: system_start_def)
next
  case (step s s')
  note run = deployed_run [OF step.hyps(1)]
  have here: "traced (dep_server P) st0 (sys_log s) (sys_starts s ! i)" if "i < length (sys_starts s)" for i
    using step.IH that by (simp add: list_all_length)
  from step.hyps(2) show ?case
  proof cases
    case (request hs req rnd ans st')
    with step.IH show ?thesis by (simp add: list_all_iff traced_append)
  next
    case (begin_start hs req m img ps w)
    with step.IH run show ?thesis by (simp add: traced_def)
  next
    case (connect i t n eof)
    with step.IH here show ?thesis by (simp add: list_all_length nth_list_update)
  next
    case (unreachable i io_text)
    with step.IH here show ?thesis by (simp add: list_all_length nth_list_update)
  next
    case (finish i t io_text n a)
    with step.IH here show ?thesis by (simp add: list_all_length nth_list_update)
  qed (use step.IH in simp_all)
qed

section \<open>Which start a task works for\<close>

text \<open>
  A task of the daemon works on the message it was sent: while it reads, it has a prefix;
  then the request it took from the message; then a container with an address exactly when
  the request is a guest's.
\<close>

definition asks_for :: "u8 list \<Rightarrow> u8 option \<Rightarrow> bool" where
  "asks_for msg a \<longleftrightarrow> (\<exists>req. parse_request (msg, True) = Parsed req \<and> (a = None \<longleftrightarrow> req_mode req = Demo))"

fun serves :: "u8 list \<Rightarrow> pc \<Rightarrow> bool" where
  "serves msg (Reading s) \<longleftrightarrow> (\<exists>n. fst s = take n msg)"
| "serves msg (Probing req i) \<longleftrightarrow> parse_request (msg, True) = Parsed req \<and> req_mode req \<noteq> Demo"
| "serves msg (Starting req a pc) \<longleftrightarrow> parse_request (msg, True) = Parsed req \<and> (a = None \<longleftrightarrow> req_mode req = Demo)"
| "serves msg (Started c a) \<longleftrightarrow> asks_for msg a"
| "serves msg (Waiting c a k since) \<longleftrightarrow> asks_for msg a"
| "serves msg (Stopping c a pc) \<longleftrightarrow> asks_for msg a"
| "serves msg (Releasing a) \<longleftrightarrow> asks_for msg (Some a)"
| "serves msg p \<longleftrightarrow> True"

lemma serves_crash [simp]: "serves msg (crash r a)"
  by (cases r) (simp_all add: crash_def)

lemma step_reading_serves:
  assumes "fst s = take n msg" "step_reading s = Some p"
  shows "serves msg p"
proof (cases "parse_request s")
  case (Parsed req)
  with assms(1) have "parse_request (take n msg, snd s) = Parsed req" by (metis prod.collapse)
  then have "parse_request (msg, True) = Parsed req" by (rule parse_request_take)
  with Parsed assms(2) show ?thesis by (auto simp: step_reading_def split: mode.splits)
qed (use assms(2) in \<open>auto simp: step_reading_def\<close>)

lemma task_step_serves:
  assumes s: "task_step E F C itf cn now cause p0 sh = Some (p, sh')" and "serves msg p0"
  shows "serves msg p"
  using assms
proof (cases p0)
  case (Reading x)
  with assms step_reading_serves [of x _ msg p] show ?thesis by auto
next
  case (Probing req i)
  with assms show ?thesis by (auto simp: step_probing_def split: outcome.splits if_splits)
next
  case (Starting req a pc)
  with assms show ?thesis
    by (auto simp: step_starting_def asks_for_def split: prod.splits outcome.splits sum.splits)
next
  case (Started c a)
  with assms show ?thesis
    by (auto simp: step_started_def split: prod.splits outcome.splits sum.splits option.splits)
next
  case (Waiting c a k since)
  with assms show ?thesis
    by (auto simp: step_waiting_def split: prod.splits option.splits bool.splits if_splits)
next
  case (Stopping c a pc)
  with assms show ?thesis
    by (auto simp: step_stopping_def split: prod.splits outcome.splits sum.splits option.splits)
next
  case (Releasing a)
  with assms show ?thesis by (auto simp: step_releasing_def split: outcome.splits)
qed auto

text \<open>
  The connections: the message and the task of each start that has one. Every task that was
  ever accepted belongs to exactly one start, and serves its message.
\<close>

definition connections :: "('k, 'w) start_call list \<Rightarrow> nat \<rightharpoonup> u8 list \<times> nat" where
  "connections xs i =
     (if i < length xs then map_option (\<lambda>t. (call_message (xs ! i), t)) (sc_task (xs ! i)) else None)"

definition linked :: "(nat \<rightharpoonup> u8 list \<times> nat) \<Rightarrow> (nat \<Rightarrow> pc) \<Rightarrow> bool" where
  "linked m ts \<longleftrightarrow>
     (\<forall>t. ts t \<noteq> Absent \<longleftrightarrow> (\<exists>i msg. m i = Some (msg, t))) \<and>
     (\<forall>i msg t. m i = Some (msg, t) \<longrightarrow> serves msg (ts t)) \<and>
     (\<forall>i j msg msg' t. m i = Some (msg, t) \<longrightarrow> m j = Some (msg', t) \<longrightarrow> i = j)"

lemma call_message_updates [simp]:
  "call_message (x\<lparr>sc_task := t\<rparr>) = call_message x" "call_message (x\<lparr>sc_answer := a\<rparr>) = call_message x"
  by (simp_all add: call_message_def)

lemma connections_new [simp]: "sc_task x = None \<Longrightarrow> connections (xs @ [x]) = connections xs"
  by (auto simp: connections_def nth_append less_Suc_eq)

lemma connections_answered [simp]: "connections (xs[i := (xs ! i)\<lparr>sc_answer := a\<rparr>]) = connections xs"
proof
  fix j show "connections (xs[i := (xs ! i)\<lparr>sc_answer := a\<rparr>]) j = connections xs j"
    by (cases "j = i") (simp_all add: connections_def)
qed

lemma connections_connected:
  "i < length xs \<Longrightarrow>
     connections (xs[i := (xs ! i)\<lparr>sc_task := Some t\<rparr>]) = (connections xs)(i \<mapsto> (call_message (xs ! i), t))"
  by (rule ext) (simp add: connections_def nth_list_update)

lemma connections_Some:
  "connections xs i = Some (msg, t) \<longleftrightarrow> i < length xs \<and> sc_task (xs ! i) = Some t \<and> msg = call_message (xs ! i)"
  by (auto simp: connections_def)

lemma linked_connect:
  assumes l: "linked m ts" and i: "m i = None" and t: "ts t = Absent" and s: "serves msg p" "p \<noteq> Absent"
  shows "linked (m(i \<mapsto> (msg, t))) (ts(t := p))"
proof -
  have other: "m j \<noteq> Some (msg', t)" for j msg'
    using l t unfolding linked_def by metis
  from l have tasks: "ts u \<noteq> Absent \<longleftrightarrow> (\<exists>i msg. m i = Some (msg, u))" for u by (simp add: linked_def)
  show ?thesis
    unfolding linked_def
  proof (intro conjI allI)
    fix u show "(ts(t := p)) u \<noteq> Absent \<longleftrightarrow> (\<exists>j msg'. (m(i \<mapsto> (msg, t))) j = Some (msg', u))"
    proof (cases "u = t")
      case True
      then show ?thesis using s(2) by (auto intro: exI [of _ i])
    next
      case False
      then show ?thesis using tasks [of u] i by (auto split: if_splits) (metis option.distinct(1))
    qed
  qed (use l s(1) other in \<open>auto simp: linked_def split: if_splits\<close>)
qed

lemma linked_dstep:
  assumes l: "linked m (d_tasks d)" and s: "dstep E F C itf path d d'"
    and old: "\<And>t. d_tasks d t = Absent \<Longrightarrow> d_tasks d' t = Absent"
  shows "linked m (d_tasks d')"
proof -
  have absent: "d_tasks d' t = Absent \<longleftrightarrow> d_tasks d t = Absent" for t
    using dstep_task [OF s, of t] old [of t] task_step_present by metis
  have "serves msg (d_tasks d' t)" if "serves msg (d_tasks d t)" "d_tasks d t \<noteq> Absent" for msg t
    using dstep_task [OF s, of t] that task_step_serves by metis
  with l absent show ?thesis unfolding linked_def by metis
qed

lemma deployed_linked:
  "deployed P st0 s \<Longrightarrow> linked (connections (sys_starts s)) (d_tasks (sys_daemon s))"
proof (induction rule: deployed.induct)
  case (start m v)
  then show ?case by (simp add: system_start_def initial_def linked_def connections_def)
next
  case (step s s')
  from step.hyps(2) show ?case
  proof cases
    case (connect i t n eof)
    let ?msg = "call_message (sys_starts s ! i)"
    have "connections (sys_starts s) i = None" using connect by (simp add: connections_def)
    moreover have "serves ?msg (Reading (take n ?msg, eof))" by auto
    ultimately show ?thesis
      using connect linked_connect [OF step.IH, of i t ?msg "Reading (take n ?msg, eof)"]
      by (simp add: connections_connected del: fun_upd_apply serves.simps)
  next
    case (daemon d)
    with linked_dstep [OF step.IH daemon(2)] show ?thesis by simp
  qed (use step.IH in simp_all)
qed

section \<open>What the daemon has written\<close>

text \<open>
  The keys: standard base64, 32-byte secrets, and an interface that shows the encoding of a
  32-byte public key.
\<close>

definition keys_ok :: "('k, 'd, 'w, 'v) deployment \<Rightarrow> bool" where
  "keys_ok P \<longleftrightarrow> (\<exists>dec. base64_laws (b64_encode (dep_crypto P)) dec) \<and>
     (\<forall>w. length (fst (random_secret (dep_env P) w)) = 32) \<and>
     (\<exists>hk. int_pubkey (dep_interface P) = b64_encode (dep_crypto P) hk \<and> length hk = 32)"

text \<open>An answer that gives a guest the configuration for an address.\<close>

definition guest_answer :: "u8 \<Rightarrow> wg_config \<Rightarrow> u8 list \<Rightarrow> bool" where
  "guest_answer a cfg bytes \<longleftrightarrow> wgi_address (wgc_interface cfg) = guest_ip a \<and>
     (\<forall>g eof. read_response (Guest g) (bytes, eof) = Ready (Done (Inr (serialize cfg))))"

text \<open>
  What was written to a connection, against where its task stands now: the task has answered
  and will not answer again, and the address it gave away is the only one it may hold.
\<close>

definition sent_ok :: "u8 list \<Rightarrow> pc \<Rightarrow> bool" where
  "sent_ok bytes p \<longleftrightarrow> rank p \<le> 6 \<and> p \<noteq> Absent \<and> (\<forall>r. reply p = Some r \<longrightarrow> r = Done bytes) \<and>
     ((\<exists>e. bytes = [e]) \<and> holds p = None \<or>
      (\<exists>a cfg. guest_answer a cfg bytes \<and> (holds p = None \<or> holds p = Some a)))"

lemma reply_sent_ok:
  assumes k: "keys_ok P" and r: "dep_reachable P d" and t: "reply (d_tasks d t) = Some r"
  shows "\<exists>bytes. r = Done bytes \<and> sent_ok bytes (d_tasks d t)"
proof (cases "d_tasks d t")
  case (Rejected e)
  with t show ?thesis by (auto simp: reply_def sent_ok_def)
next
  case (Waiting c a k' since)
  have eq: "k' = None \<longleftrightarrow> a = None" using reachable_equipped [OF r, of t] Waiting by simp
  show ?thesis
  proof (cases a)
    case None
    with Waiting eq t show ?thesis by (auto simp: reply_def sent_ok_def ok_response_def)
  next
    case (Some addr)
    with eq obtain pk cfg where k': "k' = Some (pk, cfg)" by (cases k') auto
    from k obtain dec hk where "base64_laws (b64_encode (dep_crypto P)) dec"
      "\<And>w. length (fst (random_secret (dep_env P) w)) = 32"
      "int_pubkey (dep_interface P) = b64_encode (dep_crypto P) hk" "length hk = 32"
      unfolding keys_ok_def by blast
    from reachable_config [OF this r, of t c addr pk cfg since] Waiting Some k' obtain bytes where
      "ok_response (Some cfg) = Done bytes" "guest_answer addr cfg bytes"
      by (auto simp: guest_answer_def)
    with Waiting Some k' t show ?thesis by (auto simp: reply_def sent_ok_def)
  qed
qed (use t in \<open>simp_all add: reply_def\<close>)

lemma reply_crash [simp]: "reply (crash r a) = None"
  by (cases r) (simp_all add: crash_def reply_def)

lemma sent_ok_step:
  assumes s: "task_step E F C itf cn now cause p0 sh = Some (p, sh')" and ok: "sent_ok bytes p0"
  shows "reply p = None \<and> sent_ok bytes p"
proof -
  from ok have rank: "rank p0 \<le> 6" by (simp add: sent_ok_def)
  have r: "rank p \<le> 6" using task_step_rank [OF s] rank by simp
  have "reply p = None \<and> (holds p = None \<or> holds p = holds p0)"
  proof (cases p0)
    case (Waiting c a k since)
    with s show ?thesis
      by (auto simp: step_waiting_def reply_def split: prod.splits option.splits bool.splits if_splits)
        (simp_all add: reply_def [symmetric])
  next
    case (Stopping c a pc)
    with s show ?thesis
      by (auto simp: step_stopping_def reply_def split: prod.splits outcome.splits sum.splits option.splits)
        (simp_all add: reply_def [symmetric])
  next
    case (Releasing a)
    with s show ?thesis
      by (cases "relinquish_addr (s_mgr sh) a") (auto simp: step_releasing_def reply_def [of Finished])
  qed (use s rank in auto)
  with ok r task_step_present(2) [OF s] show ?thesis by (auto simp: sent_ok_def)
qed

text \<open>A daemon's step leaves what was written, and adds the answers of tasks that are done.\<close>

lemma collect_dstep:
  assumes k: "keys_ok P" and r: "dep_reachable P d"
    and s: "dstep (dep_env P) (dep_features P) (dep_crypto P) (dep_interface P) (dep_path P) d d'"
    and old: "\<And>t. d_tasks d t = Absent \<Longrightarrow> d_tasks d' t = Absent"
    and ok: "\<And>t bytes. sent t = Some bytes \<Longrightarrow> sent_ok bytes (d_tasks d t)"
  shows "(sent t = Some bytes \<longrightarrow> collect (d_tasks d') sent t = Some bytes) \<and>
    (collect (d_tasks d') sent t = Some bytes' \<longrightarrow> sent_ok bytes' (d_tasks d' t))"
proof -
  have r': "dep_reachable P d'" using reachable.step [OF r s] .
  have keep: "sent_ok b (d_tasks d' t) \<and> (\<forall>r. reply (d_tasks d' t) = Some r \<longrightarrow> r = Done b)" if "sent t = Some b" for b
  proof -
    from ok [OF that] have b: "sent_ok b (d_tasks d t)" .
    from dstep_task [OF s, of t] consider "d_tasks d' t = d_tasks d t" | "d_tasks d t = Absent"
      | cause sh' where "task_step (dep_env P) (dep_features P) (dep_crypto P) (dep_interface P)
           (d_phase d = Draining) (d_now d) cause (d_tasks d t) (d_shared d) = Some (d_tasks d' t, sh')"
      by blast
    then show ?thesis
    proof cases
      case 3
      from sent_ok_step [OF 3 b] show ?thesis by simp
    qed (use b in \<open>auto simp: sent_ok_def\<close>)
  qed
  show ?thesis
  proof (cases "reply (d_tasks d' t)")
    case None
    with keep show ?thesis by (auto simp: collect_def)
  next
    case (Some x)
    from reply_sent_ok [OF k r' Some] obtain b where "x = Done b" "sent_ok b (d_tasks d' t)" by blast
    with Some keep show ?thesis by (auto simp: collect_def)
  qed
qed

lemma deployed_sent:
  assumes "deployed P st0 s" "keys_ok P"
  shows "sys_sent s t = Some bytes \<Longrightarrow> sent_ok bytes (d_tasks (sys_daemon s) t)"
  using assms(1)
proof (induction arbitrary: t bytes rule: deployed.induct)
  case (start m v)
  then show ?case by (simp add: system_start_def)
next
  case (step s s')
  from step.hyps(2) show ?case
  proof cases
    case (connect i u n eof)
    from connect step.prems have old: "sys_sent s t = Some bytes" by simp
    then have "t \<noteq> u" using step.IH [of u] connect by (auto simp: sent_ok_def)
    with connect step.IH [OF old] show ?thesis by simp
  next
    case (daemon d)
    with collect_dstep [OF assms(2) deployed_reachable [OF step.hyps(1)] daemon(2,3) step.IH] step.prems
    show ?thesis by simp
  qed (use step.prems step.IH in simp_all)
qed

section \<open>Answers\<close>

lemma failed_not_text [simp]: "failed io_text x e \<noteq> AText s"
  by (simp add: failed_def start_result_def split: api_request.split)

lemma received_text:
  assumes "received io_text x bytes = Some (AText s)"
  shows "read_response (sc_mode x) (bytes, True) = Ready (Done (Inr s))"
  using assms
  by (auto simp: received_def start_result_def split: async.splits outcome.splits sum.splits api_request.splits)

lemma received_user:
  "received io_text x bytes = Some (AText s) \<Longrightarrow> sc_req x \<noteq> HostDemo q"
  by (auto simp: received_def failed_def start_result_def split: async.splits outcome.splits sum.splits)

text \<open>
  A start that was answered with a text is a user's, and was answered with what the daemon
  had written.
\<close>

definition answer_ok :: "(nat \<rightharpoonup> u8 list) \<Rightarrow> ('k, 'w) start_call \<Rightarrow> bool" where
  "answer_ok sent x \<longleftrightarrow> (\<forall>s. sc_answer x = Some (AText s) \<longrightarrow> (\<forall>q. sc_req x \<noteq> HostDemo q) \<and>
     (\<exists>t bytes. sc_task x = Some t \<and> sent t = Some bytes \<and>
        read_response (sc_mode x) (bytes, True) = Ready (Done (Inr s))))"

lemma finish_answer_ok:
  assumes "sc_task x = Some t" "received io_text x (take n (case sent t of Some bytes \<Rightarrow> bytes | None \<Rightarrow> [])) = Some a"
  shows "answer_ok sent (x\<lparr>sc_answer := Some a\<rparr>)"
  unfolding answer_ok_def
proof (intro allI impI)
  fix s assume "sc_answer (x\<lparr>sc_answer := Some a\<rparr>) = Some (AText s)"
  with assms(2) have "received io_text x (take n (case sent t of Some bytes \<Rightarrow> bytes | None \<Rightarrow> [])) = Some (AText s)" by simp
  from received_user [OF this] have user: "\<forall>q. sc_req x \<noteq> HostDemo q" by blast
  from \<open>received _ _ _ = Some (AText s)\<close> have got: "read_response (sc_mode x)
      (take n (case sent t of Some bytes \<Rightarrow> bytes | None \<Rightarrow> []), True) = Ready (Done (Inr s))"
    by (rule received_text)
  from read_response_take [OF got]
  have r: "read_response (sc_mode x) (case sent t of Some bytes \<Rightarrow> bytes | None \<Rightarrow> [], True) = Ready (Done (Inr s))" .
  then obtain bytes where "sent t = Some bytes" by (cases "sent t") (simp_all add: read_response_def)
  with assms(1) r user show "(\<forall>q. sc_req (x\<lparr>sc_answer := Some a\<rparr>) \<noteq> HostDemo q) \<and>
      (\<exists>t bytes. sc_task (x\<lparr>sc_answer := Some a\<rparr>) = Some t \<and> sent t = Some bytes \<and>
      read_response (sc_mode (x\<lparr>sc_answer := Some a\<rparr>)) (bytes, True) = Ready (Done (Inr s)))"
    by auto
qed

lemma deployed_answer_ok:
  assumes "deployed P st0 s" "keys_ok P"
  shows "list_all (answer_ok (sys_sent s)) (sys_starts s)"
  using assms(1)
proof (induction rule: deployed.induct)
  case (start m v)
  then show ?case by (simp add: system_start_def)
next
  case (step s s')
  from step.hyps(2) show ?case
  proof cases
    case (begin_start hs req m img ps w)
    with step.IH show ?thesis by (simp add: answer_ok_def)
  next
    case (connect i t n eof)
    with step.IH show ?thesis by (simp add: list_all_length nth_list_update answer_ok_def)
  next
    case (unreachable i io_text)
    with step.IH show ?thesis by (simp add: list_all_length nth_list_update answer_ok_def)
  next
    case (finish i t io_text n a)
    with step.IH finish_answer_ok [of "sys_starts s ! i" t io_text n "sys_sent s" a] show ?thesis by (simp add: list_all_length nth_list_update)
  next
    case (daemon d)
    have "answer_ok (collect (d_tasks d) (sys_sent s)) x" if "x \<in> set (sys_starts s)" "answer_ok (sys_sent s) x" for x
      using that(2) collect_dstep [OF assms(2) deployed_reachable [OF step.hyps(1)] daemon(2,3)
          deployed_sent [OF step.hyps(1) assms(2)]]
      unfolding answer_ok_def by blast
    with daemon step.IH show ?thesis by (simp add: list_all_iff)
  qed (use step.IH in simp_all)
qed

section \<open>Who may start a container\<close>

text \<open>The history behind a start, in the part of the log the server had seen when it accepted it.\<close>

definition authorised :: "('k, 'd, 'w) config \<Rightarrow> nat \<Rightarrow> log_entry list \<Rightarrow> ('k, 'w) start_call \<Rightarrow> bool" where
  "authorised c tolerance log x \<longleftrightarrow>
     (case sc_mode x of
        Guest code \<Rightarrow> user_invited c (app_keys (sc_app x)) tolerance (take (sc_seen x) log) (app_now (sc_app x)) code
      | StartDemo \<Rightarrow> first_key_signed c tolerance (take (sc_seen x) log) (app_now (sc_app x)))"

lemma traced_authorised:
  assumes J: "jwt_laws (cfg_jwt c) tolerance" and b64: "\<And>bytes. b64_dec (cfg_b64 c) (b64_enc (cfg_b64 c) bytes) = Some bytes"
    and x: "traced c st0 log x"
  shows "authorised c tolerance log x"
proof -
  from x obtain w where r: "run c st0 (sc_app x) (take (sc_seen x) log)"
    and f: "unforged (cfg_jwt c) (app_keys (sc_app x)) (app_now (sc_app x)) (take (sc_seen x) log) (sc_headers x)"
    and s: "starting c (sc_app x) (sc_headers x) (sc_req x) = Some (sc_mode x, sc_image x, sc_ports x, w)"
    by (auto simp: traced_def)
  from s obtain i where "start_of c (sc_app x) (sc_headers x) (sc_req x) = Some (i, sc_mode x)" by (rule starting_cases)
  then show ?thesis
  proof (cases rule: start_of_cases)
    case (1 user)
    with user_session_invited [OF J r f 1(2)] show ?thesis by (simp add: authorised_def from_guest_code_def)
  next
    case (2 admin)
    with powerful_session_signed [OF J r f 2(2) b64] show ?thesis by (simp add: authorised_def)
  qed
qed

text \<open>What a start asks for is what is stored for its challenge, and fits the protocol.\<close>

context archive_world
begin

lemma traced_stored:
  assumes c: "uses c" and x: "traced c st0 log x" and g: "good (app_world st0)"
    and l: "\<forall>e \<in> set log. request_strings_ok (e_req e)"
  shows "\<exists>i row. (sc_req x = Start (Some i) \<or> sc_req x = HostDemo (Some i)) \<and>
    find_row (tables (app_world (sc_app x))) i = Some row \<and> ch_docker_image row = Some (sc_image x) \<and>
    sc_ports x = port_list (ch_port_numbers row) (ch_port_types row) \<and> row_ok row"
proof -
  from x obtain w where r: "run c st0 (sc_app x) (take (sc_seen x) log)"
    and s: "starting c (sc_app x) (sc_headers x) (sc_req x) = Some (sc_mode x, sc_image x, sc_ports x, w)"
    by (auto simp: traced_def)
  have good: "good (app_world (sc_app x))"
    using run_good [OF r c g] l by (auto dest: in_set_takeD)
  from s obtain i where i: "start_of c (sc_app x) (sc_headers x) (sc_req x) = Some (i, sc_mode x)"
    "start_prepare D i (app_world (sc_app x)) = (Done (Inr (sc_image x, sc_ports x)), w)"
    unfolding usesD(1) [OF c, symmetric] by (rule starting_cases)
  from start_prepare_found [OF good_ok [OF good] i(2)] obtain row where
    row: "find_row (tables (app_world (sc_app x))) i = Some row" "ch_docker_image row = Some (sc_image x)"
      "sc_ports x = port_list (ch_port_numbers row) (ch_port_types row)" by blast
  have "row_ok row"
    using find_row_Some [OF row(1)] good_archive [OF good] by (auto simp: archive_ok_def challenges_ok_def)
  moreover from i(1) have "sc_req x = Start (Some i) \<or> sc_req x = HostDemo (Some i)"
    by (rule start_of_cases) simp_all
  ultimately show ?thesis using row by blast
qed

lemma traced_message:
  assumes "uses c" "traced c st0 log x" "good (app_world st0)" "\<forall>e \<in> set log. request_strings_ok (e_req e)"
  shows "parse_request (call_message x, eof) =
    (if length (sc_ports x) mod 256 < 10
     then Parsed \<lparr>req_mode = daemon_mode (sc_mode x), req_image = sc_image x,
            req_ports = map daemon_mapping (take (length (sc_ports x) mod 256) (sc_ports x))\<rparr>
     else Reply RESULT_INVALID_PORT)"
proof -
  from traced_stored [OF assms] have "rust_string (sc_image x)" "char_count (sc_image x) \<le> 63"
    by (auto simp: row_ok_def)
  moreover from this have "length (sc_image x) < 256"
    using rust_string_length_bound [of "sc_image x"] by simp
  ultimately show ?thesis
    using parse_start_message [of "sc_image x" "sc_ports x" "sc_mode x" "[]" eof] by (simp add: call_message_def)
qed

end

end
