(* ===== verification/System_Progress.thy ===== *)
theory System_Progress
  imports System_Invariant
begin

text \<open>
  That a start gets its answer: with the daemon serving and nothing failing, there is a
  sequence of steps from an accepted start to the answer. The lemmas follow one task through
  its states while the rest of the system stands still.
\<close>

text \<open>
  From \<open>s0\<close> the system gets to a state with the given starts in which task \<open>t\<close> of the serving
  daemon is at \<open>p\<close>, with its answer, if it has one, in the socket.
\<close>

definition reaches ::
  "('k, 'd, 'w, 'v) deployment \<Rightarrow> ('k, 'w, 'v) system \<Rightarrow> ('k, 'w) start_call list \<Rightarrow> nat \<Rightarrow> nat \<Rightarrow> pc \<Rightarrow> 'v shared \<Rightarrow> bool" where
  "reaches P s0 xs t now p sh \<longleftrightarrow>
     (\<exists>s. (sstep P)\<^sup>*\<^sup>* s0 s \<and> sys_log s = sys_log s0 \<and> sys_starts s = xs \<and> d_phase (sys_daemon s) = Serving \<and> d_now (sys_daemon s) = now \<and>
        d_tasks (sys_daemon s) t = p \<and> d_shared (sys_daemon s) = sh \<and>
        (\<forall>bytes. reply p = Some (Done bytes) \<longrightarrow> sys_sent s t = Some bytes))"

lemma deployed_steps: "(sstep P)\<^sup>*\<^sup>* s s' \<Longrightarrow> deployed P st0 s \<Longrightarrow> deployed P st0 s'"
  by (induction rule: rtranclp_induct) (auto intro: deployed.step)

lemma reaches_step:
  assumes r: "reaches P s0 xs t now p sh"
    and s: "task_step (dep_env P) (dep_features P) (dep_crypto P) (dep_interface P) False now cause p sh = Some (p', sh')"
    and a: "\<not> is_Aborting p'"
  shows "reaches P s0 xs t now p' sh'"
proof -
  from r obtain s1 where s1: "(sstep P)\<^sup>*\<^sup>* s0 s1" "sys_starts s1 = xs" "d_phase (sys_daemon s1) = Serving"
    "d_now (sys_daemon s1) = now" "d_tasks (sys_daemon s1) t = p" "d_shared (sys_daemon s1) = sh" "sys_log s1 = sys_log s0"
    by (auto simp: reaches_def)
  let ?d = "set_task (sys_daemon s1) t (p', sh')"
  let ?s = "s1\<lparr>sys_daemon := ?d, sys_sent := collect (d_tasks ?d) (sys_sent s1)\<rparr>"
  have "dstep (dep_env P) (dep_features P) (dep_crypto P) (dep_interface P) (dep_path P) (sys_daemon s1) ?d"
    using s s1 by (intro dstep.advance) (auto simp: running_def)
  moreover have "d_tasks ?d u = Absent" if "d_tasks (sys_daemon s1) u = Absent" for u
    using that task_step_present(1) [OF s] s1(5) by (auto simp: set_task_def)
  ultimately have "sstep P s1 ?s" by (rule sstep.daemon)
  with s1(1) have "(sstep P)\<^sup>*\<^sup>* s0 ?s" by simp
  moreover have "sys_log ?s = sys_log s0" "sys_starts ?s = xs" "d_phase (sys_daemon ?s) = Serving" "d_now (sys_daemon ?s) = now"
    "d_tasks (sys_daemon ?s) t = p'" "d_shared (sys_daemon ?s) = sh'"
    "\<forall>bytes. reply p' = Some (Done bytes) \<longrightarrow> sys_sent ?s t = Some bytes"
    using s1 a by (simp_all add: set_task_def collect_def)
  ultimately show ?thesis unfolding reaches_def by blast
qed

lemma reaches_connect:
  assumes "i < length (sys_starts s)" "sc_task (sys_starts s ! i) = None" "sc_answer (sys_starts s ! i) = None"
    "d_phase (sys_daemon s) = Serving" "d_tasks (sys_daemon s) t = Absent"
  shows "reaches P s ((sys_starts s)[i := (sys_starts s ! i)\<lparr>sc_task := Some t\<rparr>]) t (d_now (sys_daemon s))
    (Reading (call_message (sys_starts s ! i), False)) (d_shared (sys_daemon s))"
proof -
  let ?x = "sys_starts s ! i"
  let ?s = "s\<lparr>sys_starts := (sys_starts s)[i := ?x\<lparr>sc_task := Some t\<rparr>],
    sys_daemon := (sys_daemon s)\<lparr>d_tasks := (d_tasks (sys_daemon s))(t := Reading (call_message ?x, False))\<rparr>\<rparr>"
  have "sstep P s ?s" using sstep.connect [OF assms, of P "length (call_message ?x)" False] by simp
  then show ?thesis unfolding reaches_def using assms(4) by (intro exI [of _ ?s]) (auto simp: reply_def)
qed

text \<open>The daemon's probing is the loop of \<^verbatim>\<open>take_next_addr\<close>.\<close>

lemma reaches_probing:
  assumes "reaches P s0 xs t now (Probing req j) sh" "j \<le> MAX_INSTANCES"
    and "take_loop (map word_of_nat [j..<MAX_INSTANCES]) (s_mgr sh) = Done (r, m)"
  shows "reaches P s0 xs t now (case r of Some a \<Rightarrow> Starting req (Some a) AtConnect | None \<Rightarrow> Rejected RESULT_BUSY) (sh\<lparr>s_mgr := m\<rparr>)"
  using assms(2,1,3)
proof (induction j arbitrary: sh rule: inc_induct)
  case base
  then have "r = None" "m = s_mgr sh" by simp_all
  then show ?case
    by (intro reaches_step [OF base.prems(1)]) (simp_all add: step_probing_def is_Aborting_def)
next
  case (step j)
  have j: "unat (word_of_nat j :: u8) = j" using step.hyps by (simp add: MAX_INSTANCES_def unat_of_nat)
  have "[j..<MAX_INSTANCES] = j # [Suc j..<MAX_INSTANCES]" using step.hyps by (simp add: upt_conv_Cons)
  with step.prems(2) j obtain used m1 where f: "fetch_or_true (s_mgr sh) j = Done (used, m1)"
    and rest: "(if \<not> used then Done (Some (word_of_nat j + 1), m1)
      else take_loop (map word_of_nat [Suc j..<MAX_INSTANCES]) m1) = Done (r, m)"
    by (auto simp: bind_outcome_eq_Done)
  let ?p = "if \<not> used then Starting req (Some (word_of_nat j + 1)) AtConnect else Probing req (Suc j)"
  have "reaches P s0 xs t now ?p (sh\<lparr>s_mgr := m1\<rparr>)"
    using step.hyps f by (intro reaches_step [OF step.prems(1)]) (simp_all add: step_probing_def is_Aborting_def)
  with rest step.IH [of "sh\<lparr>s_mgr := m1\<rparr>"] show ?case by (auto split: if_splits)
qed

text \<open>From the accepted request to an address, or to the refusal.\<close>

lemma reaches_started:
  assumes "i < length (sys_starts s)" "sc_task (sys_starts s ! i) = None" "sc_answer (sys_starts s ! i) = None"
    "d_phase (sys_daemon s) = Serving" "d_tasks (sys_daemon s) t = Absent"
    and req: "parse_request (call_message (sys_starts s ! i), False) = Parsed req" "req_mode req = GuestRequest g"
    and take: "take_next_addr (s_mgr (d_shared (sys_daemon s))) = Done (r, m)"
  shows "reaches P s ((sys_starts s)[i := (sys_starts s ! i)\<lparr>sc_task := Some t\<rparr>]) t (d_now (sys_daemon s))
    (case r of Some a \<Rightarrow> Starting req (Some a) AtConnect | None \<Rightarrow> Rejected RESULT_BUSY) ((d_shared (sys_daemon s))\<lparr>s_mgr := m\<rparr>)"
proof (rule reaches_probing)
  show "reaches P s ((sys_starts s)[i := (sys_starts s ! i)\<lparr>sc_task := Some t\<rparr>]) t (d_now (sys_daemon s))
      (Probing req 0) (d_shared (sys_daemon s))"
    by (rule reaches_step [OF reaches_connect [OF assms(1-5)]])
      (simp_all add: step_reading_def req is_Aborting_def)
  have "u8_range 0 (as_u8 MAX_INSTANCES) = map word_of_nat [0..<MAX_INSTANCES]"
    by (rule u8_range_0) (simp add: MAX_INSTANCES_def)
  with take show "take_loop (map word_of_nat [0..<MAX_INSTANCES]) (s_mgr (d_shared (sys_daemon s))) = Done (r, m)"
    by (simp add: take_next_addr_def)
qed simp

text \<open>From the address to the container.\<close>

lemma reaches_created:
  assumes "reaches P s0 xs t now (Starting req a AtConnect) sh"
    and "container_create (dep_env P) (dep_features P) (req_image req) a (req_ports req) (s_world sh) = (Done (Inr c), w)"
  shows "reaches P s0 xs t now (Started c a) (sh\<lparr>s_world := w\<rparr>)"
proof (rule follow_create [of "dep_env P" "dep_features P" req _ AtConnect _ c w "reaches P s0 xs t now"])
  show "create_run (dep_env P) (dep_features P) (req_image req) a (req_ports req) AtConnect (s_world sh) = (Done (Inr c), w)"
    using assms(2) by (simp add: create_run_eq)
  fix pc sh p sh'
  assume at: "reaches P s0 xs t now (Starting req a pc) sh"
    and step: "step_starting (dep_env P) (dep_features P) req a pc sh = (p, sh')"
    and p: "(\<exists>pc'. p = Starting req a pc') \<or> (\<exists>c. p = Started c a)"
  show "reaches P s0 xs t now p sh'"
    by (rule reaches_step [OF at, of ContainerStopped]) (use step p in \<open>auto simp: is_Aborting_def\<close>)
qed (rule assms(1))

text \<open>The end of a start: the client reads all that was written.\<close>

lemma reaches_finish:
  assumes "reaches P s0 xs t now p sh" "reply p = Some (Done bytes)"
    and "i < length xs" "sc_task (xs ! i) = Some t" "sc_answer (xs ! i) = None"
    and "received io_text (xs ! i) bytes = Some a"
  shows "\<exists>s. (sstep P)\<^sup>*\<^sup>* s0 s \<and> sys_log s = sys_log s0 \<and> sys_starts s = xs[i := (xs ! i)\<lparr>sc_answer := Some a\<rparr>] \<and> d_tasks (sys_daemon s) t = p"
proof -
  from assms(1,2) obtain s where s: "(sstep P)\<^sup>*\<^sup>* s0 s" "sys_starts s = xs" "d_tasks (sys_daemon s) t = p"
    "sys_sent s t = Some bytes" "sys_log s = sys_log s0"
    by (auto simp: reaches_def)
  let ?s = "s\<lparr>sys_starts := (sys_starts s)[i := (sys_starts s ! i)\<lparr>sc_answer := Some a\<rparr>]\<rparr>"
  have "sstep P s ?s"
    using assms(3-6) s by (intro sstep.finish [where t = t and n = "length bytes" and io_text = io_text]) simp_all
  with s(1) have "(sstep P)\<^sup>*\<^sup>* s0 ?s" by simp
  with s show ?thesis by (intro exI [of _ ?s]) simp
qed

section \<open>A guest's start, from the request to the configuration\<close>

lemma reaches_deployed:
  assumes "reaches P s xs t now p sh" "deployed P st0 s"
  obtains s' where "deployed P st0 s'" "d_tasks (sys_daemon s') t = p" "sys_log s' = sys_log s" "sys_starts s' = xs"
  using assms deployed_steps unfolding reaches_def by blast

lemma start_served:
  assumes d: "deployed P st0 s" and k: "keys_ok P"
    and x: "i < length (sys_starts s)" "sc_req (sys_starts s ! i) = Start q" "sc_mode (sys_starts s ! i) = Guest g"
      "sc_task (sys_starts s ! i) = None" "sc_answer (sys_starts s ! i) = None"
    and t: "d_phase (sys_daemon s) = Serving" "d_tasks (sys_daemon s) t = Absent"
    and req: "parse_request (call_message (sys_starts s ! i), False) = Parsed req" "req_mode req = GuestRequest g'"
    and take: "take_next_addr (s_mgr (d_shared (sys_daemon s))) = Done (Some a, m)"
    and create: "container_create (dep_env P) (dep_features P) (req_image req) (Some a) (req_ports req)
      (s_world (d_shared (sys_daemon s))) = (Done (Inr c), w1)"
    and peer: "add_temp_peer (dep_env P) (dep_features P) (dep_crypto P) (dep_interface P) (cleanup_drop c) a w1
      = (Done (Inr (pk, cfg)), w2)"
  shows "\<exists>s'. (sstep P)\<^sup>*\<^sup>* s s' \<and> sys_log s' = sys_log s \<and>
    sys_starts s' = (sys_starts s)[i := (sys_starts s ! i)\<lparr>sc_task := Some t, sc_answer := Some (AText (serialize cfg))\<rparr>] \<and>
    d_tasks (sys_daemon s') t = Waiting c (Some a) (Some (pk, cfg)) (d_now (sys_daemon s))"
proof -
  let ?x = "sys_starts s ! i" and ?now = "d_now (sys_daemon s)"
  let ?xs = "(sys_starts s)[i := ?x\<lparr>sc_task := Some t\<rparr>]"
    and ?p = "Waiting c (Some a) (Some (pk, cfg)) ?now" and ?sh = "(d_shared (sys_daemon s))\<lparr>s_mgr := m\<rparr>"
  from reaches_started [OF x(1,4,5) t req take] have start: "reaches P s ?xs t ?now (Starting req (Some a) AtConnect) ?sh" by simp
  have "reaches P s ?xs t ?now (Started c (Some a)) (?sh\<lparr>s_world := w1\<rparr>)"
  proof (rule reaches_created [OF start])
    show "container_create (dep_env P) (dep_features P) (req_image req) (Some a) (req_ports req) (s_world ?sh) = (Done (Inr c), w1)"
      using create by simp
  qed
  from reaches_step [OF this, of ContainerStopped ?p "?sh\<lparr>s_world := w2\<rparr>"] peer
  have r: "reaches P s ?xs t ?now ?p (?sh\<lparr>s_world := w2\<rparr>)"
    by (simp add: step_started_def is_Aborting_def)
  from r d obtain s' where s': "deployed P st0 s'" "d_tasks (sys_daemon s') t = ?p" by (rule reaches_deployed)
  from k obtain dec hk where "base64_laws (b64_encode (dep_crypto P)) dec"
    "\<And>w. length (fst (random_secret (dep_env P) w)) = 32"
    "int_pubkey (dep_interface P) = b64_encode (dep_crypto P) hk" "length hk = 32"
    unfolding keys_ok_def by blast
  from reachable_config [OF this deployed_reachable [OF s'(1)] s'(2)] obtain bytes where
    bytes: "ok_response (Some cfg) = Done bytes"
      "\<And>g eof. read_response (Guest g) (bytes, eof) = Ready (Done (Inr (serialize cfg)))" by blast
  have reply: "reply ?p = Some (Done bytes)" using bytes(1) by (simp add: reply_def)
  have got: "received [] (?xs ! i) bytes = Some (AText (serialize cfg))"
    using x(1-3) bytes(2) by (simp add: received_def start_result_def)
  from reaches_finish [OF r reply _ _ _ got] x(1,5) show ?thesis by simp
qed

end
