(* ===== verification/System_Props.thy ===== *)
theory System_Props
  imports System_Progress Archive_Props
begin

text \<open>
  Properties of the web server and the daemon together, with every interleaving of the two:
  who can make the daemon start a container, which one, what the client is told, and that a
  guest can get its container.
\<close>

section \<open>A deployment\<close>

definition sample_deployment :: "(nat, int \<times> nat \<times> nat, (int \<times> nat \<times> nat) pg, sim_host) deployment" where
  "sample_deployment = \<lparr>dep_server = sample_config quiet, dep_env = sim_env, dep_features = sample_features,
     dep_crypto = sample_crypto, dep_interface = sample_interface, dep_path = ''socket''\<rparr>"

lemma sample_deployment_fields [simp]:
  "dep_server sample_deployment = sample_config quiet" "dep_env sample_deployment = sim_env"
  "dep_features sample_deployment = sample_features" "dep_crypto sample_deployment = sample_crypto"
  "dep_interface sample_deployment = sample_interface" "dep_path sample_deployment = ''socket''"
  by (simp_all add: sample_deployment_def)

lemma sample_keys_ok: "keys_ok sample_deployment"
proof -
  have "base64_laws (b64_encode sample_crypto) rfc4648_decode"
    using rfc4648.base64_laws_axioms by (simp add: sample_crypto_def)
  moreover have "length (fst (random_secret sim_env w)) = 32" for w
    by (auto simp: sim_env_fields split: list.splits)
  moreover have "int_pubkey sample_interface = b64_encode sample_crypto (replicate 32 1)"
    by (simp add: sample_interface_def sample_crypto_def)
  ultimately show ?thesis unfolding keys_ok_def by fastforce
qed

definition hosted_pg :: "(int \<times> nat \<times> nat) pg" where
  "hosted_pg = sample_pg [sample_row\<lparr>ch_docker_image := Some ''a''\<rparr>]"

lemma image_a: "rust_string ''a''" "char_count ''a'' = 1"
proof -
  have "is_ascii ''a''" by (simp add: is_ascii_def byte_of_def word_less_nat_alt)
  then show "rust_string ''a''" "char_count ''a'' = 1" by (simp_all add: ascii_rust_string ascii_chars)
qed

lemma hosted_pg_ok: "pg_ok hosted_pg" "archive_ok gregorian (pg_tables hosted_pg)"
  by (simp_all add: hosted_pg_def pg_ok_def sample_pg_def sample_row_def archive_ok_def ctfs_ok_def categories_ok_def
      challenges_ok_def images_unique_def row_ok_def category_type_parse_def date_try_from_def gregorian_def image_a)

definition sample_call :: "(nat, (int \<times> nat \<times> nat) pg) start_call" where
  "sample_call = \<lparr>sc_headers = user_headers, sc_req = Start (Some 1), sc_app = sample_app used_code hosted_pg,
     sc_seen = 4, sc_mode = Guest (GuestCode 42), sc_image = ''a'', sc_ports = [], sc_task = None, sc_answer = None\<rparr>"

definition sample_system ::
  "guest_code in_memory_set \<Rightarrow> log_entry list \<Rightarrow> (nat, (int \<times> nat \<times> nat) pg) start_call list \<Rightarrow>
     (nat, (int \<times> nat \<times> nat) pg, sim_host) system" where
  "sample_system codes log xs = \<lparr>sys_app = sample_app codes hosted_pg, sys_log = log, sys_starts = xs,
     sys_daemon = initial fresh_manager (sample_host [''a'']), sys_sent = Map.empty\<rparr>"

abbreviation sample_deployed :: "(nat, (int \<times> nat \<times> nat) pg, sim_host) system \<Rightarrow> bool" where
  "sample_deployed \<equiv> deployed sample_deployment (sample_start hosted_pg)"

lemma sample_system_request:
  assumes "sample_deployed (sample_system codes log [])" "unforged sim_jwt sample_keys 0 log hs"
    and "handle (sample_config quiet) (sample_app codes hosted_pg) hs sample_random req = (ans, sample_app codes' hosted_pg)"
    and "start_of (sample_config quiet) (sample_app codes hosted_pg) hs req = None"
  shows "sample_deployed (sample_system codes' (log @ [sample_entry hs req ans]) [])"
proof (rule deployed.step [OF assms(1)])
  show "sstep sample_deployment (sample_system codes log []) (sample_system codes' (log @ [sample_entry hs req ans]) [])"
    using sstep.request [of sample_deployment "sample_system codes log []" hs req sample_random ans "sample_app codes' hosted_pg"]
      assms(2-4)
    by (simp add: sample_system_def starting_def sample_entry_def del: handle.simps)
qed

lemma sample_redeemed: "sample_deployed (sample_system used_code redeemed_log [])"
proof -
  have "sample_deployed (sample_system in_memory_set_default [] [])"
    using deployed.start [of "sample_start hosted_pg" fresh_manager sample_deployment "sample_host [''a'']"] fresh_manager_new
    by (simp add: sample_system_def system_start_def)
  from sample_system_request [OF this sample_unforged_none sample_initiate]
  have a: "sample_deployed (sample_system in_memory_set_default
      [sample_entry Map.empty (InitiateChallenge (Some 0)) (AText challenge_token)] [])" (is "sample_deployed (sample_system _ ?log [])")
    by (simp add: start_of_def)
  have "unforged sim_jwt sample_keys 0 ?log challenge_headers"
    unfolding challenge_headers_def challenge_token_def
    by (rule sample_unforged, fold challenge_token_def, rule sample_issued) auto
  from sample_system_request [OF a this sample_finish]
  have b: "sample_deployed (sample_system in_memory_set_default admin_log [])" by (simp add: start_of_def admin_log_def)
  from sample_system_request [OF b admin_unforged sample_generate]
  have "sample_deployed (sample_system one_code invited_log [])" by (simp add: start_of_def invited_log_def)
  from sample_system_request [OF this sample_unforged_none sample_redeem]
  show ?thesis by (simp add: start_of_def redeemed_log_def)
qed

lemma hosted_starting:
  "starting (sample_config quiet) (sample_app used_code hosted_pg) user_headers (Start (Some 1))
     = Some (Guest (GuestCode 42), ''a'', [], hosted_pg)"
  by (simp add: starting_def start_of_def from_guest_code_def start_prepare_def with_conn_def prog_eval pg_db_def
      hosted_pg_def sample_pg_def sample_row_def find_row_def on_tables_def ret_def assert_ports_def flatten_def port_list_def)

lemma sample_accepted: "sample_deployed (sample_system used_code redeemed_log [sample_call])"
proof (rule deployed.step [OF sample_redeemed])
  have "length redeemed_log = 4" by (simp add: redeemed_log_def invited_log_def admin_log_def)
  with sstep.begin_start [of sample_deployment "sample_system used_code redeemed_log []" user_headers "Start (Some 1)"
      "Guest (GuestCode 42)" "''a''" "[]" hosted_pg] hosted_starting user_unforged [of redeemed_log]
  show "sstep sample_deployment (sample_system used_code redeemed_log []) (sample_system used_code redeemed_log [sample_call])"
    by (simp add: sample_system_def sample_call_def)
qed

text \<open>In this deployment the accepted start is served: the guest gets address 1.\<close>

lemma sample_message: "parse_request (call_message sample_call, eof) =
    Parsed \<lparr>req_mode = GuestRequest 42, req_image = ''a'', req_ports = []\<rparr>"
  using parse_start_message [OF image_a(1), of "[]" "Guest (GuestCode 42)" "[]" eof]
  by (simp add: call_message_def sample_call_def)

lemma sample_take: "take_next_addr fresh_manager = Done (Some 1, one_taken)"
proof -
  have "pool_wf fresh_manager" using fresh_pool [OF fresh_manager_new] by simp
  moreover have "free_slots fresh_manager = [0, 1, 2, 3, 4, 5]"
    by (simp add: free_slots_def fresh_manager_def MAX_INSTANCES_def upt_rec)
  ultimately show ?thesis by (simp add: take_next_addr_eq one_taken_def)
qed

lemma sample_host_serves:
  "\<exists>c w1 pk cfg w2. container_create sim_env sample_features ''a'' (Some 1) [] (sample_host [''a'']) = (Done (Inr c), w1) \<and>
     add_temp_peer sim_env sample_features sample_crypto sample_interface (cleanup_drop c) 1 w1 = (Done (Inr (pk, cfg)), w2)"
proof -
  obtain w1 w2 cfg c k where
    create: "container_create sim_env sample_features ''a'' (Some 1) [] (sample_host [''a'']) = (Done (Inr c), w1)"
    and c: "cont_id c \<noteq> None"
    and peer: "add_temp_peer sim_env sample_features sample_crypto sample_interface Panic 1 w1 = (Done (Inr (k, cfg)), w2)"
    using sample_session by fastforce
  have "cleanup_drop c = Panic" using c by (simp add: cleanup_drop_def container_drop_def assert_that_def)
  with create peer show ?thesis by metis
qed

lemma sample_system_fields [simp]:
  "sys_app (sample_system s log xs) = sample_app s hosted_pg" "sys_log (sample_system s log xs) = log"
  "sys_starts (sample_system s log xs) = xs" "sys_daemon (sample_system s log xs) = initial fresh_manager (sample_host [''a''])"
  by (simp_all add: sample_system_def)

lemma initial_fields [simp]:
  "d_shared (initial m w) = \<lparr>s_mgr = m, s_world = w\<rparr>" "d_tasks (initial m w) t = Absent"
  "d_phase (initial m w) = Serving" "d_now (initial m w) = 0"
  by (simp_all add: initial_def)

lemma sample_creating:
  obtains s where "sample_deployed s" "sys_log s = redeemed_log" "sys_starts s = [sample_call\<lparr>sc_task := Some 0\<rparr>]"
    "d_tasks (sys_daemon s) 0 = Starting \<lparr>req_mode = GuestRequest 42, req_image = ''a'', req_ports = []\<rparr> (Some 1) AtConnect"
proof -
  from reaches_started [of 0 "sample_system used_code redeemed_log [sample_call]" 0 _ 42 "Some 1" one_taken sample_deployment,
      OF _ _ _ _ _ _ _ _] sample_message [of False] sample_take
  have "reaches sample_deployment (sample_system used_code redeemed_log [sample_call])
      [sample_call\<lparr>sc_task := Some 0\<rparr>] 0 0
      (Starting \<lparr>req_mode = GuestRequest 42, req_image = ''a'', req_ports = []\<rparr> (Some 1) AtConnect) \<lparr>s_mgr = one_taken, s_world = sample_host [''a'']\<rparr>"
    by (simp add: sample_call_def)
  from this sample_accepted show thesis by (rule reaches_deployed) (simp add: that)
qed

lemma sample_served:
  obtains s c pk cfg where "sample_deployed s" "sys_starts s = [sample_call\<lparr>sc_task := Some 0, sc_answer := Some (AText (serialize cfg))\<rparr>]"
    "d_tasks (sys_daemon s) 0 = Waiting c (Some 1) (Some (pk, cfg)) 0"
proof -
  obtain c w1 pk cfg w2 where
    h: "container_create sim_env sample_features ''a'' (Some 1) [] (sample_host [''a'']) = (Done (Inr c), w1)"
      "add_temp_peer sim_env sample_features sample_crypto sample_interface (cleanup_drop c) 1 w1 = (Done (Inr (pk, cfg)), w2)"
    using sample_host_serves by blast
  from start_served [OF sample_accepted sample_keys_ok, of 0 "Some 1" "GuestCode 42" 0 _ 42 1 one_taken c w1 pk cfg w2]
    sample_message [of False] sample_take h
  obtain s where s: "(sstep sample_deployment)\<^sup>*\<^sup>* (sample_system used_code redeemed_log [sample_call]) s"
    "sys_starts s = [sample_call\<lparr>sc_task := Some 0, sc_answer := Some (AText (serialize cfg))\<rparr>]"
    "d_tasks (sys_daemon s) 0 = Waiting c (Some 1) (Some (pk, cfg)) 0"
    by (auto simp: sample_call_def)
  from deployed_steps [OF s(1) sample_accepted] s(2,3) show thesis by (rule that)
qed

lemma redeemed_strings: "list_all (\<lambda>e. request_strings_ok (e_req e)) redeemed_log"
  by (simp add: redeemed_log_def invited_log_def admin_log_def sample_entry_def)

lemma sample_deployment_laws:
  "archive_world (cfg_db (dep_server sample_deployment)) (cfg_chrono (dep_server sample_deployment)) pg_ok pg_tables
     (cfg_socket (dep_server sample_deployment))"
  using sample_laws [of quiet] by simp

section \<open>Two halves of a start\<close>


section \<open>Who starts what\<close>



text \<open>C4. The daemon starts what is stored. Whenever a task of the daemon is creating a
  container, its image is the one stored for the challenge the accepted request named, its
  ports are the stored ones (the first \<^verbatim>\<open>len % 256\<close> of them, fewer than ten), its guest
  code is the code of the user's session, and it has a guest address exactly when it is not a
  demonstration.\<close>

theorem containers_as_stored:
  assumes "archive_world (cfg_db (dep_server P)) (cfg_chrono (dep_server P)) ok tables (cfg_socket (dep_server P))"
    and "deployed P st0 s" and "ok (app_world st0)" and "archive_ok (cfg_chrono (dep_server P)) (tables (app_world st0))"
    and "list_all (\<lambda>e. request_strings_ok (e_req e)) (sys_log s)"
    and "d_tasks (sys_daemon s) t = Starting req a pc"
  shows "\<exists>x id row. x \<in> set (sys_starts s) \<and> sc_task x = Some t \<and>
    (sc_req x = Start (Some id) \<or> sc_req x = HostDemo (Some id)) \<and>
    find_row (tables (app_world (sc_app x))) id = Some row \<and> ch_docker_image row = Some (req_image req) \<and>
    (let ports = port_list (ch_port_numbers row) (ch_port_types row) in
       length ports mod 256 < 10 \<and> req_ports req = map daemon_mapping (take (length ports mod 256) ports)) \<and>
    req_mode req = daemon_mode (sc_mode x) \<and> (a = None \<longleftrightarrow> sc_mode x = StartDemo)"
proof -
  note laws = archive_world.uses_def [OF assms(1)] archive_world.good_def [OF assms(1)]
  have l: "linked (connections (sys_starts s)) (d_tasks (sys_daemon s))" using deployed_linked [OF assms(2)] .
  moreover have "d_tasks (sys_daemon s) t \<noteq> Absent" using assms(6) by simp
  ultimately obtain i where i: "i < length (sys_starts s)" "sc_task (sys_starts s ! i) = Some t"
    unfolding linked_def connections_Some by blast
  let ?x = "sys_starts s ! i"
  have "serves (call_message ?x) (d_tasks (sys_daemon s) t)" using l i unfolding linked_def connections_Some by blast
  then have req: "parse_request (call_message ?x, True) = Parsed req" "a = None \<longleftrightarrow> req_mode req = Demo"
    using assms(6) by simp_all
  have tr: "traced (dep_server P) st0 (sys_log s) ?x"
    using deployed_traced [OF assms(2)] i(1) by (simp add: list_all_length)
  have log: "\<forall>e \<in> set (sys_log s). request_strings_ok (e_req e)" using assms(5) by (simp add: list_all_iff)
  from archive_world.traced_message [OF assms(1) _ tr _ log] assms(3,4) req(1)
  have r: "length (sc_ports ?x) mod 256 < 10" "req = \<lparr>req_mode = daemon_mode (sc_mode ?x), req_image = sc_image ?x,
      req_ports = map daemon_mapping (take (length (sc_ports ?x) mod 256) (sc_ports ?x))\<rparr>"
    unfolding laws by (auto split: if_splits)
  from archive_world.traced_stored [OF assms(1) _ tr _ log] assms(3,4) obtain id row where
    row: "sc_req ?x = Start (Some id) \<or> sc_req ?x = HostDemo (Some id)" "find_row (tables (app_world (sc_app ?x))) id = Some row"
      "ch_docker_image row = Some (sc_image ?x)" "sc_ports ?x = port_list (ch_port_numbers row) (ch_port_types row)"
    unfolding laws by blast
  have mode: "a = None \<longleftrightarrow> sc_mode ?x = StartDemo"
    using req(2) r(2) by (cases "sc_mode ?x" rule: daemon_mode.cases) simp_all
  show ?thesis
    using i row r mode by (intro exI [of _ ?x] exI [of _ id] exI [of _ row]) (simp add: Let_def)
qed

theorem containers_as_stored_witness:
  "\<exists>s req pc. sample_deployed s \<and> d_tasks (sys_daemon s) 0 = Starting req (Some 1) pc \<and>
     (\<exists>row \<in> set (t_challenges (pg_tables hosted_pg)). ch_docker_image row = Some (req_image req))"
proof -
  obtain s where s: "sample_deployed s" "sys_log s = redeemed_log" "sys_starts s = [sample_call\<lparr>sc_task := Some 0\<rparr>]"
    "d_tasks (sys_daemon s) 0 = Starting \<lparr>req_mode = GuestRequest 42, req_image = ''a'', req_ports = []\<rparr> (Some 1) AtConnect"
    by (rule sample_creating)
  have ok: "pg_ok (app_world (sample_start hosted_pg))"
    "archive_ok (cfg_chrono (dep_server sample_deployment)) (pg_tables (app_world (sample_start hosted_pg)))"
    using hosted_pg_ok by simp_all
  from containers_as_stored [OF sample_deployment_laws s(1) ok, of 0] s redeemed_strings
  obtain id row where "find_row (pg_tables hosted_pg) id = Some row" "ch_docker_image row = Some ''a''"
    by (auto simp: sample_call_def)
  with find_row_Some s(1,4) show ?thesis by fastforce
qed

section \<open>What guests are told\<close>

text \<open>C5. A guest is given its own address. Whenever a start was answered with a text, that text is a
  WireGuard configuration, for an address that the start's task in the daemon still holds
  alone or has given up; as long as it holds it, no other task has that address.\<close>

theorem guest_answers_exclusive:
  assumes "deployed P st0 s" and "keys_ok P" and "x \<in> set (sys_starts s)" and "sc_answer x = Some (AText txt)"
  shows "\<exists>t addr cfg. sc_task x = Some t \<and> txt = serialize cfg \<and> wgi_address (wgc_interface cfg) = guest_ip addr \<and>
    (holds (d_tasks (sys_daemon s) t) = None \<or>
     {u. holds (d_tasks (sys_daemon s) u) = Some addr} = {t})"
proof -
  have "answer_ok (sys_sent s) x" using deployed_answer_ok [OF assms(1,2)] assms(3) by (simp add: list_all_iff)
  with assms(4) obtain t bytes where
    t: "sc_task x = Some t" "sys_sent s t = Some bytes" and user: "\<forall>q. sc_req x \<noteq> HostDemo q"
    and r: "read_response (sc_mode x) (bytes, True) = Ready (Done (Inr txt))"
    unfolding answer_ok_def by blast
  from deployed_traced [OF assms(1)] assms(3) obtain w where
    "starting (dep_server P) (sc_app x) (sc_headers x) (sc_req x) = Some (sc_mode x, sc_image x, sc_ports x, w)"
    by (auto simp: list_all_iff traced_def)
  then obtain i where "start_of (dep_server P) (sc_app x) (sc_headers x) (sc_req x) = Some (i, sc_mode x)"
    by (rule starting_cases)
  with user obtain g where g: "sc_mode x = Guest g" by (auto elim!: start_of_cases simp: from_guest_code_def)
  have "bytes \<noteq> [e]" for e
    using r g by (auto simp: read_response_def read_config_def read_u16_le_def read_exact_def split: if_splits)
  with deployed_sent [OF assms(1,2) t(2)] obtain addr cfg where
    a: "guest_answer addr cfg bytes" "holds (d_tasks (sys_daemon s) t) = None \<or> holds (d_tasks (sys_daemon s) t) = Some addr"
    by (auto simp: sent_ok_def)
  have alone: "u = t" if "holds (d_tasks (sys_daemon s) t) = Some addr" "holds (d_tasks (sys_daemon s) u) = Some addr" for u
    using reachable_owned [OF deployed_reachable [OF assms(1)]] that
    by (auto simp: owned_def inj_on_def holders_def dom_def)
  have "txt = serialize cfg" "wgi_address (wgc_interface cfg) = guest_ip addr"
    using a(1) r g by (simp_all add: guest_answer_def)
  with t(1) a(2) alone show ?thesis by (intro exI [of _ t] exI [of _ addr] exI [of _ cfg]) auto
qed

theorem guest_answers_exclusive_witness:
  "\<exists>s addr cfg. sample_deployed s \<and> sc_answer (sys_starts s ! 0) = Some (AText (serialize cfg)) \<and>
     wgi_address (wgc_interface cfg) = guest_ip addr \<and> {u. holds (d_tasks (sys_daemon s) u) = Some addr} = {0}"
proof -
  obtain s c pk cfg where s: "sample_deployed s"
    "sys_starts s = [sample_call\<lparr>sc_task := Some 0, sc_answer := Some (AText (serialize cfg))\<rparr>]"
    "d_tasks (sys_daemon s) 0 = Waiting c (Some 1) (Some (pk, cfg)) 0"
    by (rule sample_served)
  have x: "sys_starts s ! 0 \<in> set (sys_starts s)" "sc_task (sys_starts s ! 0) = Some 0"
    "sc_answer (sys_starts s ! 0) = Some (AText (serialize cfg))"
    using s(2) by simp_all
  from guest_answers_exclusive [OF s(1) sample_keys_ok x(1,3)] x(2) s(3) obtain addr cfg' where
    "serialize cfg = serialize cfg'" "wgi_address (wgc_interface cfg') = guest_ip addr"
    "{u. holds (d_tasks (sys_daemon s) u) = Some addr} = {0}"
    by auto
  with s(1) x(3) show ?thesis by auto
qed

section \<open>A guest can get its container\<close>

text \<open>C6. A start can succeed. Take any state of the running system with an accepted start of a user
  for a challenge with fewer than ten ports, the daemon serving and an address free. If Docker
  creates the container and WireGuard adds the peer, the two processes can go on, without any
  other help, to a state in which the user's request is answered with the text of the
  configuration for the lowest free address, and the container is running.\<close>

theorem guest_can_be_served:
  assumes "archive_world (cfg_db (dep_server P)) (cfg_chrono (dep_server P)) ok tables (cfg_socket (dep_server P))"
    and "deployed P st0 s" and "ok (app_world st0)" and "archive_ok (cfg_chrono (dep_server P)) (tables (app_world st0))"
    and "list_all (\<lambda>e. request_strings_ok (e_req e)) (sys_log s)" and "keys_ok P"
    and x: "i < length (sys_starts s)" "sys_starts s ! i = x" "sc_req x = Start q" "sc_task x = None" "sc_answer x = None"
      "length (sc_ports x) < 10"
    and t: "d_phase (sys_daemon s) = Serving" "d_tasks (sys_daemon s) t = Absent"
    and take: "take_next_addr (s_mgr (d_shared (sys_daemon s))) = Done (Some a, m)"
    and create: "container_create (dep_env P) (dep_features P) (sc_image x) (Some a) (map daemon_mapping (sc_ports x))
      (s_world (d_shared (sys_daemon s))) = (Done (Inr c), w1)"
    and peer: "add_temp_peer (dep_env P) (dep_features P) (dep_crypto P) (dep_interface P) (cleanup_drop c) a w1
      = (Done (Inr (pk, cfg)), w2)"
  shows "\<exists>s'. (sstep P)\<^sup>*\<^sup>* s s' \<and> sc_answer (sys_starts s' ! i) = Some (AText (serialize cfg)) \<and>
    d_tasks (sys_daemon s') t = Waiting c (Some a) (Some (pk, cfg)) (d_now (sys_daemon s))"
proof -
  note laws = archive_world.uses_def [OF assms(1)] archive_world.good_def [OF assms(1)]
  have tr: "traced (dep_server P) st0 (sys_log s) x"
    using deployed_traced [OF assms(2)] x(1,2) by (auto simp: list_all_length)
  have log: "\<forall>e \<in> set (sys_log s). request_strings_ok (e_req e)" using assms(5) by (simp add: list_all_iff)
  from tr obtain w where "starting (dep_server P) (sc_app x) (sc_headers x) (sc_req x) = Some (sc_mode x, sc_image x, sc_ports x, w)"
    by (auto simp: traced_def)
  then obtain i' where "start_of (dep_server P) (sc_app x) (sc_headers x) (sc_req x) = Some (i', sc_mode x)"
    by (rule starting_cases)
  with x(3) obtain g where g: "sc_mode x = Guest g" by (auto elim!: start_of_cases simp: from_guest_code_def)
  from archive_world.traced_message [OF assms(1) _ tr _ log, of False] assms(3,4) x(6)
  have req: "parse_request (call_message x, False) = Parsed \<lparr>req_mode = daemon_mode (Guest g), req_image = sc_image x,
      req_ports = map daemon_mapping (sc_ports x)\<rparr>"
    unfolding laws g by simp
  obtain code where "g = GuestCode code" by (cases g)
  with start_served [OF assms(2,6) x(1) _ _ _ _ t _ _ take _ peer, of q g] req create x g
  show ?thesis by fastforce
qed

theorem guest_can_be_served_witness:
  "\<exists>s' cfg. (sstep sample_deployment)\<^sup>*\<^sup>* (sample_system used_code redeemed_log [sample_call]) s' \<and>
     sc_answer (sys_starts s' ! 0) = Some (AText (serialize cfg))"
proof -
  obtain c w1 pk cfg w2 where
    h: "container_create sim_env sample_features ''a'' (Some 1) [] (sample_host [''a'']) = (Done (Inr c), w1)"
      "add_temp_peer sim_env sample_features sample_crypto sample_interface (cleanup_drop c) 1 w1 = (Done (Inr (pk, cfg)), w2)"
    using sample_host_serves by blast
  from guest_can_be_served [OF sample_deployment_laws sample_accepted _ _ _ sample_keys_ok, of 0 sample_call "Some 1" 0 1 one_taken c w1 pk cfg w2]
    hosted_pg_ok redeemed_strings h sample_take
  show ?thesis by (auto simp: sample_call_def)
qed

end
