(* ===== verification/Spec2Isabelle.thy ===== *)
theory Spec2Isabelle
  imports Challd_Props Daemon_Host Daemon_Life Protocol Route_Props Session_Props Archive_Props Handler_Props System_Props
begin

text \<open>
  Verification of the SCDT server.

  The repository holds two Rust programs. \<^verbatim>\<open>ctf_archive\<close> is a web server: it keeps
  an archive of CTF challenges in PostgreSQL, lets administrators change it and guests with
  an invitation read it and start challenges. \<^verbatim>\<open>challd\<close> is a daemon that starts the
  containers: the web server sends it a request over a Unix socket, and the daemon creates a
  container, gives the guest one of six addresses of a WireGuard network, and takes
  everything down again after a while. The theories model both programs, their two ends of
  the socket against each other, and the two programs running side by side.

  \<^bold>\<open>Conventions\<close> (\<^verbatim>\<open>Prelude\<close>). Unsigned integers are words of their width,
  signed ones mathematical integers with explicit casts. A Rust string is the list of its
  UTF-8 bytes (\<open>rust_string\<close> is what the type guarantees). A computation ends in an
  \<open>outcome\<close>: a value, a panic, or an abort (a panic while panicking). Code that acts on
  its surroundings is a \<open>prog\<close>, a function of the world. Reading from a socket is
  \<open>Pending\<close> when it waits for a client that sends nothing more. Third-party code is a
  record of functions that definitions take as an argument, with its documented behaviour as
  a locale, and every such locale is interpreted on concrete functions.

  \<^bold>\<open>The daemon\<close> (\<^verbatim>\<open>src/challd/src\<close>).
  \<^item> \<^verbatim>\<open>Wg_Config\<close>: \<^verbatim>\<open>wg_config.rs\<close>, configurations and their text.
  \<^item> \<^verbatim>\<open>Ports\<close>: \<^verbatim>\<open>ports.rs\<close>, reading port mappings and binding them.
  \<^item> \<^verbatim>\<open>Address_Manager\<close>: \<^verbatim>\<open>address_manager.rs\<close>, the pool of guest
    addresses, with the interface \<open>addr_pool\<close> its clients rely on. Every atomic access
    is a definition, so that tasks can interleave between them.
  \<^item> \<^verbatim>\<open>Host\<close>: what the daemon uses of the operating system, Docker, WireGuard and
    the X25519 code, as a parameter \<open>env\<close> with laws \<open>host_laws\<close>, and a simulated host.
  \<^item> \<^verbatim>\<open>Container\<close>: \<^verbatim>\<open>container.rs\<close>; \<^verbatim>\<open>Container_Steps\<close>: its creation
    and shutdown cut into their single operations on the host; \<^verbatim>\<open>Interface\<close>:
    \<^verbatim>\<open>interface.rs\<close>, \<^verbatim>\<open>dummy_interface.rs\<close>, \<^verbatim>\<open>crypto_stuff.rs\<close>
    and \<^verbatim>\<open>demo.rs\<close>; \<^verbatim>\<open>Base64\<close>: the codec's contract and RFC 4648.
  \<^item> \<^verbatim>\<open>Daemon\<close>: \<^verbatim>\<open>main.rs\<close>, the request parser (\<open>parse_request\<close>), the
    start and end of the process, and all connections together as the step relation
    \<open>dstep\<close>: a connection's task is a program counter \<open>pc\<close> and moves between points at
    which the runtime can switch tasks; clients, time, signals, stopping containers and
    whatever else changes the host are steps as well. \<open>reachable\<close> are the states after any interleaving.
  \<^item> \<^verbatim>\<open>Daemon_Invariant\<close>, \<^verbatim>\<open>Challd_Props\<close>: addresses are never shared
    between connections and the pool is exact; a session that ends leaves the host as it was
    (\<^verbatim>\<open>Daemon_Host\<close>: also when sessions interleave, as long as nothing fails);
    a process that ends in an orderly way also takes away its devices and its socket, and one
    that does not cannot be started again (\<^verbatim>\<open>Daemon_Life\<close>, with the laws
    \<open>device_laws\<close>); a draining daemon can always finish; every task makes at most twenty-one steps; what any
    client's bytes lead to; and what goes wrong: addresses lost by panicking tasks, and a
    range check that is off by one.

  \<^bold>\<open>The socket.\<close> \<^verbatim>\<open>Challd_Client\<close> is \<^verbatim>\<open>ctf_archive/src/challd.rs\<close>.
  \<^verbatim>\<open>Protocol\<close> proves that the daemon reads the requests the server writes (locale
  \<open>framing\<close>, interpreted on the encoder and the parser) and that the server reads every
  answer a reachable daemon gives. \<^verbatim>\<open>Framing\<close> is about connections that break off: what
  either end makes of a prefix of a message is an error or what it makes of the whole.

  \<^bold>\<open>The web server\<close> (\<^verbatim>\<open>src/ctf_archive/src\<close>).
  \<^item> \<^verbatim>\<open>Codes\<close>: \<^verbatim>\<open>codes.rs\<close>, the locked set whose members expire, with its
    interface \<open>temp_set\<close>; \<^verbatim>\<open>Guest\<close>: \<^verbatim>\<open>guest.rs\<close>.
  \<^item> \<^verbatim>\<open>Jwt\<close>: \<^verbatim>\<open>jwt.rs\<close>, claims, keys and extractors over the token
    library (\<open>jwt_laws\<close>; \<^verbatim>\<open>Jwt_Sim\<close> is a library that keeps the laws);
    \<^verbatim>\<open>Auth\<close>: \<^verbatim>\<open>auth.rs\<close>, the table of keys and the login handlers.
  \<^item> \<^verbatim>\<open>Date\<close>: \<^verbatim>\<open>date.rs\<close>. \<^verbatim>\<open>Database\<close>:
    \<^verbatim>\<open>models.rs\<close>, \<^verbatim>\<open>schema.rs\<close>, the constraints of the migrations with
    SQL's three-valued checks, and one operation per statement the handlers run, with laws
    \<open>db_laws\<close>. \<^verbatim>\<open>Pg\<close> is a database that keeps them.
  \<^item> \<^verbatim>\<open>Ctfs\<close>, \<^verbatim>\<open>Categories\<close>, \<^verbatim>\<open>Challenges\<close>: the handlers of
    the files of those names; a start is its lookup (\<open>start_prepare\<close>) and the exchange with
    the daemon.
  \<^item> \<^verbatim>\<open>Server\<close>: \<^verbatim>\<open>state.rs\<close>, the start of the process, every handler
    behind its extractors (\<open>handle\<close>), and the server's runs (\<open>run\<close>), in which requests,
    starts that wait for the daemon, time and expiring codes interleave; a run keeps the log
    of its requests. The assumption
    on clients is \<open>unforged\<close>: a token that verifies under a key of the server was
    issued by the server with that key.
  \<^item> \<^verbatim>\<open>Routes\<close>: the router of \<^verbatim>\<open>main.rs\<close>, and the API description: one
    definition per annotated operation, the modules' lists and
    \<^verbatim>\<open>security_addon.rs\<close>. \<^verbatim>\<open>Requests\<close>: the query structs, and an HTTP
    request on its way through the router and the extractors to its handler (\<open>serve\<close>).
  \<^item> \<^verbatim>\<open>Archive\<close>: the invariant of the archive's data and that all handlers keep it,
    in the locale \<open>archive_world\<close> (database, calendar and socket together);
    \<^verbatim>\<open>Archive_Behaviour\<close>: what the handlers return there.
  \<^item> \<^verbatim>\<open>Server_Sessions\<close>, \<^verbatim>\<open>Server_Data\<close>: what the log of a run proves about
    sessions, and what requests do to the data. \<^verbatim>\<open>Sample\<close>: a complete instance of all
    parameters and a run on it, for the witnesses.
  \<^item> \<^verbatim>\<open>Session_Props\<close>: an accepted administrator signed a fresh challenge, an
    accepted user was invited, invitations are used once and expire, logging in and inviting
    work, permissions are checked first. \<^verbatim>\<open>Archive_Props\<close>: every run keeps the archive
    consistent, and only the holder of the first key changes it. \<^verbatim>\<open>Handler_Props\<close>:
    listings show the tables, what is stored is read back, what is configured is what the
    daemon starts; and the answers that are documented but never come.
    \<^verbatim>\<open>Route_Props\<close>: description and router agree, documented security and
    parameters are enforced, status codes and bodies are documented ones.

  \<^bold>\<open>Both together.\<close>
  \<^item> \<^verbatim>\<open>System\<close>: the web server and the daemon side by side, as the step relation
    \<open>sstep\<close> with the states \<open>deployed\<close> it reaches. A start is accepted and looked up, connects,
    is worked on and is answered in separate steps, between which both processes go on;
    connections may break off anywhere. Each process runs as on its own (\<open>deployed_run\<close>,
    \<open>deployed_reachable\<close>), and the two halves of a start make up its handler.
  \<^item> \<^verbatim>\<open>System_Invariant\<close>: which start a task of the daemon works for, and what is in the
    socket; \<^verbatim>\<open>System_Progress\<close>: how a start gets to its answer.
  \<^item> \<^verbatim>\<open>System_Props\<close>: only invited guests and the first administrator make the daemon
    work, it starts what is stored for the challenge, a guest is told the configuration of an
    address it has alone, and a guest can get its container.

  \<^bold>\<open>Bounds.\<close> No definition runs on fuel: loops are structural recursion or come with a
  termination proof, and waiting for a client, the daemon or time is a state of the model.
  Every handler of the web server runs one database statement, so that a request is one
  step of a run, and a start one more for the exchange with the daemon. The daemon's tasks
  interleave between any two accesses to the shared flags, requests to Docker, commands and
  changes of the WireGuard device: a step of a task does one of these.

  \<^bold>\<open>Not modelled\<close>: log lines; the headers the CORS crate sends for its settings and
  the content of the Swagger pages; the
  descriptions, examples and schemas of the API description
  (\<^verbatim>\<open>binary.rs\<close> is only that); how query strings are cut into pairs and how bodies are
  decoded, which crates do (a body extractor that fails gives \<open>None\<close>); the migrations that only rename or drop what later
  ones no longer have; deletions, which no handler does; the Python scripts, static pages and
  deployment files around the two programs.
\<close>

end
